(* ===== verification/Mrdb_Prelude.thy ===== *)
theory Mrdb_Prelude
  imports Main "HOL-Library.Word" "HOL-Library.Monad_Syntax"
begin

text \<open>
  Shared ground of the development: the C types of the extension module, the
  character classification functions of the C library, memory reads that may fault,
  C's truncating division, and the lemma collections the component theories use.

  A C \<open>char\<close> is a HOL \<open>char\<close>, a block of memory is a list of them, and a pointer into
  a block is its offset. Reading outside the block is the value \<open>None\<close>, so that a
  theorem "this function returns \<open>Some\<close>" is a memory-safety statement.
\<close>

named_theorems mem_simps \<open>reads and writes of C buffers\<close>
named_theorems c_simps \<open>character classes and C arithmetic\<close>
named_theorems flow_simps \<open>sequencing of the sections of a loop body\<close>

type_synonym bytes = "char list"
type_synonym u8 = "8 word"
type_synonym u16 = "16 word"
type_synonym u32 = "32 word"
type_synonym u64 = "64 word"

abbreviation NUL :: char where "NUL \<equiv> CHR 0x00"

subsection \<open>Characters\<close>

definition ord :: "char \<Rightarrow> nat" where
  "ord c = of_char c"

definition isspace :: "char \<Rightarrow> bool" where
  "isspace c \<longleftrightarrow> ord c = 32 \<or> (9 \<le> ord c \<and> ord c \<le> 13)"

definition isdigit :: "char \<Rightarrow> bool" where
  "isdigit c \<longleftrightarrow> 48 \<le> ord c \<and> ord c \<le> 57"

definition toupper :: "char \<Rightarrow> char" where
  "toupper c = (if 97 \<le> ord c \<and> ord c \<le> 122 then char_of (ord c - 32) else c)"

definition digit_val :: "char \<Rightarrow> nat" where
  "digit_val c = ord c - 48"

definition digit_char :: "nat \<Rightarrow> char" where
  "digit_char d = char_of (48 + d)"

lemma ord_less [simp]: "ord c < 256"
  by (simp add: ord_def)

lemma ord_digit_char [c_simps]: "d < 10 \<Longrightarrow> ord (digit_char d) = 48 + d"
  by (simp add: ord_def digit_char_def)

lemma isdigit_digit_char [simp]: "d < 10 \<Longrightarrow> isdigit (digit_char d)"
  by (simp add: isdigit_def ord_digit_char)

lemma digit_val_digit_char [simp]: "d < 10 \<Longrightarrow> digit_val (digit_char d) = d"
  by (simp add: digit_val_def ord_digit_char)

lemma digit_val_less: "isdigit c \<Longrightarrow> digit_val c < 10"
  unfolding isdigit_def digit_val_def by arith

lemma isdigit_not_isspace: "isdigit c \<Longrightarrow> \<not> isspace c"
  by (auto simp: isdigit_def isspace_def)

text \<open>The value of a string of decimal digits.\<close>

definition dec_val :: "bytes \<Rightarrow> nat" where
  "dec_val ds = foldl (\<lambda>v c. 10 * v + digit_val c) 0 ds"

lemma dec_val_Nil [simp]: "dec_val [] = 0"
  by (simp add: dec_val_def)

lemma dec_val_snoc [simp]: "dec_val (ds @ [c]) = 10 * dec_val ds + digit_val c"
  by (simp add: dec_val_def)

subsection \<open>Memory reads\<close>

definition rd :: "'a list \<Rightarrow> nat \<Rightarrow> 'a option" where
  "rd xs i = (if i < length xs then Some (xs ! i) else None)"

lemma rd_in [mem_simps]: "i < length xs \<Longrightarrow> rd xs i = Some (xs ! i)"
  by (simp add: rd_def)

lemma rd_out [mem_simps]: "length xs \<le> i \<Longrightarrow> rd xs i = None"
  by (simp add: rd_def)

lemma rd_SomeD: "rd xs i = Some x \<Longrightarrow> i < length xs \<and> xs ! i = x"
  by (auto simp: rd_def split: if_splits)

text \<open>
  The C operators \<open>&&\<close> and \<open>||\<close> on conditions whose evaluation may fault: the right
  operand is evaluated only when the left one does not decide the result.
\<close>

definition andalso :: "bool option \<Rightarrow> bool option \<Rightarrow> bool option" where
  "andalso x y = Option.bind x (\<lambda>b. if b then y else Some False)"

definition rdeq :: "bytes \<Rightarrow> nat \<Rightarrow> char \<Rightarrow> bool option" where
  "rdeq xs i c = map_option (\<lambda>x. x = c) (rd xs i)"

lemma andalso_simps [simp]:
  "andalso (Some True) y = y"
  "andalso (Some False) y = Some False"
  "andalso None y = None"
  by (simp_all add: andalso_def)

lemma rdeq_in [mem_simps]: "i < length xs \<Longrightarrow> rdeq xs i c = Some (xs ! i = c)"
  by (simp add: rdeq_def rd_in)

text \<open>\<open>memmove (b + dst, b + src, n)\<close> within one block; both ranges must lie inside it.\<close>

definition moved :: "'a list \<Rightarrow> nat \<Rightarrow> nat \<Rightarrow> nat \<Rightarrow> 'a list" where
  "moved b dst src n = take dst b @ take n (drop src b) @ drop (dst + n) b"

definition memmove :: "'a list \<Rightarrow> nat \<Rightarrow> nat \<Rightarrow> nat \<Rightarrow> 'a list option" where
  "memmove b dst src n =
     (if dst + n \<le> length b \<and> src + n \<le> length b then Some (moved b dst src n) else None)"

lemma length_moved [simp]:
  "dst + n \<le> length b \<Longrightarrow> src + n \<le> length b \<Longrightarrow> length (moved b dst src n) = length b"
  by (simp add: moved_def)

lemma nth_moved_below [simp]:
  "i < dst \<Longrightarrow> dst + n \<le> length b \<Longrightarrow> moved b dst src n ! i = b ! i"
  by (simp add: moved_def nth_append)

lemma nth_moved_in [simp]:
  "j < n \<Longrightarrow> dst + n \<le> length b \<Longrightarrow> src + n \<le> length b \<Longrightarrow>
   moved b dst src n ! (dst + j) = b ! (src + j)"
  by (simp add: moved_def nth_append)

text \<open>\<open>strstr\<close>: the offset of the first occurrence of a needle before the first NUL.\<close>

fun strstr :: "bytes \<Rightarrow> bytes \<Rightarrow> nat option" where
  "strstr [] n = (if n = [] then Some 0 else None)"
| "strstr (c # cs) n =
     (if take (length n) (c # cs) = n then Some 0
      else if c = NUL then None
      else map_option Suc (strstr cs n))"

lemma strstr_Some:
  "strstr s n = Some k \<Longrightarrow> k + length n \<le> length s \<and> take (length n) (drop k s) = n"
proof (induction s n arbitrary: k rule: strstr.induct)
  case (1 n)
  then show ?case by (simp split: if_splits)
next
  case (2 c cs n)
  show ?case
  proof (cases "take (length n) (c # cs) = n")
    case True
    then have "length n \<le> length (c # cs)"
      by (metis length_take min.cobounded1)
    with True 2 show ?thesis by auto
  next
    case False
    with 2 show ?thesis by (auto split: if_splits)
  qed
qed

subsection \<open>Weakest preconditions of computations that may fault\<close>

text \<open>
  \<open>wp x Q\<close>: the computation does not fault and its result satisfies \<open>Q\<close>.
  \<open>wlp x Q\<close>: if it does not fault, its result satisfies \<open>Q\<close>. The rules push both through
  the operations of this theory, so that a section's contract reduces to arithmetic.
\<close>

definition wp :: "'a option \<Rightarrow> ('a \<Rightarrow> bool) \<Rightarrow> bool" where
  "wp x Q \<longleftrightarrow> (\<exists>v. x = Some v \<and> Q v)"

definition wlp :: "'a option \<Rightarrow> ('a \<Rightarrow> bool) \<Rightarrow> bool" where
  "wlp x Q \<longleftrightarrow> (\<forall>v. x = Some v \<longrightarrow> Q v)"

named_theorems wp_simps \<open>weakest preconditions\<close>

lemma wp_Some [wp_simps]: "wp (Some v) Q = Q v" "wlp (Some v) Q = Q v"
  by (simp_all add: wp_def wlp_def)

lemma wp_None [wp_simps]: "wp None Q = False" "wlp None Q = True"
  by (simp_all add: wp_def wlp_def)

lemma wp_bind [wp_simps]:
  "wp (Option.bind x f) Q = wp x (\<lambda>v. wp (f v) Q)"
  "wlp (Option.bind x f) Q = wlp x (\<lambda>v. wlp (f v) Q)"
  by (cases x; simp add: wp_def wlp_def)+

lemma wp_if [wp_simps]:
  "wp (if b then x else y) Q = (if b then wp x Q else wp y Q)"
  "wlp (if b then x else y) Q = (if b then wlp x Q else wlp y Q)"
  by simp_all

lemma wp_map_option [wp_simps]:
  "wp (map_option g x) Q = wp x (\<lambda>v. Q (g v))"
  "wlp (map_option g x) Q = wlp x (\<lambda>v. Q (g v))"
  by (cases x; simp add: wp_def wlp_def)+

lemma wp_rd [wp_simps]:
  "wp (rd xs i) Q = (i < length xs \<and> Q (xs ! i))"
  "wlp (rd xs i) Q = (i < length xs \<longrightarrow> Q (xs ! i))"
  by (auto simp: wp_def wlp_def rd_def)

lemma wp_rdeq [wp_simps]:
  "wp (rdeq xs i c) Q = (i < length xs \<and> Q (xs ! i = c))"
  "wlp (rdeq xs i c) Q = (i < length xs \<longrightarrow> Q (xs ! i = c))"
  by (simp_all add: rdeq_def wp_map_option wp_rd)

lemma wp_andalso [wp_simps]:
  "wp (andalso x y) Q = wp x (\<lambda>b. if b then wp y Q else Q False)"
  "wlp (andalso x y) Q = wlp x (\<lambda>b. if b then wlp y Q else Q False)"
  by (simp_all add: andalso_def wp_bind wp_if wp_Some)

lemma wp_memmove [wp_simps]:
  "wp (memmove b dst src n) Q =
     (dst + n \<le> length b \<and> src + n \<le> length b \<and>
      Q (moved b dst src n))"
  "wlp (memmove b dst src n) Q =
     (dst + n \<le> length b \<and> src + n \<le> length b \<longrightarrow>
      Q (moved b dst src n))"
  by (auto simp: wp_def wlp_def memmove_def)

lemma wp_mono: "wp x P \<Longrightarrow> (\<And>v. P v \<Longrightarrow> Q v) \<Longrightarrow> wp x Q"
  by (auto simp: wp_def)

lemma wlp_mono: "wlp x P \<Longrightarrow> (\<And>v. P v \<Longrightarrow> Q v) \<Longrightarrow> wlp x Q"
  by (auto simp: wlp_def)

lemma wlp_all: "(\<And>v. Q v) \<Longrightarrow> wlp x Q"
  by (simp add: wlp_def)

lemma wlpD: "wlp x Q \<Longrightarrow> x = Some v \<Longrightarrow> Q v"
  by (simp add: wlp_def)

lemma wpD: "wp x Q \<Longrightarrow> x = Some v \<Longrightarrow> Q v"
  by (auto simp: wp_def)

subsection \<open>C integer division\<close>

text \<open>C's \<open>/\<close> and \<open>%\<close> truncate towards zero.\<close>

definition c_div :: "int \<Rightarrow> int \<Rightarrow> int" where
  "c_div a b = sgn a * sgn b * (\<bar>a\<bar> div \<bar>b\<bar>)"

definition c_mod :: "int \<Rightarrow> int \<Rightarrow> int" where
  "c_mod a b = a - c_div a b * b"

lemma c_div_nonneg [c_simps]: "0 \<le> a \<Longrightarrow> 0 < b \<Longrightarrow> c_div a b = a div b"
  by (cases "a = 0") (simp_all add: c_div_def)

lemma c_div_uminus [c_simps]: "c_div (- a) b = - c_div a b"
  by (simp add: c_div_def)

lemma c_mod_nonneg [c_simps]: "0 \<le> a \<Longrightarrow> 0 < b \<Longrightarrow> c_mod a b = a mod b"
  by (simp add: c_mod_def c_div_nonneg minus_div_mult_eq_mod)

lemma c_mod_uminus [c_simps]: "c_mod (- a) b = - c_mod a b"
  by (simp add: c_mod_def c_div_uminus)

lemma c_div_mod: "c_div a b * b + c_mod a b = a"
  by (simp add: c_mod_def)

subsection \<open>Field types of the protocol\<close>

datatype enum_field_types =
    MYSQL_TYPE_DECIMAL | MYSQL_TYPE_TINY | MYSQL_TYPE_SHORT | MYSQL_TYPE_LONG
  | MYSQL_TYPE_FLOAT | MYSQL_TYPE_DOUBLE | MYSQL_TYPE_NULL | MYSQL_TYPE_TIMESTAMP
  | MYSQL_TYPE_LONGLONG | MYSQL_TYPE_INT24 | MYSQL_TYPE_DATE | MYSQL_TYPE_TIME
  | MYSQL_TYPE_DATETIME | MYSQL_TYPE_YEAR | MYSQL_TYPE_NEWDATE | MYSQL_TYPE_VARCHAR
  | MYSQL_TYPE_BIT | MYSQL_TYPE_TIMESTAMP2 | MYSQL_TYPE_DATETIME2 | MYSQL_TYPE_TIME2
  | MYSQL_TYPE_JSON | MYSQL_TYPE_NEWDECIMAL | MYSQL_TYPE_ENUM | MYSQL_TYPE_SET
  | MYSQL_TYPE_TINY_BLOB | MYSQL_TYPE_MEDIUM_BLOB | MYSQL_TYPE_LONG_BLOB | MYSQL_TYPE_BLOB
  | MYSQL_TYPE_VAR_STRING | MYSQL_TYPE_STRING | MYSQL_TYPE_GEOMETRY

end
