(* ===== verification/Mrdb_Exception.thy ===== *)
theory Mrdb_Exception
  imports Mrdb_Prelude
begin

text \<open>
  The exceptions of the module: \<open>mariadb_exception.c\<close> (how a MariaDB error number or a
  message becomes a Python exception) and \<open>mariadb.c\<close> (module initialisation, which
  registers the exception classes). Error numbers carry the names of
  \<open>errmsg.h\<close> and \<open>mysqld_error.h\<close>; their values are those of \<open>constants/ERR.py\<close>.
\<close>

datatype exc_class =
    Mariadb_InterfaceError | Mariadb_Error | Mariadb_DatabaseError | Mariadb_DataError
  | Mariadb_PoolError | Mariadb_OperationalError | Mariadb_IntegrityError
  | Mariadb_InternalError | Mariadb_ProgrammingError | Mariadb_NotSupportedError
  | Mariadb_Warning
  | PyExc_Exception | PyExc_RuntimeError | PyExc_TypeError | PyExc_ImportError
  | PyExc_OverflowError | PyExc_UnicodeError | PyExc_SystemError | PyExc_AttributeError | PyExc_IndexError
  | PyExc_KeyError | PyExc_UnboundLocalError

subsection \<open>Error numbers\<close>

abbreviation CR_UNKNOWN_ERROR :: int where "CR_UNKNOWN_ERROR \<equiv> 2000"
abbreviation CR_IPSOCK_ERROR :: int where "CR_IPSOCK_ERROR \<equiv> 2004"
abbreviation CR_SERVER_GONE_ERROR :: int where "CR_SERVER_GONE_ERROR \<equiv> 2006"
abbreviation CR_SERVER_HANDSHAKE_ERR :: int where "CR_SERVER_HANDSHAKE_ERR \<equiv> 2012"
abbreviation CR_SERVER_LOST :: int where "CR_SERVER_LOST \<equiv> 2013"
abbreviation CR_COMMANDS_OUT_OF_SYNC :: int where "CR_COMMANDS_OUT_OF_SYNC \<equiv> 2014"

abbreviation ER_DB_CREATE_EXISTS :: int where "ER_DB_CREATE_EXISTS \<equiv> 1007"
abbreviation ER_BAD_NULL_ERROR :: int where "ER_BAD_NULL_ERROR \<equiv> 1048"
abbreviation ER_BAD_DB_ERROR :: int where "ER_BAD_DB_ERROR \<equiv> 1049"
abbreviation ER_DUP_ENTRY :: int where "ER_DUP_ENTRY \<equiv> 1062"
abbreviation ER_PARSE_ERROR :: int where "ER_PARSE_ERROR \<equiv> 1064"
abbreviation ER_EMPTY_QUERY :: int where "ER_EMPTY_QUERY \<equiv> 1065"
abbreviation ER_NO_SUCH_INDEX :: int where "ER_NO_SUCH_INDEX \<equiv> 1082"
abbreviation ER_WRONG_DB_NAME :: int where "ER_WRONG_DB_NAME \<equiv> 1102"
abbreviation ER_WRONG_TABLE_NAME :: int where "ER_WRONG_TABLE_NAME \<equiv> 1103"
abbreviation ER_FIELD_SPECIFIED_TWICE :: int where "ER_FIELD_SPECIFIED_TWICE \<equiv> 1110"
abbreviation ER_INVALID_GROUP_FUNC_USE :: int where "ER_INVALID_GROUP_FUNC_USE \<equiv> 1111"
abbreviation ER_UNSUPPORTED_EXTENSION :: int where "ER_UNSUPPORTED_EXTENSION \<equiv> 1112"
abbreviation ER_TABLE_MUST_HAVE_COLUMNS :: int where "ER_TABLE_MUST_HAVE_COLUMNS \<equiv> 1113"
abbreviation ER_NO_SUCH_TABLE :: int where "ER_NO_SUCH_TABLE \<equiv> 1146"
abbreviation ER_SYNTAX_ERROR :: int where "ER_SYNTAX_ERROR \<equiv> 1149"
abbreviation ER_DUP_UNIQUE :: int where "ER_DUP_UNIQUE \<equiv> 1169"
abbreviation ER_PRIMARY_CANT_HAVE_NULL :: int where "ER_PRIMARY_CANT_HAVE_NULL \<equiv> 1171"
abbreviation ER_CANT_DO_THIS_DURING_AN_TRANSACTION :: int
  where "ER_CANT_DO_THIS_DURING_AN_TRANSACTION \<equiv> 1179"
abbreviation ER_CANNOT_ADD_FOREIGN :: int where "ER_CANNOT_ADD_FOREIGN \<equiv> 1215"
abbreviation ER_NO_REFERENCED_ROW :: int where "ER_NO_REFERENCED_ROW \<equiv> 1216"
abbreviation ER_ROW_IS_REFERENCED :: int where "ER_ROW_IS_REFERENCED \<equiv> 1217"
abbreviation ER_NO_DEFAULT :: int where "ER_NO_DEFAULT \<equiv> 1230"
abbreviation ER_WARN_DATA_OUT_OF_RANGE :: int where "ER_WARN_DATA_OUT_OF_RANGE \<equiv> 1264"
abbreviation WARN_DATA_TRUNCATED :: int where "WARN_DATA_TRUNCATED \<equiv> 1265"
abbreviation ER_NO_DEFAULT_FOR_FIELD :: int where "ER_NO_DEFAULT_FOR_FIELD \<equiv> 1364"
abbreviation ER_DIVISION_BY_ZERO :: int where "ER_DIVISION_BY_ZERO \<equiv> 1365"
abbreviation ER_XAER_OUTSIDE :: int where "ER_XAER_OUTSIDE \<equiv> 1400"
abbreviation ER_XAER_RMERR :: int where "ER_XAER_RMERR \<equiv> 1401"
abbreviation ER_DATA_TOO_LONG :: int where "ER_DATA_TOO_LONG \<equiv> 1406"
abbreviation ER_DATETIME_FUNCTION_OVERFLOW :: int
  where "ER_DATETIME_FUNCTION_OVERFLOW \<equiv> 1441"
abbreviation ER_NO_SUCH_USER :: int where "ER_NO_SUCH_USER \<equiv> 1449"
abbreviation ER_ROW_IS_REFERENCED_2 :: int where "ER_ROW_IS_REFERENCED_2 \<equiv> 1451"
abbreviation ER_NO_REFERENCED_ROW_2 :: int where "ER_NO_REFERENCED_ROW_2 \<equiv> 1452"
abbreviation ER_DATA_OUT_OF_RANGE :: int where "ER_DATA_OUT_OF_RANGE \<equiv> 1690"
abbreviation ER_NO_SUCH_KEY_VALUE :: int where "ER_NO_SUCH_KEY_VALUE \<equiv> 1741"
abbreviation ER_DUP_CONSTRAINT_NAME :: int where "ER_DUP_CONSTRAINT_NAME \<equiv> 1826"
abbreviation ER_CONSTRAINT_FAILED :: int where "ER_CONSTRAINT_FAILED \<equiv> 4025"

definition interface_codes :: "int list" where
  "interface_codes =
     [0, CR_SERVER_LOST, CR_SERVER_GONE_ERROR, CR_SERVER_HANDSHAKE_ERR, CR_IPSOCK_ERROR,
      CR_COMMANDS_OUT_OF_SYNC]"

definition data_codes :: "int list" where
  "data_codes =
     [ER_DATA_TOO_LONG, ER_DATETIME_FUNCTION_OVERFLOW, ER_DIVISION_BY_ZERO, ER_NO_DEFAULT,
      ER_PRIMARY_CANT_HAVE_NULL, ER_WARN_DATA_OUT_OF_RANGE, WARN_DATA_TRUNCATED]"

definition programming_codes :: "int list" where
  "programming_codes =
     [ER_EMPTY_QUERY, ER_CANT_DO_THIS_DURING_AN_TRANSACTION, ER_DB_CREATE_EXISTS,
      ER_FIELD_SPECIFIED_TWICE, ER_INVALID_GROUP_FUNC_USE, ER_NO_SUCH_INDEX,
      ER_NO_SUCH_KEY_VALUE, ER_NO_SUCH_TABLE, ER_NO_SUCH_USER, ER_PARSE_ERROR,
      ER_SYNTAX_ERROR, ER_TABLE_MUST_HAVE_COLUMNS, ER_UNSUPPORTED_EXTENSION,
      ER_WRONG_DB_NAME, ER_WRONG_TABLE_NAME, ER_BAD_DB_ERROR]"

definition integrity_codes :: "int list" where
  "integrity_codes =
     [ER_CANNOT_ADD_FOREIGN, ER_DUP_ENTRY, ER_DUP_UNIQUE, ER_NO_DEFAULT_FOR_FIELD,
      ER_NO_REFERENCED_ROW, ER_NO_REFERENCED_ROW_2, ER_ROW_IS_REFERENCED,
      ER_ROW_IS_REFERENCED_2, ER_XAER_OUTSIDE, ER_XAER_RMERR, ER_BAD_NULL_ERROR,
      ER_DATA_OUT_OF_RANGE, ER_CONSTRAINT_FAILED, ER_DUP_CONSTRAINT_NAME]"

lemmas code_lists =
  interface_codes_def data_codes_def programming_codes_def integrity_codes_def

subsection \<open>From error numbers to exception classes\<close>

definition get_exception_type :: "int \<Rightarrow> exc_class option" where
  "get_exception_type error_number =
     (if error_number \<in> set interface_codes then Some Mariadb_InterfaceError
      else if error_number \<in> set data_codes then Some Mariadb_DataError
      else if error_number \<in> set programming_codes then Some Mariadb_ProgrammingError
      else if error_number \<in> set integrity_codes then Some Mariadb_IntegrityError
      else if error_number \<ge> 1000 then Some Mariadb_OperationalError
      else Some Mariadb_InternalError)"

text \<open>
  An exception message is either a text of the client library, taken as it is, or a
  format string of the source with its arguments (the formatting itself is
  \<open>PyUnicode_FromFormatV\<close>'s).
\<close>

datatype fmt_arg = FmtInt int | FmtStr string
datatype pytext = Text string | Format string "fmt_arg list"

record py_exception =
  exc_type :: exc_class
  exc_arg :: pytext
  exc_sqlstate :: string
  exc_errno :: int
  exc_errmsg :: pytext
  exc_msg :: pytext

datatype pyerr = SetObject py_exception | SetString exc_class pytext

text \<open>What the client library reports for the handle passed to \<open>mariadb_throw_exception\<close>.\<close>

record diag =
  mysql_errno :: int
  mysql_error :: string
  mysql_sqlstate :: string
  mysql_stmt_errno :: int
  mysql_stmt_error :: string
  mysql_stmt_sqlstate :: string

definition new_exception :: "exc_class \<Rightarrow> pytext \<Rightarrow> string \<Rightarrow> int \<Rightarrow> py_exception" where
  "new_exception ty msg state no =
     \<lparr>exc_type = ty, exc_arg = msg, exc_sqlstate = state, exc_errno = no,
      exc_errmsg = msg, exc_msg = msg\<rparr>"

text \<open>
  \<open>created\<close> says whether the call of the exception class succeeded; when it did not,
  the function leaves a \<open>RuntimeError\<close>.
\<close>

definition mariadb_throw_exception ::
    "bool \<Rightarrow> diag \<Rightarrow> exc_class option \<Rightarrow> bool \<Rightarrow> (string \<times> fmt_arg list) option \<Rightarrow> pyerr" where
  "mariadb_throw_exception created handle exception_type is_statement message =
     (let (ty, ErrorNo, ErrorMsg, SqlState) =
        (case message of
           Some (fmt, args) \<Rightarrow> (exception_type, CR_UNKNOWN_ERROR, Format fmt args, ''HY000'')
         | None \<Rightarrow>
             (let ty = get_exception_type
                  (if is_statement then mysql_stmt_errno handle else mysql_errno handle);
                  ty' = (case ty of None \<Rightarrow> Some Mariadb_DatabaseError | Some t \<Rightarrow> Some t)
              in (ty',
                  if is_statement then mysql_stmt_errno handle else mysql_errno handle,
                  Text (if is_statement then mysql_stmt_error handle else mysql_error handle),
                  if is_statement then mysql_stmt_sqlstate handle
                  else mysql_sqlstate handle)))
      in case ty of
           Some t \<Rightarrow>
             if created then SetObject (new_exception t ErrorMsg SqlState ErrorNo)
             else SetString PyExc_RuntimeError (Text ''Failed to create exception'')
         | None \<Rightarrow> SetString PyExc_RuntimeError (Text ''Failed to create exception''))"

definition mariadb_exception_connection_gone ::
    "bool \<Rightarrow> exc_class \<Rightarrow> int \<Rightarrow> string \<times> fmt_arg list \<Rightarrow> pyerr" where
  "mariadb_exception_connection_gone created exception_type error_no message =
     (if created
      then SetObject (new_exception exception_type (Format (fst message) (snd message))
             ''HY000'' CR_UNKNOWN_ERROR)
      else SetString PyExc_RuntimeError (Text ''Failed to create exception''))"

lemma get_exception_type_total [simp]: "get_exception_type n \<noteq> None"
  by (simp add: get_exception_type_def)

lemma throw_message [simp]:
  "mariadb_throw_exception True h (Some ty) st (Some (fmt, args)) =
   SetObject (new_exception ty (Format fmt args) ''HY000'' CR_UNKNOWN_ERROR)"
  by (simp add: mariadb_throw_exception_def)

lemma listed_codes_range:
  "n \<in> set (data_codes @ programming_codes @ integrity_codes) \<Longrightarrow> 1000 \<le> n"
  "n \<in> set interface_codes \<Longrightarrow> n = 0 \<or> 1000 \<le> n"
  by (auto simp: code_lists)

lemma get_exception_type_SomeD:
  assumes "get_exception_type n = Some c"
  shows "c = Mariadb_InternalError \<longleftrightarrow> n < 1000 \<and> n \<noteq> 0"
    "c = Mariadb_InterfaceError \<longleftrightarrow> n \<in> set interface_codes"
    "c \<in> {Mariadb_InterfaceError, Mariadb_DataError, Mariadb_ProgrammingError,
           Mariadb_IntegrityError, Mariadb_OperationalError, Mariadb_InternalError}"
proof -
  have range: "\<not> n < 1000" if "n \<in> set data_codes \<or> n \<in> set programming_codes \<or> n \<in> set integrity_codes"
    using listed_codes_range(1) [of n] that by auto
  have "0 \<in> set interface_codes" by (simp add: interface_codes_def)
  with assms range listed_codes_range(2) [of n]
  show "c = Mariadb_InternalError \<longleftrightarrow> n < 1000 \<and> n \<noteq> 0"
    unfolding get_exception_type_def by (auto split: if_splits)
qed (use assms in \<open>auto simp: get_exception_type_def split: if_splits\<close>)


text \<open>
  The four lists of error numbers are disjoint, so the order in which the switch of
  \<open>get_exception_type\<close> lists its cases does not matter.
\<close>

theorem exception_codes_disjoint:
  "distinct (interface_codes @ data_codes @ programming_codes @ integrity_codes)"
  by (simp add: code_lists)

end
