(* ===== verification/Mrdb_Module.thy ===== *)
theory Mrdb_Module
  imports Mrdb_Exception
begin

text \<open>
  Module initialisation (\<open>mariadb.c\<close>): the checks of \<open>PyInit__mariadb\<close> in their order,
  the objects it adds to the module, and the base class each exception class is created
  with.
\<close>

subsection \<open>The calls that can fail\<close>

text \<open>
  Each call into the interpreter succeeds or fails; a failing call leaves the pending
  exception given here (\<open>None\<close> when it leaves none).
\<close>

datatype init_call =
    ImportDateTime string
  | TypeReady string
  | ImportModule string
  | GetAttr string

datatype call_result = Succeeds | Fails "pyerr option"

record init_env =
  client_version :: nat
  package_version_id :: nat
  package_version :: string
  client_info :: string
  py_call :: "init_call \<Rightarrow> call_result"

datatype module_object = TypeObject string | StringObject string | ExceptionObject exc_class

record py_module =
  attributes :: "(string \<times> module_object) list"
  exc_base :: "exc_class \<Rightarrow> exc_class option"

definition empty_module :: py_module where
  "empty_module = \<lparr>attributes = [], exc_base = (\<lambda>_. None)\<rparr>"

definition add_object :: "string \<Rightarrow> module_object \<Rightarrow> py_module \<Rightarrow> py_module" where
  "add_object name obj m = m\<lparr>attributes := attributes m @ [(name, obj)]\<rparr>"

subsection \<open>Registering exceptions\<close>

definition mariadb_new_error :: "py_module \<Rightarrow> py_module" where
  "mariadb_new_error m =
     add_object ''Error'' (ExceptionObject Mariadb_Error)
       (m\<lparr>exc_base := (exc_base m)(Mariadb_Error \<mapsto> PyExc_Exception)\<rparr>)"

text \<open>The parameter \<open>base_exception\<close> is not used by the function's body.\<close>

definition mariadb_add_exception ::
    "exc_class \<Rightarrow> exc_class option \<Rightarrow> string \<Rightarrow> py_module \<Rightarrow> py_module" where
  "mariadb_add_exception exc base_exception object_name m =
     add_object object_name (ExceptionObject exc)
       (m\<lparr>exc_base := (exc_base m)(exc \<mapsto> Mariadb_Error)\<rparr>)"

definition exception_registrations :: "(exc_class \<times> exc_class option \<times> string) list" where
  "exception_registrations =
     [(Mariadb_InterfaceError, Some Mariadb_Error, ''InterfaceError''),
      (Mariadb_DatabaseError, Some Mariadb_Error, ''DatabaseError''),
      (Mariadb_OperationalError, Some Mariadb_Error, ''OperationalError''),
      (Mariadb_Warning, None, ''Warning''),
      (Mariadb_IntegrityError, Some Mariadb_Error, ''IntegrityError''),
      (Mariadb_InternalError, Some Mariadb_Error, ''InternalError''),
      (Mariadb_ProgrammingError, Some Mariadb_Error, ''ProgrammingError''),
      (Mariadb_NotSupportedError, Some Mariadb_Error, ''NotSupportedError''),
      (Mariadb_DataError, Some Mariadb_DatabaseError, ''DataError''),
      (Mariadb_PoolError, Some Mariadb_Error, ''PoolError'')]"

definition add_exceptions :: "py_module \<Rightarrow> py_module" where
  "add_exceptions m =
     fold (\<lambda>(exc, base, name). mariadb_add_exception exc base name) exception_registrations m"

subsection \<open>PyInit__mariadb\<close>

text \<open>The three \<open>*_datetime_init\<close> functions differ only in the file whose API pointer they set.\<close>

definition datetime_init :: "init_env \<Rightarrow> string \<Rightarrow> pyerr option" where
  "datetime_init env file =
     (case py_call env (ImportDateTime file) of
        Succeeds \<Rightarrow> None
      | Fails _ \<Rightarrow>
          Some (SetString PyExc_ImportError (Text ''DateTimeAPI initialization failed'')))"

text \<open>The label \<open>error\<close>: a pending exception is kept, otherwise an \<open>ImportError\<close> is set.\<close>

definition init_error :: "pyerr option \<Rightarrow> pyerr + py_module" where
  "init_error pending =
     (case pending of
        Some e \<Rightarrow> Inl e
      | None \<Rightarrow>
          Inl (SetString PyExc_ImportError (Text ''Mariadb module initialization failed.'')))"

definition init_call_then ::
    "init_env \<Rightarrow> init_call \<Rightarrow> (pyerr + py_module) \<Rightarrow> (pyerr + py_module)" where
  "init_call_then env c rest =
     (case py_call env c of Succeeds \<Rightarrow> rest | Fails e \<Rightarrow> init_error e)"

definition init_datetime_then ::
    "init_env \<Rightarrow> string \<Rightarrow> (pyerr + py_module) \<Rightarrow> (pyerr + py_module)" where
  "init_datetime_then env file rest =
     (case datetime_init env file of None \<Rightarrow> rest | Some e \<Rightarrow> init_error (Some e))"

definition init_objects :: "init_env \<Rightarrow> py_module" where
  "init_objects env =
     add_object ''connection'' (TypeObject ''mariadb.connection'')
       (add_exceptions
         (mariadb_new_error
           (add_object ''mariadbapi_version'' (StringObject (client_info env))
             (add_object ''cursor'' (TypeObject ''mariadb.cursor'') empty_module))))"

definition PyInit__mariadb :: "init_env \<Rightarrow> pyerr + py_module" where
  "PyInit__mariadb env =
     (if client_version env < package_version_id env
      then init_error (Some (SetString PyExc_ImportError
             (Format (''MariaDB Connector/Python was build with MariaDB Connector/C %s, '' @
                      ''while the loaded MariaDB Connector/C library has version %s.'')
                [FmtStr (package_version env), FmtStr (client_info env)])))
      else
        init_datetime_then env ''mariadb.c''
       (init_datetime_then env ''mariadb_connection.c''
       (init_datetime_then env ''mariadb_codecs.c''
       (init_call_then env (TypeReady ''mariadb.connection'')
       (init_call_then env (ImportModule ''decimal'')
       (init_call_then env (GetAttr ''Decimal'')
       (init_call_then env (ImportModule ''socket'')
       (init_call_then env (TypeReady ''mariadb.cursor'')
          (Inr (init_objects env))))))))))"

text \<open>\<open>issubclass\<close> over the registered bases: follow the base links upwards.\<close>

inductive is_subclass :: "py_module \<Rightarrow> exc_class \<Rightarrow> exc_class \<Rightarrow> bool" for m where
  refl: "is_subclass m c c"
| base: "exc_base m c = Some b \<Longrightarrow> is_subclass m b d \<Longrightarrow> is_subclass m c d"

inductive_simps is_subclass_unfold: "is_subclass m c d"

lemma init_call_then_Inr:
  "init_call_then env c rest = Inr m \<longleftrightarrow> py_call env c = Succeeds \<and> rest = Inr m"
  by (auto simp: init_call_then_def init_error_def split: call_result.splits option.splits)

lemma init_datetime_then_Inr:
  "init_datetime_then env f rest = Inr m \<longleftrightarrow>
   py_call env (ImportDateTime f) = Succeeds \<and> rest = Inr m"
  by (auto simp: init_datetime_then_def datetime_init_def init_error_def
      split: call_result.splits option.splits)

lemma PyInit_Inr:
  "PyInit__mariadb env = Inr m \<Longrightarrow>
   m = init_objects env \<and> package_version_id env \<le> client_version env \<and>
   py_call env (TypeReady ''mariadb.cursor'') = Succeeds"
  by (auto simp: PyInit__mariadb_def init_call_then_Inr init_datetime_then_Inr init_error_def
      split: if_splits)

lemma init_objects_base:
  "exc_base (init_objects env) c =
   (if c = Mariadb_Error then Some PyExc_Exception
    else if c \<in> fst ` set exception_registrations then Some Mariadb_Error
    else None)"
  by (cases c) (simp_all add: init_objects_def add_exceptions_def exception_registrations_def
      mariadb_add_exception_def mariadb_new_error_def add_object_def empty_module_def)

lemma base_of_Exception [simp]: "exc_base (init_objects env) PyExc_Exception = None"
  by (simp add: init_objects_base exception_registrations_def)

lemma subclass_of_Exception: "is_subclass (init_objects env) PyExc_Exception d \<longleftrightarrow> d = PyExc_Exception"
  by (subst is_subclass_unfold) auto

lemma subclass_of_Error:
  "is_subclass (init_objects env) Mariadb_Error d \<longleftrightarrow> d \<in> {Mariadb_Error, PyExc_Exception}"
  by (subst is_subclass_unfold) (auto simp: init_objects_base subclass_of_Exception)

text \<open>
  C35: in a module that was initialised, a registered exception class is a subclass of
  itself, of \<open>Error\<close> and of \<open>Exception\<close>, and of nothing else: the hierarchy is flat. In
  particular \<open>DataError\<close> is no \<open>DatabaseError\<close>, although it is registered with that
  base, and \<open>Warning\<close> is an \<open>Error\<close>.
\<close>

theorem exception_hierarchy_flat:
  assumes "PyInit__mariadb env = Inr m"
    and "c \<in> fst ` set exception_registrations"
  shows "is_subclass m c d \<longleftrightarrow> d = c \<or> d = Mariadb_Error \<or> d = PyExc_Exception"
proof -
  have "c \<noteq> Mariadb_Error" using assms(2) by (auto simp: exception_registrations_def)
  with assms PyInit_Inr [OF assms(1)] show ?thesis
    by (subst is_subclass_unfold) (auto simp: init_objects_base subclass_of_Error)
qed

definition sample_env :: init_env where
  "sample_env = \<lparr>client_version = 30315, package_version_id = 30310, package_version = ''3.3.10'',
     client_info = ''3.3.15'', py_call = (\<lambda>_. Succeeds)\<rparr>"

theorem exception_hierarchy_flat_witness:
  "\<not> is_subclass (init_objects sample_env) Mariadb_DataError Mariadb_DatabaseError \<and>
   is_subclass (init_objects sample_env) Mariadb_Warning Mariadb_Error"
  using exception_hierarchy_flat [of sample_env "init_objects sample_env" Mariadb_DataError
      Mariadb_DatabaseError]
    exception_hierarchy_flat [of sample_env "init_objects sample_env" Mariadb_Warning Mariadb_Error]
  by (simp add: PyInit__mariadb_def init_datetime_then_def init_call_then_def datetime_init_def
      sample_env_def exception_registrations_def)

text \<open>
  The module is initialised exactly when the loaded client library is at least as
  new as the one of the build and every call into the interpreter succeeds; in every
  other case an exception is set.
\<close>

theorem init_succeeds_iff:
  "(\<exists>m. PyInit__mariadb env = Inr m) \<longleftrightarrow>
   package_version_id env \<le> client_version env \<and>
   list_all (\<lambda>c. py_call env c = Succeeds)
     [ImportDateTime ''mariadb.c'', ImportDateTime ''mariadb_connection.c'',
      ImportDateTime ''mariadb_codecs.c'', TypeReady ''mariadb.connection'',
      ImportModule ''decimal'', GetAttr ''Decimal'', ImportModule ''socket'',
      TypeReady ''mariadb.cursor'']"
  by (auto simp: PyInit__mariadb_def init_call_then_Inr init_datetime_then_Inr init_error_def)

end
