(* ===== verification/Mrdb_Parser.thy ===== *)
theory Mrdb_Parser
  imports Mrdb_Prelude
begin

text \<open>
  The statement parser (\<open>mariadb_parser.c\<close>): it scans a copy of the SQL statement,
  skips literals and comments, rewriting \<open>%s\<close>, \<open>%d\<close> and \<open>%(name)s\<close> placeholders to \<open>?\<close>
  in place, and records their offsets, the names of the keys and the kind of command.

  The body of the scanning loop is one HOL function per section of the C body, in the
  source's order; the sections are sequenced by \<open>seq\<close>, which stops as soon as a section
  executes \<open>continue\<close>, \<open>goto cont\<close> or \<open>return\<close>. The C block that holds the statement is
  a list of fixed length (\<open>length + 1\<close>, the last byte 0); reads and \<open>memmove\<close>s outside
  it are \<open>None\<close>.
\<close>

datatype enum_paramstyle = NONE | QMARK | FORMAT | PYFORMAT

datatype enum_binary_command =
  SQL_NONE | SQL_INSERT | SQL_UPDATE | SQL_REPLACE | SQL_DELETE | SQL_CALL | SQL_DO
| SQL_SELECT | SQL_OTHER

text \<open>
  \<open>keys\<close> is the array \<open>p->keys\<close> (empty for a null pointer), an entry \<open>None\<close> a null \<open>str\<close>.
\<close>

record MrdbParser =
  statement_str :: bytes
  statement_length :: nat
  keys :: "bytes option list"
  in_literal :: "bool list"
  in_comment :: bool
  is_insert :: bool
  comment_eol :: bool
  param_count :: nat
  value_ofs :: "nat option"
  param_list :: "nat list"
  paramstyle :: enum_paramstyle
  command :: enum_binary_command

text \<open>The locals of \<open>MrdbParser_parse\<close>: the pointers \<open>a\<close> and \<open>end\<close> as offsets, and \<open>lastchar\<close>.\<close>

record parse_state = MrdbParser +
  cur :: nat
  last_ofs :: nat
  lastchar :: char

text \<open>
  What the parser takes from outside: the version of the connected server, and whether
  the allocation of the key array and of a key's copy succeeds for the n-th parameter.
\<close>

record parse_cfg =
  server_version :: nat
  keys_alloc :: "nat \<Rightarrow> bool"
  key_alloc :: "nat \<Rightarrow> bool"

definition IS_WHITESPACE :: "char \<Rightarrow> bool" where
  "IS_WHITESPACE c \<longleftrightarrow> ord c = 32 \<or> ord c = 9 \<or> ord c = 10 \<or> ord c = 13"

definition IN_LITERAL :: "('a) MrdbParser_scheme \<Rightarrow> bool" where
  "IN_LITERAL p \<longleftrightarrow> in_literal p ! 0 \<or> in_literal p ! 1 \<or> in_literal p ! 2"

definition literals :: "char list" where
  "literals = [CHR 0x27, CHR 0x22, CHR 0x60]"

definition binary_command :: "(enum_binary_command \<times> string) list" where
  "binary_command =
     [(SQL_INSERT, ''INSERT''), (SQL_UPDATE, ''UPDATE''), (SQL_REPLACE, ''REPLACE''),
      (SQL_DELETE, ''DELETE''), (SQL_CALL, ''CALL''), (SQL_DO, ''DO'')]"

text \<open>The difference of two pointers converted to \<open>size_t\<close>: it wraps when negative.\<close>

definition size_diff :: "nat \<Rightarrow> nat \<Rightarrow> nat" where
  "size_diff e ofs = (if ofs \<le> e then e - ofs else 2 ^ 64 - (ofs - e))"

fun match_keyword :: "bytes \<Rightarrow> nat \<Rightarrow> string \<Rightarrow> bool option" where
  "match_keyword b ofs [] = Some True"
| "match_keyword b ofs (k # ks) =
     do { c \<leftarrow> rd b ofs; if toupper c \<noteq> k then Some False else match_keyword b (ofs + 1) ks }"

definition check_keyword :: "bytes \<Rightarrow> nat \<Rightarrow> nat \<Rightarrow> string \<Rightarrow> bool option" where
  "check_keyword b ofs e keyword =
     (if size_diff e ofs < length keyword + 1 then Some False
      else do {
        m \<leftarrow> match_keyword b ofs keyword;
        if \<not> m then Some False
        else map_option IS_WHITESPACE (rd b (ofs + length keyword)) })"

subsection \<open>Initialisation and release\<close>

definition zero_parser :: MrdbParser where
  "zero_parser =
     \<lparr>statement_str = [], statement_length = 0, keys = [], in_literal = [False, False, False],
      in_comment = False, is_insert = False, comment_eol = False, param_count = 0,
      value_ofs = None, param_list = [], paramstyle = NONE, command = SQL_NONE\<rparr>"

text \<open>
  \<open>None\<close> is the null dereference of \<open>p->param_list\<close> when the first allocation fails;
  \<open>Some None\<close> is the null pointer the function returns.
\<close>

definition MrdbParser_init :: "bool \<Rightarrow> bool \<Rightarrow> bytes option \<Rightarrow> nat \<Rightarrow> MrdbParser option option" where
  "MrdbParser_init alloc_p alloc_str statement len =
     (case statement of
        None \<Rightarrow> Some None
      | Some s \<Rightarrow>
          if len = 0 then Some None
          else if alloc_p then
            (if \<not> alloc_str then Some None
             else if length s < len then None
             else Some (Some (zero_parser
                    \<lparr>statement_str := take len s @ [NUL], statement_length := len\<rparr>)))
          else None)"

text \<open>
  \<open>MrdbParser_end\<close> frees the key copies, the key array and the statement. The result is
  the number of blocks freed; \<open>None\<close> is a read of \<open>keys[i]\<close> past the end of the array.
\<close>

fun free_keys :: "bytes option list \<Rightarrow> nat list \<Rightarrow> nat option" where
  "free_keys ks [] = Some 0"
| "free_keys ks (i # is) = do {
     k \<leftarrow> rd ks i;
     r \<leftarrow> free_keys ks is;
     Some (r + (if k = None then 0 else 1)) }"

definition MrdbParser_end :: "MrdbParser option \<Rightarrow> nat option" where
  "MrdbParser_end p =
     (case p of
        None \<Rightarrow> Some 0
      | Some p \<Rightarrow> do {
          n \<leftarrow> (if keys p \<noteq> [] then map_option Suc (free_keys (keys p) [0..<param_count p])
               else Some 0);
          Some (n + (if statement_str p \<noteq> [] then 1 else 0) + 1) })"

subsection \<open>Sections of the loop body\<close>

datatype flow = Fall | Continue | GotoCont | Return string

type_synonym sect = "parse_state \<Rightarrow> (flow \<times> parse_state) option"

definition seq :: "sect \<Rightarrow> sect \<Rightarrow> sect" where
  "seq s t p = do { (f, p') \<leftarrow> s p; if f = Fall then t p' else Some (f, p') }"

abbreviation mixing_error :: string where
  "mixing_error \<equiv> ''Mixing different parameter styles is not supported''"

text \<open>Literals: a quote character toggles its flag, and the body restarts at the next one.\<close>

definition sec_literal :: sect where
  "sec_literal p = do {
     c \<leftarrow> rd (statement_str p) (cur p);
     case find (\<lambda>i. c = literals ! i) [0, 1, 2] of
       Some i \<Rightarrow> Some (GotoCont, p\<lparr>in_literal := (in_literal p)[i := \<not> in_literal p ! i],
                                 cur := cur p + 1\<rparr>)
     | None \<Rightarrow> Some (Fall, p) }"

definition sec_in_literal :: sect where
  "sec_in_literal p =
     (if IN_LITERAL p then Some (Continue, p\<lparr>cur := cur p + 1\<rparr>) else Some (Fall, p))"

text \<open>
  \<open>strtol\<close> at a digit: the value of the run of digits, saturated at \<open>LONG_MAX\<close>, and the
  offset of the first other character, which the block must contain.
\<close>

definition strtol :: "bytes \<Rightarrow> nat \<Rightarrow> (nat \<times> nat) option" where
  "strtol b i =
     (let ds = takeWhile isdigit (drop i b)
      in if i + length ds < length b then Some (min (dec_val ds) (2 ^ 63 - 1), i + length ds)
         else None)"

text \<open>A comment opened by \<open>/*!\<close>, optionally followed by a version number.\<close>

definition sec_bang :: "parse_cfg \<Rightarrow> sect" where
  "sec_bang cfg p = (let a = cur p; b = statement_str p in do {
     bang \<leftarrow> andalso (Some (a + 1 < last_ofs p)) (rdeq b a (CHR ''!''));
     if bang then do {
       sp \<leftarrow> map_option isspace (rd b (a + 1));
       if sp then Some (Continue, p\<lparr>cur := a + 2\<rparr>)
       else do {
         dg \<leftarrow> andalso (Some (a + 7 < last_ofs p)) (map_option isdigit (rd b (a + 1)));
         if dg then do {
           (version_number, x) \<leftarrow> strtol b (a + 1);
           Some (Continue,
             if (50700 \<le> version_number \<and> version_number \<le> 99999) \<or>
                \<not> version_number \<le> server_version cfg
             then p\<lparr>cur := x, in_comment := True\<rparr> else p\<lparr>cur := x\<rparr>) }
         else Some (Fall, p) } }
     else Some (Fall, p) })"

text \<open>A comment opened by \<open>/*M!\<close>, optionally followed by a version number.\<close>

definition sec_mbang :: "parse_cfg \<Rightarrow> sect" where
  "sec_mbang cfg p = (let a = cur p; b = statement_str p in do {
     mb \<leftarrow> andalso (Some (a + 2 < last_ofs p))
            (andalso (rdeq b a (CHR ''M'')) (rdeq b (a + 1) (CHR ''!'')));
     if mb then do {
       sp \<leftarrow> map_option isspace (rd b (a + 2));
       if sp then Some (Continue, p\<lparr>cur := a + 2\<rparr>)
       else do {
         dg \<leftarrow> andalso (Some (a + 2 + 6 < last_ofs p)) (map_option isdigit (rd b (a + 2)));
         if dg then do {
           (version_number, x) \<leftarrow> strtol b (a + 2);
           Some (Continue,
             if \<not> version_number \<le> server_version cfg
             then p\<lparr>cur := x, in_comment := True\<rparr> else p\<lparr>cur := x\<rparr>) }
         else Some (Fall, p\<lparr>cur := a + 2\<rparr>) } }
     else Some (Fall, p) })"

definition sec_set_comment :: sect where
  "sec_set_comment p = Some (Continue, p\<lparr>in_comment := True\<rparr>)"

definition sec_style1 :: "parse_cfg \<Rightarrow> sect" where
  "sec_style1 cfg p = (let a = cur p; b = statement_str p in do {
     open_c \<leftarrow> andalso (rdeq b a (CHR ''/'')) (rdeq b (a + 1) (CHR ''*''));
     if open_c
     then seq (sec_bang cfg) (seq (sec_mbang cfg) sec_set_comment) (p\<lparr>cur := a + 2\<rparr>)
     else Some (Fall, p) })"

definition sec_style2 :: sect where
  "sec_style2 p = do {
     h \<leftarrow> rdeq (statement_str p) (cur p) (CHR ''#'');
     Some (Fall, if h then p\<lparr>cur := cur p + 1, comment_eol := True\<rparr> else p) }"

definition sec_style3 :: sect where
  "sec_style3 p = (let a = cur p; b = statement_str p in do {
     d \<leftarrow> andalso (rdeq b a (CHR ''-'')) (rdeq b (a + 1) (CHR ''-''));
     d' \<leftarrow> andalso (Some d) (andalso (Some (a + 2 < last_ofs p)) (rdeq b (a + 2) (CHR '' '')));
     Some (Fall, if d' then p\<lparr>cur := a + 3, comment_eol := True\<rparr> else p) })"

definition sec_in_comment :: sect where
  "sec_in_comment p = (let a = cur p; b = statement_str p in do {
     close_c \<leftarrow> andalso (rdeq b a (CHR ''*'')) (rdeq b (a + 1) (CHR ''/''));
     Some (Continue, if close_c then p\<lparr>cur := a + 2, in_comment := False\<rparr>
                     else p\<lparr>cur := a + 1\<rparr>) })"

definition sec_comment :: "parse_cfg \<Rightarrow> sect" where
  "sec_comment cfg p =
     (if \<not> in_comment p then seq (sec_style1 cfg) (seq sec_style2 sec_style3) p
      else sec_in_comment p)"

definition sec_comment_eol :: sect where
  "sec_comment_eol p =
     (if comment_eol p then do {
        c \<leftarrow> rd (statement_str p) (cur p);
        Some (Continue, if c = NUL \<or> c = CHR 0x0A
                        then p\<lparr>cur := cur p + 1, comment_eol := False\<rparr>
                        else p\<lparr>cur := cur p + 1\<rparr>) }
      else Some (Fall, p))"

definition sec_qmark :: sect where
  "sec_qmark p = do {
     q \<leftarrow> rdeq (statement_str p) (cur p) (CHR ''?'');
     if q then
       (if paramstyle p \<noteq> NONE \<and> paramstyle p \<noteq> QMARK then Some (Return mixing_error, p)
        else Some (Continue, p\<lparr>paramstyle := QMARK, param_count := param_count p + 1,
               param_list := param_list p @ [cur p], cur := cur p + 1\<rparr>))
     else Some (Fall, p) }"

definition sec_format :: sect where
  "sec_format p = (let a = cur p in do {
     c \<leftarrow> rd (statement_str p) (a + 1);
     if c = CHR ''s'' \<or> c = CHR ''d'' then
       (if paramstyle p \<noteq> NONE \<and> paramstyle p \<noteq> FORMAT then Some (Return mixing_error, p)
        else do {
          b \<leftarrow> memmove ((statement_str p)[a := CHR ''?'']) (a + 1) (a + 2)
                (size_diff (last_ofs p) a);
          Some (Continue, p\<lparr>paramstyle := FORMAT, statement_str := b,
            last_ofs := last_ofs p - 1, param_list := param_list p @ [a],
            cur := a + 1, param_count := param_count p + 1\<rparr>) })
     else Some (Fall, p) })"

text \<open>
  The allocations of one pyformat key: the array grows by one entry, then the entry gets
  its copy. \<open>Inl\<close> is the failed allocation, with the keys as they are then.
\<close>

definition alloc_key :: "parse_cfg \<Rightarrow> nat \<Rightarrow> bytes option list \<Rightarrow> bytes \<Rightarrow>
    bytes option list + bytes option list" where
  "alloc_key cfg n ks key =
     (if \<not> keys_alloc cfg n then Inl ks
      else if \<not> key_alloc cfg n then Inl (ks @ [None])
      else Inr (ks @ [Some key]))"

definition sec_pyformat :: "parse_cfg \<Rightarrow> sect" where
  "sec_pyformat cfg p = (let a = cur p; b = statement_str p in do {
     c \<leftarrow> rd b (a + 1);
     if c = CHR ''('' then
       (case strstr (drop (a + 1) b) '')s'' of
          None \<Rightarrow> if NUL \<in> set (drop (a + 1) b) then Some (Fall, p) else None
        | Some k \<Rightarrow>
            let val_end = a + 1 + k; keylen = val_end - a + 1 in
            if paramstyle p \<noteq> NONE \<and> paramstyle p \<noteq> PYFORMAT
            then Some (Return mixing_error, p)
            else
              let b1 = b[a := CHR ''?''];
                  p1 = p\<lparr>paramstyle := PYFORMAT, statement_str := b1,
                         param_count := param_count p + 1,
                         param_list := param_list p @ [a]\<rparr>
              in case alloc_key cfg (param_count p1) (keys p)
                        (take (keylen - 3) (drop (a + 2) b1)) of
                   Inl ks \<Rightarrow> Some (Return ''Not enough memory'', p1\<lparr>keys := ks\<rparr>)
                 | Inr ks \<Rightarrow> do {
                     b2 \<leftarrow> memmove b1 (a + 1) (val_end + 2)
                            (size_diff (last_ofs p + 1) (a + keylen));
                     Some (Continue, p1\<lparr>keys := ks, statement_str := b2,
                       cur := a + 1, last_ofs := last_ofs p - keylen\<rparr>) })
     else Some (Fall, p) })"

definition sec_percent :: "parse_cfg \<Rightarrow> sect" where
  "sec_percent cfg p = do {
     pc \<leftarrow> andalso (rdeq (statement_str p) (cur p) (CHR ''%''))
            (Some (lastchar p \<noteq> CHR 0x5C));
     if pc then seq sec_format (sec_pyformat cfg) p else Some (Fall, p) }"

definition sec_batch_insert :: sect where
  "sec_batch_insert p = do {
     k \<leftarrow> andalso (Some (\<not> is_insert p))
           (check_keyword (statement_str p) (cur p) (last_ofs p) ''INSERT'');
     Some (Fall, if k \<and> (lastchar p = NUL \<or> IS_WHITESPACE (lastchar p) \<or>
                         lastchar p = CHR ''/'')
                 then p\<lparr>is_insert := True, cur := cur p + 7\<rparr> else p) }"

definition sec_batch_values :: sect where
  "sec_batch_values p = do {
     k \<leftarrow> andalso (Some (is_insert p))
           (check_keyword (statement_str p) (cur p) (last_ofs p) ''VALUES'');
     if k then Some (Continue, p\<lparr>value_ofs := Some (cur p + 7), cur := cur p + 7\<rparr>)
     else Some (Fall, p) }"

fun find_command :: "bytes \<Rightarrow> nat \<Rightarrow> nat \<Rightarrow> (enum_binary_command \<times> string) list \<Rightarrow>
    enum_binary_command option" where
  "find_command b ofs e [] = Some SQL_NONE"
| "find_command b ofs e ((cmd, kw) # cs) =
     do { k \<leftarrow> check_keyword b ofs e kw; if k then Some cmd else find_command b ofs e cs }"

definition sec_command :: sect where
  "sec_command p =
     (if command p = SQL_NONE then do {
        cmd \<leftarrow> find_command (statement_str p) (cur p) (last_ofs p) binary_command;
        Some (Fall, p\<lparr>command := (if cmd = SQL_NONE then SQL_OTHER else cmd)\<rparr>) }
      else Some (Fall, p))"

definition sec_advance :: sect where
  "sec_advance p = do {
     c \<leftarrow> rd (statement_str p) (cur p);
     Some (Continue, p\<lparr>lastchar := c, cur := cur p + 1\<rparr>) }"

definition sec_tail :: "bool \<Rightarrow> sect" where
  "sec_tail is_batch =
     (if is_batch then seq sec_batch_insert (seq sec_batch_values sec_advance)
      else seq sec_command sec_advance)"

definition parse_body :: "parse_cfg \<Rightarrow> bool \<Rightarrow> sect" where
  "parse_body cfg is_batch =
     seq sec_literal (seq sec_in_literal (seq (sec_comment cfg) (seq sec_comment_eol
       (seq sec_qmark (seq (sec_percent cfg) (sec_tail is_batch))))))"

lemma wp_seq [wp_simps]:
  "wp (seq s t p) Q = wp (s p) (\<lambda>(f, p'). if f = Fall then wp (t p') Q else Q (f, p'))"
  "wlp (seq s t p) Q = wlp (s p) (\<lambda>(f, p'). if f = Fall then wlp (t p') Q else Q (f, p'))"
  by (cases "s p"; auto simp: seq_def wp_simps)+

lemma wp_strtol [wp_simps]:
  "wp (strtol b i) Q = (let ds = takeWhile isdigit (drop i b) in
     i + length ds < length b \<and> Q (min (dec_val ds) (2 ^ 63 - 1), i + length ds))"
  "wlp (strtol b i) Q = (let ds = takeWhile isdigit (drop i b) in
     i + length ds < length b \<longrightarrow> Q (min (dec_val ds) (2 ^ 63 - 1), i + length ds))"
  by (auto simp: strtol_def Let_def wp_simps)

subsection \<open>Progress of the body\<close>

text \<open>
  Every section leaves the size of the block alone and never moves the pointer back; one
  that ends the iteration moves it forward. This is what makes the scan terminate. The
  text is rewritten only by the sections that set the style to \<open>FORMAT\<close> or \<open>PYFORMAT\<close>.
\<close>

definition rewriting :: "parse_state \<Rightarrow> bool" where
  "rewriting p \<longleftrightarrow> paramstyle p = FORMAT \<or> paramstyle p = PYFORMAT"

definition progress_to :: "parse_state \<Rightarrow> flow \<times> parse_state \<Rightarrow> bool" where
  "progress_to p = (\<lambda>(f, p').
     length (statement_str p') = length (statement_str p) \<and> cur p \<le> cur p' \<and>
     (f = Continue \<or> f = GotoCont \<longrightarrow> cur p < cur p') \<and>
     (\<not> rewriting p' \<longrightarrow> \<not> rewriting p \<and> statement_str p' = statement_str p \<and>
        last_ofs p' = last_ofs p))"

lemma progress_to_trans:
  "progress_to p (Fall, p') \<Longrightarrow> progress_to p' r \<Longrightarrow> progress_to p r"
  by (cases r) (auto simp: progress_to_def)

lemma progress_seq:
  assumes "\<And>p. wlp (s p) (progress_to p)" "\<And>p. wlp (t p) (progress_to p)"
  shows "wlp (seq s t p) (progress_to p)"
  unfolding wp_seq
proof (rule wlp_mono [OF assms(1)])
  show "case v of (f, p') \<Rightarrow> if f = Fall then wlp (t p') (progress_to p) else progress_to p (f, p')"
    if "progress_to p v" for v
    using that by (auto split: prod.splits intro: wlp_mono [OF assms(2)] progress_to_trans)
qed

lemmas progress_simps = progress_to_def rewriting_def Let_def wp_simps

lemma progress_literal: "wlp (sec_literal p) (progress_to p)"
  by (auto simp: sec_literal_def progress_simps split: option.splits)

lemma progress_in_literal: "wlp (sec_in_literal p) (progress_to p)"
  by (simp add: sec_in_literal_def progress_simps)

lemma progress_bang: "wlp (sec_bang cfg p) (progress_to p)"
  by (simp add: sec_bang_def progress_simps)

lemma progress_mbang: "wlp (sec_mbang cfg p) (progress_to p)"
  by (simp add: sec_mbang_def progress_simps)

lemma progress_style2: "wlp (sec_style2 p) (progress_to p)"
  by (simp add: sec_style2_def progress_simps)

lemma progress_style3: "wlp (sec_style3 p) (progress_to p)"
  by (simp add: sec_style3_def progress_simps)

lemma progress_in_comment: "wlp (sec_in_comment p) (progress_to p)"
  by (simp add: sec_in_comment_def progress_simps)

lemma progress_comment_eol: "wlp (sec_comment_eol p) (progress_to p)"
  by (simp add: sec_comment_eol_def progress_simps)

lemma progress_qmark: "wlp (sec_qmark p) (progress_to p)"
  by (simp add: sec_qmark_def progress_simps)

lemma progress_format: "wlp (sec_format p) (progress_to p)"
  by (auto simp: sec_format_def progress_simps)

lemma progress_pyformat: "wlp (sec_pyformat cfg p) (progress_to p)"
  by (auto simp: sec_pyformat_def progress_simps split: option.splits sum.splits)

lemma progress_batch_insert: "wlp (sec_batch_insert p) (progress_to p)"
  by (auto simp: sec_batch_insert_def progress_simps intro!: wlp_all)

lemma progress_batch_values: "wlp (sec_batch_values p) (progress_to p)"
  by (auto simp: sec_batch_values_def progress_simps intro!: wlp_all)

lemma progress_command: "wlp (sec_command p) (progress_to p)"
  by (auto simp: sec_command_def progress_simps intro!: wlp_all)

lemma progress_advance: "wlp (sec_advance p) (progress_to p)"
  by (simp add: sec_advance_def progress_simps)

lemma progress_style1: "wlp (sec_style1 cfg p) (progress_to p)"
proof -
  have "wlp (seq (sec_bang cfg) (seq (sec_mbang cfg) sec_set_comment) q)
          (\<lambda>(f, p'). length (statement_str p') = length (statement_str q) \<and> cur q \<le> cur p' \<and>
             (\<not> rewriting p' \<longrightarrow> \<not> rewriting q \<and> statement_str p' = statement_str q \<and>
                last_ofs p' = last_ofs q))" for q
    by (auto simp: wp_seq wp_simps sec_set_comment_def
        intro!: wlp_mono [OF progress_bang] wlp_mono [OF progress_mbang]
        simp: progress_to_def rewriting_def)
  from this [of "p\<lparr>cur := cur p + 2\<rparr>"] show ?thesis
    by (auto simp: sec_style1_def Let_def wp_simps progress_to_def rewriting_def elim!: wlp_mono)
qed

lemma progress_comment: "wlp (sec_comment cfg p) (progress_to p)"
  unfolding sec_comment_def
  by (simp add: wp_if progress_in_comment progress_seq progress_style1 progress_style2
      progress_style3)

lemma progress_percent: "wlp (sec_percent cfg p) (progress_to p)"
proof -
  have "wlp (seq sec_format (sec_pyformat cfg) p) (progress_to p)"
    by (rule progress_seq) (rule progress_format progress_pyformat)+
  then show ?thesis by (simp add: sec_percent_def wp_bind wp_andalso wp_rdeq wp_Some wp_if
      progress_to_def)
qed

lemma progress_tail: "wlp (sec_tail is_batch p) (progress_to p)"
  unfolding sec_tail_def
  by (simp add: progress_seq progress_batch_insert progress_batch_values progress_command
      progress_advance)

lemma progress_body: "wlp (parse_body cfg is_batch p) (progress_to p)"
  unfolding parse_body_def
  by (intro progress_seq progress_literal progress_in_literal progress_comment
      progress_comment_eol progress_qmark progress_percent progress_tail)

text \<open>The first thing the body does is read the current character.\<close>

lemma body_reads: "parse_body cfg is_batch p = Some r \<Longrightarrow> cur p < length (statement_str p)"
  by (auto simp: parse_body_def seq_def [of sec_literal] sec_literal_def bind_eq_Some_conv
      dest: rd_SomeD)

subsection \<open>The scanning loop and MrdbParser_parse\<close>

text \<open>
  \<open>goto\<close> says that the body is entered through \<open>goto cont\<close>, without the loop condition.
  The result is the error message, if any, and the final state; \<open>None\<close> is a memory fault.
\<close>

function parse_loop :: "parse_cfg \<Rightarrow> bool \<Rightarrow> bool \<Rightarrow> parse_state \<Rightarrow>
    (string option \<times> parse_state) option" where
  "parse_loop cfg is_batch goto p =
     (if goto \<or> cur p \<le> last_ofs p then
        (case parse_body cfg is_batch p of
           None \<Rightarrow> None
         | Some (f, p') \<Rightarrow>
             (case f of
                Return msg \<Rightarrow> Some (Some msg, p')
              | GotoCont \<Rightarrow> parse_loop cfg is_batch True p'
              | Continue \<Rightarrow> parse_loop cfg is_batch False p'
              | Fall \<Rightarrow> Some (None, p')))
      else Some (None, p))"
  by pat_completeness auto
termination
proof (relation "measure (\<lambda>(cfg, b, g, p). length (statement_str p) - cur p)", goal_cases)
  case 1
  show ?case by simp
next
  case (2 cfg is_batch goto p x f p')
  then have "progress_to p (f, p')" "cur p < length (statement_str p)"
    using wlpD [OF progress_body] body_reads by blast+
  with 2 show ?case by (auto simp: progress_to_def)
next
  case (3 cfg is_batch goto p x f p')
  then have "progress_to p (f, p')" "cur p < length (statement_str p)"
    using wlpD [OF progress_body] body_reads by blast+
  with 3 show ?case by (auto simp: progress_to_def)
qed

declare parse_loop.simps [simp del]

definition parser_error :: "nat \<Rightarrow> string \<Rightarrow> string" where
  "parser_error errmsg_len errstr = (if errmsg_len \<noteq> 0 then take (errmsg_len - 1) errstr else [])"

definition parse_start :: "MrdbParser \<Rightarrow> parse_state" where
  "parse_start p = MrdbParser.extend p
     \<lparr>cur = 0, last_ofs = statement_length p - 1, lastchar = NUL\<rparr>"

text \<open>
  \<open>Some (Inr p)\<close> is return code 0, \<open>Some (Inl (msg, p))\<close> return code 1 with the message
  left in \<open>errmsg\<close>; the parser object is updated in both cases.
\<close>

definition MrdbParser_parse :: "parse_cfg \<Rightarrow> MrdbParser option \<Rightarrow> bool \<Rightarrow> nat \<Rightarrow>
    (string \<times> MrdbParser option + MrdbParser) option" where
  "MrdbParser_parse cfg p is_batch errmsg_len =
     (case p of
        None \<Rightarrow> Some (Inl (parser_error errmsg_len ''Parser not initialized'', None))
      | Some p \<Rightarrow>
          if statement_str p = [] \<or> statement_length p = 0
          then Some (Inl (parser_error errmsg_len ''Invalid (empty) statement'', Some p))
          else do {
            (err, q) \<leftarrow> parse_loop cfg is_batch False (parse_start p);
            Some (case err of
                    Some msg \<Rightarrow> Inl (parser_error errmsg_len msg, Some (MrdbParser.truncate q))
                  | None \<Rightarrow> Inr (MrdbParser.truncate
                      (q\<lparr>statement_length := last_ofs q + 1\<rparr>))) })"

end
