(* ===== verification/Mrdb_Parser_Safety.thy ===== *)
theory Mrdb_Parser_Safety
  imports Mrdb_Parser
begin

text \<open>
  Memory safety and the placeholder invariant of the statement parser. A state is \<open>kept\<close>
  when the block ends in a NUL right after the text, and the recorded offsets, styles and
  keys agree with the text; it is \<open>ready\<close> when moreover the pointer is at most at that NUL,
  which is what the body needs. Each section maps \<open>ready\<close> states to the states its flow
  requires; the locale \<open>parse_invariant\<close> lifts such contracts of the body to the loop.
\<close>

definition buf_ok :: "parse_state \<Rightarrow> bool" where
  "buf_ok p \<longleftrightarrow> last_ofs p + 1 < length (statement_str p) \<and>
     statement_str p ! (last_ofs p + 1) = NUL \<and> length (in_literal p) = 3"

definition params_ok :: "parse_state \<Rightarrow> bool" where
  "params_ok p \<longleftrightarrow>
     length (param_list p) = param_count p \<and> sorted_wrt (<) (param_list p) \<and>
     (\<forall>i \<in> set (param_list p). i < cur p \<and> i \<le> last_ofs p \<and> statement_str p ! i = CHR ''?'') \<and>
     (paramstyle p = NONE \<longleftrightarrow> param_count p = 0) \<and>
     (if paramstyle p = PYFORMAT then length (keys p) = param_count p \<and> None \<notin> set (keys p)
      else keys p = [])"

definition kept :: "parse_state \<Rightarrow> bool" where
  "kept p \<longleftrightarrow> buf_ok p \<and> params_ok p"

definition ready :: "parse_state \<Rightarrow> bool" where
  "ready p \<longleftrightarrow> kept p \<and> cur p \<le> last_ofs p + 1"

text \<open>On an error return the key array is as long as the counter says, unless it could not grow.\<close>

definition keys_fit :: "parse_cfg \<Rightarrow> parse_state \<Rightarrow> bool" where
  "keys_fit cfg p \<longleftrightarrow> ((\<forall>n. keys_alloc cfg n) \<longrightarrow> keys p = [] \<or> length (keys p) = param_count p)"

definition safe_result :: "parse_cfg \<Rightarrow> flow \<times> parse_state \<Rightarrow> bool" where
  "safe_result cfg = (\<lambda>(f, p'). case f of
      Fall \<Rightarrow> ready p' | GotoCont \<Rightarrow> ready p' | Continue \<Rightarrow> kept p' | Return _ \<Rightarrow> keys_fit cfg p')"

lemma safe_result_simps [simp]:
  "safe_result cfg (Fall, p) = ready p" "safe_result cfg (GotoCont, p) = ready p"
  "safe_result cfg (Continue, p) = kept p" "safe_result cfg (Return m, p) = keys_fit cfg p"
  by (simp_all add: safe_result_def)

lemmas inv_defs = ready_def kept_def buf_ok_def params_ok_def

lemma kept_frame [simp]:
  "kept (p\<lparr>in_comment := b\<rparr>) = kept p" "kept (p\<lparr>comment_eol := b\<rparr>) = kept p"
  "kept (p\<lparr>is_insert := b\<rparr>) = kept p" "kept (p\<lparr>command := c\<rparr>) = kept p"
  "kept (p\<lparr>value_ofs := v\<rparr>) = kept p" "kept (p\<lparr>lastchar := x\<rparr>) = kept p"
  by (simp_all add: kept_def buf_ok_def params_ok_def)

lemma kept_cur [simp]: "kept p \<Longrightarrow> cur p \<le> a \<Longrightarrow> kept (p\<lparr>cur := a\<rparr>)"
  by (fastforce simp: kept_def buf_ok_def params_ok_def)

lemma kept_in_literal: "kept p \<Longrightarrow> length l = 3 \<Longrightarrow> kept (p\<lparr>in_literal := l\<rparr>)"
  by (simp add: kept_def buf_ok_def params_ok_def)

lemma readyD:
  assumes "ready p"
  shows "kept p" "cur p \<le> Suc (last_ofs p)" "Suc (last_ofs p) < length (statement_str p)"
    "statement_str p ! Suc (last_ofs p) = NUL" "length (in_literal p) = 3"
  using assms by (auto simp: inv_defs)

lemma kept_keys_fit: "kept p \<Longrightarrow> keys_fit cfg p"
  by (auto simp: kept_def params_ok_def keys_fit_def split: if_splits)

lemma ready_seq:
  assumes "ready p" "\<And>p. ready p \<Longrightarrow> wp (s p) (safe_result cfg)" "\<And>p. ready p \<Longrightarrow> wp (t p) (safe_result cfg)"
  shows "wp (seq s t p) (safe_result cfg)"
  unfolding wp_seq
  by (rule wp_mono [OF assms(2) [OF assms(1)]]) (auto intro: assms(3) split: if_splits)

lemma not_at_nul: 
  assumes "ready p" 
  shows "statement_str p ! cur p \<noteq> NUL \<Longrightarrow> cur p \<le> last_ofs p"
    and "statement_str p ! cur p \<noteq> NUL \<Longrightarrow> statement_str p ! Suc (cur p) \<noteq> NUL \<Longrightarrow> cur p < last_ofs p"
proof -
  show 1: "cur p \<le> last_ofs p" if "statement_str p ! cur p \<noteq> NUL"
    using that readyD [OF assms] by (metis le_Suc_eq)
  show "cur p < last_ofs p" if "statement_str p ! cur p \<noteq> NUL" "statement_str p ! Suc (cur p) \<noteq> NUL"
    using that 1 readyD [OF assms] by (metis le_neq_implies_less)
qed

lemma literal_found:
  "find (\<lambda>i. c = literals ! i) [0, 1, 2] = Some i \<Longrightarrow> c \<noteq> NUL \<and> i < 3"
  by (auto simp: literals_def split: if_splits)

lemma safe_literal:
  assumes "ready p" shows "wp (sec_literal p) (safe_result cfg)"
  using readyD [OF assms] not_at_nul(1) [OF assms] literal_found [of "statement_str p ! cur p"] assms
  by (auto simp: sec_literal_def wp_simps ready_def kept_in_literal simp del: find.simps split: option.splits)
lemma safe_in_literal:
  assumes "ready p" shows "wp (sec_in_literal p) (safe_result cfg)"
  using readyD [OF assms] assms by (simp add: sec_in_literal_def wp_simps)
lemma safe_style2:
  assumes "ready p" shows "wp (sec_style2 p) (safe_result cfg)"
  using readyD [OF assms] not_at_nul [OF assms] assms by (auto simp: sec_style2_def wp_simps ready_def)
lemma safe_style3:
  assumes "ready p" shows "wp (sec_style3 p) (safe_result cfg)"
  using readyD [OF assms] not_at_nul [OF assms] assms by (auto simp: sec_style3_def Let_def wp_simps ready_def)
lemma safe_in_comment:
  assumes "ready p" shows "wp (sec_in_comment p) (safe_result cfg)"
  using readyD [OF assms] not_at_nul [OF assms] by (auto simp: sec_in_comment_def Let_def wp_simps)
lemma safe_comment_eol:
  assumes "ready p" shows "wp (sec_comment_eol p) (safe_result cfg)"
  using readyD [OF assms] assms by (auto simp: sec_comment_eol_def wp_simps)

lemma takeWhile_digits_stop:
  assumes "i \<le> j" "j < length b" "\<not> isdigit (b ! j)"
  shows "i + length (takeWhile isdigit (drop i b)) \<le> j"
proof (rule ccontr)
  assume "\<not> ?thesis"
  then have "j - i < length (takeWhile isdigit (drop i b))"
    using assms(1) by linarith
  then have "isdigit (takeWhile isdigit (drop i b) ! (j - i))"
    using nth_mem set_takeWhileD by fastforce
  with \<open>j - i < _\<close> assms show False by (simp add: takeWhile_nth)
qed

lemma not_isdigit_NUL [simp]: "\<not> isdigit NUL"
  by (simp add: isdigit_def ord_def)

lemma safe_bang:
  assumes "ready p" shows "wp (sec_bang cfg p) (safe_result cfg)"
  using readyD [OF assms] assms takeWhile_digits_stop [of "Suc (cur p)" "Suc (last_ofs p)" "statement_str p"]
  by (auto simp: sec_bang_def Let_def wp_simps)
lemma safe_mbang:
  assumes "ready p" shows "wp (sec_mbang cfg p) (safe_result cfg)"
  using readyD [OF assms] assms takeWhile_digits_stop [of "Suc (Suc (cur p))" "Suc (last_ofs p)" "statement_str p"]
  by (auto simp: sec_mbang_def Let_def wp_simps ready_def)
lemma safe_set_comment:
  assumes "ready p" shows "wp (sec_set_comment p) (safe_result cfg)"
  using readyD [OF assms] by (simp add: sec_set_comment_def wp_simps)
lemma safe_style1:
  assumes "ready p" shows "wp (sec_style1 cfg p) (safe_result cfg)"
proof -
  have "ready (p\<lparr>cur := cur p + 2\<rparr>)" if "statement_str p ! cur p = CHR ''/''" "statement_str p ! Suc (cur p) = CHR ''*''"
    using readyD [OF assms] not_at_nul [OF assms] that by (simp add: ready_def)
  then show ?thesis
    using readyD [OF assms] not_at_nul [OF assms] assms
    by (auto simp: sec_style1_def Let_def wp_bind wp_andalso wp_rdeq wp_if wp_Some 
       intro!: ready_seq safe_bang safe_mbang safe_set_comment)
qed
lemma safe_comment:
  assumes "ready p" shows "wp (sec_comment cfg p) (safe_result cfg)"
  using assms by (auto simp: sec_comment_def intro!: ready_seq safe_style1 safe_style2 safe_style3 safe_in_comment)

lemma kept_placeholder:
  assumes "kept p" "buf_ok q" "cur p \<le> last_ofs q" "cur q = cur p + 1"
    "param_list q = param_list p @ [cur p]" "param_count q = param_count p + 1"
    "statement_str q ! cur p = CHR ''?''" "paramstyle q \<noteq> NONE"
    "\<And>i. i < cur p \<Longrightarrow> statement_str q ! i = statement_str p ! i"
    "if paramstyle q = PYFORMAT then length (keys q) = param_count p + 1 \<and> None \<notin> set (keys q)
     else keys q = []"
  shows "kept q"
  using assms by (auto simp: kept_def params_ok_def sorted_wrt_append)

lemma keptD:
  "kept p \<Longrightarrow> paramstyle p \<noteq> PYFORMAT \<Longrightarrow> keys p = []"
  "kept p \<Longrightarrow> paramstyle p = NONE \<or> paramstyle p = PYFORMAT \<Longrightarrow>
   length (keys p) = param_count p \<and> None \<notin> set (keys p)"
  by (auto simp: kept_def params_ok_def split: if_splits)

lemma safe_qmark:
  assumes "ready p" shows "wp (sec_qmark p) (safe_result cfg)"
proof -
  note r = readyD [OF assms]
  have "kept (p\<lparr>paramstyle := QMARK, param_count := Suc (param_count p),
      param_list := param_list p @ [cur p], cur := Suc (cur p)\<rparr>)"
    if "statement_str p ! cur p = CHR ''?''" "paramstyle p = NONE \<or> paramstyle p = QMARK"
    using that r not_at_nul(1) [OF assms] keptD(1) [OF r(1)]
    by (intro kept_placeholder [OF r(1)]) (auto simp: buf_ok_def)
  with r assms show ?thesis
    by (auto simp: sec_qmark_def wp_simps kept_keys_fit)
qed

lemma size_diff_le [simp]: "a \<le> e \<Longrightarrow> size_diff e a = e - a"
  by (simp add: size_diff_def)

lemma safe_format:
  assumes "ready p" "cur p \<le> last_ofs p" shows "wp (sec_format p) (safe_result cfg)"
proof -
  let ?n = "last_ofs p - cur p" and ?b = "(statement_str p)[cur p := CHR ''?'']"
  note r = readyD [OF assms(1)]
  have "kept (p\<lparr>paramstyle := FORMAT, statement_str := moved ?b (Suc (cur p)) (Suc (Suc (cur p))) ?n,
      last_ofs := last_ofs p - Suc 0, param_list := param_list p @ [cur p], cur := Suc (cur p),
      param_count := Suc (param_count p)\<rparr>)"
    if "statement_str p ! Suc (cur p) \<noteq> NUL" "paramstyle p = NONE \<or> paramstyle p = FORMAT"
  proof -
    have c: "cur p < last_ofs p"
      using that r assms by (metis le_neq_implies_less)
    then show ?thesis
      using r that keptD(1) [OF r(1)] nth_moved_in [of "?n - 1" ?n "cur p + 1" ?b "cur p + 2"]
      by (intro kept_placeholder [OF r(1)]) (auto simp: buf_ok_def)
  qed
  with r assms show ?thesis
    by (auto simp: sec_format_def Let_def wp_simps kept_keys_fit)
qed

lemma strstr_before_nul:
  "strstr s n = Some k \<Longrightarrow> NUL \<notin> set n \<Longrightarrow> j < length s \<Longrightarrow> s ! j = NUL \<Longrightarrow> k + length n \<le> j"
proof (induction s n arbitrary: k j rule: strstr.induct)
  case (1 n)
  then show ?case by simp
next
  case (2 c cs n)
  show ?case
  proof (cases "take (length n) (c # cs) = n")
    case True
    have "length n \<le> j"
    proof (rule ccontr)
      assume "\<not> length n \<le> j"
      then have "take (length n) (c # cs) ! j = NUL" using 2 by simp
      with True \<open>\<not> length n \<le> j\<close> 2 show False by (metis not_le nth_mem)
    qed
    with True 2 show ?thesis by simp
  next
    case False
    with 2 show ?thesis by (cases j) (auto split: if_splits)
  qed
qed

lemma safe_pyformat:
  assumes "ready p" "cur p \<le> last_ofs p" shows "wp (sec_pyformat cfg p) (safe_result cfg)"
proof -
  let ?a = "cur p" and ?e = "last_ofs p" and ?b = "(statement_str p)[cur p := CHR ''?'']"
  note r = readyD [OF assms(1)]
  have nul: "NUL \<in> set (drop (Suc ?a) (statement_str p))"
    using r assms(2) by (auto simp: in_set_conv_nth intro!: exI [of _ "?e - ?a"])
  have k: "Suc ?a + k + 2 \<le> Suc ?e \<and> 1 \<le> k"
    if "strstr (drop (Suc ?a) (statement_str p)) '')s'' = Some k" "statement_str p ! Suc ?a = CHR ''(''" for k
  proof -
    have "k + 2 \<le> ?e - ?a"
      using strstr_before_nul [OF that(1), of "?e - ?a"] r assms(2) by simp
    moreover have "k \<noteq> 0"
      using strstr_Some [OF that(1)] that(2) r assms(2)
      by (cases k) (auto simp: take_Suc_conv_app_nth)
    ultimately show ?thesis using assms(2) by linarith
  qed
  have "kept (p\<lparr>paramstyle := PYFORMAT, param_count := Suc (param_count p),
      param_list := param_list p @ [?a], keys := ks,
      statement_str := moved ?b (Suc ?a) (Suc (Suc (Suc (?a + k)))) (?e - Suc (?a + k)),
      cur := Suc ?a, last_ofs := ?e - Suc (Suc k)\<rparr>)"
    if "strstr (drop (Suc ?a) (statement_str p)) '')s'' = Some k" "statement_str p ! Suc ?a = CHR ''(''"
       "alloc_key cfg (Suc (param_count p)) (keys p) key = Inr ks" "paramstyle p = NONE \<or> paramstyle p = PYFORMAT" for k key ks
  proof -
    let ?n = "?e - Suc (?a + k)" and ?src = "Suc (Suc (Suc (?a + k)))"
    note k' = k [OF that(1,2)]
    have "moved ?b (Suc ?a) ?src ?n ! (Suc ?a + (?n - 1)) = ?b ! (?src + (?n - 1))"
      using r k' by (intro nth_moved_in) auto
    moreover have "Suc ?a + (?n - 1) = Suc (?e - Suc (Suc k))" "?src + (?n - 1) = Suc ?e"
      using k' by linarith+
    ultimately have "moved ?b (Suc ?a) ?src ?n ! Suc (?e - Suc (Suc k)) = NUL"
      using r k' by simp
    then show ?thesis
      using r k' that(3) keptD(2) [OF r(1) that(4)]
      by (intro kept_placeholder [OF r(1)]) (auto simp: buf_ok_def alloc_key_def split: if_splits)
  qed
  moreover have "keys_fit cfg (p\<lparr>paramstyle := PYFORMAT, statement_str := ?b,
      param_count := Suc (param_count p), param_list := param_list p @ [?a], keys := ks\<rparr>)"
    if "alloc_key cfg (Suc (param_count p)) (keys p) key = Inl ks"
       "paramstyle p = NONE \<or> paramstyle p = PYFORMAT" for key ks
    using that(1) keptD(2) [OF r(1) that(2)]
    by (auto simp: keys_fit_def alloc_key_def split: if_splits)
  ultimately show ?thesis
    using r assms nul k
    by (auto simp: sec_pyformat_def Let_def wp_simps kept_keys_fit split: option.splits sum.splits)
qed

lemma match_keyword_in: "ofs + length kw \<le> length b \<Longrightarrow> \<exists>r. match_keyword b ofs kw = Some r"
  by (induction b ofs kw rule: match_keyword.induct) (auto simp: rd_in)

lemma check_keyword_total:
  assumes "ofs \<le> Suc e" "Suc e < length b" "b ! Suc e = NUL" "kw \<noteq> []" "hd kw \<noteq> NUL"
  shows "\<exists>r. check_keyword b ofs e kw = Some r \<and> (r \<longrightarrow> ofs + length kw + 1 \<le> e)"
proof (cases "ofs \<le> e")
  case True
  show ?thesis
  proof (cases "e - ofs < length kw + 1")
    case True
    with \<open>ofs \<le> e\<close> show ?thesis by (intro exI [of _ False]) (simp add: check_keyword_def)
  next
    case False
    with assms(1,2) \<open>ofs \<le> e\<close> have "ofs + length kw < length b" by linarith
    then show ?thesis
      using match_keyword_in [of ofs kw b] False \<open>ofs \<le> e\<close>
      by (auto simp: check_keyword_def rd_in)
  qed
next
  case False
  with assms have "ofs < length b" "b ! ofs = NUL" by (auto simp: le_Suc_eq)
  moreover have "toupper NUL = NUL" by (simp add: toupper_def ord_def)
  ultimately show ?thesis using assms(4,5) False
    by (cases kw) (auto simp: check_keyword_def rd_in)
qed

lemma find_command_total:
  assumes "ofs \<le> Suc e" "Suc e < length b" "b ! Suc e = NUL"
    "\<forall>(c, kw) \<in> set cs. kw \<noteq> [] \<and> hd kw \<noteq> NUL"
  shows "\<exists>r. find_command b ofs e cs = Some r"
  using assms(4)
proof (induction cs)
  case (Cons a cs)
  then show ?case
    using check_keyword_total [OF assms(1-3), of "snd a"] by (cases a) fastforce
qed simp

lemma binary_command_words: "\<forall>(c, kw) \<in> set binary_command. kw \<noteq> [] \<and> hd kw \<noteq> NUL"
  by (simp add: binary_command_def)

lemma wp_check_keyword:
  assumes "ready p" "kw \<noteq> []" "hd kw \<noteq> NUL"
    "\<And>r. (r \<Longrightarrow> cur p + length kw + 1 \<le> last_ofs p) \<Longrightarrow> Q r"
  shows "wp (check_keyword (statement_str p) (cur p) (last_ofs p) kw) Q"
  using check_keyword_total [OF readyD(2-4) [OF assms(1)] assms(2,3)] assms(4)
  by (auto simp: wp_simps)

lemma safe_batch_insert:
  assumes "ready p" shows "wp (sec_batch_insert p) (safe_result cfg)"
  using readyD [OF assms] assms
  by (auto simp: sec_batch_insert_def wp_simps ready_def intro!: wp_check_keyword [OF assms])
lemma safe_batch_values:
  assumes "ready p" shows "wp (sec_batch_values p) (safe_result cfg)"
  using readyD [OF assms] assms
  by (auto simp: sec_batch_values_def wp_simps ready_def intro!: wp_check_keyword [OF assms])
lemma safe_command:
  assumes "ready p" shows "wp (sec_command p) (safe_result cfg)"
  using find_command_total [OF readyD(2-4) [OF assms] binary_command_words] readyD [OF assms] assms
  by (auto simp: sec_command_def ready_def wp_simps)

lemma safe_advance:
  assumes "ready p" shows "wp (sec_advance p) (safe_result cfg)"
  using readyD [OF assms] assms by (auto simp: sec_advance_def wp_simps)


lemma safe_percent:
  assumes "ready p" shows "wp (sec_percent cfg p) (safe_result cfg)"
proof -
  have "wp (seq sec_format (sec_pyformat cfg) p) (safe_result cfg)" if "cur p \<le> last_ofs p"
    unfolding wp_seq
    using safe_format [OF assms that] safe_pyformat [OF assms that]
    by (auto simp: sec_format_def Let_def wp_bind wp_rd wp_if wp_Some wp_memmove)
  then show ?thesis
    using readyD [OF assms] not_at_nul [OF assms] assms
    by (auto simp: sec_percent_def wp_bind wp_andalso wp_rdeq wp_if wp_Some)
qed

lemma safe_tail:
  assumes "ready p" shows "wp (sec_tail is_batch p) (safe_result cfg)"
  using assms by (auto simp: sec_tail_def
      intro!: ready_seq safe_batch_insert safe_batch_values safe_command safe_advance)

lemma safe_body:
  assumes "ready p" shows "wp (parse_body cfg is_batch p) (safe_result cfg)"
  unfolding parse_body_def using assms
  by (intro ready_seq safe_literal safe_in_literal safe_comment safe_comment_eol safe_qmark
      safe_percent safe_tail)

subsection \<open>From the body to the loop\<close>

text \<open>
  A client of the loop names three predicates: on entry to the body, between iterations,
  and on an error return. When the body keeps them, so does every run of the loop, which
  moreover ends without a fault.
\<close>

locale parse_invariant =
  fixes cfg :: parse_cfg and is_batch :: bool
    and entered :: "parse_state \<Rightarrow> bool" and between :: "parse_state \<Rightarrow> bool"
    and returned :: "parse_state \<Rightarrow> bool"
  assumes enter: "between p \<Longrightarrow> cur p \<le> last_ofs p \<Longrightarrow> entered p"
    and body: "entered p \<Longrightarrow> wp (parse_body cfg is_batch p)
      (\<lambda>(f, p'). case f of Fall \<Rightarrow> between p' | Continue \<Rightarrow> between p' | GotoCont \<Rightarrow> entered p'
                  | Return _ \<Rightarrow> returned p')"
begin

lemma loop:
  "(if goto then entered p else between p) \<Longrightarrow>
   wp (parse_loop cfg is_batch goto p)
     (\<lambda>(err, q). case err of None \<Rightarrow> between q | Some _ \<Rightarrow> returned q)"
proof (induction "length (statement_str p) - cur p" arbitrary: goto p rule: less_induct)
  case less
  show ?case
  proof (cases "goto \<or> cur p \<le> last_ofs p")
    case False
    with less.prems show ?thesis by (subst parse_loop.simps) (simp add: wp_simps)
  next
    case True
    with less.prems have "entered p" by (auto intro: enter split: if_splits)
    then obtain f p' where step: "parse_body cfg is_batch p = Some (f, p')"
      and post: "case f of Fall \<Rightarrow> between p' | Continue \<Rightarrow> between p' | GotoCont \<Rightarrow> entered p'
                  | Return _ \<Rightarrow> returned p'"
      using body [OF \<open>entered p\<close>] by (auto simp: wp_def)
    have "length (statement_str p') - cur p' < length (statement_str p) - cur p"
      if "f = Continue \<or> f = GotoCont"
      using that wlpD [OF progress_body step] body_reads [OF step] by (auto simp: progress_to_def)
    then show ?thesis
      using True post less.hyps [of p' True] less.hyps [of p' False]
      by (subst parse_loop.simps) (auto simp: step wp_simps split: flow.splits)
  qed
qed

lemma from_start: "between p \<Longrightarrow> wp (parse_loop cfg is_batch False p)
     (\<lambda>(err, q). case err of None \<Rightarrow> between q | Some _ \<Rightarrow> returned q)"
  using loop [of False p] by simp

end

text \<open>The block keeps its size, and the text is unchanged unless a placeholder was rewritten.\<close>

definition text_kept :: "parse_state \<Rightarrow> parse_state \<Rightarrow> bool" where
  "text_kept p0 p \<longleftrightarrow> length (statement_str p) = length (statement_str p0) \<and>
     (\<not> rewriting p \<longrightarrow> statement_str p = statement_str p0 \<and> last_ofs p = last_ofs p0)"

lemma text_kept_step: "progress_to p (f, p') \<Longrightarrow> text_kept p0 p \<Longrightarrow> text_kept p0 p'"
  by (auto simp: progress_to_def text_kept_def)

interpretation safety: parse_invariant cfg is_batch
  "\<lambda>p. ready p \<and> text_kept p0 p" "\<lambda>p. kept p \<and> text_kept p0 p" "keys_fit cfg"
  for cfg is_batch p0
proof unfold_locales
  show "ready p \<and> text_kept p0 p" if "kept p \<and> text_kept p0 p" "cur p \<le> last_ofs p" for p
    using that by (simp add: ready_def)
  show "wp (parse_body cfg is_batch p)
          (\<lambda>(f, p'). case f of Fall \<Rightarrow> kept p' \<and> text_kept p0 p'
             | Continue \<Rightarrow> kept p' \<and> text_kept p0 p' | GotoCont \<Rightarrow> ready p' \<and> text_kept p0 p'
             | Return _ \<Rightarrow> keys_fit cfg p')" if in_state: "ready p \<and> text_kept p0 p" for p
  proof -
    obtain f p' where step: "parse_body cfg is_batch p = Some (f, p')"
      and "safe_result cfg (f, p')"
      using safe_body [of p cfg is_batch] in_state unfolding wp_def by fastforce
    moreover have "text_kept p0 p'"
      using text_kept_step [OF wlpD [OF progress_body step]] in_state by blast
    ultimately show ?thesis
      by (auto simp: wp_simps safe_result_def ready_def split: flow.splits)
  qed
qed

subsection \<open>From the loop to the parser\<close>

lemma init_Some:
  "MrdbParser_init True True (Some s) (length s) = Some (Some p) \<Longrightarrow>
   s \<noteq> [] \<and> p = zero_parser\<lparr>statement_str := s @ [NUL], statement_length := length s\<rparr>"
  by (auto simp: MrdbParser_init_def split: if_splits)

lemma kept_start:
  "s \<noteq> [] \<Longrightarrow>
   kept (parse_start (zero_parser\<lparr>statement_str := s @ [NUL], statement_length := length s\<rparr>))"
  by (simp add: kept_def buf_ok_def params_ok_def parse_start_def zero_parser_def
      MrdbParser.extend_def nth_append)

lemma text_kept_refl [simp]: "text_kept p p"
  by (simp add: text_kept_def)

lemma parse_loop_from_init:
  assumes "MrdbParser_init True True (Some s) (length s) = Some (Some p)"
  obtains err q where
    "parse_loop cfg is_batch False (parse_start p) = Some (err, q)"
    "err = None \<longrightarrow> kept q \<and> text_kept (parse_start p) q"
    "err \<noteq> None \<longrightarrow> keys_fit cfg q"
proof -
  have "kept (parse_start p) \<and> text_kept (parse_start p) (parse_start p)"
    using init_Some [OF assms] kept_start by auto
  from safety.from_start [OF this] that show ?thesis
    by (fastforce simp: wp_def split: option.splits)
qed

lemma parse_from_init:
  assumes "MrdbParser_init True True (Some s) (length s) = Some (Some p)"
  shows "MrdbParser_parse cfg (Some p) is_batch n =
    Option.bind (parse_loop cfg is_batch False (parse_start p)) (\<lambda>(err, q).
      Some (case err of
              Some msg \<Rightarrow> Inl (parser_error n msg, Some (MrdbParser.truncate q))
            | None \<Rightarrow> Inr (MrdbParser.truncate (q\<lparr>statement_length := last_ofs q + 1\<rparr>))))"
  using init_Some [OF assms] by (simp add: MrdbParser_parse_def)

lemma free_keys_in: "\<forall>i \<in> set is. i < length ks \<Longrightarrow> \<exists>n. free_keys ks is = Some n"
  by (induction "is") (auto simp: rd_in)

lemma end_safe:
  "keys p = [] \<or> length (keys p) = param_count p \<Longrightarrow> \<exists>n. MrdbParser_end (Some p) = Some n"
  using free_keys_in [of "[0..<param_count p]" "keys p"] by (auto simp: MrdbParser_end_def)

lemma truncate_sel [simp]:
  "statement_str (MrdbParser.truncate q) = statement_str q"
  "statement_length (MrdbParser.truncate q) = statement_length q"
  "keys (MrdbParser.truncate q) = keys q"
  "param_count (MrdbParser.truncate q) = param_count q"
  "param_list (MrdbParser.truncate q) = param_list q"
  "paramstyle (MrdbParser.truncate q) = paramstyle q"
  "command (MrdbParser.truncate q) = command q"
  "value_ofs (MrdbParser.truncate q) = value_ofs q"
  "is_insert (MrdbParser.truncate q) = is_insert q"
  by (simp_all add: MrdbParser.truncate_def)

subsection \<open>A concrete run\<close>

definition sample_cfg :: parse_cfg where
  "sample_cfg = \<lparr>server_version = 110402, keys_alloc = (\<lambda>_. True), key_alloc = (\<lambda>_. True)\<rparr>"

definition sample_parser :: "bytes \<Rightarrow> MrdbParser" where
  "sample_parser s = zero_parser\<lparr>statement_str := s @ [NUL], statement_length := length s\<rparr>"

abbreviation py_statement :: string where
  "py_statement \<equiv> ''SELECT %(id)s, '' @ [CHR 0x27] @ ''%s'' @ [CHR 0x27] @ '', %(x)s''"

abbreviation qm_statement :: string where
  "qm_statement \<equiv> ''CALL p(?, ?) # why ?''"

lemma sample_init:
  "s \<noteq> [] \<Longrightarrow> MrdbParser_init True True (Some s) (length s) = Some (Some (sample_parser s))"
  by (simp add: MrdbParser_init_def sample_parser_def)

definition py_parsed :: MrdbParser where
  "py_parsed = zero_parser\<lparr>statement_str := ''SELECT ?, '' @ [CHR 0x27] @ ''%s'' @ [CHR 0x27] @
       '', ?'' @ [NUL] @ ''x)s'' @ [NUL] @ ''(x)s'' @ [NUL],
     statement_length := 17, param_count := 2, param_list := [7, 16],
     keys := [Some ''id'', Some ''x''], paramstyle := PYFORMAT, command := SQL_OTHER\<rparr>"

definition qm_parsed :: MrdbParser where
  "qm_parsed = zero_parser\<lparr>statement_str := qm_statement @ [NUL], statement_length := 20,
     comment_eol := True, param_count := 2, param_list := [7, 10], paramstyle := QMARK,
     command := SQL_CALL\<rparr>"

text \<open>The rules that evaluate the scan of a concrete statement.\<close>

lemmas parse_run_simps =
  MrdbParser_parse_def parse_loop.simps parse_body_def seq_def sec_literal_def
  sec_in_literal_def sec_comment_def sec_comment_eol_def sec_qmark_def sec_percent_def
  sec_tail_def sec_format_def sec_pyformat_def sec_command_def sec_advance_def
  sec_batch_insert_def sec_batch_values_def sec_style1_def sec_style2_def sec_style3_def
  sec_bang_def sec_mbang_def sec_set_comment_def sec_in_comment_def parse_start_def
  sample_parser_def sample_cfg_def zero_parser_def MrdbParser.extend_def
  MrdbParser.truncate_def IN_LITERAL_def IS_WHITESPACE_def literals_def binary_command_def
  check_keyword_def size_diff_def rd_def rdeq_def andalso_def ord_def toupper_def
  isspace_def isdigit_def memmove_def moved_def alloc_key_def parser_error_def Let_def

lemma py_run:
  "MrdbParser_parse sample_cfg (Some (sample_parser py_statement)) False 128 = Some (Inr py_parsed)"
  by (simp add: parse_run_simps py_parsed_def)

lemma qm_run:
  "MrdbParser_parse sample_cfg (Some (sample_parser qm_statement)) False 128 = Some (Inr qm_parsed)"
  by (simp add: parse_run_simps qm_parsed_def)

subsection \<open>Properties\<close>

text \<open>
  C3: for every statement, server version, batch flag and outcome of the allocations of
  the key array, the scan of a freshly initialised parser ends, and it neither reads nor
  moves a byte outside the statement's block.
\<close>

theorem parse_never_faults:
  "\<exists>r. Option.bind (MrdbParser_init True True (Some s) (length s))
         (\<lambda>p. MrdbParser_parse cfg p is_batch n) = Some r"
proof (cases "s = []")
  case True
  then show ?thesis by (simp add: MrdbParser_init_def MrdbParser_parse_def)
next
  case False
  then obtain p where p: "MrdbParser_init True True (Some s) (length s) = Some (Some p)"
    by (simp add: MrdbParser_init_def)
  obtain err q where "parse_loop cfg is_batch False (parse_start p) = Some (err, q)"
    using parse_loop_from_init [OF p] by blast
  then show ?thesis
    by (simp add: p parse_from_init [OF p])
qed

lemma parse_Inr:
  assumes "MrdbParser_init True True (Some s) (length s) = Some (Some p)"
    "MrdbParser_parse cfg (Some p) is_batch n = Some (Inr q)"
  obtains q' where "kept q'" "text_kept (parse_start p) q'"
    "q = MrdbParser.truncate (q'\<lparr>statement_length := last_ofs q' + 1\<rparr>)"
proof -
  obtain err q' where loop: "parse_loop cfg is_batch False (parse_start p) = Some (err, q')"
    "err = None \<longrightarrow> kept q' \<and> text_kept (parse_start p) q'"
    using parse_loop_from_init [OF assms(1), of cfg is_batch] by blast
  with assms(2) that show thesis
    unfolding parse_from_init [OF assms(1)] by (cases err) auto
qed

text \<open>
  C5: when the scan succeeds, the recorded offsets are one per placeholder, strictly
  increasing, inside the text, and each points at a \<open>?\<close> of the rewritten text; the text
  ends in a NUL and is not longer than the statement; the style is unset exactly when
  there is no placeholder; and there is one key per placeholder in the pyformat style and
  none in the others.
\<close>

theorem parse_placeholders:
  assumes "MrdbParser_init True True (Some s) (length s) = Some (Some p)"
    and "MrdbParser_parse cfg (Some p) is_batch n = Some (Inr q)"
  shows "length (param_list q) = param_count q \<and> sorted_wrt (<) (param_list q) \<and>
    (\<forall>i \<in> set (param_list q). i < statement_length q \<and> statement_str q ! i = CHR ''?'') \<and>
    statement_length q \<le> length s \<and> length (statement_str q) = length s + 1 \<and>
    statement_str q ! statement_length q = NUL \<and>
    (paramstyle q = NONE \<longleftrightarrow> param_count q = 0) \<and>
    length (keys q) = (if paramstyle q = PYFORMAT then param_count q else 0) \<and>
    None \<notin> set (keys q)"
proof -
  obtain q' where q': "kept q'" "text_kept (parse_start p) q'"
    "q = MrdbParser.truncate (q'\<lparr>statement_length := last_ofs q' + 1\<rparr>)"
    using parse_Inr [OF assms] .
  moreover have "length (statement_str q') = length s + 1"
    using q'(2) init_Some [OF assms(1)]
    by (simp add: text_kept_def parse_start_def MrdbParser.extend_def)
  ultimately show ?thesis
    by (auto simp: kept_def params_ok_def buf_ok_def split: if_splits)
qed

theorem parse_placeholders_witness:
  "MrdbParser_parse sample_cfg (Some (sample_parser py_statement)) False 128 = Some (Inr py_parsed) \<and>
   length (param_list py_parsed) = param_count py_parsed \<and> sorted_wrt (<) (param_list py_parsed) \<and>
   statement_length py_parsed \<le> length py_statement \<and> length (keys py_parsed) = 2"
  using parse_placeholders [OF sample_init py_run] py_run by (simp add: py_parsed_def)


text \<open>
  A statement without placeholders or with \<open>?\<close> placeholders reaches the server byte
  for byte as it was given.
\<close>

theorem parse_passthrough:
  assumes "MrdbParser_init True True (Some s) (length s) = Some (Some p)"
    and "MrdbParser_parse cfg (Some p) is_batch n = Some (Inr q)"
    and "paramstyle q = NONE \<or> paramstyle q = QMARK"
  shows "take (statement_length q) (statement_str q) = s"
proof -
  obtain q' where q': "text_kept (parse_start p) q'"
    "q = MrdbParser.truncate (q'\<lparr>statement_length := last_ofs q' + 1\<rparr>)"
    using parse_Inr [OF assms(1,2)] .
  with assms(3) have "\<not> rewriting q'" by (auto simp: rewriting_def)
  with q' init_Some [OF assms(1)] show ?thesis
    by (auto simp: text_kept_def parse_start_def MrdbParser.extend_def)
qed

theorem parse_passthrough_witness:
  "take (statement_length qm_parsed) (statement_str qm_parsed) = qm_statement \<and>
   param_count qm_parsed = 2"
  using parse_passthrough [OF sample_init qm_run] by (simp add: qm_parsed_def zero_parser_def)


text \<open>
  Releasing the parser after a scan, successful or not, does not fault and frees the
  key copies, as long as the key array could grow; a failed copy of a single key is
  harmless.
\<close>

theorem parse_then_end:
  assumes "\<And>k. keys_alloc cfg k"
    and "MrdbParser_init True True (Some s) (length s) = Some (Some p)"
    and "MrdbParser_parse cfg (Some p) is_batch n = Some r"
  shows "\<exists>q k. (r = Inr q \<or> (\<exists>msg. r = Inl (msg, Some q))) \<and> MrdbParser_end (Some q) = Some k"
proof -
  obtain err q where loop: "parse_loop cfg is_batch False (parse_start p) = Some (err, q)"
    "err = None \<longrightarrow> kept q \<and> text_kept (parse_start p) q" "err \<noteq> None \<longrightarrow> keys_fit cfg q"
    using parse_loop_from_init [OF assms(2)] .
  then have "keys_fit cfg q" using kept_keys_fit by blast
  then have fit: "keys q = [] \<or> length (keys q) = param_count q"
    using assms(1) by (simp add: keys_fit_def)
  then have "\<exists>k. MrdbParser_end (Some (MrdbParser.truncate q)) = Some k"
    "\<exists>k. MrdbParser_end (Some (MrdbParser.truncate (q\<lparr>statement_length := last_ofs q + 1\<rparr>))) = Some k"
    by (intro end_safe, simp)+
  with assms(3) loop(1) show ?thesis
    unfolding parse_from_init [OF assms(2)] by (cases err) auto
qed

theorem parse_then_end_witness:
  "\<exists>k. MrdbParser_parse sample_cfg (Some (sample_parser py_statement)) False 128 = Some (Inr py_parsed) \<and>
       MrdbParser_end (Some py_parsed) = Some k"
  using parse_then_end [OF _ sample_init py_run] py_run by (auto simp: sample_cfg_def)

text \<open>
  When the key array cannot grow at the second key, the parser reports "Not enough
  memory" but has already counted the parameter, and \<open>MrdbParser_end\<close> then reads past
  the end of the key array.
\<close>

theorem end_faults_after_failed_realloc:
  "\<exists>q. MrdbParser_parse (sample_cfg\<lparr>keys_alloc := (\<lambda>n. n \<noteq> 2)\<rparr>)
         (Some (sample_parser ''%(a)s %(b)s'')) False 128 = Some (Inl (''Not enough memory'', Some q)) \<and>
       MrdbParser_end (Some q) = None"
  by (simp add: parse_run_simps MrdbParser_end_def upt_rec)

text \<open>
  Quotes are not recognised in the context they stand in. An apostrophe inside a
  comment, or inside a string in double quotes, opens a literal for the parser, so that
  the placeholder that follows is not found.
\<close>

theorem quote_context_hides_placeholder:
  "\<exists>q r. MrdbParser_parse sample_cfg
           (Some (sample_parser (''/* it'' @ [CHR 0x27] @ ''s */ SELECT ?''))) False 128 = Some (Inr q) \<and>
         param_count q = 0 \<and>
         MrdbParser_parse sample_cfg
           (Some (sample_parser (''SELECT '' @ [CHR 0x22] @ ''it'' @ [CHR 0x27] @ ''s'' @ [CHR 0x22] @ '', ?''))) False 128 = Some (Inr r) \<and>
         param_count r = 0"
  by (simp add: parse_run_simps)

end
