(* ===== verification/Mrdb_Parser_Roundtrip.thy ===== *)
theory Mrdb_Parser_Roundtrip
  imports Mrdb_Parser_Safety
begin

text \<open>
  Functional correctness of the statement parser against a printer. A statement is a list
  of tokens; \<open>render\<close> prints it in one placeholder style and \<open>target\<close> with question marks.
  A token is followed through the sections of the loop body by one lemma per kind of
  token; \<open>leads\<close> chains the iterations of the loop, \<open>scan\<close> says which text is still ahead
  of the pointer, and \<open>toks_step\<close> composes the tokens of a statement by induction.
\<close>

subsection \<open>Statements as sequences of tokens\<close>

datatype tok =
    Plain char
  | Quoted char string
  | BlockComment string
  | HashComment string
  | DashComment string
  | Param bool string

abbreviation newline :: char where "newline \<equiv> CHR 0x0A"

fun param_text :: "enum_paramstyle \<Rightarrow> bool \<Rightarrow> string \<Rightarrow> string" where
  "param_text PYFORMAT d k = ''%('' @ k @ '')s''"
| "param_text FORMAT d k = (if d then ''%d'' else ''%s'')"
| "param_text _ d k = ''?''"

fun tok_text :: "string \<Rightarrow> tok \<Rightarrow> string" where
  "tok_text par (Plain c) = [c]"
| "tok_text par (Quoted q s) = [q] @ s @ [q]"
| "tok_text par (BlockComment s) = ''/*'' @ s @ ''*/''"
| "tok_text par (HashComment s) = ''#'' @ s @ [newline]"
| "tok_text par (DashComment s) = ''-- '' @ s @ [newline]"
| "tok_text par (Param d k) = par"

fun src_tok :: "enum_paramstyle \<Rightarrow> tok \<Rightarrow> string" where
  "src_tok style (Param d k) = param_text style d k"
| "src_tok style t = tok_text [] t"

definition render :: "enum_paramstyle \<Rightarrow> tok list \<Rightarrow> string" where
  "render style ts = concat (map (src_tok style) ts)"

definition target :: "tok list \<Rightarrow> string" where
  "target ts = concat (map (tok_text ''?'') ts)"

fun offsets :: "nat \<Rightarrow> tok list \<Rightarrow> nat list" where
  "offsets n [] = []"
| "offsets n (t # ts) =
     (case t of Param _ _ \<Rightarrow> [n] | _ \<Rightarrow> []) @ offsets (n + length (tok_text ''?'' t)) ts"

fun no_close :: "string \<Rightarrow> bool" where
  "no_close (a # b # cs) \<longleftrightarrow> \<not> (a = CHR ''*'' \<and> b = CHR ''/'') \<and> no_close (b # cs)"
| "no_close cs \<longleftrightarrow> True"

definition unquoted :: "string \<Rightarrow> bool" where
  "unquoted s \<longleftrightarrow> set s \<inter> set literals = {}"

definition plain_char :: "char \<Rightarrow> bool" where
  "plain_char c \<longleftrightarrow> c \<notin> set literals \<and> c \<noteq> CHR ''#'' \<and> c \<noteq> CHR ''?'' \<and> c \<noteq> CHR ''%'' \<and> c \<noteq> CHR 0x5C \<and> c \<noteq> NUL"

definition eol_text :: "string \<Rightarrow> bool" where
  "eol_text s \<longleftrightarrow> unquoted s \<and> set s \<inter> {newline, NUL, CHR ''/'', CHR ''-'', CHR ''#''} = {}"

text \<open>A token before a text whose first character is \<open>c\<close>.\<close>

fun tok_ok :: "enum_paramstyle \<Rightarrow> char \<Rightarrow> tok \<Rightarrow> bool" where
  "tok_ok style nxt (Plain c) \<longleftrightarrow> plain_char c \<and> \<not> (c = CHR ''/'' \<and> nxt = CHR ''*'') \<and> \<not> (c = CHR ''-'' \<and> nxt = CHR ''-'')"
| "tok_ok style nxt (Quoted q s) \<longleftrightarrow> q \<in> set literals \<and> unquoted s"
| "tok_ok style nxt (BlockComment s) \<longleftrightarrow> unquoted s \<and> no_close s \<and> take 1 s \<noteq> ''!'' \<and> take 2 s \<noteq> ''M!''"
| "tok_ok style nxt (HashComment s) \<longleftrightarrow> eol_text s"
| "tok_ok style nxt (DashComment s) \<longleftrightarrow> eol_text s"
| "tok_ok style nxt (Param d k) \<longleftrightarrow> style \<noteq> NONE \<and> CHR '')'' \<notin> set k \<and> NUL \<notin> set k"

fun toks_ok :: "enum_paramstyle \<Rightarrow> char \<Rightarrow> tok list \<Rightarrow> bool" where
  "toks_ok style nxt [] \<longleftrightarrow> True"
| "toks_ok style nxt (t # ts) \<longleftrightarrow>
     tok_ok style (hd (render style ts @ [nxt])) t \<and> toks_ok style nxt ts"

subsection \<open>Positions\<close>

definition scan :: "parse_state \<Rightarrow> bytes \<Rightarrow> bytes \<Rightarrow> bool" where
  "scan p out rest \<longleftrightarrow> (\<exists>junk. statement_str p = out @ rest @ NUL # junk) \<and>
     cur p = length out \<and> Suc (last_ofs p) = length out + length rest"

definition normal :: "parse_state \<Rightarrow> bool" where
  "normal p \<longleftrightarrow> in_literal p = [False, False, False] \<and> \<not> in_comment p \<and> \<not> comment_eol p \<and> lastchar p \<noteq> CHR 0x5C"

definition params :: "parse_state \<Rightarrow> enum_paramstyle \<times> nat \<times> nat list \<times> bytes option list" where
  "params p = (paramstyle p, param_count p, param_list p, keys p)"

lemma scan_rd:
  "scan p out (c # rest) \<Longrightarrow> rd (statement_str p) (cur p) = Some c"
  "scan p out (c # rest) \<Longrightarrow> rd (statement_str p) (Suc (cur p)) = Some (hd (rest @ [NUL]))"
  "scan p out (c # d # rest) \<Longrightarrow> rd (statement_str p) (Suc (Suc (cur p))) = Some (hd (rest @ [NUL]))"
  "scan p out (c # d # e # rest) \<Longrightarrow> rd (statement_str p) (Suc (Suc (Suc (cur p)))) = Some (hd (rest @ [NUL]))"
  "scan p out [] \<Longrightarrow> rd (statement_str p) (cur p) = Some NUL"
  by (cases rest; auto simp: scan_def rd_def nth_append)+

lemma scan_last: "scan p out rest \<Longrightarrow> last_ofs p = length out + length rest - 1 \<and> cur p = length out"
  by (auto simp: scan_def)

lemma scan_advance:
  "scan p out (pre @ rest) \<Longrightarrow> statement_str p' = statement_str p \<Longrightarrow> last_ofs p' = last_ofs p \<Longrightarrow>
   cur p' = cur p + length pre \<Longrightarrow> scan p' (out @ pre) rest"
  by (auto simp: scan_def)

lemma rdeq_rd: "rd b i = Some x \<Longrightarrow> rdeq b i c = Some (x = c)"
  by (auto simp: rd_def rdeq_def split: if_splits)


subsection \<open>One iteration of the loop\<close>

lemma loop_continue:
  "g \<or> cur p \<le> last_ofs p \<Longrightarrow> parse_body cfg b p = Some (Continue, p') \<Longrightarrow>
   parse_loop cfg b g p = parse_loop cfg b False p'"
  by (subst parse_loop.simps) simp

lemma loop_goto:
  "g \<or> cur p \<le> last_ofs p \<Longrightarrow> parse_body cfg b p = Some (GotoCont, p') \<Longrightarrow>
   parse_loop cfg b g p = parse_loop cfg b True p'"
  by (subst parse_loop.simps) simp

lemma literal_none:
  "rd (statement_str p) (cur p) = Some c \<Longrightarrow> c \<notin> set literals \<Longrightarrow> sec_literal p = Some (Fall, p)"
  by (auto simp: sec_literal_def literals_def)

lemma literal_some:
  assumes "rd (statement_str p) (cur p) = Some c" "c \<in> set literals" "length (in_literal p) = 3"
  obtains i where "i < 3" "literals ! i = c"
    "sec_literal p = Some (GotoCont, p\<lparr>in_literal := (in_literal p)[i := \<not> in_literal p ! i], cur := Suc (cur p)\<rparr>)"
proof -
  have "find (\<lambda>i. c = literals ! i) [0, 1, 2] \<noteq> None"
    using assms(2) by (auto simp: literals_def)
  then obtain i where i: "find (\<lambda>i. c = literals ! i) [0, 1, 2] = Some i" by blast
  then have "i < 3" "literals ! i = c" by (auto simp: literals_def split: if_splits)
  with i assms(1) that show thesis by (simp add: sec_literal_def del: find.simps)
qed

lemma seq_fall [simp]: "s p = Some (Fall, p') \<Longrightarrow> seq s t p = t p'"
  and seq_stop [simp]: "s p = Some (f, p') \<Longrightarrow> f \<noteq> Fall \<Longrightarrow> seq s t p = Some (f, p')"
  by (simp_all add: seq_def)

lemma outside_literal: "in_literal p = [False, False, False] \<Longrightarrow> sec_in_literal p = Some (Fall, p)"
  by (simp add: sec_in_literal_def IN_LITERAL_def)

lemma no_comment_start:
  assumes "rd (statement_str p) (cur p) = Some c" "\<not> in_comment p" "c \<noteq> CHR ''#''"
    "c = CHR ''/'' \<or> c = CHR ''-'' \<Longrightarrow> rd (statement_str p) (Suc (cur p)) = Some d"
    "\<not> (c = CHR ''/'' \<and> d = CHR ''*'')" "\<not> (c = CHR ''-'' \<and> d = CHR ''-'')"
  shows "sec_comment cfg p = Some (Fall, p)"
proof -
  have "sec_style1 cfg p = Some (Fall, p)" "sec_style2 p = Some (Fall, p)" "sec_style3 p = Some (Fall, p)"
    using assms by (auto simp: sec_style1_def sec_style2_def sec_style3_def Let_def rdeq_rd andalso_def)
  with assms(2) show ?thesis by (simp add: sec_comment_def)
qed

lemma body_plain:
  assumes "normal p" "rd (statement_str p) (cur p) = Some c" "c \<notin> set literals" "c \<noteq> CHR ''#''"
    "c \<noteq> CHR ''?''" "c \<noteq> CHR ''%''"
    "c = CHR ''/'' \<or> c = CHR ''-'' \<Longrightarrow> rd (statement_str p) (Suc (cur p)) = Some d"
    "\<not> (c = CHR ''/'' \<and> d = CHR ''*'')" "\<not> (c = CHR ''-'' \<and> d = CHR ''-'')"
  shows "parse_body cfg b p = sec_tail b p"
proof -
  have "sec_comment cfg p = Some (Fall, p)"
    using assms by (intro no_comment_start) (auto simp: normal_def)
  moreover have "sec_comment_eol p = Some (Fall, p)" "sec_qmark p = Some (Fall, p)"
    "sec_percent cfg p = Some (Fall, p)"
    using assms by (auto simp: sec_comment_eol_def sec_qmark_def sec_percent_def rdeq_rd normal_def)
  ultimately show ?thesis
    using literal_none [OF assms(2,3)] outside_literal [of p] assms(1)
    by (simp add: parse_body_def normal_def)
qed

lemma tail_execute:
  assumes "scan p out rest" "rd (statement_str p) (cur p) = Some c"
  shows "\<exists>cmd. sec_tail False p = Some (Continue, p\<lparr>command := cmd, lastchar := c, cur := Suc (cur p)\<rparr>)"
proof -
  have "cur p \<le> Suc (last_ofs p)" "Suc (last_ofs p) < length (statement_str p)"
    "statement_str p ! Suc (last_ofs p) = NUL"
    using assms(1) by (auto simp: scan_def nth_append)
  from find_command_total [OF this binary_command_words] obtain cmd where
    "find_command (statement_str p) (cur p) (last_ofs p) binary_command = Some cmd" ..
  then have "\<exists>cmd. sec_command p = Some (Fall, p\<lparr>command := cmd\<rparr>)"
    using exI [of "\<lambda>cmd. p = p\<lparr>command := cmd\<rparr>" "command p"]
    by (cases "command p = SQL_NONE") (auto simp: sec_command_def)
  then show ?thesis
    using assms(2) by (fastforce simp: sec_tail_def sec_advance_def)
qed


subsection \<open>One token\<close>

text \<open>\<open>leads cfg g p g' p'\<close>: the loop at \<open>p\<close> continues as the loop at \<open>p'\<close>.\<close>

definition leads :: "parse_cfg \<Rightarrow> bool \<Rightarrow> parse_state \<Rightarrow> bool \<Rightarrow> parse_state \<Rightarrow> bool" where
  "leads cfg g p g' p' \<longleftrightarrow> parse_loop cfg False g p = parse_loop cfg False g' p'"

lemma leads_refl: "leads cfg g p g p"
  and leads_trans: "leads cfg g p g' p' \<Longrightarrow> leads cfg g' p' g'' p'' \<Longrightarrow> leads cfg g p g'' p''"
  by (simp_all add: leads_def)

lemma scan_inside: "scan p out (c # rest) \<Longrightarrow> cur p \<le> last_ofs p"
  by (auto simp: scan_def)

lemma leads_continue:
  "scan p out (c # rest) \<Longrightarrow> parse_body cfg False p = Some (Continue, p') \<Longrightarrow> leads cfg g p False p'"
  using loop_continue scan_inside by (auto simp: leads_def)

lemma leads_goto:
  "scan p out (c # rest) \<Longrightarrow> parse_body cfg False p = Some (GotoCont, p') \<Longrightarrow> leads cfg g p True p'"
  using loop_goto scan_inside by (auto simp: leads_def)

text \<open>Inside a literal or a block comment, a text without quotes is skipped.\<close>

lemma skip_literal:
  "scan p out (s @ rest) \<Longrightarrow> rest \<noteq> [] \<Longrightarrow> unquoted s \<Longrightarrow> IN_LITERAL p \<Longrightarrow>
   \<exists>g'. leads cfg g p g' (p\<lparr>cur := cur p + length s\<rparr>)"
proof (induction s arbitrary: p out g)
  case Nil
  then show ?case by (auto intro: exI [of _ g] leads_refl)
next
  case (Cons c s)
  let ?p = "p\<lparr>cur := Suc (cur p)\<rparr>"
  have c: "rd (statement_str p) (cur p) = Some c" using Cons.prems(1) scan_rd(1) by simp
  have "parse_body cfg False p = Some (Continue, ?p)"
    using literal_none [OF c] Cons.prems by (simp add: parse_body_def sec_in_literal_def unquoted_def)
  with Cons.prems(1) have "leads cfg g p False ?p" by (auto intro: leads_continue)
  moreover have "\<exists>g'. leads cfg False ?p g' (?p\<lparr>cur := cur ?p + length s\<rparr>)"
    using Cons.prems by (intro Cons.IH [of _ "out @ [c]"])
      (auto simp: unquoted_def IN_LITERAL_def intro: scan_advance [where pre = "[c]"])
  ultimately show ?case by (auto intro: leads_trans)
qed

definition tok_done :: "parse_cfg \<Rightarrow> bool \<Rightarrow> parse_state \<Rightarrow> bytes \<Rightarrow> bytes \<Rightarrow>
    enum_paramstyle \<times> nat \<times> nat list \<times> bytes option list \<Rightarrow> bool" where
  "tok_done cfg g p out rest pars \<longleftrightarrow>
     (\<exists>g' p'. leads cfg g p g' p' \<and> normal p' \<and> scan p' out rest \<and> params p' = pars)"

lemma tok_doneI:
  "leads cfg g p g' p' \<Longrightarrow> normal p' \<Longrightarrow> scan p' out rest \<Longrightarrow> params p' = pars \<Longrightarrow>
   tok_done cfg g p out rest pars"
  by (auto simp: tok_done_def)

lemma tok_plain:
  assumes "scan p out (c # rest)" "normal p" "tok_ok style (hd (rest @ [NUL])) (Plain c)"
  shows "tok_done cfg g p (out @ [c]) rest (params p)"
proof -
  note rd = scan_rd(1,2) [OF assms(1)]
  obtain cmd where "sec_tail False p = Some (Continue, p\<lparr>command := cmd, lastchar := c, cur := Suc (cur p)\<rparr>)"
    using tail_execute [OF assms(1) rd(1)] by blast
  with body_plain [OF assms(2) rd(1) _ _ _ _ rd(2)] assms(3)
  have "parse_body cfg False p = Some (Continue, p\<lparr>command := cmd, lastchar := c, cur := Suc (cur p)\<rparr>)"
    by (simp add: plain_char_def)
  from leads_continue [OF assms(1) this] show ?thesis
  proof (rule tok_doneI)
    show "scan (p\<lparr>command := cmd, lastchar := c, cur := Suc (cur p)\<rparr>) (out @ [c]) rest"
      using scan_advance [of p out "[c]"] assms(1) by simp
  qed (use assms in \<open>auto simp: normal_def params_def plain_char_def\<close>)
qed

lemma quote_step:
  assumes "scan p out (q # rest)" "q \<in> set literals" "length (in_literal p) = 3"
  obtains i p' where "i < 3" "literals ! i = q" "leads cfg g p True p'" "scan p' (out @ [q]) rest"
    "p' = p\<lparr>in_literal := (in_literal p)[i := \<not> in_literal p ! i], cur := Suc (cur p)\<rparr>"
proof -
  obtain i where i: "i < 3" "literals ! i = q" "sec_literal p = Some (GotoCont,
      p\<lparr>in_literal := (in_literal p)[i := \<not> in_literal p ! i], cur := Suc (cur p)\<rparr>)"
    using literal_some [OF scan_rd(1) [OF assms(1)] assms(2,3)] .
  let ?p = "p\<lparr>in_literal := (in_literal p)[i := \<not> in_literal p ! i], cur := Suc (cur p)\<rparr>"
  have "leads cfg g p True ?p"
    using i(3) by (intro leads_goto [OF assms(1)]) (simp add: parse_body_def)
  moreover have "scan ?p (out @ [q]) rest"
    using scan_advance [of p out "[q]" rest ?p] assms(1) by simp
  ultimately show thesis using that [OF i(1,2)] by blast
qed

lemma literals_inj: "i < 3 \<Longrightarrow> j < 3 \<Longrightarrow> literals ! i = literals ! j \<Longrightarrow> i = j"
  by (auto simp: literals_def less_Suc_eq numeral_3_eq_3)

lemma three_flags:
  "i < 3 \<Longrightarrow> \<not> [False, False, False] ! i"
  "i < 3 \<Longrightarrow> in_literal p = [False, False, False][i := True] \<Longrightarrow> IN_LITERAL p"
  "i < 3 \<Longrightarrow> [False, False, False][i := True] ! i"
  by (auto simp: less_Suc_eq numeral_3_eq_3 IN_LITERAL_def)

lemma tok_quoted:
  assumes "scan p out ([q] @ s @ [q] @ rest)" "normal p" "q \<in> set literals" "unquoted s"
  shows "tok_done cfg g p (out @ [q] @ s @ [q]) rest (params p)"
proof -
  have flags: "in_literal p = [False, False, False]" using assms(2) by (simp add: normal_def)
  from assms(1) have "scan p out (q # (s @ [q] @ rest))" by simp
  then obtain i p1 where 1: "i < 3" "literals ! i = q" "leads cfg g p True p1"
    "scan p1 (out @ [q]) (s @ [q] @ rest)"
    "p1 = p\<lparr>in_literal := (in_literal p)[i := \<not> in_literal p ! i], cur := Suc (cur p)\<rparr>"
    using flags by (elim quote_step [OF _ assms(3)]) auto
  have in1: "in_literal p1 = [False, False, False][i := True]"
    using 1(1,5) flags three_flags(1) by simp
  have len1: "length (in_literal p1) = 3" using in1 by (simp only: length_list_update) simp
  obtain g2 where 2: "leads cfg True p1 g2 (p1\<lparr>cur := cur p1 + length s\<rparr>)"
    using skip_literal [OF 1(4) _ assms(4) three_flags(2) [OF 1(1) in1]] by blast
  let ?p2 = "p1\<lparr>cur := cur p1 + length s\<rparr>"
  have "scan ?p2 ((out @ [q]) @ s) (q # rest)"
    using scan_advance [OF 1(4), of ?p2] by simp
  then obtain j p3 where 3: "j < 3" "literals ! j = q" "leads cfg g2 ?p2 True p3"
    "scan p3 (((out @ [q]) @ s) @ [q]) rest"
    "p3 = ?p2\<lparr>in_literal := (in_literal ?p2)[j := \<not> in_literal ?p2 ! j], cur := Suc (cur ?p2)\<rparr>"
    using len1 by (elim quote_step [OF _ assms(3)]) auto
  have "j = i" using literals_inj 1(1,2) 3(1,2) by simp
  then have "in_literal p3 = [False, False, False]"
    using 3(5) in1 1(1) by (auto simp: less_Suc_eq numeral_3_eq_3)
  moreover have "leads cfg g p True p3" using 1(3) 2 3(3) leads_trans by blast
  ultimately show ?thesis
    using assms(2) 1(5) 3(4,5) by (intro tok_doneI [of cfg g p True p3]) (auto simp: normal_def params_def)
qed


lemma body_in_comment:
  assumes "rd (statement_str p) (cur p) = Some c" "c \<notin> set literals" "\<not> IN_LITERAL p" "in_comment p"
    "c = CHR ''*'' \<Longrightarrow> rd (statement_str p) (Suc (cur p)) = Some d"
  shows "parse_body cfg b p = Some (Continue, if c = CHR ''*'' \<and> d = CHR ''/''
     then p\<lparr>cur := cur p + 2, in_comment := False\<rparr> else p\<lparr>cur := Suc (cur p)\<rparr>)"
  using literal_none [OF assms(1,2)] assms
  by (cases "c = CHR ''*''")
    (simp_all add: parse_body_def sec_in_literal_def sec_comment_def sec_in_comment_def rdeq_rd)

lemma skip_block:
  "scan p out (s @ CHR ''*'' # rest) \<Longrightarrow> unquoted s \<Longrightarrow> no_close (s @ ''*'') \<Longrightarrow>
   \<not> IN_LITERAL p \<Longrightarrow> in_comment p \<Longrightarrow>
   \<exists>g'. leads cfg g p g' (p\<lparr>cur := cur p + length s\<rparr>)"
proof (induction s arbitrary: p out g)
  case Nil
  then show ?case by (auto intro: exI [of _ g] leads_refl)
next
  case (Cons c s)
  let ?p = "p\<lparr>cur := Suc (cur p)\<rparr>" and ?d = "hd (s @ ''*'')"
  from Cons.prems(1) have s: "scan p out (c # (s @ CHR ''*'' # rest))" by simp
  have "parse_body cfg False p = Some (Continue, ?p)"
    using body_in_comment [OF scan_rd(1) [OF s] _ Cons.prems(4,5), of ?d] scan_rd(2) [OF s] Cons.prems(2,3)
    by (cases s) (auto simp: unquoted_def)
  from leads_continue [OF s this] have "leads cfg g p False ?p" .
  moreover have "scan ?p (out @ [c]) (s @ CHR ''*'' # rest)"
    using scan_advance [of p out "[c]" _ ?p] s by simp
  moreover have "no_close (s @ ''*'')" using Cons.prems(3) by (cases s) auto
  ultimately show ?case
    using Cons.IH [of ?p "out @ [c]" False] Cons.prems
    by (auto simp: unquoted_def IN_LITERAL_def intro: leads_trans)
qed

lemma body_open_comment:
  assumes "normal p" "rd (statement_str p) (cur p) = Some (CHR ''/'')"
    "rd (statement_str p) (Suc (cur p)) = Some (CHR ''*'')"
    "rd (statement_str p) (Suc (Suc (cur p))) = Some e" "e \<noteq> CHR ''!''"
    "e = CHR ''M'' \<Longrightarrow> rd (statement_str p) (Suc (Suc (Suc (cur p)))) = Some f"
    "\<not> (e = CHR ''M'' \<and> f = CHR ''!'')"
  shows "parse_body cfg b p = Some (Continue, p\<lparr>cur := cur p + 2, in_comment := True\<rparr>)"
proof -
  let ?p = "p\<lparr>cur := cur p + 2\<rparr>"
  have "sec_bang cfg ?p = Some (Fall, ?p)"
    using assms(4,5) by (cases "cur p + 3 < last_ofs p") (simp_all add: sec_bang_def Let_def rdeq_rd)
  moreover have "sec_mbang cfg ?p = Some (Fall, ?p)"
    using assms(4,6,7)
    by (cases "cur p + 4 < last_ofs p"; cases "e = CHR ''M''") (simp_all add: sec_mbang_def Let_def rdeq_rd)
  ultimately have "sec_style1 cfg p = Some (Continue, p\<lparr>cur := cur p + 2, in_comment := True\<rparr>)"
    using assms(2,3) by (simp add: sec_style1_def Let_def rdeq_rd sec_set_comment_def)
  moreover have "CHR ''/'' \<notin> set literals" by (simp add: literals_def)
  ultimately show ?thesis
    using literal_none [OF assms(2)] outside_literal [of p] assms(1)
    by (simp add: parse_body_def normal_def sec_comment_def)
qed

lemma no_close_star: "no_close s \<Longrightarrow> no_close (s @ ''*'')"
  by (induction s rule: no_close.induct) auto

lemma tok_block:
  assumes "scan p out (''/*'' @ s @ ''*/'' @ rest)" "normal p"
    "unquoted s" "no_close s" "take 1 s \<noteq> ''!''" "take 2 s \<noteq> ''M!''"
  shows "tok_done cfg g p (out @ ''/*'' @ s @ ''*/'') rest (params p)"
proof -
  let ?p1 = "p\<lparr>cur := cur p + 2, in_comment := True\<rparr>"
  from assms(1) have s0: "scan p out (CHR ''/'' # CHR ''*'' # (s @ ''*/'' @ rest))" by simp
  obtain e f zs where ef: "s @ ''*/'' @ rest = e # f # zs" "e \<noteq> CHR ''!''" "\<not> (e = CHR ''M'' \<and> f = CHR ''!'')"
    using assms(5,6) by (cases s; cases "tl s") (auto simp: numeral_2_eq_2)
  with s0 have s0': "scan p out (CHR ''/'' # CHR ''*'' # e # f # zs)" by simp
  have "parse_body cfg False p = Some (Continue, ?p1)"
    using body_open_comment [OF assms(2) scan_rd(1) [OF s0'] _ _ ef(2) _ ef(3)]
      scan_rd(2-4) [OF s0'] by simp
  from leads_continue [OF s0 this] have l1: "leads cfg g p False ?p1" .
  have s1: "scan ?p1 (out @ ''/*'') (s @ CHR ''*'' # (CHR ''/'' # rest))"
    using scan_advance [OF assms(1), of ?p1] by simp
  have nolit: "\<not> IN_LITERAL ?p1" using assms(2) by (simp add: normal_def IN_LITERAL_def)
  obtain g2 where l2: "leads cfg False ?p1 g2 (?p1\<lparr>cur := cur ?p1 + length s\<rparr>)"
    using skip_block [OF s1 assms(3) no_close_star [OF assms(4)] nolit] by auto
  let ?p2 = "?p1\<lparr>cur := cur ?p1 + length s\<rparr>" 
  let ?p3 = "?p2\<lparr>cur := cur ?p2 + 2, in_comment := False\<rparr>"
  have s2: "scan ?p2 ((out @ ''/*'') @ s) (''*/'' @ rest)"
    using scan_advance [OF s1, of ?p2] by simp
  have "parse_body cfg False ?p2 = Some (Continue, ?p3)"
    using body_in_comment [of ?p2 "CHR ''*''" "CHR ''/''" cfg False] nolit
      scan_rd(1,2) [of ?p2 "(out @ ''/*'') @ s" "CHR ''*''" "CHR ''/'' # rest"] s2
    by (simp add: literals_def IN_LITERAL_def)
  then have "leads cfg g2 ?p2 False ?p3"
    using s2 by (intro leads_continue) auto
  with l1 l2 have "leads cfg g p False ?p3" using leads_trans by blast
  then show ?thesis
  proof (rule tok_doneI)
    show "scan ?p3 (out @ ''/*'' @ s @ ''*/'') rest"
      using scan_advance [OF s2, of ?p3] by simp
  qed (use assms(2) in \<open>auto simp: normal_def params_def\<close>)
qed

text \<open>Comments up to the end of the line.\<close>

lemma body_eol:
  assumes "rd (statement_str p) (cur p) = Some c" "c \<notin> set literals" "\<not> IN_LITERAL p" "\<not> in_comment p"
    "comment_eol p" "c \<noteq> CHR ''/''" "c \<noteq> CHR ''-''" "c \<noteq> CHR ''#''"
  shows "parse_body cfg b p = Some (Continue, if c = NUL \<or> c = newline
    then p\<lparr>cur := Suc (cur p), comment_eol := False\<rparr> else p\<lparr>cur := Suc (cur p)\<rparr>)"
proof -
  have "sec_comment cfg p = Some (Fall, p)"
    using assms by (intro no_comment_start [OF assms(1)]) auto
  then show ?thesis
    using literal_none [OF assms(1,2)] assms
    by (simp add: parse_body_def sec_in_literal_def sec_comment_eol_def)
qed

lemma skip_eol:
  "scan p out (s @ [newline] @ rest) \<Longrightarrow> eol_text s \<Longrightarrow> \<not> IN_LITERAL p \<Longrightarrow> \<not> in_comment p \<Longrightarrow> comment_eol p \<Longrightarrow>
   leads cfg g p False (p\<lparr>cur := cur p + length s + 1, comment_eol := False\<rparr>)"
proof (induction s arbitrary: p out g)
  case Nil
  then have "scan p out (newline # rest)" by simp
  from leads_continue [OF this] body_eol [OF scan_rd(1) [OF this] _ Nil(3,4,5)] show ?case
    by (simp add: literals_def)
next
  case (Cons c s)
  let ?p = "p\<lparr>cur := Suc (cur p)\<rparr>"
  from Cons.prems(1) have s: "scan p out (c # (s @ [newline] @ rest))" by simp
  have "parse_body cfg False p = Some (Continue, ?p)"
    using body_eol [OF scan_rd(1) [OF s] _ Cons.prems(3-5)] Cons.prems(2)
    by (auto simp: eol_text_def unquoted_def)
  from leads_continue [OF s this] have "leads cfg g p False ?p" .
  moreover have "scan ?p (out @ [c]) (s @ [newline] @ rest)"
    using scan_advance [of p out "[c]" _ ?p] s by simp
  ultimately show ?case
    using Cons.IH [of ?p "out @ [c]" False] Cons.prems
    by (auto simp: eol_text_def unquoted_def IN_LITERAL_def intro: leads_trans)
qed

lemma tok_eol:
  assumes "scan p out (pre @ s @ [newline] @ rest)" "normal p" "eol_text s"
    "rd (statement_str p) (cur p) = Some c" "c \<notin> set literals"
    "sec_comment cfg p = Some (Fall, p\<lparr>cur := cur p + length pre, comment_eol := True\<rparr>)"
  shows "tok_done cfg g p (out @ pre @ s @ [newline]) rest (params p)"
proof -
  let ?p1 = "p\<lparr>cur := cur p + length pre, comment_eol := True\<rparr>"
    and ?d = "hd (s @ [newline])"
  let ?p2 = "?p1\<lparr>cur := Suc (cur ?p1), comment_eol := (?d \<noteq> newline)\<rparr>"
    and ?p3 = "?p1\<lparr>cur := cur ?p1 + length s + 1, comment_eol := False\<rparr>"
  have s1: "scan ?p1 (out @ pre) (s @ [newline] @ rest)"
    using scan_advance [OF assms(1), of ?p1] by simp
  have d: "rd (statement_str ?p1) (cur ?p1) = Some ?d"
    using scan_rd(1) [of ?p1 "out @ pre"] s1 by (cases s) auto
  have "?d \<noteq> NUL" using assms(3) by (cases s) (auto simp: eol_text_def)
  then have "parse_body cfg False p = Some (Continue, ?p2)"
    using literal_none [OF assms(4,5)] outside_literal [of p] assms(2,6) d
    by (auto simp: parse_body_def sec_comment_eol_def normal_def)
  then have "parse_loop cfg False g p = parse_loop cfg False False ?p2"
    using assms(1) by (intro loop_continue) (auto simp: scan_def)
  moreover have "leads cfg False ?p2 False ?p3"
  proof (cases s)
    case (Cons c' s')
    have "scan ?p2 ((out @ pre) @ [c']) (s' @ [newline] @ rest)"
      using scan_advance [of ?p1 "out @ pre" "[c']" _ ?p2] s1 Cons by simp
    from skip_eol [OF this, of cfg False] assms(2,3) Cons show ?thesis
      by (auto simp: eol_text_def unquoted_def normal_def IN_LITERAL_def)
  qed (simp add: leads_refl)
  ultimately have "leads cfg g p False ?p3" by (simp add: leads_def)
  then show ?thesis
  proof (rule tok_doneI)
    show "scan ?p3 (out @ pre @ s @ [newline]) rest"
      using scan_advance [of ?p1 "out @ pre" "s @ [newline]" rest ?p3] s1 by simp
  qed (use assms(2) in \<open>auto simp: normal_def params_def\<close>)
qed

lemma tok_hash:
  assumes "scan p out (''#'' @ s @ [newline] @ rest)" "normal p" "eol_text s"
  shows "tok_done cfg g p (out @ ''#'' @ s @ [newline]) rest (params p)"
proof (rule tok_eol [OF assms])
  from assms(1) have s: "scan p out (CHR ''#'' # s @ [newline] @ rest)" by simp
  from scan_rd(1) [OF s] show rd: "rd (statement_str p) (cur p) = Some (CHR ''#'')" .
  show "CHR ''#'' \<notin> set literals" by (simp add: literals_def)
  have "hd (s @ [newline]) \<noteq> CHR ''-''" using assms(3) by (cases s) (auto simp: eol_text_def)
  moreover have "rd (statement_str p) (Suc (cur p)) = Some (hd (s @ [newline]))"
    using scan_rd(2) [OF s] by (cases s) auto
  ultimately show "sec_comment cfg p = Some (Fall, p\<lparr>cur := cur p + length ''#'', comment_eol := True\<rparr>)"
    using assms(2) rd
    by (simp add: sec_comment_def sec_style1_def sec_style2_def sec_style3_def Let_def rdeq_rd normal_def seq_def)
qed

lemma tok_dash:
  assumes "scan p out (''-- '' @ s @ [newline] @ rest)" "normal p" "eol_text s"
  shows "tok_done cfg g p (out @ ''-- '' @ s @ [newline]) rest (params p)"
proof (rule tok_eol [OF assms])
  from assms(1) have s: "scan p out (CHR ''-'' # CHR ''-'' # CHR '' '' # s @ [newline] @ rest)" by simp
  from scan_rd(1) [OF s] show rd: "rd (statement_str p) (cur p) = Some (CHR ''-'')" .
  show "CHR ''-'' \<notin> set literals" by (simp add: literals_def)
  have "cur p + 2 < last_ofs p" using s by (auto simp: scan_def)
  then show "sec_comment cfg p = Some (Fall, p\<lparr>cur := cur p + length ''-- '', comment_eol := True\<rparr>)"
    using assms(2) rd scan_rd(2,3) [OF s]
    by (simp add: sec_comment_def sec_style1_def sec_style2_def sec_style3_def Let_def rdeq_rd normal_def seq_def eval_nat_numeral)
qed

subsection \<open>Placeholders\<close>

lemma body_placeholder:
  assumes "normal p" "rd (statement_str p) (cur p) = Some c" "c = CHR ''?'' \<or> c = CHR ''%''"
  shows "parse_body cfg b p = seq sec_qmark (seq (sec_percent cfg) (sec_tail b)) p"
proof -
  have "sec_comment cfg p = Some (Fall, p)"
    using assms by (intro no_comment_start [OF assms(2)]) (auto simp: normal_def)
  moreover have "c \<notin> set literals" using assms(3) by (auto simp: literals_def)
  ultimately show ?thesis
    using literal_none [OF assms(2)] outside_literal [of p] assms(1)
    by (simp add: parse_body_def normal_def sec_comment_eol_def)
qed

lemma moved_gap:
  "moved (xs @ gap @ ys @ zs) (length xs) (length xs + length gap) (length ys) =
   xs @ ys @ drop (length ys) (gap @ ys @ zs)"
  by (simp add: moved_def)

definition add_param :: "enum_paramstyle \<Rightarrow> nat \<Rightarrow> bytes \<Rightarrow>
    enum_paramstyle \<times> nat \<times> nat list \<times> bytes option list \<Rightarrow>
    enum_paramstyle \<times> nat \<times> nat list \<times> bytes option list" where
  "add_param style n k = (\<lambda>(st, c, ofs, ks).
     (style, Suc c, ofs @ [n], if style = PYFORMAT then ks @ [Some k] else ks))"

lemma tok_qmark:
  assumes "scan p out (CHR ''?'' # rest)" "normal p" "paramstyle p = NONE \<or> paramstyle p = QMARK"
  shows "tok_done cfg g p (out @ ''?'') rest (add_param QMARK (length out) k (params p))"
proof -
  note rd = scan_rd(1) [OF assms(1)]
  let ?p = "p\<lparr>paramstyle := QMARK, param_count := Suc (param_count p),
    param_list := param_list p @ [cur p], cur := Suc (cur p)\<rparr>"
  have "parse_body cfg False p = Some (Continue, ?p)"
    using body_placeholder [OF assms(2) rd] rd assms(3) by (auto simp: sec_qmark_def rdeq_rd)
  from leads_continue [OF assms(1) this] show ?thesis
  proof (rule tok_doneI)
    show "scan ?p (out @ ''?'') rest" using scan_advance [of p out "''?''" rest ?p] assms(1) by simp
    show "params ?p = add_param QMARK (length out) k (params p)"
      using scan_last [OF assms(1)] by (simp add: params_def add_param_def)
  qed (use assms(2) in \<open>simp add: normal_def\<close>)
qed

lemma percent_sections:
  assumes "normal p" "rd (statement_str p) (cur p) = Some (CHR ''%'')"
  shows "parse_body cfg b p = seq (seq sec_format (sec_pyformat cfg)) (sec_tail b) p"
  using body_placeholder [OF assms] assms
  by (simp add: sec_qmark_def rdeq_rd seq_def sec_percent_def normal_def)

lemma tok_format:
  assumes "scan p out (CHR ''%'' # c # rest)" "c = CHR ''s'' \<or> c = CHR ''d''" "normal p"
    "paramstyle p = NONE \<or> paramstyle p = FORMAT"
  shows "tok_done cfg g p (out @ ''?'') rest (add_param FORMAT (length out) k (params p))"
proof -
  note rd = scan_rd(1,2) [OF assms(1)]
  obtain junk where b: "statement_str p = out @ CHR ''%'' # c # rest @ NUL # junk"
    and cur: "cur p = length out" and last: "last_ofs p = Suc (length out + length rest)"
    using assms(1) by (auto simp: scan_def)
  let ?b = "(out @ ''?'') @ (rest @ [NUL]) @ drop (Suc (length rest)) ([c] @ (rest @ [NUL]) @ junk)"
  let ?p = "p\<lparr>paramstyle := FORMAT, statement_str := ?b, last_ofs := last_ofs p - 1,
    param_list := param_list p @ [cur p], cur := cur p + 1, param_count := param_count p + 1\<rparr>"
  have "memmove ((statement_str p)[cur p := CHR ''?'']) (cur p + 1) (cur p + 2)
      (size_diff (last_ofs p) (cur p)) = Some ?b"
    using moved_gap [of "out @ ''?''" "[c]" "rest @ [NUL]" junk]
    by (simp add: b cur last memmove_def)
  then have "sec_format p = Some (Continue, ?p)"
    using rd(2) assms(2,4) by (auto simp: sec_format_def Let_def)
  then have "parse_body cfg False p = Some (Continue, ?p)"
    using percent_sections [OF assms(3) rd(1)] by (simp add: seq_def)
  from leads_continue [OF assms(1) this] show ?thesis
  proof (rule tok_doneI)
    show "scan ?p (out @ ''?'') rest" by (simp add: scan_def cur last)
    show "params ?p = add_param FORMAT (length out) k (params p)"
      by (simp add: params_def add_param_def cur)
  qed (use assms(3) in \<open>simp add: normal_def\<close>)
qed

lemma strstr_key:
  "CHR '')'' \<notin> set k \<Longrightarrow> NUL \<notin> set k \<Longrightarrow> strstr (k @ '')s'' @ rest) '')s'' = Some (length k)"
  by (induction k) auto

lemma tok_pyformat:
  assumes "scan p out (''%('' @ k @ '')s'' @ rest)" "CHR '')'' \<notin> set k" "NUL \<notin> set k" "normal p"
    "paramstyle p = NONE \<or> paramstyle p = PYFORMAT" "\<And>n. keys_alloc cfg n" "\<And>n. key_alloc cfg n"
  shows "tok_done cfg g p (out @ ''?'') rest (add_param PYFORMAT (length out) k (params p))"
proof -
  from assms(1) have s: "scan p out (CHR ''%'' # CHR ''('' # (k @ '')s'' @ rest))" by simp
  note rd = scan_rd(1,2) [OF s]
  obtain junk where b: "statement_str p = out @ CHR ''%'' # CHR ''('' # k @ '')s'' @ rest @ NUL # junk"
    and cur: "cur p = length out" and last: "last_ofs p = length out + length k + 3 + length rest"
    using assms(1) by (auto simp: scan_def)
  let ?gap = "CHR ''('' # k @ '')s''"
  let ?b = "(out @ ''?'') @ (rest @ [NUL]) @ drop (Suc (length rest)) (?gap @ (rest @ [NUL]) @ junk)"
  let ?p = "p\<lparr>paramstyle := PYFORMAT, statement_str := ?b, param_count := param_count p + 1,
    param_list := param_list p @ [cur p], keys := keys p @ [Some k], cur := cur p + 1,
    last_ofs := last_ofs p - (length k + 3)\<rparr>"
  have find: "strstr (drop (cur p + 1) (statement_str p)) '')s'' = Some (Suc (length k))"
    using strstr_key [of "CHR ''('' # k" "rest @ NUL # junk"] assms(2,3) by (simp add: b cur)
  have "memmove ((statement_str p)[cur p := CHR ''?'']) (cur p + 1) (cur p + 1 + Suc (length k) + 2)
      (size_diff (last_ofs p + 1) (cur p + (length k + 3))) = Some ?b"
    using moved_gap [of "out @ ''?''" ?gap "rest @ [NUL]" junk]
    by (simp add: b cur last memmove_def size_diff_def)
  moreover have "take (length k) (drop (cur p + 2) ((statement_str p)[cur p := CHR ''?''])) = k"
    by (simp add: b cur)
  ultimately have "sec_pyformat cfg p = Some (Continue, ?p)"
    using rd(2) assms(5-7) find by (auto simp: sec_pyformat_def Let_def alloc_key_def eval_nat_numeral)
  moreover have "sec_format p = Some (Fall, p)" using rd(2) by (simp add: sec_format_def Let_def)
  ultimately have "parse_body cfg False p = Some (Continue, ?p)"
    using percent_sections [OF assms(4) rd(1)] by (simp add: seq_def)
  from leads_continue [OF s this] show ?thesis
  proof (rule tok_doneI)
    show "scan ?p (out @ ''?'') rest" by (simp add: scan_def cur last)
    show "params ?p = add_param PYFORMAT (length out) k (params p)"
      by (simp add: params_def add_param_def cur)
  qed (use assms(4) in \<open>simp add: normal_def\<close>)
qed

subsection \<open>A whole statement\<close>

fun param_names :: "tok list \<Rightarrow> string list" where
  "param_names [] = []"
| "param_names (t # ts) = (case t of Param _ k \<Rightarrow> [k] | _ \<Rightarrow> []) @ param_names ts"

definition tok_params :: "enum_paramstyle \<Rightarrow> nat \<Rightarrow> tok \<Rightarrow>
    enum_paramstyle \<times> nat \<times> nat list \<times> bytes option list \<Rightarrow>
    enum_paramstyle \<times> nat \<times> nat list \<times> bytes option list" where
  "tok_params style n t pars = (case t of Param d k \<Rightarrow> add_param style n k pars | _ \<Rightarrow> pars)"

fun toks_params where
  "toks_params style n [] pars = pars"
| "toks_params style n (t # ts) pars =
     toks_params style (n + length (tok_text ''?'' t)) ts (tok_params style n t pars)"

lemma toks_params_eq:
  "toks_params style n ts (st, c, ofs, ks) =
     (if param_names ts = [] then st else style, c + length (param_names ts), ofs @ offsets n ts,
      if style = PYFORMAT then ks @ map Some (param_names ts) else ks)"
  by (induction ts arbitrary: n st c ofs ks)
    (auto simp: tok_params_def add_param_def split: tok.splits)

lemma tok_step:
  assumes "scan p out (src_tok style t @ rest)" "normal p" "tok_ok style (hd (rest @ [NUL])) t"
    "paramstyle p = NONE \<or> paramstyle p = style" "\<And>n. keys_alloc cfg n" "\<And>n. key_alloc cfg n"
  shows "tok_done cfg g p (out @ tok_text ''?'' t) rest (tok_params style (length out) t (params p))"
proof (cases t)
  case (Param d k)
  with assms show ?thesis
    by (cases style) (auto simp: tok_params_def intro: tok_qmark tok_format tok_pyformat [simplified] split: if_splits)
qed (use assms tok_plain [of p out _ rest style] tok_quoted [of p out _ _ rest] tok_block [of p out _ rest]
       tok_hash [of p out _ rest] tok_dash [of p out _ rest] in \<open>auto simp: tok_params_def\<close>)

lemma render_Cons [simp]: "render style (t # ts) = src_tok style t @ render style ts"
  and render_Nil [simp]: "render style [] = []"
  and target_Cons [simp]: "target (t # ts) = tok_text ''?'' t @ target ts"
  and target_Nil [simp]: "target [] = []"
  by (simp_all add: render_def target_def)

lemma hd_follow: "hd ((xs @ rest) @ [NUL]) = hd (xs @ [hd (rest @ [NUL])])"
  by (cases xs) auto

lemma toks_step:
  "scan p out (render style ts @ rest) \<Longrightarrow> normal p \<Longrightarrow> toks_ok style (hd (rest @ [NUL])) ts \<Longrightarrow>
   paramstyle p = NONE \<or> paramstyle p = style \<Longrightarrow> (\<And>n. keys_alloc cfg n) \<Longrightarrow> (\<And>n. key_alloc cfg n) \<Longrightarrow>
   tok_done cfg g p (out @ target ts) rest (toks_params style (length out) ts (params p))"
proof (induction ts arbitrary: p out g)
  case Nil
  then show ?case by (auto intro: tok_doneI [OF leads_refl])
next
  case (Cons t ts)
  have "tok_done cfg g p (out @ tok_text ''?'' t) (render style ts @ rest)
      (tok_params style (length out) t (params p))"
    using Cons.prems by (intro tok_step) (simp_all add: hd_follow [symmetric])
  then obtain g' p' where 1: "leads cfg g p g' p'" "normal p'"
    "scan p' (out @ tok_text ''?'' t) (render style ts @ rest)"
    "params p' = tok_params style (length out) t (params p)"
    by (auto simp: tok_done_def)
  have "paramstyle p' = NONE \<or> paramstyle p' = style"
    using 1(4) Cons.prems(4) by (cases t) (auto simp: params_def tok_params_def add_param_def)
  from Cons.IH [OF 1(3,2) _ this Cons.prems(5,6), of g'] Cons.prems(3) 1(1,4) show ?case
    by (auto simp: tok_done_def intro: leads_trans)
qed

text \<open>At the end of the text the loop stops, if need be after one look at the NUL.\<close>

lemma loop_end:
  assumes "scan p out []" "normal p"
  shows "\<exists>q. parse_loop cfg False g p = Some (None, q) \<and> params q = params p \<and>
     Suc (last_ofs q) = length out \<and> take (length out) (statement_str q) = out"
proof (cases g)
  case False
  with assms(1) show ?thesis by (subst parse_loop.simps) (auto simp: scan_def)
next
  case True
  note rd = scan_rd(5) [OF assms(1)]
  obtain cmd where "sec_tail False p = Some (Continue, p\<lparr>command := cmd, lastchar := NUL, cur := Suc (cur p)\<rparr>)"
    (is "_ = Some (_, ?p)") using tail_execute [OF assms(1) rd] by blast
  with body_plain [OF assms(2) rd] have "parse_body cfg False p = Some (Continue, ?p)"
    by (simp add: literals_def)
  with True have "parse_loop cfg False g p = parse_loop cfg False False ?p"
    by (intro loop_continue) auto
  also have "\<dots> = Some (None, ?p)"
    using assms(1) by (subst parse_loop.simps) (auto simp: scan_def)
  finally show ?thesis using assms(1) by (auto simp: scan_def params_def)
qed

subsection \<open>Properties\<close>

lemma start_state:
  assumes "MrdbParser_init True True (Some s) (length s) = Some (Some p)"
  shows "scan (parse_start p) [] s" "normal (parse_start p)" "paramstyle (parse_start p) = NONE"
    "params (parse_start p) = (NONE, 0, [], [])"
  using init_Some [OF assms]
  by (auto simp: scan_def normal_def params_def parse_start_def zero_parser_def MrdbParser.extend_def)

lemma parse_tokens:
  assumes "toks_ok style NUL ts"
    and "MrdbParser_init True True (Some (render style ts)) (length (render style ts)) = Some (Some p)"
    and "\<And>n. keys_alloc cfg n" and "\<And>n. key_alloc cfg n"
  shows "\<exists>q. MrdbParser_parse cfg (Some p) False n = Some (Inr q) \<and>
    take (statement_length q) (statement_str q) = target ts \<and> param_list q = offsets 0 ts \<and>
    param_count q = length (param_names ts) \<and>
    paramstyle q = (if param_names ts = [] then NONE else style) \<and>
    keys q = (if style = PYFORMAT then map Some (param_names ts) else [])"
proof -
  note st = start_state [OF assms(2)]
  have "tok_done cfg False (parse_start p) ([] @ target ts) []
      (toks_params style (length ([] :: bytes)) ts (params (parse_start p)))"
    using st(1-3) assms by (intro toks_step) auto
  then obtain g' p' where 1: "leads cfg False (parse_start p) g' p'" "normal p'" "scan p' (target ts) []"
    "params p' = toks_params style 0 ts (NONE, 0, [], [])"
    using st(4) by (auto simp: tok_done_def)
  obtain q where q: "parse_loop cfg False g' p' = Some (None, q)" "params q = params p'"
    "Suc (last_ofs q) = length (target ts)" "take (length (target ts)) (statement_str q) = target ts"
    using loop_end [OF 1(3,2)] by blast
  with 1(1) have "parse_loop cfg False False (parse_start p) = Some (None, q)"
    by (simp add: leads_def)
  with q 1(4) show ?thesis
    by (simp add: parse_from_init [OF assms(2)] toks_params_eq params_def)
qed

text \<open>
  C4: scanning a statement printed from tokens in one placeholder style (ordinary
  characters, literals, comments of the three kinds, placeholders) for \<open>execute\<close> yields
  the statement printed with \<open>?\<close> placeholders, the offset of each of them, and in the
  pyformat style the list of the keys; nothing inside a literal or a comment is taken
  for a placeholder.
\<close>

theorem parse_roundtrip:
  assumes "toks_ok style NUL ts"
    and "MrdbParser_init True True (Some (render style ts)) (length (render style ts)) = Some (Some p)"
    and "\<And>n. keys_alloc cfg n" and "\<And>n. key_alloc cfg n"
  shows "\<exists>q. MrdbParser_parse cfg (Some p) False n = Some (Inr q) \<and>
    take (statement_length q) (statement_str q) = target ts \<and> param_list q = offsets 0 ts \<and>
    param_count q = length (param_names ts) \<and>
    paramstyle q = (if param_names ts = [] then NONE else style) \<and>
    keys q = (if style = PYFORMAT then map Some (param_names ts) else [])"
  by (rule parse_tokens [OF assms])

definition sample_toks :: "tok list" where
  "sample_toks = map Plain ''SELECT '' @ [Param False ''id''] @ map Plain '' AS a, '' @
     [Quoted (CHR 0x27) ''%s ?'', BlockComment '' %(x)s '', Param False ''nm'', HashComment '' why? %s'']"

lemma sample_alloc: "keys_alloc sample_cfg n" "key_alloc sample_cfg n"
  by (simp_all add: sample_cfg_def)

theorem parse_roundtrip_witness:
  "\<exists>q. MrdbParser_parse sample_cfg (Some (sample_parser (render PYFORMAT sample_toks))) False 128 = Some (Inr q) \<and>
    take (statement_length q) (statement_str q) =
      ''SELECT ? AS a, '' @ [CHR 0x27] @ ''%s ?'' @ [CHR 0x27] @ ''/* %(x)s */?# why? %s'' @ [newline] \<and>
    param_list q = [7, 32] \<and> keys q = [Some ''id'', Some ''nm'']"
proof -
  have "toks_ok PYFORMAT NUL sample_toks"
    by (simp add: sample_toks_def render_def unquoted_def eol_text_def plain_char_def literals_def)
  moreover have "render PYFORMAT sample_toks \<noteq> []" by (simp add: sample_toks_def)
  moreover have "target sample_toks =
      ''SELECT ? AS a, '' @ [CHR 0x27] @ ''%s ?'' @ [CHR 0x27] @ ''/* %(x)s */?# why? %s'' @ [newline]"
    "offsets 0 sample_toks = [7, 32]" "param_names sample_toks = [''id'', ''nm'']"
    by (simp_all add: sample_toks_def)
  ultimately show ?thesis
    using parse_roundtrip [OF _ sample_init, of PYFORMAT sample_toks sample_cfg 128]
    by (auto simp: sample_alloc)
qed

lemma body_mixing:
  assumes "scan p out (param_text st d k @ rest)" "normal p" "st \<noteq> NONE" "CHR '')'' \<notin> set k" "NUL \<notin> set k"
    "paramstyle p \<noteq> NONE" "paramstyle p \<noteq> st"
  shows "parse_body cfg b p = Some (Return mixing_error, p)"
proof (cases st)
  case QMARK
  then have "rd (statement_str p) (cur p) = Some (CHR ''?'')" using scan_rd(1) assms(1) by simp
  with body_placeholder [OF assms(2) this] assms(6,7) QMARK show ?thesis
    by (simp add: sec_qmark_def rdeq_rd)
next
  case FORMAT
  then have s: "scan p out (CHR ''%'' # (if d then CHR ''d'' else CHR ''s'') # rest)"
    using assms(1) by (cases d) auto
  note rd = scan_rd(1,2) [OF s]
  then have "sec_format p = Some (Return mixing_error, p)"
    using assms(6,7) FORMAT by (simp add: sec_format_def Let_def split: if_splits)
  then show ?thesis using percent_sections [OF assms(2) rd(1)] by simp
next
  case PYFORMAT
  then have s: "scan p out (CHR ''%'' # CHR ''('' # k @ '')s'' @ rest)" using assms(1) by simp
  note rd = scan_rd(1,2) [OF s]
  obtain junk where "drop (cur p + 1) (statement_str p) = CHR ''('' # k @ '')s'' @ rest @ NUL # junk"
    using s by (auto simp: scan_def)
  then have "strstr (drop (cur p + 1) (statement_str p)) '')s'' = Some (Suc (length k))"
    using strstr_key [of "CHR ''('' # k" "rest @ NUL # junk"] assms(4,5) by simp
  then have "sec_pyformat cfg p = Some (Return mixing_error, p)"
    using rd assms(6,7) PYFORMAT by (simp add: sec_pyformat_def Let_def)
  moreover have "sec_format p = Some (Fall, p)" using rd(2) by (simp add: sec_format_def Let_def)
  ultimately show ?thesis using percent_sections [OF assms(2) rd(1)] by simp
qed (use assms(3) in simp)

text \<open>
  When a statement has a placeholder in one style and, after it, one in another
  style, the scan reports that mixing styles is not supported, whatever follows.
\<close>

theorem parse_mixing_rejected:
  assumes "toks_ok style (hd (param_text st d k)) ts" and "param_names ts \<noteq> []"
    and "st \<noteq> style" and "st \<noteq> NONE" and "style \<noteq> NONE"
    and "CHR '')'' \<notin> set k" and "NUL \<notin> set k"
    and "s = render style ts @ param_text st d k @ rest"
    and "MrdbParser_init True True (Some s) (length s) = Some (Some p)"
    and "\<And>n. keys_alloc cfg n" and "\<And>n. key_alloc cfg n"
  shows "\<exists>q. MrdbParser_parse cfg (Some p) False n = Some (Inl (parser_error n mixing_error, Some q))"
proof -
  note st = start_state [OF assms(9)]
  have ne: "param_text st d k \<noteq> []" by (cases st) auto
  then have "hd ((param_text st d k @ rest) @ [NUL]) = hd (param_text st d k)" by (simp add: hd_append)
  then have "tok_done cfg False (parse_start p) ([] @ target ts) (param_text st d k @ rest)
      (toks_params style (length ([] :: bytes)) ts (params (parse_start p)))"
    using st(1-3) assms by (intro toks_step) auto
  then obtain g' p' where 1: "leads cfg False (parse_start p) g' p'" "normal p'"
    "scan p' (target ts) (param_text st d k @ rest)" "params p' = toks_params style 0 ts (NONE, 0, [], [])"
    using st(4) by (auto simp: tok_done_def)
  have "paramstyle p' = style" using 1(4) assms(2) by (simp add: toks_params_eq params_def)
  then have "parse_body cfg False p' = Some (Return mixing_error, p')"
    using body_mixing [OF 1(3,2) assms(4,6,7)] assms(3,5) by simp
  moreover have "cur p' \<le> last_ofs p'" using 1(3) ne by (cases "param_text st d k") (auto simp: scan_def)
  ultimately have "parse_loop cfg False False (parse_start p) = Some (Some mixing_error, p')"
    using 1(1) by (simp add: leads_def parse_loop.simps)
  then show ?thesis by (simp add: parse_from_init [OF assms(9)])
qed

theorem parse_mixing_rejected_witness:
  "\<exists>q. MrdbParser_parse sample_cfg (Some (sample_parser ''DO ?, %s, ?'')) False 128 =
     Some (Inl (mixing_error, Some q))"
  using parse_mixing_rejected [of QMARK FORMAT False "[]" "map Plain ''DO '' @ [Param False [], Plain CHR '','', Plain CHR '' '']"
      "''DO ?, %s, ?''" "'', ?''" "sample_parser ''DO ?, %s, ?''" sample_cfg 128] sample_init [of "''DO ?, %s, ?''"]
  by (simp add: sample_cfg_def render_def plain_char_def literals_def parser_error_def)

end
