(* ===== verification/Mrdb_Time.thy ===== *)
theory Mrdb_Time
  imports Mrdb_Prelude
begin

text \<open>
  Temporal values (\<open>mariadb_codecs.c\<close>): the scanners for numbers, times and dates in the
  text protocol, the checks of their ranges, and the conversions between \<open>MYSQL_TIME\<close> and
  Python's \<open>timedelta\<close>, \<open>date\<close>, \<open>time\<close> and \<open>datetime\<close>. Strings are blocks of bytes and
  pointers are offsets into them; a read outside the block is \<open>None\<close>.
\<close>

datatype enum_mysql_timestamp_type =
    MYSQL_TIMESTAMP_NONE | MYSQL_TIMESTAMP_ERROR | MYSQL_TIMESTAMP_DATE
  | MYSQL_TIMESTAMP_DATETIME | MYSQL_TIMESTAMP_TIME

record MYSQL_TIME =
  year :: u32
  month :: u32
  day :: u32
  hour :: u32
  minute :: u32
  second :: u32
  second_part :: u64
  neg :: bool
  time_type :: enum_mysql_timestamp_type

definition zero_time :: MYSQL_TIME where
  "zero_time = \<lparr>year = 0, month = 0, day = 0, hour = 0, minute = 0, second = 0,
     second_part = 0, neg = False, time_type = MYSQL_TIMESTAMP_NONE\<rparr>"

subsection \<open>Numbers\<close>

text \<open>
  The loop of \<open>my_strtoull\<close>: the value, the final pointer and whether the value would have
  passed \<open>ULLONG_MAX\<close>.
\<close>

function strtoull_loop :: "bytes \<Rightarrow> nat \<Rightarrow> nat \<Rightarrow> u64 \<Rightarrow> (u64 \<times> nat \<times> bool) option" where
  "strtoull_loop s p end_str val =
     (if p < end_str then do {
        c \<leftarrow> rd s p;
        if \<not> isdigit c then Some (val, p, False)
        else if val > (- 1) div 10 \<or> val * 10 > - 1 - (of_nat (ord c) - 48)
        then Some (val, p, True)
        else strtoull_loop s (p + 1) end_str (val * 10 + of_nat (ord c) - 48) }
      else Some (val, p, False))"
  by pat_completeness auto
termination by (relation "measure (\<lambda>(s, p, e, v). e - p)") auto

declare strtoull_loop.simps [simp del]

definition my_strtoull :: "bytes \<Rightarrow> nat \<Rightarrow> nat \<Rightarrow> (u64 \<times> nat \<times> bool) option" where
  "my_strtoull s str len = do {
     (val, p, err) \<leftarrow> strtoull_loop s str (str + len) 0;
     Some (val, p, err \<or> p = str) }"

definition my_strtoui :: "bytes \<Rightarrow> nat \<Rightarrow> nat \<Rightarrow> (u32 \<times> nat \<times> bool) option" where
  "my_strtoui s str len = do {
     (ull, p, err) \<leftarrow> my_strtoull s str len;
     Some (ucast ull, p, err \<or> ull > 0xFFFFFFFF) }"

subsection \<open>Times and dates in text form\<close>

definition frac_mul :: "u64 list" where
  "frac_mul = [1000000, 100000, 10000, 1000, 100, 10]"

text \<open>
  The fractional seconds, from the character after the point. The loop that is meant to
  consume further digits compares with \<open>*end_ptr\<close>, which still is the start of the text.
\<close>

definition skip_digits :: "bytes \<Rightarrow> nat \<Rightarrow> nat \<Rightarrow> nat option" where
  "skip_digits s p limit =
     (if p < limit
      then let ds = takeWhile isdigit (take (limit - p) (drop p s))
           in if p + length ds < limit \<and> length s \<le> p + length ds then None
              else Some (p + length ds)
      else Some p)"

definition frac_length :: "nat \<Rightarrow> nat \<Rightarrow> nat" where
  "frac_length p end = (if 6 < end - p then 6 else end - p)"

definition parse_fraction :: "bytes \<Rightarrow> nat \<Rightarrow> nat \<Rightarrow> nat \<Rightarrow> MYSQL_TIME \<Rightarrow>
    (bool \<times> nat \<times> MYSQL_TIME) option" where
  "parse_fraction s p end end_ptr tm = do {
     let frac_len = frac_length p end;
     (v, p, err) \<leftarrow> my_strtoui s p frac_len;
     let tm = tm\<lparr>second_part := ucast v\<rparr>;
     if err then Some (False, p, tm)
     else do {
       mul \<leftarrow> (if frac_len < 6 then rd frac_mul frac_len else Some 1);
       let tm = tm\<lparr>second_part := second_part tm * mul\<rparr>;
       p \<leftarrow> skip_digits s (p + frac_len) end_ptr;
       Some (False, p, tm) } }"

text \<open>
  A number that must be at most \<open>maxval\<close> and be followed by a delimiter: the value, the
  pointer after the digits, and whether the function goes on.
\<close>

definition delimited_field :: "bytes \<Rightarrow> nat \<Rightarrow> nat \<Rightarrow> u32 \<Rightarrow> char \<Rightarrow> (u32 \<times> nat \<times> bool) option" where
  "delimited_field s p end maxval delim = do {
     (v, p, err) \<leftarrow> my_strtoui s p (end - p);
     ok \<leftarrow> andalso (Some (\<not> (err \<or> v > maxval \<or> p = end))) (rdeq s p delim);
     Some (v, p, ok) }"

definition parse_seconds :: "bytes \<Rightarrow> nat \<Rightarrow> nat \<Rightarrow> nat \<Rightarrow> MYSQL_TIME \<Rightarrow>
    (bool \<times> nat \<times> MYSQL_TIME) option" where
  "parse_seconds s p end end_ptr tm = do {
     (sec, p, err) \<leftarrow> my_strtoui s p (end - p);
     let tm = tm\<lparr>second := sec\<rparr>;
     if err \<or> sec > 59 then Some (True, p, tm)
     else do {
       let tm = tm\<lparr>second_part := 0\<rparr>;
       point \<leftarrow> andalso (Some (p \<noteq> end)) (rdeq s p (CHR ''.''));
       if \<not> point then Some (False, p, tm)
       else parse_fraction s (p + 1) end end_ptr tm } }"

text \<open>
  \<open>parse_time\<close> from \<open>str\<close> to \<open>end\<close>: the return code (\<open>True\<close> for 1), the final pointer and
  the updated structure; \<open>end_ptr\<close> is the pointer the caller passes in, which is \<open>str\<close>.
\<close>

definition parse_time :: "bytes \<Rightarrow> nat \<Rightarrow> nat \<Rightarrow> nat \<Rightarrow> MYSQL_TIME \<Rightarrow>
    (bool \<times> nat \<times> MYSQL_TIME) option" where
  "parse_time s str len end_ptr tm = do {
     let end = str + len;
     (h, p, ok) \<leftarrow> delimited_field s str end 838 (CHR '':'');
     let tm = tm\<lparr>hour := h\<rparr>;
     if \<not> ok then Some (True, p, tm)
     else do {
       (m, p, ok) \<leftarrow> delimited_field s (p + 1) end 59 (CHR '':'');
       let tm = tm\<lparr>minute := m\<rparr>;
       if \<not> ok then Some (True, p, tm)
       else parse_seconds s (p + 1) end end_ptr tm } }"

definition parse_date :: "bytes \<Rightarrow> nat \<Rightarrow> nat \<Rightarrow> MYSQL_TIME \<Rightarrow>
    (bool \<times> nat \<times> MYSQL_TIME) option" where
  "parse_date s str len tm = do {
     let end = str + len;
     (y, p, ok) \<leftarrow> delimited_field s str end 9999 (CHR ''-'');
     let tm = tm\<lparr>year := y\<rparr>;
     if \<not> ok then Some (True, p, tm)
     else do {
       let tm = (if p - str = 2
                 then tm\<lparr>year := year tm + (if year tm \<ge> 70 then 1900 else 2000)\<rparr> else tm);
       (m, p, ok) \<leftarrow> delimited_field s (p + 1) end 12 (CHR ''-'');
       let tm = tm\<lparr>month := m\<rparr>;
       if \<not> ok then Some (True, p, tm)
       else do {
         (d, p, err) \<leftarrow> my_strtoui s (p + 1) (end - (p + 1));
         let tm = tm\<lparr>day := d\<rparr>;
         Some (err \<or> d > 31, p, tm) } } }"

subsection \<open>Py_str_to_TIME\<close>

text \<open>The two loops that trim white space at the front and at the back.\<close>

function skip_front :: "bytes \<Rightarrow> nat \<Rightarrow> nat \<Rightarrow> nat option" where
  "skip_front s p end =
     (if p < end then do {
        c \<leftarrow> rd s p;
        if isspace c then skip_front s (p + 1) end else Some p }
      else Some p)"
  by pat_completeness auto
termination by (relation "measure (\<lambda>(s, p, e). e - p)") auto

fun skip_back :: "bytes \<Rightarrow> nat \<Rightarrow> nat \<Rightarrow> nat option" where
  "skip_back s p 0 = Some 0"
| "skip_back s p (Suc e) =
     (if p < Suc e then do {
        c \<leftarrow> rd s e;
        if isspace c then skip_back s p e else Some (Suc e) }
      else Some (Suc e))"

text \<open>Look for the first \<open>-\<close> or \<open>:\<close> from position \<open>i\<close> on; it decides between date and time.\<close>

function find_delimiter :: "bytes \<Rightarrow> nat \<Rightarrow> nat \<Rightarrow> bool option" where
  "find_delimiter s i end =
     (if i < end then do {
        c \<leftarrow> rd s i;
        if c = CHR ''-'' \<or> c = CHR '':'' then Some (c = CHR '':'')
        else find_delimiter s (i + 1) end }
      else Some False)"
  by pat_completeness auto
termination by (relation "measure (\<lambda>(s, i, e). e - i)") auto

declare skip_front.simps [simp del] find_delimiter.simps [simp del]

definition time_error :: "bool \<times> MYSQL_TIME" where
  "time_error = (True, zero_time\<lparr>time_type := MYSQL_TIMESTAMP_ERROR\<rparr>)"

definition to_time :: "bytes \<Rightarrow> nat \<Rightarrow> nat \<Rightarrow> MYSQL_TIME \<Rightarrow> (bool \<times> MYSQL_TIME) option" where
  "to_time s p end tm = do {
     (ret, p', tm) \<leftarrow> parse_time s p (end - p) p tm;
     Some (if ret then time_error
           else (False, tm\<lparr>year := 0, month := 0, day := 0, time_type := MYSQL_TIMESTAMP_TIME\<rparr>)) }"

definition to_date :: "bytes \<Rightarrow> nat \<Rightarrow> nat \<Rightarrow> MYSQL_TIME \<Rightarrow> (bool \<times> MYSQL_TIME) option" where
  "to_date s p end tm = do {
     (ret, p, tm) \<leftarrow> parse_date s p (end - p) tm;
     if ret then Some time_error
     else do {
       sp \<leftarrow> andalso (Some (p \<noteq> end)) (rdeq s p (CHR '' ''));
       if \<not> sp then Some (False, tm\<lparr>hour := 0, minute := 0, second := 0, second_part := 0,
                                  time_type := MYSQL_TIMESTAMP_DATE\<rparr>)
       else do {
         let p = p + 1;
         (ret, p', tm) \<leftarrow> parse_time s p (end - p) p tm;
         Some (if ret \<or> hour tm > 23 then time_error
               else (False, tm\<lparr>time_type := MYSQL_TIMESTAMP_DATETIME\<rparr>)) } } }"

text \<open>The return code (\<open>True\<close> for 1) and the structure; a null pointer is \<open>None\<close> in \<open>str\<close>.\<close>

definition Py_str_to_TIME :: "bytes option \<Rightarrow> nat \<Rightarrow> MYSQL_TIME \<Rightarrow> (bool \<times> MYSQL_TIME) option" where
  "Py_str_to_TIME str len tm =
     (case str of
        None \<Rightarrow> Some time_error
      | Some s \<Rightarrow> do {
          p \<leftarrow> skip_front s 0 len;
          end \<leftarrow> skip_back s p len;
          if end - p < 5 then Some time_error
          else do {
            minus \<leftarrow> rdeq s p (CHR ''-'');
            if minus then to_time s (p + 1) end (tm\<lparr>neg := True\<rparr>)
            else do {
              is_time \<leftarrow> find_delimiter s (p + 1) end;
              if is_time then to_time s p end (tm\<lparr>neg := False\<rparr>)
              else to_date s p end (tm\<lparr>neg := False\<rparr>) } } })"

subsection \<open>The contract of the number scanners\<close>

lemma dec_val_Cons [simp]: "dec_val (c # ds) = digit_val c * 10 ^ length ds + dec_val ds"
  by (induction ds rule: rev_induct) (simp_all add: dec_val_def algebra_simps)

lemma dec_val_less: "list_all isdigit ds \<Longrightarrow> dec_val ds < 10 ^ length ds"
proof (induction ds)
  case (Cons c ds)
  then have "digit_val c + 1 \<le> 10" "dec_val ds < 10 ^ length ds" using digit_val_less [of c] by auto
  then have "digit_val c * 10 ^ length ds + 10 ^ length ds \<le> 10 * 10 ^ length ds"
    using mult_le_mono1 [of "digit_val c + 1" 10 "10 ^ length ds"] by simp
  with \<open>dec_val ds < _\<close> show ?case
    unfolding dec_val_Cons length_Cons power_Suc by linarith
qed simp

definition digits_at :: "bytes \<Rightarrow> nat \<Rightarrow> nat \<Rightarrow> bytes" where
  "digits_at s p e = takeWhile isdigit (take (e - p) (drop p s))"

lemma digits_at_step:
  "p < e \<Longrightarrow> e \<le> length s \<Longrightarrow>
   digits_at s p e = (if isdigit (s ! p) then s ! p # digits_at s (Suc p) e else [])"
  by (simp add: digits_at_def take_Cons' Cons_nth_drop_Suc [symmetric])

lemma digits_at_end [simp]: "e \<le> p \<Longrightarrow> digits_at s p e = []"
  by (simp add: digits_at_def)

lemma digits_at_digits: "list_all isdigit (digits_at s p e)"
  by (auto simp: digits_at_def list_all_iff dest: set_takeWhileD)

lemma u64_max_div: "unat ((- 1 :: u64) div 10) = 1844674407370955161"
  by (simp add: unat_div)

lemma unat_u64_less: "unat (v :: u64) < 18446744073709551616"
proof -
  have "unat v < 2 ^ LENGTH(64)" by (rule unsigned_less)
  then show ?thesis by simp
qed

lemma unat_u64_max: "unat (- 1 :: u64) = 18446744073709551615"
  by (simp add: unsigned_minus_1_eq_mask mask_eq_exp_minus_1)

lemma no_overflow_iff:
  fixes val :: u64
  assumes "d < 10"
  shows "(val > (- 1) div 10 \<or> val * 10 > - 1 - of_nat d) \<longleftrightarrow> 2 ^ 64 \<le> unat val * 10 + d"
proof (cases "unat val \<le> 1844674407370955161")
  case True
  then have "unat (val * 10) = unat val * 10"
    by (subst unat_mult_lem [THEN iffD1]) simp_all
  moreover have "unat (- 1 - of_nat d :: u64) = 2 ^ 64 - 1 - d"
    using assms by (subst unat_sub) (simp_all add: unat_of_nat word_le_nat_alt unat_u64_max)
  ultimately show ?thesis
    using True assms by (simp add: word_less_nat_alt u64_max_div) linarith
next
  case False
  then show ?thesis by (simp add: word_less_nat_alt u64_max_div)
qed

lemma step_value:
  fixes val :: u64
  assumes "isdigit c" "unat val * 10 + digit_val c < 2 ^ 64"
  shows "unat (val * 10 + of_nat (ord c) - 48) = unat val * 10 + digit_val c"
proof -
  have c: "ord c = 48 + digit_val c"
    using assms(1) by (simp add: isdigit_def digit_val_def)
  have "val * 10 + of_nat (ord c) - 48 = val * 10 + of_nat (digit_val c)"
    by (simp add: c)
  also have "\<dots> = of_nat (unat val * 10 + digit_val c)"
    by simp
  finally show ?thesis using assms(2) by (simp only: unat_of_nat) simp
qed


lemma digit_word: "isdigit c \<Longrightarrow> (of_nat (ord c) :: u64) - 48 = of_nat (digit_val c)"
  by (simp add: isdigit_def digit_val_def of_nat_diff)

lemma strtoull_loop_stop:
  "e \<le> length s \<Longrightarrow> \<not> (p < e \<and> isdigit (s ! p)) \<Longrightarrow> strtoull_loop s p e val = Some (val, p, False)"
  by (subst strtoull_loop.simps) (auto simp: rd_in)

lemma strtoull_loop_digit:
  assumes "e \<le> length s" "p < e" "isdigit (s ! p)"
  shows "strtoull_loop s p e val =
    (if 2 ^ 64 \<le> unat val * 10 + digit_val (s ! p) then Some (val, p, True)
     else strtoull_loop s (Suc p) e (val * 10 + of_nat (ord (s ! p)) - 48))"
  using no_overflow_iff [OF digit_val_less [OF assms(3)], of val] assms
  by (subst strtoull_loop.simps) (simp add: rd_in digit_word del: diff_diff_add)

lemma strtoull_loop_spec:
  assumes "e \<le> length s" "p \<le> e"
    "n = unat val * 10 ^ length (digits_at s p e) + dec_val (digits_at s p e)"
  shows "\<exists>v q err. strtoull_loop s p e val = Some (v, q, err) \<and> p \<le> q \<and> q \<le> e \<and>
    (err \<longleftrightarrow> 2 ^ 64 \<le> n) \<and> (q = p \<longrightarrow> err \<or> digits_at s p e = []) \<and>
    (\<not> err \<longrightarrow> q = p + length (digits_at s p e) \<and> unat v = n)"
  using assms(2,3)
proof (induction "e - p" arbitrary: p val n)
  case 0
  then have "digits_at s p e = []" "strtoull_loop s p e val = Some (val, p, False)"
    using assms(1) by (auto intro: strtoull_loop_stop)
  then show ?case
    using 0 unat_u64_less [of val] by (intro exI [of _ val] exI [of _ p] exI [of _ False]) simp
next
  case (Suc x)
  show ?case
  proof (cases "isdigit (s ! p)")
    case False
    then have "digits_at s p e = []" "strtoull_loop s p e val = Some (val, p, False)"
      using assms(1) Suc.hyps(2) by (auto simp: digits_at_step intro: strtoull_loop_stop)
    then show ?thesis
      using Suc unat_u64_less [of val] by (intro exI [of _ val] exI [of _ p] exI [of _ False]) simp
  next
    case True
    let ?d = "digit_val (s ! p)" and ?val = "val * 10 + of_nat (ord (s ! p)) - 48"
    let ?m = "length (digits_at s (Suc p) e)" and ?k = "dec_val (digits_at s (Suc p) e)"
    have p: "p < e" using Suc.hyps(2) by simp
    have step: "digits_at s p e = s ! p # digits_at s (Suc p) e"
      using digits_at_step [OF p assms(1)] True by simp
    have n: "n = (unat val * 10 + ?d) * 10 ^ ?m + ?k"
      unfolding Suc.prems(2) step by (simp add: algebra_simps)
    show ?thesis
    proof (cases "2 ^ 64 \<le> unat val * 10 + ?d")
      case over: True
      have "unat val * 10 + ?d \<le> (unat val * 10 + ?d) * 10 ^ ?m" by simp
      with over have "2 ^ 64 \<le> n" unfolding n by linarith
      with over show ?thesis
        using strtoull_loop_digit [OF assms(1) p True, of val] Suc.prems(1)
        by (intro exI [of _ val] exI [of _ p] exI [of _ True]) simp
    next
      case False
      then have loop: "strtoull_loop s p e val = strtoull_loop s (Suc p) e ?val"
        using strtoull_loop_digit [OF assms(1) p True, of val] by simp
      have "unat ?val = unat val * 10 + ?d"
        using step_value [OF True, of val] False by simp
      then have "n = unat ?val * 10 ^ ?m + ?k" by (simp add: n)
      from Suc.hyps(1) [OF _ _ this] obtain v q err where
        "strtoull_loop s (Suc p) e ?val = Some (v, q, err)" "Suc p \<le> q" "q \<le> e" "err \<longleftrightarrow> 2 ^ 64 \<le> n"
        "\<not> err \<longrightarrow> q = Suc p + ?m \<and> unat v = n"
        using Suc.hyps(2) p by force
      then show ?thesis
        by (intro exI [of _ v] exI [of _ q] exI [of _ err]) (auto simp: loop step)
    qed
  qed
qed


text \<open>
  A number scanner: within a block, from \<open>p\<close> over \<open>len\<close> bytes, it reads the leading digits.
  It reports an error when there are none or when the value does not fit; otherwise it
  returns the value and the position after the digits.
\<close>

locale number_scanner =
  fixes scan_num :: "bytes \<Rightarrow> nat \<Rightarrow> nat \<Rightarrow> ('v \<times> nat \<times> bool) option"
    and value_of :: "'v \<Rightarrow> nat" and limit :: nat
  assumes scan_law: "p + len \<le> length s \<Longrightarrow>
    \<exists>v q err. scan_num s p len = Some (v, q, err) \<and> p \<le> q \<and> q \<le> p + len \<and>
      (err \<longleftrightarrow> digits_at s p (p + len) = [] \<or> limit \<le> dec_val (digits_at s p (p + len))) \<and>
      (digits_at s p (p + len) = [] \<longrightarrow> q = p \<and> value_of v = 0) \<and>
      (\<not> err \<longrightarrow> q = p + length (digits_at s p (p + len)) \<and>
                value_of v = dec_val (digits_at s p (p + len)))"
    and limit_pos: "0 < limit"
begin

lemma scan_wp:
  assumes "p + len \<le> length s"
    "\<And>v q err. p \<le> q \<Longrightarrow> q \<le> p + len \<Longrightarrow>
       (err \<longleftrightarrow> digits_at s p (p + len) = [] \<or> limit \<le> dec_val (digits_at s p (p + len))) \<Longrightarrow>
       (digits_at s p (p + len) = [] \<Longrightarrow> value_of v = 0) \<Longrightarrow>
       (\<not> err \<Longrightarrow> q = p + length (digits_at s p (p + len)) \<and> 0 < length (digits_at s p (p + len)) \<and>
          value_of v = dec_val (digits_at s p (p + len)) \<and> value_of v < limit) \<Longrightarrow> Q (v, q, err)"
  shows "wp (scan_num s p len) Q"
proof -
  let ?ds = "digits_at s p (p + len)"
  obtain v q err where 1: "scan_num s p len = Some (v, q, err)" "p \<le> q" "q \<le> p + len"
    "err \<longleftrightarrow> ?ds = [] \<or> limit \<le> dec_val ?ds" "?ds = [] \<longrightarrow> value_of v = 0"
    "\<not> err \<longrightarrow> q = p + length ?ds \<and> value_of v = dec_val ?ds"
    using scan_law [OF assms(1)] by blast
  have "Q (v, q, err)" by (rule assms(2)) (use 1 in auto)
  with 1(1) show ?thesis by (simp add: wp_simps)
qed

text \<open>Digits that end at the end of the range or at another character.\<close>

lemma scan_field:
  assumes "s = pre @ ds @ rest @ post" "p = length pre" "len = length ds + length rest"
    "list_all isdigit ds" "ds \<noteq> []" "rest = [] \<or> \<not> isdigit (hd rest)" "dec_val ds < limit"
  shows "\<exists>v. scan_num s p len = Some (v, p + length ds, False) \<and> value_of v = dec_val ds"
proof -
  have "digits_at s p (p + len) = ds"
    using assms(1-4,6) by (cases rest) (auto simp: digits_at_def takeWhile_append2 list_all_iff)
  with scan_law [of p len s] assms show ?thesis by auto
qed

end

lemma my_strtoull_spec:
  assumes "p + len \<le> length s"
  shows "\<exists>v q err. my_strtoull s p len = Some (v, q, err) \<and> p \<le> q \<and> q \<le> p + len \<and>
    (err \<longleftrightarrow> digits_at s p (p + len) = [] \<or> 2 ^ 64 \<le> dec_val (digits_at s p (p + len))) \<and>
    (digits_at s p (p + len) = [] \<longrightarrow> q = p \<and> unat v = 0) \<and>
    (\<not> err \<longrightarrow> q = p + length (digits_at s p (p + len)) \<and> unat v = dec_val (digits_at s p (p + len)))"
proof -
  let ?ds = "digits_at s p (p + len)"
  obtain v q err where "strtoull_loop s p (p + len) 0 = Some (v, q, err)" "p \<le> q" "q \<le> p + len"
    "err \<longleftrightarrow> 2 ^ 64 \<le> dec_val ?ds" "q = p \<longrightarrow> err \<or> ?ds = []"
    "\<not> err \<longrightarrow> q = p + length ?ds \<and> unat v = dec_val ?ds"
    using strtoull_loop_spec [of "p + len" s p _ 0] assms by auto
  then show ?thesis
    by (intro exI [of _ v] exI [of _ q] exI [of _ "err \<or> q = p"]) (auto simp: my_strtoull_def)
qed

interpretation ull: number_scanner my_strtoull unat "2 ^ 64"
  by unfold_locales (rule my_strtoull_spec, simp_all)

interpretation ui: number_scanner my_strtoui unat "2 ^ 32"
proof unfold_locales
  fix p len and s :: bytes
  assume "p + len \<le> length s"
  from my_strtoull_spec [OF this] obtain v q err where 1: "my_strtoull s p len = Some (v, q, err)"
    "p \<le> q" "q \<le> p + len"
    "err \<longleftrightarrow> digits_at s p (p + len) = [] \<or> 2 ^ 64 \<le> dec_val (digits_at s p (p + len))"
    "digits_at s p (p + len) = [] \<longrightarrow> q = p \<and> unat v = 0"
    "\<not> err \<longrightarrow> q = p + length (digits_at s p (p + len)) \<and> unat v = dec_val (digits_at s p (p + len))"
    by blast
  have "v > 0xFFFFFFFF \<longleftrightarrow> 2 ^ 32 \<le> unat v" by (simp add: word_less_nat_alt) linarith
  moreover have "unat (ucast v :: u32) = unat v" if "unat v < 2 ^ 32"
    using that by (simp add: unsigned_ucast_eq take_bit_nat_eq_self)
  ultimately show "\<exists>v q err. my_strtoui s p len = Some (v, q, err) \<and> p \<le> q \<and> q \<le> p + len \<and>
      (err \<longleftrightarrow> digits_at s p (p + len) = [] \<or> 2 ^ 32 \<le> dec_val (digits_at s p (p + len))) \<and>
      (digits_at s p (p + len) = [] \<longrightarrow> q = p \<and> unat v = 0) \<and>
      (\<not> err \<longrightarrow> q = p + length (digits_at s p (p + len)) \<and>
                unat v = dec_val (digits_at s p (p + len)))"
    using 1 by (auto simp: my_strtoui_def)
qed simp


subsection \<open>Memory safety and ranges\<close>

definition time_in_range :: "MYSQL_TIME \<Rightarrow> bool" where
  "time_in_range tm \<longleftrightarrow> hour tm \<le> 838 \<and> minute tm \<le> 59 \<and> second tm \<le> 59 \<and> second_part tm \<le> 999999"

definition same_date :: "MYSQL_TIME \<Rightarrow> MYSQL_TIME \<Rightarrow> bool" where
  "same_date tm tm' \<longleftrightarrow> year tm' = year tm \<and> month tm' = month tm \<and> day tm' = day tm \<and> neg tm' = neg tm"

lemma frac_mul_nth: "n < 6 \<Longrightarrow> rd frac_mul n = Some (10 ^ (6 - n))"
  by (auto simp: frac_mul_def rd_def less_Suc_eq numeral_eq_Suc)

lemma length_digits_at: "length (digits_at s p e) \<le> e - p"
  using length_takeWhile_le [of isdigit "take (e - p) (drop p s)"] by (simp add: digits_at_def)

lemma scaled_less:
  fixes n :: nat
  assumes "n < 10 ^ k" "k \<le> m" "m \<le> 6"
  shows "n * 10 ^ (6 - m) \<le> 999999"
proof -
  have "n * 10 ^ (6 - m) < 10 ^ k * 10 ^ (6 - m)" using assms(1) by simp
  also have "\<dots> = 10 ^ (k + (6 - m))" by (simp add: power_add)
  also have "\<dots> \<le> 10 ^ 6" using assms by (intro power_increasing) auto
  finally show ?thesis by simp
qed

lemma second_part_scaled:
  assumes "unat v * 10 ^ j \<le> 999999" "j \<le> 6"
  shows "ucast (v :: u32) * (10 ^ j :: u64) = of_nat (unat v * 10 ^ j)" "ucast v * (10 ^ j :: u64) \<le> 999999"
proof -
  show 1: "ucast v * (10 ^ j :: u64) = of_nat (unat v * 10 ^ j)" by simp
  have "unat (of_nat (unat v * 10 ^ j) :: u64) \<le> 999999"
    using assms(1) by (simp only: unat_of_nat) (simp add: mod_less)
  then show "ucast v * (10 ^ j :: u64) \<le> 999999" unfolding 1 by (simp add: word_le_nat_alt)
qed

lemma wp_fraction:
  assumes "e \<le> length s" "p \<le> e" "end_ptr \<le> p" "time_in_range tm"
  shows "wp (parse_fraction s p e end_ptr tm) (\<lambda>(ret, q, tm'). \<not> ret \<and> time_in_range tm' \<and> same_date tm tm')"
proof -
  define n where "n = frac_length p e"
  have n: "n \<le> 6" "n \<le> e - p" by (simp_all add: n_def frac_length_def)
  let ?ds = "digits_at s p (p + n)"
  have len: "length ?ds \<le> n" using length_digits_at [of s p "p + n"] by simp
  have val: "dec_val ?ds < 10 ^ length ?ds" using dec_val_less digits_at_digits by blast
  have "dec_val ?ds * 10 ^ (6 - n) \<le> 999999"
    using scaled_less [OF val len n(1)] .
  moreover have "(10 :: nat) ^ length ?ds \<le> 10 ^ 6" using len n by (intro power_increasing) auto
  then have small: "dec_val ?ds < 2 ^ 32" using val by simp
  ultimately show ?thesis
    unfolding parse_fraction_def Let_def wp_bind n_def [symmetric]
  proof (intro ui.scan_wp, goal_cases)
    case 1
    show ?case using assms(1,2) n(2) by simp
  next
    case (2 v q err)
    show ?case
    proof (cases err)
      case True
      with 2(5,6) small have "unat v = 0" by simp
      then have "v = 0" by (simp add: unat_eq_zero)
      with True assms(4) show ?thesis by (simp add: wp_simps time_in_range_def same_date_def)
    next
      case False
      with 2(7) have v: "unat v = dec_val ?ds" "0 < length ?ds" by auto
      with 2(1) have "ucast v * (10 ^ (6 - n) :: u64) \<le> 999999"
        by (intro second_part_scaled(2)) auto
      moreover have "wp (skip_digits s (q + n) end_ptr) R \<longleftrightarrow> R (q + n)" for R
        using 2(3) assms(3) by (simp add: skip_digits_def wp_simps)
      moreover have "(if n < 6 then rd frac_mul n else Some 1) = Some (10 ^ (6 - n))"
        using n(1) frac_mul_nth [of n] by auto
      ultimately show ?thesis
        using False assms(4) by (simp add: wp_bind wp_Some time_in_range_def same_date_def)
    qed
  qed
qed


lemma wp_field:
  assumes "e \<le> length s" "p \<le> e"
    "\<And>v q ok. p \<le> q \<Longrightarrow> q \<le> e \<Longrightarrow> (ok \<Longrightarrow> q < e \<and> v \<le> mx \<and> unat v < 10 ^ (q - p)) \<Longrightarrow> Q (v, q, ok)"
  shows "wp (delimited_field s p e mx delim) Q"
  unfolding delimited_field_def wp_bind
  using assms(1,2) dec_val_less [OF digits_at_digits, of s p e]
  by (intro ui.scan_wp) (auto simp: wp_simps not_less intro!: assms(3))

lemma year_window:
  assumes "unat (v :: u32) < 100"
  shows "v + 1900 \<le> 9999" "v + 2000 \<le> 9999"
  using assms by (simp_all add: word_le_nat_alt unat_word_ariths)

lemma wp_seconds:
  assumes "e \<le> length s" "p \<le> e" "end_ptr \<le> p" "hour tm \<le> 838" "minute tm \<le> 59"
  shows "wp (parse_seconds s p e end_ptr tm)
    (\<lambda>(ret, q, tm'). (\<not> ret \<longrightarrow> time_in_range tm') \<and> same_date tm tm')"
  unfolding parse_seconds_def Let_def wp_bind
proof (intro ui.scan_wp, goal_cases)
  case 1
  then show ?case using assms by simp
next
  case (2 v q err)
  have "wp (parse_fraction s (q + 1) e end_ptr (tm\<lparr>second := v, second_part := 0\<rparr>))
      (\<lambda>(ret, q, tm'). (\<not> ret \<longrightarrow> time_in_range tm') \<and> same_date tm tm')"
    if "q \<noteq> e" "v \<le> 59"
    using that assms 2
    by (intro wp_mono [OF wp_fraction]) (auto simp: time_in_range_def same_date_def)
  with 2 assms show ?case
    by (auto simp: wp_if wp_Some wp_bind wp_andalso wp_rdeq not_less time_in_range_def same_date_def)
qed

lemma wp_parse_time:
  assumes "str + len \<le> length s" "end_ptr \<le> str"
  shows "wp (parse_time s str len end_ptr tm)
    (\<lambda>(ret, q, tm'). (\<not> ret \<longrightarrow> time_in_range tm') \<and> same_date tm tm')"
  unfolding parse_time_def Let_def wp_bind
  using assms
  by (auto simp: wp_if wp_Some wp_bind same_date_def intro!: wp_field wp_mono [OF wp_seconds])

lemma wp_parse_date:
  assumes "str + len \<le> length s"
  shows "wp (parse_date s str len tm) (\<lambda>(ret, q, tm'). str \<le> q \<and> q \<le> str + len \<and> neg tm' = neg tm \<and>
    (\<not> ret \<longrightarrow> year tm' \<le> 9999 \<and> month tm' \<le> 12 \<and> day tm' \<le> 31))"
  unfolding parse_date_def Let_def wp_bind
  using assms
  by (auto simp: wp_if wp_Some wp_bind not_less intro!: wp_field ui.scan_wp year_window)


lemma skip_front_total:
  "e \<le> length s \<Longrightarrow> p \<le> e \<Longrightarrow> \<exists>q. skip_front s p e = Some q \<and> p \<le> q \<and> q \<le> e"
proof (induction "e - p" arbitrary: p)
  case 0
  then show ?case by (simp add: skip_front.simps)
next
  case (Suc n)
  then have "n = e - Suc p" "Suc p \<le> e" by auto
  from Suc.hyps(1) [OF this(1) Suc.prems(1) this(2)]
  obtain q where "skip_front s (Suc p) e = Some q" "Suc p \<le> q" "q \<le> e" by blast
  with Suc.prems show ?case by (subst skip_front.simps) (auto simp: rd_in)
qed

lemma skip_back_total: "e \<le> length s \<Longrightarrow> p \<le> e \<Longrightarrow> \<exists>q. skip_back s p e = Some q \<and> p \<le> q \<and> q \<le> e"
  by (induction e) (auto simp: rd_in le_Suc_eq)

lemma find_delimiter_total: "e \<le> length s \<Longrightarrow> \<exists>r. find_delimiter s i e = Some r"
proof (induction "e - i" arbitrary: i)
  case 0
  then show ?case by (auto simp: find_delimiter.simps)
next
  case (Suc n)
  then have "\<exists>r. find_delimiter s (Suc i) e = Some r" by auto
  with Suc.prems show ?case by (subst find_delimiter.simps) (auto simp: rd_in)
qed

text \<open>What the function promises of its result, by the type of the value.\<close>

definition tm_ok :: "MYSQL_TIME \<Rightarrow> bool" where
  "tm_ok tm \<longleftrightarrow> time_in_range tm \<and> year tm \<le> 9999 \<and> month tm \<le> 12 \<and> day tm \<le> 31 \<and>
     (case time_type tm of
        MYSQL_TIMESTAMP_NONE \<Rightarrow> False
      | MYSQL_TIMESTAMP_ERROR \<Rightarrow> tm = snd time_error
      | MYSQL_TIMESTAMP_DATE \<Rightarrow>
          \<not> neg tm \<and> hour tm = 0 \<and> minute tm = 0 \<and> second tm = 0 \<and> second_part tm = 0
      | MYSQL_TIMESTAMP_DATETIME \<Rightarrow> \<not> neg tm \<and> hour tm \<le> 23
      | MYSQL_TIMESTAMP_TIME \<Rightarrow> year tm = 0 \<and> month tm = 0 \<and> day tm = 0)"

definition time_result :: "bool \<times> MYSQL_TIME \<Rightarrow> bool" where
  "time_result = (\<lambda>(ret, tm). tm_ok tm \<and> (ret \<longleftrightarrow> time_type tm = MYSQL_TIMESTAMP_ERROR))"

lemma time_result_error [simp]: "time_result time_error"
  by (simp add: time_result_def time_error_def tm_ok_def zero_time_def time_in_range_def)

lemma time_result_ok [simp]:
  "time_result (False, tm) \<longleftrightarrow> tm_ok tm \<and> time_type tm \<noteq> MYSQL_TIMESTAMP_ERROR"
  by (simp add: time_result_def)

lemma wp_to_time:
  assumes "e \<le> length s" "p \<le> e"
  shows "wp (to_time s p e tm) time_result"
  unfolding to_time_def wp_bind
  using assms wp_parse_time [of p "e - p" s p tm]
  by (auto simp: wp_Some tm_ok_def time_in_range_def same_date_def elim!: wp_mono)

lemma wp_to_date:
  assumes "e \<le> length s" "p \<le> e" "\<not> neg tm"
  shows "wp (to_date s p e tm) time_result"
  unfolding to_date_def wp_bind
proof (rule wp_mono [OF wp_parse_date], goal_cases)
  case 1
  then show ?case using assms by simp
next
  case (2 r)
  obtain ret q tm1 where r: "r = (ret, q, tm1)" by (cases r)
  have "wp (parse_time s (q + 1) (e - (q + 1)) (q + 1) tm1) (\<lambda>(ret, p', tm2).
      time_result (if ret \<or> hour tm2 > 23 then time_error
                   else (False, tm2\<lparr>time_type := MYSQL_TIMESTAMP_DATETIME\<rparr>)))"
    if "\<not> ret" "q \<noteq> e"
    using that 2 assms r
    by (intro wp_mono [OF wp_parse_time])
      (auto simp: tm_ok_def time_in_range_def same_date_def not_less)
  then show ?case
    using 2 assms
    by (auto simp: r wp_if wp_bind wp_Some wp_andalso wp_rdeq Let_def tm_ok_def
        time_in_range_def case_prod_unfold)
qed


lemma wp_str_to_TIME:
  assumes "len \<le> length s"
  shows "wp (Py_str_to_TIME (Some s) len tm) time_result"
proof -
  obtain p where p: "skip_front s 0 len = Some p" "p \<le> len"
    using skip_front_total [OF assms, of 0] by auto
  obtain e where e: "skip_back s p len = Some e" "p \<le> e" "e \<le> len"
    using skip_back_total [OF assms p(2)] by auto
  obtain r where r: "find_delimiter s (p + 1) e = Some r"
    using find_delimiter_total [of e s "p + 1"] e(3) assms by auto
  show ?thesis
    using p e r assms
    by (auto simp: Py_str_to_TIME_def wp_if wp_bind wp_Some wp_rdeq intro!: wp_to_time wp_to_date)
qed

end
