(* ===== verification/Mrdb_Time_Roundtrip.thy ===== *)
theory Mrdb_Time_Roundtrip
  imports Mrdb_Time
begin

text \<open>
  Correctness of the scanners for temporal values against a printer: the texts the server
  sends for TIME, DATE and DATETIME columns, and the fields they are read back to.
\<close>

subsection \<open>Canonical texts\<close>

definition number :: "bytes \<Rightarrow> bool" where
  "number ds \<longleftrightarrow> ds \<noteq> [] \<and> list_all isdigit ds"

text \<open>Microseconds of a fraction: six digits count, missing ones are zeros.\<close>

definition micros :: "bytes \<Rightarrow> nat" where
  "micros f = dec_val (take 6 f) * 10 ^ (6 - length (take 6 f))"

definition time_text :: "bytes \<Rightarrow> bytes \<Rightarrow> bytes \<Rightarrow> bytes \<Rightarrow> bytes" where
  "time_text hs ms ss f = hs @ '':'' @ ms @ '':'' @ ss @ (if f = [] then [] else ''.'' @ f)"

definition date_text :: "bytes \<Rightarrow> bytes \<Rightarrow> bytes \<Rightarrow> bytes" where
  "date_text ys ms ds = ys @ ''-'' @ ms @ ''-'' @ ds"

lemma ui_number:
  assumes "s = pre @ ds @ rest @ post" "number ds" "rest = [] \<or> \<not> isdigit (hd rest)" "dec_val ds < 2 ^ 32"
    "p = length pre" "len = length ds + length rest"
  shows "my_strtoui s p len = Some (of_nat (dec_val ds), p + length ds, False)"
proof -
  obtain v where "my_strtoui s p len = Some (v, p + length ds, False)" "unat v = dec_val ds"
    using ui.scan_field [OF assms(1,5,6)] assms(2-4) by (auto simp: number_def)
  moreover have "v = of_nat (dec_val ds)" using calculation(2) [symmetric] by simp
  ultimately show ?thesis by simp
qed

lemma field_number:
  assumes "s = pre @ ds @ delim # rest @ post" "number ds" "\<not> isdigit delim" "dec_val ds \<le> mx" "mx < 2 ^ 32"
    "p = length pre" "e = length pre + length ds + 1 + length rest"
  shows "delimited_field s p e (of_nat mx) delim = Some (of_nat (dec_val ds), p + length ds, True)"
proof -
  have "my_strtoui s p (e - p) = Some (of_nat (dec_val ds), p + length ds, False)"
    using assms by (intro ui_number [of s pre ds "delim # rest" post]) auto
  moreover have "\<not> of_nat mx < (of_nat (dec_val ds) :: u32)"
    using assms(4,5) by (simp add: word_less_nat_alt unat_of_nat)
  moreover have "rdeq s (p + length ds) delim = Some True"
    using assms(1,6) by (simp add: rdeq_def rd_def)
  ultimately show ?thesis using assms(6,7) by (simp add: delimited_field_def)
qed

lemma not_isdigit_delims [simp]: "\<not> isdigit (CHR '':'')" "\<not> isdigit (CHR ''-'')" "\<not> isdigit (CHR ''.'')" "\<not> isdigit (CHR '' '')"
  by (simp_all add: isdigit_def ord_def)

lemma fraction_number:
  assumes "s = pre @ f @ post" "number f" "p = length pre" "e = length pre + length f" "end_ptr \<le> p"
  shows "\<exists>q. parse_fraction s p e end_ptr tm = Some (False, q, tm\<lparr>second_part := of_nat (micros f)\<rparr>)"
proof -
  have n: "frac_length p e = length (take 6 f)" using assms(3,4) by (simp add: frac_length_def)
  have num: "number (take 6 f)"
    using assms(2) by (auto simp: number_def list_all_iff dest: in_set_takeD)
  have lt: "dec_val (take 6 f) < 10 ^ length (take 6 f)"
    using num by (simp only: number_def) (blast intro: dec_val_less)
  also have "\<dots> \<le> 10 ^ 6" by (intro power_increasing) auto
  finally have small: "dec_val (take 6 f) < 2 ^ 32" by simp
  have "pre @ f @ post = pre @ take 6 f @ [] @ drop 6 f @ post"
    by (simp only: append.left_neutral append_assoc [symmetric] append_take_drop_id)
  with assms(1) have "s = pre @ take 6 f @ [] @ (drop 6 f @ post)" by simp
  from ui_number [OF this num _ small assms(3)]
  have num: "my_strtoui s p (length (take 6 f)) =
      Some (of_nat (dec_val (take 6 f)), p + length (take 6 f), False)" by simp
  have "ucast (of_nat (dec_val (take 6 f)) :: u32) = (of_nat (dec_val (take 6 f)) :: u64)"
    using small by (simp add: word_unat_eq_iff unsigned_ucast_eq unat_of_nat take_bit_eq_mod)
  moreover have "(if length (take 6 f) < 6 then rd frac_mul (length (take 6 f)) else Some 1) =
      Some (10 ^ (6 - length (take 6 f)))"
    by (cases "length f < 6") (simp_all add: frac_mul_nth)
  moreover have "skip_digits s (p + length (take 6 f) + length (take 6 f)) end_ptr =
      Some (p + length (take 6 f) + length (take 6 f))"
    using assms(5) by (simp add: skip_digits_def)
  ultimately show ?thesis
    unfolding parse_fraction_def n Let_def num
    by (simp only: bind.bind_lunit case_prod_conv if_False) (simp add: micros_def)
qed


lemma le_of_nat: "n \<le> m \<Longrightarrow> m < 2 ^ 32 \<Longrightarrow> \<not> (of_nat m :: u32) < of_nat n"
  by (simp add: word_less_nat_alt unat_of_nat)

lemma seconds_text:
  assumes "s = pre @ ss @ (if f = [] then [] else ''.'' @ f) @ post" "number ss" "f = [] \<or> number f" "dec_val ss \<le> 59"
    "p = length pre" "e = length s - length post" "end_ptr \<le> p"
  shows "\<exists>q. parse_seconds s p e end_ptr tm =
    Some (False, q, tm\<lparr>second := of_nat (dec_val ss), second_part := of_nat (micros f)\<rparr>)"
proof -
  let ?frac = "if f = [] then [] else ''.'' @ f"
  have num: "my_strtoui s p (e - p) = Some (of_nat (dec_val ss), p + length ss, False)"
    using assms by (intro ui_number [of s pre ss ?frac post]) auto
  have le: "\<not> (59 :: u32) < of_nat (dec_val ss)" using le_of_nat [OF assms(4)] by simp
  show ?thesis
  proof (cases "f = []")
    case True
    with num le assms show ?thesis by (simp add: parse_seconds_def micros_def)
  next
    case False
    have "rdeq s (p + length ss) (CHR ''.'') = Some True" "p + length ss \<noteq> e"
      using False assms(1,5,6) by (simp_all add: rdeq_def rd_def)
    moreover obtain q where "parse_fraction s (p + length ss + 1) e end_ptr (tm\<lparr>second := of_nat (dec_val ss), second_part := 0\<rparr>) =
        Some (False, q, tm\<lparr>second := of_nat (dec_val ss), second_part := of_nat (micros f)\<rparr>)"
      using fraction_number [of s "pre @ ss @ ''.''" f post "p + length ss + 1" e end_ptr
          "tm\<lparr>second := of_nat (dec_val ss), second_part := 0\<rparr>"] False assms by auto
    ultimately show ?thesis
      using num le by (simp add: parse_seconds_def)
  qed
qed

lemma time_text_parsed:
  assumes "s = pre @ time_text hs ms ss f @ post" "number hs" "number ms" "number ss" "f = [] \<or> number f"
    "dec_val hs \<le> 838" "dec_val ms \<le> 59" "dec_val ss \<le> 59"
    "p = length pre" "len = length (time_text hs ms ss f)"
  shows "\<exists>q. parse_time s p len p tm = Some (False, q, tm\<lparr>hour := of_nat (dec_val hs),
    minute := of_nat (dec_val ms), second := of_nat (dec_val ss), second_part := of_nat (micros f)\<rparr>)"
proof -
  let ?frac = "if f = [] then [] else ''.'' @ f"
  let ?e = "p + len" and ?tm = "tm\<lparr>hour := of_nat (dec_val hs), minute := of_nat (dec_val ms)\<rparr>"
  have "delimited_field s p ?e (of_nat 838) (CHR '':'') = Some (of_nat (dec_val hs), p + length hs, True)"
    using assms by (intro field_number [of s pre hs _ "ms @ '':'' @ ss @ ?frac" post]) (auto simp: time_text_def)
  moreover have "delimited_field s (p + length hs + 1) ?e (of_nat 59) (CHR '':'') =
      Some (of_nat (dec_val ms), p + length hs + 1 + length ms, True)"
    using assms by (intro field_number [of s "pre @ hs @ '':''" ms _ "ss @ ?frac" post]) (auto simp: time_text_def)
  moreover have "\<exists>q. parse_seconds s (p + length hs + 1 + length ms + 1) ?e p ?tm = Some (False, q,
      ?tm\<lparr>second := of_nat (dec_val ss), second_part := of_nat (micros f)\<rparr>)"
    using assms by (intro seconds_text [of s "pre @ hs @ '':'' @ ms @ '':''" ss f post]) (auto simp: time_text_def)
  ultimately show ?thesis by (auto simp: parse_time_def)
qed

text \<open>The year of a date: two digits stand for 1970 to 2069.\<close>

definition full_year :: "bytes \<Rightarrow> nat" where
  "full_year ys = (if length ys = 2 then dec_val ys + (if dec_val ys \<ge> 70 then 1900 else 2000) else dec_val ys)"

lemma date_text_parsed:
  assumes "s = pre @ date_text ys ms ds @ rest @ post" "number ys" "number ms" "number ds"
    "dec_val ys \<le> 9999" "dec_val ms \<le> 12" "dec_val ds \<le> 31" "rest = [] \<or> \<not> isdigit (hd rest)"
    "p = length pre" "len = length (date_text ys ms ds) + length rest"
  shows "parse_date s p len tm = Some (False, p + length (date_text ys ms ds), tm\<lparr>year := of_nat (full_year ys),
    month := of_nat (dec_val ms), day := of_nat (dec_val ds)\<rparr>)"
proof -
  let ?e = "p + len"
  have "delimited_field s p ?e (of_nat 9999) (CHR ''-'') = Some (of_nat (dec_val ys), p + length ys, True)"
    using assms by (intro field_number [of s pre ys _ "ms @ ''-'' @ ds @ rest" post]) (auto simp: date_text_def)
  moreover have "delimited_field s (p + length ys + 1) ?e (of_nat 12) (CHR ''-'') =
      Some (of_nat (dec_val ms), p + length ys + 1 + length ms, True)"
    using assms by (intro field_number [of s "pre @ ys @ ''-''" ms _ "ds @ rest" post]) (auto simp: date_text_def)
  moreover have "my_strtoui s (p + length ys + 1 + length ms + 1) (?e - (p + length ys + 1 + length ms + 1)) =
      Some (of_nat (dec_val ds), p + length ys + 1 + length ms + 1 + length ds, False)"
    using assms by (intro ui_number [of s "pre @ ys @ ''-'' @ ms @ ''-''" ds rest post]) (auto simp: date_text_def)
  moreover have "\<not> (31 :: u32) < of_nat (dec_val ds)" using le_of_nat [OF assms(7)] by simp
  moreover have "(70 :: u32) \<le> of_nat (dec_val ys) \<longleftrightarrow> 70 \<le> dec_val ys"
    using assms(5) by (simp add: word_le_nat_alt unat_of_nat)
  ultimately show ?thesis
    by (simp add: parse_date_def full_year_def date_text_def)
qed

lemma skip_front_spaces:
  assumes "list_all isspace ws" "b \<noteq> []" "\<not> isspace (hd b)" "s = pre @ ws @ b" "length pre + length ws < e"
  shows "skip_front s (length pre) e = Some (length pre + length ws)"
  using assms
proof (induction ws arbitrary: pre)
  case Nil
  then have "rd s (length pre) = Some (hd b)" by (cases b) (auto simp: rd_def)
  with Nil show ?case by (subst skip_front.simps) simp
next
  case (Cons c ws)
  then have "skip_front s (length (pre @ [c])) e = Some (length (pre @ [c]) + length ws)"
    by (intro Cons.IH) auto
  moreover have "rd s (length pre) = Some c" using Cons.prems(4) by (simp add: rd_def)
  ultimately show ?case using Cons.prems by (subst skip_front.simps) simp
qed

lemma skip_back_spaces:
  assumes "list_all isspace ws" "x \<noteq> []" "\<not> isspace (last x)" "s = x @ ws @ post" "p < length x"
  shows "skip_back s p (length x + length ws) = Some (length x)"
  using assms
proof (induction ws arbitrary: post rule: rev_induct)
  case Nil
  then have "rd s (length x - 1) = Some (last x)" by (simp add: rd_def nth_append last_conv_nth)
  with Nil show ?case by (cases "length x") auto
next
  case (snoc c ws)
  have "rd s (length x + length ws) = Some c" using snoc.prems(4) by (simp add: rd_def nth_append)
  moreover have "skip_back s p (length x + length ws) = Some (length x)"
    using snoc.prems by (intro snoc.IH [of "[c] @ post"]) auto
  ultimately show ?case using snoc.prems by simp
qed

lemma find_delimiter_digits:
  assumes "list_all isdigit ds" "c = CHR ''-'' \<or> c = CHR '':''" "s = pre @ ds @ c # rest" "length pre + length ds < e"
  shows "find_delimiter s (length pre) e = Some (c = CHR '':'')"
  using assms
proof (induction ds arbitrary: pre)
  case Nil
  then have "rd s (length pre) = Some c" by (simp add: rd_def)
  with Nil show ?case by (subst find_delimiter.simps) auto
next
  case (Cons d ds)
  then have "find_delimiter s (length (pre @ [d])) e = Some (c = CHR '':'')"
    by (intro Cons.IH) auto
  moreover have "rd s (length pre) = Some d" using Cons.prems(3) by (simp add: rd_def)
  moreover have "d \<noteq> CHR ''-''" "d \<noteq> CHR '':''" using Cons.prems(1) by auto
  ultimately show ?case using Cons.prems by (subst find_delimiter.simps) simp
qed

text \<open>A temporal value as the server prints it.\<close>

datatype temporal =
    TTime bool bytes bytes bytes bytes
  | TDate bytes bytes bytes
  | TDateTime bytes bytes bytes bytes bytes bytes bytes

fun temporal_text :: "temporal \<Rightarrow> bytes" where
  "temporal_text (TTime ng hs ms ss f) = (if ng then ''-'' else []) @ time_text hs ms ss f"
| "temporal_text (TDate ys mo ds) = date_text ys mo ds"
| "temporal_text (TDateTime ys mo ds hs ms ss f) = date_text ys mo ds @ '' '' @ time_text hs ms ss f"

definition time_digits_ok :: "nat \<Rightarrow> bytes \<Rightarrow> bytes \<Rightarrow> bytes \<Rightarrow> bytes \<Rightarrow> bool" where
  "time_digits_ok mx hs ms ss f \<longleftrightarrow> number hs \<and> number ms \<and> number ss \<and> (f = [] \<or> number f) \<and>
     dec_val hs \<le> mx \<and> dec_val ms \<le> 59 \<and> dec_val ss \<le> 59"

definition date_digits_ok :: "bytes \<Rightarrow> bytes \<Rightarrow> bytes \<Rightarrow> bool" where
  "date_digits_ok ys mo ds \<longleftrightarrow> number ys \<and> number mo \<and> number ds \<and>
     dec_val ys \<le> 9999 \<and> dec_val mo \<le> 12 \<and> dec_val ds \<le> 31"

fun temporal_ok :: "temporal \<Rightarrow> bool" where
  "temporal_ok (TTime ng hs ms ss f) = time_digits_ok 838 hs ms ss f"
| "temporal_ok (TDate ys mo ds) = date_digits_ok ys mo ds"
| "temporal_ok (TDateTime ys mo ds hs ms ss f) = (date_digits_ok ys mo ds \<and> time_digits_ok 23 hs ms ss f)"

fun temporal_tm :: "temporal \<Rightarrow> MYSQL_TIME" where
  "temporal_tm (TTime ng hs ms ss f) = zero_time\<lparr>hour := of_nat (dec_val hs), minute := of_nat (dec_val ms),
     second := of_nat (dec_val ss), second_part := of_nat (micros f), neg := ng, time_type := MYSQL_TIMESTAMP_TIME\<rparr>"
| "temporal_tm (TDate ys mo ds) = zero_time\<lparr>year := of_nat (full_year ys), month := of_nat (dec_val mo),
     day := of_nat (dec_val ds), time_type := MYSQL_TIMESTAMP_DATE\<rparr>"
| "temporal_tm (TDateTime ys mo ds hs ms ss f) = zero_time\<lparr>year := of_nat (full_year ys),
     month := of_nat (dec_val mo), day := of_nat (dec_val ds), hour := of_nat (dec_val hs),
     minute := of_nat (dec_val ms), second := of_nat (dec_val ss), second_part := of_nat (micros f),
     time_type := MYSQL_TIMESTAMP_DATETIME\<rparr>"

lemma trimmed:
  assumes "list_all isspace ws" "list_all isspace ws'" "b \<noteq> []" "\<not> isspace (hd b)" "\<not> isspace (last b)"
    "s = ws @ b @ ws'"
  shows "skip_front s 0 (length s) = Some (length ws)"
    "skip_back s (length ws) (length s) = Some (length ws + length b)"
proof -
  have "skip_front s (length ([] :: bytes)) (length s) = Some (length ([] :: bytes) + length ws)"
    using assms by (intro skip_front_spaces [of ws "b @ ws'"]) auto
  then show "skip_front s 0 (length s) = Some (length ws)" by simp
  have "skip_back s (length ws) (length (ws @ b) + length ws') = Some (length (ws @ b))"
    using assms by (intro skip_back_spaces [of ws' "ws @ b" s "[]"]) auto
  then show "skip_back s (length ws) (length s) = Some (length ws + length b)"
    using assms(6) by (simp add: add.assoc)
qed

lemma number_chars: "number ds \<Longrightarrow> \<not> isspace (hd ds) \<and> \<not> isspace (last ds) \<and> hd ds \<noteq> CHR ''-''"
  by (cases ds) (auto simp: number_def list_all_iff dest: isdigit_not_isspace)


lemma time_text_shape:
  assumes "time_digits_ok mx hs ms ss f"
  shows "\<not> isspace (hd (time_text hs ms ss f))" "\<not> isspace (last (time_text hs ms ss f))"
    "hd (time_text hs ms ss f) \<noteq> CHR ''-''" "5 \<le> length (time_text hs ms ss f)"
proof -
  have n: "number hs" "number ms" "number ss" "f = [] \<or> number f"
    using assms by (auto simp: time_digits_ok_def)
  then have ne: "hs \<noteq> []" "ms \<noteq> []" "ss \<noteq> []" by (auto simp: number_def)
  show "\<not> isspace (hd (time_text hs ms ss f))" "hd (time_text hs ms ss f) \<noteq> CHR ''-''"
    using number_chars [OF n(1)] ne by (simp_all add: time_text_def)
  show "\<not> isspace (last (time_text hs ms ss f))"
    using number_chars [of ss] number_chars [of f] n ne by (auto simp: time_text_def number_def)
  have "1 \<le> length hs" "1 \<le> length ms" "1 \<le> length ss" using ne by (auto simp: Suc_le_eq)
  then show "5 \<le> length (time_text hs ms ss f)" by (simp add: time_text_def)
qed

lemma date_text_shape:
  assumes "date_digits_ok ys mo ds"
  shows "\<not> isspace (hd (date_text ys mo ds))" "\<not> isspace (last (date_text ys mo ds))"
    "hd (date_text ys mo ds) \<noteq> CHR ''-''" "5 \<le> length (date_text ys mo ds)"
proof -
  have n: "number ys" "number mo" "number ds"
    using assms by (auto simp: date_digits_ok_def)
  then have ne: "ys \<noteq> []" "mo \<noteq> []" "ds \<noteq> []" by (auto simp: number_def)
  show "\<not> isspace (hd (date_text ys mo ds))" "hd (date_text ys mo ds) \<noteq> CHR ''-''"
    using number_chars [OF n(1)] ne by (simp_all add: date_text_def)
  show "\<not> isspace (last (date_text ys mo ds))"
    using number_chars [OF n(3)] ne by (simp add: date_text_def)
  have "1 \<le> length ys" "1 \<le> length mo" "1 \<le> length ds" using ne by (auto simp: Suc_le_eq)
  then show "5 \<le> length (date_text ys mo ds)" by (simp add: date_text_def)
qed

lemma isspace_minus [simp]: "\<not> isspace (CHR ''-'')"
  by (simp add: isspace_def ord_def)

lemma temporal_shape:
  assumes "temporal_ok t"
  shows "temporal_text t \<noteq> []" "\<not> isspace (hd (temporal_text t))" "\<not> isspace (last (temporal_text t))"
    "5 \<le> length (temporal_text t)"
proof -
  show 5: "5 \<le> length (temporal_text t)"
    using assms time_text_shape(4) date_text_shape(4) by (cases t) (fastforce intro: trans_le_add1)+
  then show ne: "temporal_text t \<noteq> []" by auto
  have tne: "time_digits_ok mx hs ms ss f \<Longrightarrow> time_text hs ms ss f \<noteq> []"
    "date_digits_ok ys mo ds \<Longrightarrow> date_text ys mo ds \<noteq> []" for mx hs ms ss f ys mo ds
    using time_text_shape(4) date_text_shape(4) by fastforce+
  show "\<not> isspace (hd (temporal_text t))" "\<not> isspace (last (temporal_text t))"
    using assms tne time_text_shape(1,2) date_text_shape(1,2) by (cases t; auto)+
qed

lemma to_time_text:
  assumes "time_digits_ok 838 hs ms ss f" "s = pre @ time_text hs ms ss f @ post" "p = length pre"
    "e = length pre + length (time_text hs ms ss f)"
  shows "to_time s p e (tm\<lparr>neg := ng\<rparr>) = Some (False, temporal_tm (TTime ng hs ms ss f))"
proof -
  obtain q where "parse_time s p (e - p) p (tm\<lparr>neg := ng\<rparr>) = Some (False, q, tm\<lparr>neg := ng, hour := of_nat (dec_val hs),
      minute := of_nat (dec_val ms), second := of_nat (dec_val ss), second_part := of_nat (micros f)\<rparr>)"
    using time_text_parsed [of s pre hs ms ss f post p "e - p" "tm\<lparr>neg := ng\<rparr>"] assms
    by (auto simp: time_digits_ok_def)
  then show ?thesis by (simp add: to_time_def zero_time_def)
qed

lemma to_date_text:
  assumes "date_digits_ok ys mo ds" "s = pre @ date_text ys mo ds @ post" "p = length pre"
    "e = length pre + length (date_text ys mo ds)"
  shows "to_date s p e (tm\<lparr>neg := False\<rparr>) = Some (False, temporal_tm (TDate ys mo ds))"
proof -
  have "parse_date s p (e - p) (tm\<lparr>neg := False\<rparr>) = Some (False, p + length (date_text ys mo ds),
      tm\<lparr>neg := False, year := of_nat (full_year ys), month := of_nat (dec_val mo), day := of_nat (dec_val ds)\<rparr>)"
    using date_text_parsed [of s pre ys mo ds "[]" post p "e - p" "tm\<lparr>neg := False\<rparr>"] assms
    by (auto simp: date_digits_ok_def)
  then show ?thesis using assms(3,4) by (simp add: to_date_def zero_time_def)
qed

lemma to_datetime_text:
  assumes "date_digits_ok ys mo ds" "time_digits_ok 23 hs ms ss f" "p = length pre"
    "s = pre @ date_text ys mo ds @ '' '' @ time_text hs ms ss f @ post"
    "e = length pre + length (date_text ys mo ds) + 1 + length (time_text hs ms ss f)"
  shows "to_date s p e (tm\<lparr>neg := False\<rparr>) = Some (False, temporal_tm (TDateTime ys mo ds hs ms ss f))"
proof -
  let ?q = "p + length (date_text ys mo ds)"
  let ?tm = "tm\<lparr>neg := False, year := of_nat (full_year ys), month := of_nat (dec_val mo), day := of_nat (dec_val ds)\<rparr>"
  have "parse_date s p (e - p) (tm\<lparr>neg := False\<rparr>) = Some (False, ?q, ?tm)"
    using date_text_parsed [of s pre ys mo ds "'' '' @ time_text hs ms ss f" post p "e - p" "tm\<lparr>neg := False\<rparr>"] assms
    by (auto simp: date_digits_ok_def)
  moreover have "rdeq s ?q (CHR '' '') = Some True" "?q \<noteq> e"
    using assms(3-5) by (simp_all add: rdeq_def rd_def)
  moreover have "\<exists>q. parse_time s (?q + 1) (e - (?q + 1)) (?q + 1) ?tm = Some (False, q, ?tm\<lparr>hour := of_nat (dec_val hs),
      minute := of_nat (dec_val ms), second := of_nat (dec_val ss), second_part := of_nat (micros f)\<rparr>)"
    using assms by (intro time_text_parsed [of s "pre @ date_text ys mo ds @ '' ''" hs ms ss f post])
      (auto simp: time_digits_ok_def)
  moreover have "\<not> (23 :: u32) < of_nat (dec_val hs)"
    using le_of_nat [of "dec_val hs" 23] assms(2) by (simp add: time_digits_ok_def)
  ultimately show ?thesis by (auto simp: to_date_def zero_time_def)
qed

lemma delimiter_after_number:
  assumes "number ds" "c = CHR ''-'' \<or> c = CHR '':''" "s = pre @ ds @ c # rest" "length pre + length ds < e"
  shows "find_delimiter s (length pre + 1) e = Some (c = CHR '':'')" "rdeq s (length pre) (CHR ''-'') = Some False"
proof -
  obtain d ds' where ds: "ds = d # ds'" "isdigit d" "list_all isdigit ds'"
    using assms(1) by (cases ds) (auto simp: number_def)
  have "find_delimiter s (length (pre @ [d])) e = Some (c = CHR '':'')"
    using assms ds by (intro find_delimiter_digits [of ds']) auto
  then show "find_delimiter s (length pre + 1) e = Some (c = CHR '':'')" by simp
  have "d \<noteq> CHR ''-''" using ds(2) by auto
  then show "rdeq s (length pre) (CHR ''-'') = Some False"
    using assms(3) ds(1) by (simp add: rdeq_def rd_def)
qed

lemma temporal_parsed:
  assumes "temporal_ok t" and "list_all isspace ws" and "list_all isspace ws'"
  shows "Py_str_to_TIME (Some (ws @ temporal_text t @ ws')) (length (ws @ temporal_text t @ ws')) tm =
    Some (False, temporal_tm t)"
proof -
  define s where "s = ws @ temporal_text t @ ws'"
  note sh = temporal_shape [OF assms(1)]
  note tr = trimmed [OF assms(2,3) sh(1-3) s_def]
  let ?p = "length ws" and ?e = "length ws + length (temporal_text t)"
  have "Py_str_to_TIME (Some s) (length s) tm = do {
      minus \<leftarrow> rdeq s ?p (CHR ''-'');
      if minus then to_time s (?p + 1) ?e (tm\<lparr>neg := True\<rparr>)
      else do {
        is_time \<leftarrow> find_delimiter s (?p + 1) ?e;
        if is_time then to_time s ?p ?e (tm\<lparr>neg := False\<rparr>) else to_date s ?p ?e (tm\<lparr>neg := False\<rparr>) } }"
    using tr sh(4) by (simp add: Py_str_to_TIME_def)
  also have "\<dots> = Some (False, temporal_tm t)"
  proof (cases t)
    case (TTime ng hs ms ss f)
    show ?thesis
    proof (cases ng)
      case True
      then have "rdeq s ?p (CHR ''-'') = Some True" using TTime by (simp add: s_def rdeq_def rd_def)
      moreover have "to_time s (?p + 1) ?e (tm\<lparr>neg := True\<rparr>) = Some (False, temporal_tm t)"
        using assms(1) TTime True
        by (simp only: TTime) (rule to_time_text [of _ _ _ _ _ "ws @ ''-''" ws'], auto simp: s_def TTime)
      ultimately show ?thesis by simp
    next
      case False
      have "s = ws @ hs @ CHR '':'' # (ms @ '':'' @ ss @ (if f = [] then [] else ''.'' @ f)) @ ws'"
        "length ws + length hs < ?e"
        using TTime False by (simp_all add: s_def time_text_def)
      note d = delimiter_after_number [OF _ _ this]
      moreover have "to_time s ?p ?e (tm\<lparr>neg := False\<rparr>) = Some (False, temporal_tm t)"
        using assms(1) TTime False
        by (simp only: TTime) (rule to_time_text [of _ _ _ _ _ ws ws'], auto simp: s_def TTime)
      ultimately show ?thesis using assms(1) TTime by (simp add: time_digits_ok_def)
    qed
  next
    case (TDate ys mo ds)
    have "s = ws @ ys @ CHR ''-'' # (mo @ ''-'' @ ds) @ ws'" "length ws + length ys < ?e"
      using TDate by (simp_all add: s_def date_text_def)
    note d = delimiter_after_number [OF _ _ this]
    moreover have "to_date s ?p ?e (tm\<lparr>neg := False\<rparr>) = Some (False, temporal_tm t)"
      using assms(1) TDate by (simp only: TDate) (rule to_date_text [of _ _ _ _ ws ws'], auto simp: s_def TDate)
    ultimately show ?thesis using assms(1) TDate by (simp add: date_digits_ok_def)
  next
    case (TDateTime ys mo ds hs ms ss f)
    have "s = ws @ ys @ CHR ''-'' # (mo @ ''-'' @ ds @ '' '' @ time_text hs ms ss f) @ ws'" "length ws + length ys < ?e"
      using TDateTime by (simp_all add: s_def date_text_def)
    note d = delimiter_after_number [OF _ _ this]
    moreover have "to_date s ?p ?e (tm\<lparr>neg := False\<rparr>) = Some (False, temporal_tm t)"
      using assms(1) TDateTime by (simp only: TDateTime) (rule to_datetime_text [of _ _ _ _ _ _ _ _ ws _ ws'], auto simp: s_def TDateTime)
    ultimately show ?thesis using assms(1) TDateTime by (simp add: date_digits_ok_def)
  qed
  finally show ?thesis by (simp add: s_def)
qed

subsection \<open>Properties\<close>

text \<open>
  C26: a date, time or datetime as the server prints it, with any number of leading zeros
  and surrounded by white space, is read back exactly: the fields are the numbers that
  were printed, a fraction is scaled to microseconds (digits after the sixth are
  dropped), and a year of two digits means 1970 to 2069.
\<close>

theorem str_to_TIME_roundtrip:
  assumes "temporal_ok t" and "list_all isspace ws" and "list_all isspace ws'"
  shows "Py_str_to_TIME (Some (ws @ temporal_text t @ ws')) (length (ws @ temporal_text t @ ws')) tm =
    Some (False, temporal_tm t)"
  using assms by (rule temporal_parsed)

theorem str_to_TIME_roundtrip_witness:
  "Py_str_to_TIME (Some ('' -007:08:09.25'' @ [CHR 0x0A])) (length ('' -007:08:09.25'' @ [CHR 0x0A])) zero_time =
     Some (False, zero_time\<lparr>hour := 7, minute := 8, second := 9, second_part := 250000, neg := True,
       time_type := MYSQL_TIMESTAMP_TIME\<rparr>)"
  using str_to_TIME_roundtrip [of "TTime True ''007'' ''08'' ''09'' ''25''" "'' ''" "[CHR 0x0A]" zero_time]
  by (simp add: time_digits_ok_def number_def isdigit_def isspace_def ord_def time_text_def micros_def digit_val_def)

text \<open>
  C27: for every text, \<open>Py_str_to_TIME\<close> reads only inside it and ends; on success the
  fields are in the ranges that belong to the type of the value, and on failure the
  structure is zeroed and marked as an error.
\<close>

theorem str_to_TIME_safe:
  "\<exists>r. Py_str_to_TIME (Some s) (length s) tm = Some r \<and> time_result r"
  using wp_str_to_TIME [of "length s" s tm] by (auto simp: wp_def)

subsection \<open>Memory behind the text\<close>

text \<open>
  \<open>less_def x y\<close>: \<open>y\<close> is the same result as \<open>x\<close> unless \<open>x\<close> is a fault. A larger block of memory
  turns faults into results and changes nothing else.
\<close>

definition less_def :: "'a option \<Rightarrow> 'a option \<Rightarrow> bool" where
  "less_def x y \<longleftrightarrow> x = None \<or> x = y"

named_theorems less_defs \<open>scanning in a larger block\<close>

lemma less_def_refl [less_defs]: "less_def x x"
  by (simp add: less_def_def)

lemma less_def_Some: "less_def (Some v) y \<Longrightarrow> y = Some v"
  by (simp add: less_def_def)

lemma less_def_bind [less_defs]:
  "less_def x y \<Longrightarrow> (\<And>v. x = Some v \<Longrightarrow> less_def (f v) (g v)) \<Longrightarrow> less_def (Option.bind x f) (Option.bind y g)"
  by (cases x) (auto simp: less_def_def)

lemma less_def_if [less_defs]:
  "(b \<Longrightarrow> less_def x y) \<Longrightarrow> (\<not> b \<Longrightarrow> less_def x' y') \<Longrightarrow>
   less_def (if b then x else x') (if b then y else y')"
  by simp

lemma less_def_prod [less_defs]:
  "(\<And>a b. less_def (f a b) (g a b)) \<Longrightarrow> less_def (case p of (a, b) \<Rightarrow> f a b) (case p of (a, b) \<Rightarrow> g a b)"
  by (cases p) simp

lemma less_def_map [less_defs]: "less_def x y \<Longrightarrow> less_def (map_option f x) (map_option f y)"
  by (auto simp: less_def_def)

lemma less_def_andalso [less_defs]: "less_def x y \<Longrightarrow> less_def x' y' \<Longrightarrow> less_def (andalso x x') (andalso y y')"
  unfolding andalso_def by (intro less_defs)

lemma less_def_rd [less_defs]: "less_def (rd s i) (rd (s @ t) i)" "less_def (rdeq s i c) (rdeq (s @ t) i c)"
  by (simp_all add: less_def_def rdeq_def rd_def nth_append)

lemma less_def_strtoull [less_defs]: "less_def (strtoull_loop s p e v) (strtoull_loop (s @ t) p e v)"
proof (induction s p e v rule: strtoull_loop.induct)
  case (1 s p e v)
  show ?case
    by (subst strtoull_loop.simps [of s p e], subst strtoull_loop.simps [of "s @ t" p e]) (intro less_defs 1)
qed

lemma less_def_skip_front [less_defs]: "less_def (skip_front s p e) (skip_front (s @ t) p e)"
proof (induction s p e rule: skip_front.induct)
  case (1 s p e)
  show ?case
    by (subst skip_front.simps [of s p e], subst skip_front.simps [of "s @ t" p e]) (intro less_defs 1)
qed

lemma less_def_skip_back [less_defs]: "less_def (skip_back s p e) (skip_back (s @ t) p e)"
proof (induction e)
  case (Suc e)
  show ?case unfolding skip_back.simps by (intro less_defs Suc)
qed (simp add: less_defs)

lemma less_def_find_delimiter [less_defs]: "less_def (find_delimiter s i e) (find_delimiter (s @ t) i e)"
proof (induction s i e rule: find_delimiter.induct)
  case (1 s p e)
  show ?case
    by (subst find_delimiter.simps [of s p e], subst find_delimiter.simps [of "s @ t" p e]) (intro less_defs 1)
qed

lemma takeWhile_take_append:
  assumes "length (takeWhile P xs) < length xs"
  shows "takeWhile P (xs @ ys) = takeWhile P xs"
proof -
  have "takeWhile P xs \<noteq> xs" using assms by (metis less_irrefl)
  then show ?thesis by (auto simp: takeWhile_eq_all_conv)
qed

lemma less_def_skip_digits [less_defs]: "less_def (skip_digits s p e) (skip_digits (s @ t) p e)"
proof (cases "p < e")
  case True
  let ?x = "take (e - p) (drop p s)" and ?y = "take (e - p) (drop p (s @ t))"
  let ?n = "length (takeWhile isdigit ?x)"
  obtain zs where y: "?y = ?x @ zs" by simp
  show ?thesis
  proof (cases "?n < length ?x")
    case True
    then have "takeWhile isdigit ?y = takeWhile isdigit ?x" unfolding y by (rule takeWhile_take_append)
    then show ?thesis by (auto simp: skip_digits_def Let_def less_def_def)
  next
    case False
    then have n: "?n = length ?x" using length_takeWhile_le [of isdigit ?x] by linarith
    show ?thesis
    proof (cases "e \<le> length s")
      case True
      then have "?y = ?x" by simp
      then show ?thesis by (auto simp: skip_digits_def Let_def less_def_def)
    next
      case False
      then show ?thesis using n \<open>p < e\<close> by (auto simp: skip_digits_def Let_def less_def_def min_def)
    qed
  qed
qed (simp add: skip_digits_def less_defs)

lemma less_def_my_strtoui [less_defs]: "less_def (my_strtoui s p n) (my_strtoui (s @ t) p n)"
  unfolding my_strtoui_def my_strtoull_def by (intro less_defs)

lemma less_def_delimited [less_defs]: "less_def (delimited_field s p e m c) (delimited_field (s @ t) p e m c)"
  unfolding delimited_field_def by (intro less_defs)

lemma less_def_fraction [less_defs]: "less_def (parse_fraction s p e q tm) (parse_fraction (s @ t) p e q tm)"
  unfolding parse_fraction_def Let_def by (intro less_defs)

lemma less_def_parse [less_defs]:
  "less_def (parse_time s p n q tm) (parse_time (s @ t) p n q tm)"
  "less_def (parse_date s p n tm) (parse_date (s @ t) p n tm)"
  unfolding parse_time_def parse_seconds_def parse_date_def Let_def by (intro less_defs)+

lemma less_def_str_to_TIME: "less_def (Py_str_to_TIME (Some s) n tm) (Py_str_to_TIME (Some (s @ t)) n tm)"
  unfolding Py_str_to_TIME_def option.case to_time_def to_date_def Let_def by (intro less_defs)

lemma temporal_parsed_in:
  assumes "temporal_ok t"
  shows "Py_str_to_TIME (Some (temporal_text t @ post)) (length (temporal_text t)) tm = Some (False, temporal_tm t)"
  using temporal_parsed [OF assms, of "[]" "[]" tm] 
    less_def_str_to_TIME [of "temporal_text t" "length (temporal_text t)" tm post]
  by (simp add: less_def_def)

end
