(* ===== verification/Mrdb_Delta.thy ===== *)
theory Mrdb_Delta
  imports Mrdb_Time_Roundtrip
begin

text \<open>
  Temporal values on the Python side (\<open>mariadb_codecs.c\<close>): the range checks that decide
  between a value and \<open>None\<close>, \<open>timedelta\<close> objects made from \<open>MYSQL_TIME\<close>, and the way
  back for parameters. A \<open>timedelta\<close> is its normalised triple of days, seconds and
  microseconds. A signed C computation outside \<open>int\<close> is undefined and is \<open>None\<close> here.
\<close>

definition c_int :: "int \<Rightarrow> int option" where
  "c_int x = (if - (2 ^ 31) \<le> x \<and> x < 2 ^ 31 then Some x else None)"

lemma c_int_Some [simp]: "- 2147483648 \<le> x \<Longrightarrow> x < 2147483648 \<Longrightarrow> c_int x = Some x"
  by (simp add: c_int_def)

subsection \<open>Range checks\<close>

definition check_date :: "u16 \<Rightarrow> u8 \<Rightarrow> u8 \<Rightarrow> bool" where
  "check_date y m d =
     (if y < 1 \<or> y > 9999 then False
      else if m < 1 \<or> m > 12 then False
      else
        let is_leap = (y mod 4 = 0 \<and> y mod 100 \<noteq> 0) \<or> y mod 400 = 0
        in if m = 2 \<and> is_leap \<and> d > 29 then False
           else if m = 2 \<and> \<not> is_leap \<and> d > 28 then False
           else if (m = 4 \<or> m = 6 \<or> m = 9 \<or> m = 11) \<and> d > 30 then False
           else True)"

text \<open>The comparisons with zero of the source are vacuous on unsigned fields.\<close>

definition check_time :: "MYSQL_TIME \<Rightarrow> bool" where
  "check_time tm =
     (if hour tm > 838 then False
      else if minute tm < 0 \<or> minute tm > 59 then False
      else if second tm < 0 \<or> second tm > 59 then False
      else if second_part tm < 0 \<or> second_part tm > 999999 then False
      else True)"

subsection \<open>timedelta\<close>

record py_delta =
  delta_days :: int
  delta_seconds :: int
  delta_microseconds :: int

definition delta_micros :: "py_delta \<Rightarrow> int" where
  "delta_micros d =
     (delta_days d * 86400 + delta_seconds d) * 1000000 + delta_microseconds d"

definition delta_normal :: "py_delta \<Rightarrow> bool" where
  "delta_normal d \<longleftrightarrow> 0 \<le> delta_seconds d \<and> delta_seconds d < 86400 \<and>
     0 \<le> delta_microseconds d \<and> delta_microseconds d < 1000000"

text \<open>\<open>PyDelta_FromDSU\<close> normalises its arguments.\<close>

definition PyDelta_FromDSU :: "int \<Rightarrow> int \<Rightarrow> int \<Rightarrow> py_delta" where
  "PyDelta_FromDSU days seconds useconds =
     (let secs = seconds + useconds div 1000000
      in \<lparr>delta_days = days + secs div 86400, delta_seconds = secs mod 86400,
          delta_microseconds = useconds mod 1000000\<rparr>)"

definition Mrdb_GetTimeDelta :: "MYSQL_TIME \<Rightarrow> py_delta option" where
  "Mrdb_GetTimeDelta tm = do {
     let hour' = sint (if neg tm then - 1 * hour tm else hour tm);
     let minute' = sint (if neg tm then - 1 * minute tm else minute tm);
     let second' = sint (if neg tm then - 1 * second tm else second tm);
     let second_part' = sint (ucast (if neg tm then - 1 * second_part tm else second_part tm) :: u32);
     let days = c_div hour' 24;
     let hour' = c_mod hour' 24;
     h \<leftarrow> c_int (hour' * 3600);
     m \<leftarrow> c_int (minute' * 60);
     hm \<leftarrow> c_int (h + m);
     sec \<leftarrow> c_int (hm + second');
     Some (PyDelta_FromDSU days sec second_part') }"

definition mariadb_pydelta_to_tm :: "py_delta \<Rightarrow> MYSQL_TIME option" where
  "mariadb_pydelta_to_tm obj = do {
     let tm = zero_time;
     let tm = tm\<lparr>second_part := of_int (delta_microseconds obj)\<rparr>;
     let tm = tm\<lparr>neg := delta_days obj < 0\<rparr>;
     d \<leftarrow> c_int (delta_days obj * 3600);
     d \<leftarrow> c_int (d * 24);
     t \<leftarrow> c_int (d + delta_seconds obj);
     total_seconds \<leftarrow> c_int \<bar>t\<bar>;
     let (total_seconds, tm) =
       (if second_part tm \<noteq> 0 \<and> neg tm
        then (total_seconds - 1, tm\<lparr>second_part := 1000000 - second_part tm\<rparr>)
        else (total_seconds, tm));
     let tm = tm\<lparr>hour := of_int (c_div total_seconds 3600)\<rparr>;
     let remain = c_mod total_seconds 3600;
     let tm = tm\<lparr>minute := of_int (c_div remain 60)\<rparr>;
     let tm = tm\<lparr>second := of_int (c_mod remain 60)\<rparr>;
     Some tm }"

subsection \<open>date, time and datetime\<close>

text \<open>The fields the interpreter's accessor macros read from such an object.\<close>

datatype py_temporal =
    PyDate nat nat nat
  | PyTime nat nat nat nat
  | PyDateTime nat nat nat nat nat nat nat

fun temporal_clock :: "py_temporal \<Rightarrow> (nat \<times> nat \<times> nat \<times> nat) option" where
  "temporal_clock (PyTime h m s us) = Some (h, m, s, us)"
| "temporal_clock (PyDateTime y mo d h m s us) = Some (h, m, s, us)"
| "temporal_clock (PyDate y mo d) = None"

fun temporal_day :: "py_temporal \<Rightarrow> (nat \<times> nat \<times> nat) option" where
  "temporal_day (PyDate y mo d) = Some (y, mo, d)"
| "temporal_day (PyDateTime y mo d h m s us) = Some (y, mo, d)"
| "temporal_day (PyTime h m s us) = None"

text \<open>\<open>None\<close> is the use of an accessor on an object that has no such field.\<close>

definition mariadb_pydate_to_tm :: "enum_field_types \<Rightarrow> py_temporal \<Rightarrow> MYSQL_TIME option" where
  "mariadb_pydate_to_tm type obj = do {
     tm \<leftarrow> (if type = MYSQL_TYPE_TIME \<or> type = MYSQL_TYPE_DATETIME then do {
              (h, m, s, us) \<leftarrow> temporal_clock obj;
              Some (zero_time\<lparr>hour := of_nat h, minute := of_nat m, second := of_nat s,
                              second_part := of_nat us\<rparr>) }
            else Some zero_time);
     if type = MYSQL_TYPE_TIME then Some (tm\<lparr>time_type := MYSQL_TIMESTAMP_TIME\<rparr>)
     else if type = MYSQL_TYPE_DATE \<or> type = MYSQL_TYPE_DATETIME then do {
       (y, mo, d) \<leftarrow> temporal_day obj;
       Some (tm\<lparr>year := of_nat y, month := of_nat mo, day := of_nat d,
         time_type := (if type = MYSQL_TYPE_DATE then MYSQL_TIMESTAMP_DATE
                       else MYSQL_TIMESTAMP_DATETIME)\<rparr>) }
     else Some tm }"

subsection \<open>Values of times and deltas\<close>

definition tm_micros :: "MYSQL_TIME \<Rightarrow> int" where
  "tm_micros tm = (if neg tm then - 1 else 1) *
     ((uint (hour tm) * 3600 + uint (minute tm) * 60 + uint (second tm)) * 1000000 +
      uint (second_part tm))"

definition clock_ok :: "MYSQL_TIME \<Rightarrow> bool" where
  "clock_ok tm \<longleftrightarrow> uint (hour tm) < 2 ^ 31 \<and> uint (minute tm) < 60 \<and> uint (second tm) < 60 \<and>
     uint (second_part tm) < 1000000"

lemma sint_u32: "- 2147483648 \<le> x \<Longrightarrow> x < 2147483648 \<Longrightarrow> sint (of_int x :: u32) = x"
  by (simp add: signed_of_int signed_take_bit_int_eq_self)

lemma sint_signed_u32:
  assumes "uint (w :: u32) < 2 ^ 31"
  shows "sint (if b then - 1 * w else w) = (if b then - 1 else 1) * uint w"
proof -
  have "- uint w < 2147483648" "- 2147483648 \<le> uint w" using uint_ge_0 [of w] by linarith+
  then show ?thesis
    using assms sint_u32 [of "- uint w"] sint_u32 [of "uint w"] by simp
qed

lemma ucast_uminus: "ucast (- w :: u64) = (word_of_int (- uint w) :: u32)"
proof -
  have "ucast (- w) = (ucast (word_of_int (- uint w) :: u64) :: u32)"
    by (simp only: of_int_minus of_int_uint ucast_id)
  also have "\<dots> = word_of_int (take_bit 64 (- uint w))"
    by (simp only: unsigned_of_int) simp
  also have "\<dots> = word_of_int (- uint w)"
    by (simp only: word_of_int_eq_iff take_bit_take_bit) simp
  finally show ?thesis .
qed

lemma sint_signed_micros:
  assumes "uint (w :: u64) < 1000000"
  shows "sint (ucast (if b then - 1 * w else w) :: u32) = (if b then - 1 else 1) * uint w"
proof -
  have "ucast w = (of_int (uint w) :: u32)" by simp
  moreover have "- uint w < 2147483648" "- 2147483648 \<le> uint w" using uint_ge_0 [of w] by linarith+
  ultimately show ?thesis
    using assms ucast_uminus [of w] sint_u32 [of "- uint w"] sint_u32 [of "uint w"] by simp
qed

lemma FromDSU_normal: "delta_normal (PyDelta_FromDSU d s us)"
  by (simp add: delta_normal_def PyDelta_FromDSU_def Let_def)

lemma FromDSU_micros: "delta_micros (PyDelta_FromDSU d s us) = (d * 86400 + s) * 1000000 + us"
proof -
  have "(s + us div 1000000) div 86400 * 86400 + (s + us div 1000000) mod 86400 = s + us div 1000000"
    by simp
  moreover have "us div 1000000 * 1000000 + us mod 1000000 = us" by simp
  ultimately show ?thesis by (simp add: delta_micros_def PyDelta_FromDSU_def Let_def algebra_simps)
qed

lemma delta_parts:
  assumes "delta_normal d"
  shows "delta_micros d mod 1000000 = delta_microseconds d"
    "delta_micros d div 1000000 mod 86400 = delta_seconds d"
    "delta_micros d div 1000000 div 86400 = delta_days d"
proof -
  have us: "delta_microseconds d div 1000000 = 0" "delta_microseconds d mod 1000000 = delta_microseconds d"
    and s: "delta_seconds d div 86400 = 0" "delta_seconds d mod 86400 = delta_seconds d"
    using assms by (simp_all add: delta_normal_def div_pos_pos_trivial mod_pos_pos_trivial)
  show "delta_micros d mod 1000000 = delta_microseconds d"
    unfolding delta_micros_def mod_mult_self3 us ..
  have "delta_micros d div 1000000 = delta_days d * 86400 + delta_seconds d"
    unfolding delta_micros_def by (simp only: div_mult_self3 us)
  then show "delta_micros d div 1000000 mod 86400 = delta_seconds d"
    "delta_micros d div 1000000 div 86400 = delta_days d"
    by (simp_all only: mod_mult_self3 div_mult_self3 s)
qed

lemma delta_eqI: "delta_normal d \<Longrightarrow> delta_normal e \<Longrightarrow> delta_micros d = delta_micros e \<Longrightarrow> d = e"
  by (rule py_delta.equality) (use delta_parts [of d] delta_parts [of e] in auto)

lemma c_mod_bounds:
  assumes "0 < b"
  shows "\<bar>c_mod a b\<bar> < b"
proof (cases "0 \<le> a")
  case True
  with assms show ?thesis by (simp add: c_mod_nonneg)
next
  case False
  then have "c_mod a b = - (- a mod b)"
    using assms c_mod_nonneg [of "- a" b] c_mod_uminus [of a b] by simp
  with assms show ?thesis by simp
qed

lemma GetTimeDelta_value:
  assumes "clock_ok tm"
  shows "\<exists>d. Mrdb_GetTimeDelta tm = Some d \<and> delta_normal d \<and> delta_micros d = tm_micros tm"
proof -
  let ?sg = "if neg tm then - 1 else (1 :: int)"
  define h m s us where hms: "h = ?sg * uint (hour tm)" "m = ?sg * uint (minute tm)"
    "s = ?sg * uint (second tm)" "us = ?sg * uint (second_part tm)"
  have sints: "sint (if neg tm then - 1 * hour tm else hour tm) = h"
    "sint (if neg tm then - 1 * minute tm else minute tm) = m"
    "sint (if neg tm then - 1 * second tm else second tm) = s"
    "sint (ucast (if neg tm then - 1 * second_part tm else second_part tm) :: u32) = us"
    using assms sint_signed_u32 sint_signed_micros unfolding clock_ok_def hms by simp_all
  have m: "\<bar>m\<bar> < 60" and s: "\<bar>s\<bar> < 60"
    using assms by (auto simp: clock_ok_def hms)
  have h: "\<bar>c_mod h 24\<bar> < 24" by (rule c_mod_bounds) simp
  have ints: "c_int (c_mod h 24 * 3600) = Some (c_mod h 24 * 3600)" "c_int (m * 60) = Some (m * 60)"
    "c_int (c_mod h 24 * 3600 + m * 60) = Some (c_mod h 24 * 3600 + m * 60)"
    "c_int (c_mod h 24 * 3600 + m * 60 + s) = Some (c_mod h 24 * 3600 + m * 60 + s)"
    using h m s by (intro c_int_Some; linarith)+
  have "Mrdb_GetTimeDelta tm = Some (PyDelta_FromDSU (c_div h 24) (c_mod h 24 * 3600 + m * 60 + s) us)"
    unfolding Mrdb_GetTimeDelta_def Let_def sints ints by (simp only: ints bind.bind_lunit)
  moreover have "(c_div h 24 * 86400 + (c_mod h 24 * 3600 + m * 60 + s)) * 1000000 + us = tm_micros tm"
    using c_div_mod [of h 24] by (simp add: tm_micros_def hms algebra_simps)
  ultimately show ?thesis using FromDSU_normal FromDSU_micros by simp
qed

lemma uint_of_int_small:
  "0 \<le> x \<Longrightarrow> x < 2 ^ 31 \<Longrightarrow> uint (of_int x :: u32) = x"
  "0 \<le> x \<Longrightarrow> x < 2 ^ 31 \<Longrightarrow> uint (of_int x :: u64) = x"
  by (simp_all add: unsigned_of_int take_bit_int_eq_self)

definition delta_in_range :: "py_delta \<Rightarrow> bool" where
  "delta_in_range d \<longleftrightarrow> delta_normal d \<and> - 24855 \<le> delta_days d \<and> delta_days d \<le> 24854"


lemma hms_split:
  assumes "0 \<le> n" "n < 2 ^ 31"
  shows "uint (of_int (c_div n 3600) :: u32) * 3600 + uint (of_int (c_div (c_mod n 3600) 60) :: u32) * 60 +
      uint (of_int (c_mod (c_mod n 3600) 60) :: u32) = n"
    "uint (of_int (c_div n 3600) :: u32) < 2 ^ 31" "uint (of_int (c_div (c_mod n 3600) 60) :: u32) < 60"
    "uint (of_int (c_mod (c_mod n 3600) 60) :: u32) < 60"
proof -
  have c: "c_div n 3600 = n div 3600" "c_mod n 3600 = n mod 3600"
    "c_div (n mod 3600) 60 = n mod 3600 div 60" "c_mod (n mod 3600) 60 = n mod 3600 mod 60"
    using assms(1) by (simp_all add: c_simps)
  have b: "0 \<le> n div 3600" "n div 3600 < 2 ^ 31" "0 \<le> n mod 3600 div 60" "n mod 3600 div 60 < 60"
    "0 \<le> n mod 3600 mod 60" "n mod 3600 mod 60 < 60"
  proof -
    show "0 \<le> n div 3600" "0 \<le> n mod 3600 div 60"
      using assms(1) by (simp_all add: pos_imp_zdiv_nonneg_iff)
    show "n div 3600 < 2 ^ 31" using zdiv_mono2 [of n 1 3600] assms by simp
    have "n mod 3600 \<le> 3599" using pos_mod_bound [of 3600 n] by linarith
    then show "n mod 3600 div 60 < 60" using zdiv_mono1 [of "n mod 3600" 3599 60] by simp
  qed simp_all
  have sixty: "60 < (2 ^ 31 :: int)" by simp
  have u: "uint (of_int (n div 3600) :: u32) = n div 3600" "uint (of_int (n mod 3600 div 60) :: u32) = n mod 3600 div 60"
    "uint (of_int (n mod 3600 mod 60) :: u32) = n mod 3600 mod 60"
    using b by (simp_all only: uint_of_int_small(1) less_trans [OF _ sixty])
  show "uint (of_int (c_div n 3600) :: u32) * 3600 + uint (of_int (c_div (c_mod n 3600) 60) :: u32) * 60 +
      uint (of_int (c_mod (c_mod n 3600) 60) :: u32) = n"
    unfolding c u by (simp only: add.assoc div_mult_mod_eq)
  show "uint (of_int (c_div n 3600) :: u32) < 2 ^ 31" "uint (of_int (c_div (c_mod n 3600) 60) :: u32) < 60"
    "uint (of_int (c_mod (c_mod n 3600) 60) :: u32) < 60"
    unfolding c u using b by simp_all
qed


lemma pydelta_value:
  assumes "delta_in_range d"
  shows "\<exists>tm. mariadb_pydelta_to_tm d = Some tm \<and> clock_ok tm \<and> tm_micros tm = delta_micros d"
proof -
  let ?days = "delta_days d" and ?s = "delta_seconds d" and ?us = "delta_microseconds d"
  define t where "t = ?days * 3600 * 24 + ?s"
  have r: "- 24855 \<le> ?days" "?days \<le> 24854" "0 \<le> ?s" "?s < 86400" "0 \<le> ?us" "?us < 1000000"
    using assms by (auto simp: delta_in_range_def delta_normal_def)
  then have t: "- 2147472000 \<le> t" "t < 2147483648" "?days < 0 \<longleftrightarrow> t < 0" unfolding t_def by linarith+
  have ints: "c_int (?days * 3600) = Some (?days * 3600)" "c_int (?days * 3600 * 24) = Some (?days * 3600 * 24)"
    "c_int (?days * 3600 * 24 + ?s) = Some t" "c_int \<bar>t\<bar> = Some \<bar>t\<bar>"
    using r t unfolding t_def [symmetric] by (intro c_int_Some; linarith)+
  define borrow where "borrow \<longleftrightarrow> ?us \<noteq> 0 \<and> ?days < 0"
  define n where "n = (if borrow then \<bar>t\<bar> - 1 else \<bar>t\<bar>)"
  define us where "us = (if borrow then 1000000 - ?us else ?us)"
  have n: "0 \<le> n" "n < 2 ^ 31" using t by (auto simp: n_def borrow_def)
  have us: "0 \<le> us" "us < 1000000" using r by (auto simp: us_def borrow_def)
  let ?tm = "zero_time\<lparr>second_part := of_int us, neg := ?days < 0, hour := of_int (c_div n 3600),
    minute := of_int (c_div (c_mod n 3600) 60), second := of_int (c_mod (c_mod n 3600) 60)\<rparr>"
  have "(of_int ?us :: u64) \<noteq> 0 \<longleftrightarrow> ?us \<noteq> 0"
    using uint_of_int_small(2) [of ?us] r by fastforce
  then have "mariadb_pydelta_to_tm d = Some ?tm"
    unfolding mariadb_pydelta_to_tm_def Let_def
    by (simp only: ints bind.bind_lunit) (auto simp: borrow_def n_def us_def)
  moreover have uus: "uint (of_int us :: u64) = us" using us by (intro uint_of_int_small(2)) auto
  have "clock_ok ?tm" using hms_split(2-4) [OF n] us(2) by (simp add: clock_ok_def uus)
  moreover have "tm_micros ?tm = (if ?days < 0 then - 1 else 1) * (n * 1000000 + us)"
    by (simp add: tm_micros_def hms_split(1) [OF n] uus)
  moreover have "\<dots> = t * 1000000 + ?us" using t(3) by (auto simp: n_def us_def borrow_def)
  moreover have "t * 1000000 + ?us = delta_micros d" by (simp add: t_def delta_micros_def)
  ultimately show ?thesis by auto
qed

subsection \<open>Dates of the calendar\<close>

definition leap_year :: "nat \<Rightarrow> bool" where
  "leap_year y \<longleftrightarrow> 4 dvd y \<and> (\<not> 100 dvd y \<or> 400 dvd y)"

definition days_in_month :: "nat \<Rightarrow> nat \<Rightarrow> nat" where
  "days_in_month y m =
     (if m = 2 then (if leap_year y then 29 else 28) else if m \<in> {4, 6, 9, 11} then 30 else 31)"

definition valid_date :: "nat \<Rightarrow> nat \<Rightarrow> nat \<Rightarrow> bool" where
  "valid_date y m d \<longleftrightarrow> y \<in> {1..9999} \<and> m \<in> {1..12} \<and> d \<in> {1..days_in_month y m}"

lemma check_date_iff:
  assumes "d \<le> 31"
  shows "check_date y m d \<longleftrightarrow>
    valid_date (unat y) (unat m) (unat d) \<or> d = 0 \<and> valid_date (unat y) (unat m) 1"
proof -
  define Y M D where ymd: "Y = unat y" "M = unat m" "D = unat d"
  have leap: "((y mod 4 = 0 \<and> y mod 100 \<noteq> 0) \<or> y mod 400 = 0) \<longleftrightarrow> leap_year Y"
    using dvd_trans [of 4 400 Y] by (auto simp: word_unat_eq_iff unat_mod leap_year_def dvd_eq_mod_eq_0 ymd)
  have D: "D \<le> 31" "d = 0 \<longleftrightarrow> D = 0" using assms by (simp_all add: ymd word_le_nat_alt unat_eq_zero)
  have "check_date y m d \<longleftrightarrow> 1 \<le> Y \<and> Y \<le> 9999 \<and> 1 \<le> M \<and> M \<le> 12 \<and>
      \<not> (M = 2 \<and> leap_year Y \<and> 29 < D) \<and> \<not> (M = 2 \<and> \<not> leap_year Y \<and> 28 < D) \<and>
      \<not> ((M = 4 \<or> M = 6 \<or> M = 9 \<or> M = 11) \<and> 30 < D)"
    unfolding check_date_def Let_def leap
    by (simp add: word_less_nat_alt word_unat_eq_iff ymd [symmetric] not_less Suc_le_eq)
  also have "\<dots> \<longleftrightarrow> Y \<in> {1..9999} \<and> M \<in> {1..12} \<and> D \<le> days_in_month Y M"
    using D(1) by (auto simp: days_in_month_def)
  also have "\<dots> \<longleftrightarrow> valid_date Y M D \<or> d = 0 \<and> valid_date Y M 1"
    using D(2) by (cases "D = 0") (auto simp: valid_date_def days_in_month_def)
  finally show ?thesis by (simp add: ymd)
qed

text \<open>
  C33: on days up to 31, \<open>check_date\<close> accepts exactly the dates of the proleptic Gregorian
  calendar between year 1 and 9999, and moreover day 0 of every month.
\<close>

theorem check_date_calendar:
  assumes "d \<le> 31"
  shows "check_date y m d \<longleftrightarrow>
    valid_date (unat y) (unat m) (unat d) \<or> d = 0 \<and> valid_date (unat y) (unat m) 1"
  using assms by (rule check_date_iff)

theorem check_date_calendar_witness:
  "check_date 2024 2 29 \<and> \<not> check_date 2023 2 29 \<and> check_date 2023 2 0"
  using check_date_calendar [of 29 2024 2] check_date_calendar [of 29 2023 2] check_date_calendar [of 0 2023 2]
  by (simp add: valid_date_def days_in_month_def leap_year_def)

text \<open>
  For a time whose clock fields are in range, \<open>Mrdb_GetTimeDelta\<close> computes without
  overflow and gives the normalised \<open>timedelta\<close> of exactly that many microseconds, with
  the sign of the time.
\<close>

theorem GetTimeDelta_exact:
  assumes "clock_ok tm"
  shows "\<exists>d. Mrdb_GetTimeDelta tm = Some d \<and> delta_normal d \<and> delta_micros d = tm_micros tm"
  using assms by (rule GetTimeDelta_value)

theorem GetTimeDelta_exact_witness:
  "\<exists>d. Mrdb_GetTimeDelta (zero_time\<lparr>hour := 25, second_part := 1, neg := True\<rparr>) = Some d \<and>
       delta_normal d \<and> delta_micros d = - 90000000001"
  using GetTimeDelta_exact [of "zero_time\<lparr>hour := 25, second_part := 1, neg := True\<rparr>"]
  by (simp add: clock_ok_def tm_micros_def zero_time_def)

text \<open>
  C25: a \<open>timedelta\<close> of less than 24855 days bound as a parameter and converted back is the
  same \<open>timedelta\<close>, negative ones with a microsecond part included; no signed computation
  overflows on the way.
\<close>

theorem timedelta_roundtrip:
  assumes "delta_in_range d"
  shows "Option.bind (mariadb_pydelta_to_tm d) Mrdb_GetTimeDelta = Some d"
proof -
  obtain tm where tm: "mariadb_pydelta_to_tm d = Some tm" "clock_ok tm" "tm_micros tm = delta_micros d"
    using pydelta_value [OF assms] by blast
  obtain e where "Mrdb_GetTimeDelta tm = Some e" "delta_normal e" "delta_micros e = delta_micros d"
    using GetTimeDelta_value [OF tm(2)] tm(3) by auto
  with tm(1) assms delta_eqI [of e d] show ?thesis by (simp add: delta_in_range_def)
qed

definition sample_delta :: py_delta where
  "sample_delta = \<lparr>delta_days = - 1, delta_seconds = 86398, delta_microseconds = 500000\<rparr>"

theorem timedelta_roundtrip_witness:
  "Option.bind (mariadb_pydelta_to_tm sample_delta) Mrdb_GetTimeDelta = Some sample_delta"
  using timedelta_roundtrip [of sample_delta]
  by (simp add: sample_delta_def delta_in_range_def delta_normal_def)

text \<open>
  Beyond that range the conversion overflows: a \<open>timedelta\<close> of 24856 days or more
  makes the signed product of days and seconds leave \<open>int\<close>.
\<close>

theorem timedelta_overflow:
  assumes "24856 \<le> delta_days d"
  shows "mariadb_pydelta_to_tm d = None"
proof (cases "delta_days d * 3600 < 2 ^ 31")
  case True
  then have "c_int (delta_days d * 3600) = Some (delta_days d * 3600)"
    using assms by (simp add: c_int_def)
  moreover have "c_int (delta_days d * 3600 * 24) = None" using assms by (simp add: c_int_def)
  ultimately show ?thesis
    unfolding mariadb_pydelta_to_tm_def Let_def by (simp only: bind.bind_lunit bind.bind_lzero)
next
  case False
  then have "c_int (delta_days d * 3600) = None" by (simp add: c_int_def)
  then show ?thesis
    unfolding mariadb_pydelta_to_tm_def Let_def by (simp only: bind.bind_lzero)
qed

theorem timedelta_overflow_witness:
  "mariadb_pydelta_to_tm \<lparr>delta_days = 30000, delta_seconds = 0, delta_microseconds = 0\<rparr> = None"
  using timedelta_overflow [of "\<lparr>delta_days = 30000, delta_seconds = 0, delta_microseconds = 0\<rparr>"] by simp

subsection \<open>Text and binary form of the same value\<close>

fun pad :: "nat \<Rightarrow> nat \<Rightarrow> bytes" where
  "pad 0 n = []"
| "pad (Suc w) n = pad w (n div 10) @ [digit_char (n mod 10)]"

lemma length_pad [simp]: "length (pad w n) = w"
  by (induction w arbitrary: n) auto

lemma digits_pad: "list_all isdigit (pad w n)"
  by (induction w arbitrary: n) auto

lemma dec_val_pad: "n < 10 ^ w \<Longrightarrow> dec_val (pad w n) = n"
proof (induction w arbitrary: n)
  case (Suc w)
  then have "n div 10 < 10 ^ w" by (simp add: less_mult_imp_div_less)
  with Suc.IH show ?case by simp
qed simp

lemma number_pad: "0 < w \<Longrightarrow> number (pad w n)"
  using digits_pad [of w n] by (cases "pad w n") (auto simp: number_def simp flip: length_0_conv)

fun py_temporal_ok :: "py_temporal \<Rightarrow> bool" where
  "py_temporal_ok (PyDate y mo d) \<longleftrightarrow> valid_date y mo d"
| "py_temporal_ok (PyTime h m s us) \<longleftrightarrow> h < 24 \<and> m < 60 \<and> s < 60 \<and> us < 1000000"
| "py_temporal_ok (PyDateTime y mo d h m s us) \<longleftrightarrow>
     valid_date y mo d \<and> h < 24 \<and> m < 60 \<and> s < 60 \<and> us < 1000000"

fun iso_tokens :: "py_temporal \<Rightarrow> temporal" where
  "iso_tokens (PyDate y mo d) = TDate (pad 4 y) (pad 2 mo) (pad 2 d)"
| "iso_tokens (PyTime h m s us) = TTime False (pad 2 h) (pad 2 m) (pad 2 s) (pad 6 us)"
| "iso_tokens (PyDateTime y mo d h m s us) =
     TDateTime (pad 4 y) (pad 2 mo) (pad 2 d) (pad 2 h) (pad 2 m) (pad 2 s) (pad 6 us)"

fun temporal_field_type :: "py_temporal \<Rightarrow> enum_field_types" where
  "temporal_field_type (PyDate y mo d) = MYSQL_TYPE_DATE"
| "temporal_field_type (PyTime h m s us) = MYSQL_TYPE_TIME"
| "temporal_field_type (PyDateTime y mo d h m s us) = MYSQL_TYPE_DATETIME"

lemma days_in_month_le: "days_in_month y m \<le> 31"
  by (simp add: days_in_month_def)

lemma micros_pad: "us < 1000000 \<Longrightarrow> micros (pad 6 us) = us"
  using dec_val_pad [of us 6] by (simp add: micros_def)

lemma date_digits_pad:
  assumes "valid_date y mo d"
  shows "date_digits_ok (pad 4 y) (pad 2 mo) (pad 2 d)" "full_year (pad 4 y) = y"
    "dec_val (pad 2 mo) = mo" "dec_val (pad 2 d) = d"
proof -
  have "y \<le> 9999" "mo \<le> 12" "d \<le> 31"
    using assms days_in_month_le [of y mo] by (auto simp: valid_date_def)
  then show "date_digits_ok (pad 4 y) (pad 2 mo) (pad 2 d)" "full_year (pad 4 y) = y"
    "dec_val (pad 2 mo) = mo" "dec_val (pad 2 d) = d"
    by (simp_all add: date_digits_ok_def full_year_def dec_val_pad number_pad)
qed

lemma time_digits_pad:
  assumes "h < 24" "m < 60" "s < 60" "us < 1000000"
  shows "time_digits_ok 23 (pad 2 h) (pad 2 m) (pad 2 s) (pad 6 us)"
    "dec_val (pad 2 h) = h" "dec_val (pad 2 m) = m" "dec_val (pad 2 s) = s"
  using assms by (simp_all add: time_digits_ok_def dec_val_pad number_pad)

lemma time_digits_ok_mono: "time_digits_ok a hs ms ss f \<Longrightarrow> a \<le> b \<Longrightarrow> time_digits_ok b hs ms ss f"
  by (auto simp: time_digits_ok_def)

lemma pydate_to_tm_iso:
  assumes "py_temporal_ok obj"
  shows "mariadb_pydate_to_tm (temporal_field_type obj) obj = Some (temporal_tm (iso_tokens obj))"
  using assms date_digits_pad(2-4) time_digits_pad(2-4) micros_pad
  by (cases obj) (auto simp: mariadb_pydate_to_tm_def zero_time_def)

text \<open>
  C32: the text protocol and the parameter conversion agree: the ISO text of a Python date,
  time or datetime is scanned to the very structure that the object is bound as.
\<close>

theorem iso_text_agrees:
  assumes "py_temporal_ok obj"
  shows "\<exists>tm. mariadb_pydate_to_tm (temporal_field_type obj) obj = Some tm \<and>
    Py_str_to_TIME (Some (temporal_text (iso_tokens obj))) (length (temporal_text (iso_tokens obj))) zero_time =
      Some (False, tm)"
proof -
  have ok: "temporal_ok (iso_tokens obj)"
    using assms date_digits_pad(1) time_digits_pad(1) time_digits_ok_mono [of 23 _ _ _ _ 838]
    by (cases obj) auto
  with pydate_to_tm_iso [OF assms] temporal_parsed [OF ok, of "[]" "[]" zero_time] show ?thesis by simp
qed

theorem iso_text_agrees_witness:
  "\<exists>tm. mariadb_pydate_to_tm MYSQL_TYPE_DATE (PyDate 2024 2 29) = Some tm \<and> day tm = 29 \<and>
    Py_str_to_TIME (Some ''2024-02-29'') (length ''2024-02-29'') zero_time = Some (False, tm)"
proof -
  have "pad 4 2024 = ''2024''" "pad 2 2 = ''02''" "pad 2 29 = ''29''" by code_simp+
  then show ?thesis
    using iso_text_agrees [of "PyDate 2024 2 29"]
    by (simp add: valid_date_def days_in_month_def leap_year_def mariadb_pydate_to_tm_def
        zero_time_def date_text_def)
qed

end
