(* ===== verification/Mrdb_Korr.thy ===== *)
theory Mrdb_Korr
  imports Mrdb_Prelude
begin

text \<open>
  The protocol macros of \<open>mariadb_python.h\<close> (the branch for platforms other than IA-32):
  little-endian loads and stores of 1 to 8 bytes. The arithmetic is kept at the width of
  the C types; the reference is the value of a list of bytes, least significant first.
\<close>

unbundle bit_operations_syntax

subsection \<open>Loads\<close>

text \<open>\<open>(A)[k]\<close> read as an unsigned character at the width of the expression.\<close>

definition byte_at :: "bytes \<Rightarrow> nat \<Rightarrow> 'w::len word option" where
  "byte_at b i = map_option (\<lambda>c. of_nat (ord c)) (rd b i)"

definition uint1korr :: "bytes \<Rightarrow> nat \<Rightarrow> u8 option" where
  "uint1korr b i = byte_at b i"

definition uint2korr :: "bytes \<Rightarrow> nat \<Rightarrow> u16 option" where
  "uint2korr b i = do {
     a0 \<leftarrow> byte_at b i; a1 \<leftarrow> byte_at b (i + 1);
     Some (a0 + push_bit 8 a1) }"

definition uint3korr :: "bytes \<Rightarrow> nat \<Rightarrow> u32 option" where
  "uint3korr b i = do {
     a0 \<leftarrow> byte_at b i; a1 \<leftarrow> byte_at b (i + 1); a2 \<leftarrow> byte_at b (i + 2);
     Some (a0 + push_bit 8 a1 + push_bit 16 a2) }"

definition uint4korr :: "bytes \<Rightarrow> nat \<Rightarrow> u32 option" where
  "uint4korr b i = do {
     a0 \<leftarrow> byte_at b i; a1 \<leftarrow> byte_at b (i + 1); a2 \<leftarrow> byte_at b (i + 2);
     a3 \<leftarrow> byte_at b (i + 3);
     Some (a0 + push_bit 8 a1 + push_bit 16 a2 + push_bit 24 a3) }"

definition uint5korr :: "bytes \<Rightarrow> nat \<Rightarrow> u64 option" where
  "uint5korr b i = do {
     lo \<leftarrow> uint4korr b i; a4 \<leftarrow> byte_at b (i + 4);
     Some (ucast lo + push_bit 32 a4) }"

definition uint6korr :: "bytes \<Rightarrow> nat \<Rightarrow> u64 option" where
  "uint6korr b i = do {
     lo \<leftarrow> uint4korr b i; a4 \<leftarrow> byte_at b (i + 4); a5 \<leftarrow> byte_at b (i + 5);
     Some (ucast lo + push_bit 32 a4 + push_bit 40 a5) }"

definition uint8korr :: "bytes \<Rightarrow> nat \<Rightarrow> u64 option" where
  "uint8korr b i = do {
     lo \<leftarrow> uint4korr b i; hi \<leftarrow> uint4korr b (i + 4);
     Some (ucast lo + push_bit 32 (ucast hi)) }"

definition sint2korr :: "bytes \<Rightarrow> nat \<Rightarrow> int option" where
  "sint2korr b i = do {
     a0 \<leftarrow> byte_at b i; a1 \<leftarrow> byte_at b (i + 1);
     Some (sint (a0 + push_bit 8 a1 :: u16)) }"

definition sint3korr :: "bytes \<Rightarrow> nat \<Rightarrow> int option" where
  "sint3korr b i = do {
     a0 \<leftarrow> byte_at b i; a1 \<leftarrow> byte_at b (i + 1); a2 \<leftarrow> byte_at b (i + 2);
     Some (sint (if a2 AND 128 \<noteq> 0
                 then push_bit 24 255 OR push_bit 16 a2 OR push_bit 8 a1 OR a0
                 else push_bit 16 a2 OR push_bit 8 a1 OR a0 :: u32)) }"

definition sint4korr :: "bytes \<Rightarrow> nat \<Rightarrow> int option" where
  "sint4korr b i = do {
     a0 \<leftarrow> byte_at b i; a1 \<leftarrow> byte_at b (i + 1); a2 \<leftarrow> byte_at b (i + 2);
     a3 \<leftarrow> byte_at b (i + 3);
     Some (sint (a0 + push_bit 8 a1 + push_bit 16 a2 + push_bit 24 a3 :: u32)) }"

definition sint8korr :: "bytes \<Rightarrow> nat \<Rightarrow> int option" where
  "sint8korr b i = map_option sint (uint8korr b i)"

subsection \<open>Stores\<close>

text \<open>The low eight bits of a value shifted right by \<open>k\<close>, as a byte.\<close>

definition byte_of :: "'w::len word \<Rightarrow> nat \<Rightarrow> char" where
  "byte_of v k = char_of (unat (drop_bit k v))"

definition int2store :: "u32 \<Rightarrow> bytes" where
  "int2store v = [byte_of v 0, byte_of v 8]"

definition int3store :: "u32 \<Rightarrow> bytes" where
  "int3store v = [byte_of v 0, byte_of v 8, byte_of v 16]"

definition int4store :: "u32 \<Rightarrow> bytes" where
  "int4store v = [byte_of v 0, byte_of v 8, byte_of v 16, byte_of v 24]"

definition int5store :: "u64 \<Rightarrow> bytes" where
  "int5store v = [byte_of v 0, byte_of v 8, byte_of v 16, byte_of v 24, byte_of v 32]"

definition int6store :: "u64 \<Rightarrow> bytes" where
  "int6store v =
     [byte_of v 0, byte_of v 8, byte_of v 16, byte_of v 24, byte_of v 32, byte_of v 40]"

definition int8store :: "u64 \<Rightarrow> bytes" where
  "int8store v = int4store (ucast v) @ int4store (ucast (drop_bit 32 v))"

subsection \<open>Reference: little-endian values\<close>

fun le_val :: "bytes \<Rightarrow> nat" where
  "le_val [] = 0"
| "le_val (c # cs) = ord c + 256 * le_val cs"

fun le_bytes :: "nat \<Rightarrow> nat \<Rightarrow> bytes" where
  "le_bytes 0 n = []"
| "le_bytes (Suc w) n = char_of n # le_bytes w (n div 256)"

text \<open>Two's complement of a value of \<open>w\<close> bytes.\<close>

definition le_signed :: "bytes \<Rightarrow> int" where
  "le_signed cs = (if 2 * le_val cs < 256 ^ length cs then int (le_val cs)
                   else int (le_val cs) - 256 ^ length cs)"

lemma le_val_less: "le_val cs < 256 ^ length cs"
proof (induction cs)
  case (Cons c cs)
  have "ord c + 256 * le_val cs < 256 * x" if "le_val cs < x" for x
    using that ord_less [of c] by linarith
  from this [OF Cons.IH] show ?case by simp
qed simp

lemma length_le_bytes [simp]: "length (le_bytes w n) = w"
  by (induction w arbitrary: n) auto

lemma ord_char_of: "ord (char_of n) = n mod 256"
  by (simp add: ord_def)

lemma le_val_le_bytes: "n < 256 ^ w \<Longrightarrow> le_val (le_bytes w n) = n"
proof (induction w arbitrary: n)
  case (Suc w)
  then have "n div 256 < 256 ^ w" by (simp add: less_mult_imp_div_less)
  with Suc.IH show ?case by (simp add: ord_char_of)
qed simp

subsection \<open>Loads against the reference\<close>

lemma byte_at_nth: "i < length b \<Longrightarrow> byte_at b i = Some (of_nat (ord (b ! i)))"
  by (simp add: byte_at_def rd_in)

lemma take_2: "i + 2 \<le> length b \<Longrightarrow> take 2 (drop i b) = [b ! i, b ! (i + 1)]"
  and take_3: "i + 3 \<le> length b \<Longrightarrow> take 3 (drop i b) = [b ! i, b ! (i + 1), b ! (i + 2)]"
  and take_4: "i + 4 \<le> length b \<Longrightarrow> take 4 (drop i b) = [b ! i, b ! (i + 1), b ! (i + 2), b ! (i + 3)]"
  by (simp_all add: take_Suc_conv_app_nth numeral_eq_Suc)

lemma le_val_append: "le_val (xs @ ys) = le_val xs + 256 ^ length xs * le_val ys"
  by (induction xs) (simp_all add: algebra_simps)

lemma uint2korr_val: "i + 2 \<le> length b \<Longrightarrow> uint2korr b i = Some (of_nat (le_val (take 2 (drop i b))))"
  by (simp add: uint2korr_def byte_at_nth take_2 push_bit_eq_mult algebra_simps)

lemma uint3korr_val: "i + 3 \<le> length b \<Longrightarrow> uint3korr b i = Some (of_nat (le_val (take 3 (drop i b))))"
  by (simp add: uint3korr_def byte_at_nth take_3 push_bit_eq_mult algebra_simps)

lemma uint4korr_val: "i + 4 \<le> length b \<Longrightarrow> uint4korr b i = Some (of_nat (le_val (take 4 (drop i b))))"
  by (simp add: uint4korr_def byte_at_nth take_4 push_bit_eq_mult algebra_simps)

lemma ucast_of_nat_u32: "n < 2 ^ 32 \<Longrightarrow> ucast (of_nat n :: u32) = (of_nat n :: u64)"
  by (simp add: word_unat_eq_iff unsigned_ucast_eq unat_of_nat take_bit_eq_mod)

lemma le_val_4: "length cs = 4 \<Longrightarrow> le_val cs < 2 ^ 32"
  using le_val_less [of cs] by simp

lemma take_split: "take (m + n) (drop i b) = take m (drop i b) @ take n (drop (i + m) b)"
  by (simp add: take_add add.commute)

lemma uint5korr_val:
  assumes "i + 5 \<le> length b"
  shows "uint5korr b i = Some (of_nat (le_val (take 5 (drop i b))))"
proof -
  have "take 5 (drop i b) = take 4 (drop i b) @ [b ! (i + 4)]"
    using assms take_split [of 4 1 i b] by (simp add: take_Suc_conv_app_nth)
  moreover have "ucast (of_nat (le_val (take 4 (drop i b))) :: u32) = (of_nat (le_val (take 4 (drop i b))) :: u64)"
    using assms by (intro ucast_of_nat_u32 le_val_4) simp
  ultimately show ?thesis
    using assms by (simp add: uint5korr_def uint4korr_val byte_at_nth push_bit_eq_mult le_val_append)
qed

lemma uint6korr_val:
  assumes "i + 6 \<le> length b"
  shows "uint6korr b i = Some (of_nat (le_val (take 6 (drop i b))))"
proof -
  have "take 6 (drop i b) = take 4 (drop i b) @ [b ! (i + 4), b ! (i + 5)]"
    using assms take_split [of 4 2 i b] take_2 [of "i + 4" b] by (simp add: add.commute [of i])
  moreover have "ucast (of_nat (le_val (take 4 (drop i b))) :: u32) = (of_nat (le_val (take 4 (drop i b))) :: u64)"
    using assms by (intro ucast_of_nat_u32 le_val_4) simp
  ultimately show ?thesis
    using assms by (simp add: uint6korr_def uint4korr_val byte_at_nth push_bit_eq_mult le_val_append algebra_simps)
qed

lemma uint8korr_val:
  assumes "i + 8 \<le> length b"
  shows "uint8korr b i = Some (of_nat (le_val (take 8 (drop i b))))"
proof -
  have "take 8 (drop i b) = take 4 (drop i b) @ take 4 (drop (i + 4) b)"
    using take_split [of 4 4 i b] by simp
  moreover have "ucast (of_nat (le_val (take 4 (drop j b))) :: u32) = (of_nat (le_val (take 4 (drop j b))) :: u64)"
    if "j = i \<or> j = i + 4" for j
    using assms that by (intro ucast_of_nat_u32 le_val_4) auto
  ultimately show ?thesis
    using assms by (simp add: uint8korr_def uint4korr_val push_bit_eq_mult le_val_append algebra_simps)
qed

text \<open>Two's complement at the three widths of C's signed types.\<close>

lemma wrap_signed:
  fixes x h :: int
  assumes "0 \<le> x" "x < 2 * h"
  shows "(x + h) mod (2 * h) - h = (if x < h then x else x - 2 * h)"
  using assms mod_pos_geq [of "2 * h" "x + h"] by (simp add: mod_pos_pos_trivial)

lemma sint_of_nat_u16: "n < 2 ^ 16 \<Longrightarrow> sint (of_nat n :: u16) = (if 2 * n < 2 ^ 16 then int n else int n - 2 ^ 16)"
  using int_word_sint [of "int n", where 'a = 16] wrap_signed [of "int n" 32768] by auto

lemma sint_of_nat_u32: "n < 2 ^ 32 \<Longrightarrow> sint (of_nat n :: u32) = (if 2 * n < 2 ^ 32 then int n else int n - 2 ^ 32)"
  using int_word_sint [of "int n", where 'a = 32] wrap_signed [of "int n" 2147483648] by auto

lemma sint_of_nat_u64: "n < 2 ^ 64 \<Longrightarrow> sint (of_nat n :: u64) = (if 2 * n < 2 ^ 64 then int n else int n - 2 ^ 64)"
  using int_word_sint [of "int n", where 'a = 64] wrap_signed [of "int n" 9223372036854775808] by auto


lemma le_signed_val:
  assumes "i + w \<le> length b"
  shows "le_val (take w (drop i b)) < 256 ^ w"
    "le_signed (take w (drop i b)) = (if 2 * le_val (take w (drop i b)) < 256 ^ w then int (le_val (take w (drop i b)))
       else int (le_val (take w (drop i b))) - 256 ^ w)"
  using assms le_val_less [of "take w (drop i b)"] by (simp_all add: le_signed_def)

lemma sint2korr_val: "i + 2 \<le> length b \<Longrightarrow> sint2korr b i = Some (le_signed (take 2 (drop i b)))"
proof -
  assume "i + 2 \<le> length b"
  moreover have "sint2korr b i = map_option sint (uint2korr b i)"
    by (simp add: sint2korr_def uint2korr_def map_option_bind comp_def)
  ultimately show ?thesis
    using le_signed_val [of i 2 b] sint_of_nat_u16 [of "le_val (take 2 (drop i b))"]
    by (simp add: uint2korr_val)
qed

lemma sint4korr_val: "i + 4 \<le> length b \<Longrightarrow> sint4korr b i = Some (le_signed (take 4 (drop i b)))"
proof -
  assume "i + 4 \<le> length b"
  moreover have "sint4korr b i = map_option sint (uint4korr b i)"
    by (simp add: sint4korr_def uint4korr_def map_option_bind comp_def)
  ultimately show ?thesis
    using le_signed_val [of i 4 b] sint_of_nat_u32 [of "le_val (take 4 (drop i b))"]
    by (simp add: uint4korr_val)
qed

lemma sint8korr_val: "i + 8 \<le> length b \<Longrightarrow> sint8korr b i = Some (le_signed (take 8 (drop i b)))"
  using le_signed_val [of i 8 b] sint_of_nat_u64 [of "le_val (take 8 (drop i b))"]
  by (simp add: sint8korr_def uint8korr_val)

lemma or_add_u32:
  assumes "k < 2 ^ n" "n < 32"
  shows "push_bit n x OR (of_nat k :: u32) = push_bit n x + of_nat k"
proof -
  have "take_bit n (of_nat k) = (of_nat k :: u32)"
    using assms by (simp add: take_bit_of_nat take_bit_nat_eq_self)
  moreover have "push_bit n x AND take_bit n (of_nat k :: u32) = 0"
    by (rule bit_eqI) (auto simp: bit_simps)
  ultimately show ?thesis by (simp add: disjunctive_add_eq_or)
qed

lemma sign_bit_u32: "k < 256 \<Longrightarrow> (of_nat k :: u32) AND 128 \<noteq> 0 \<longleftrightarrow> 128 \<le> k"
proof -
  assume k: "k < 256"
  have "(of_nat k :: u32) AND 128 = 0 \<longleftrightarrow> \<not> bit (of_nat k :: u32) 7"
    using and_exp_eq_0_iff_not_bit [of "of_nat k :: u32" 7] by simp
  also have "\<dots> \<longleftrightarrow> \<not> bit k 7" by (simp only: bit_of_nat_iff possible_bit_word) simp
  also have "\<dots> \<longleftrightarrow> \<not> odd (k div 128)" by (simp add: bit_iff_odd)
  also have "\<dots> \<longleftrightarrow> k < 128"
  proof (cases "k < 128")
    case False
    then have "k div 128 = 1" using k by (simp add: div_nat_eqI)
    with False show ?thesis by simp
  qed simp
  finally show ?thesis by auto
qed

lemma sint3korr_val:
  assumes "i + 3 \<le> length b"
  shows "sint3korr b i = Some (le_signed (take 3 (drop i b)))"
proof -
  let ?n = "le_val (take 3 (drop i b))"
  define x0 x1 x2 where x: "x0 = ord (b ! i)" "x1 = ord (b ! (i + 1))" "x2 = ord (b ! (i + 2))"
  have r: "x0 < 256" "x1 < 256" "x2 < 256" by (simp_all add: x)
  have n: "?n = x2 * 65536 + (x1 * 256 + x0)" using assms by (simp add: take_3 x)
  have lo: "push_bit 8 (of_nat x1) OR (of_nat x0 :: u32) = of_nat (x1 * 256 + x0)"
    using r by (simp add: or_add_u32) (simp add: push_bit_eq_mult)
  have mid: "push_bit 16 (of_nat x2) OR (push_bit 8 (of_nat x1) OR (of_nat x0 :: u32)) = of_nat ?n"
    unfolding lo using r by (subst or_add_u32) (simp_all add: push_bit_eq_mult n)
  have lt: "?n < 2 ^ 24" using le_signed_val(1) [OF assms] by simp
  have hi: "push_bit 24 255 OR push_bit 16 (of_nat x2) OR push_bit 8 (of_nat x1) OR (of_nat x0 :: u32) =
      of_nat (2 ^ 32 - 2 ^ 24 + ?n)"
    unfolding mid using lt by (subst or_add_u32) (simp_all add: push_bit_eq_mult)
  have sign: "(of_nat x2 :: u32) AND 128 \<noteq> 0 \<longleftrightarrow> \<not> 2 * ?n < 256 ^ 3"
    using sign_bit_u32 [OF r(3)] r by (auto simp: n)
  have "sint3korr b i = Some (sint (if (of_nat x2 :: u32) AND 128 \<noteq> 0
      then of_nat (2 ^ 32 - 2 ^ 24 + ?n) else of_nat ?n :: u32))"
    using assms hi mid by (simp add: sint3korr_def byte_at_nth x)
  moreover have "sint (of_nat ?n :: u32) = int ?n" if "2 * ?n < 256 ^ 3"
    using that sint_of_nat_u32 [of ?n] by simp
  moreover have "sint (of_nat (2 ^ 32 - 2 ^ 24 + ?n) :: u32) = int ?n - 256 ^ 3"
    using lt sint_of_nat_u32 [of "2 ^ 32 - 2 ^ 24 + ?n"] by simp
  ultimately show ?thesis
    unfolding sign le_signed_val(2) [OF assms] by simp
qed


subsection \<open>Stores against the reference\<close>

lemma byte_of_div: "byte_of v k = char_of (unat v div 2 ^ k)"
  unfolding byte_of_def unat_drop_bit_eq by (simp add: drop_bit_eq_div)

lemma le_bytes_add: "le_bytes (m + k) n = le_bytes m n @ le_bytes k (n div 256 ^ m)"
  by (induction m arbitrary: n) (simp_all add: div_mult2_eq)

lemma le_bytes_mod: "le_bytes m (n mod 256 ^ m) = le_bytes m n"
proof (induction m arbitrary: n)
  case (Suc m)
  have "n mod 256 ^ Suc m div 256 = n div 256 mod 256 ^ m"
    by (simp add: mod_mult2_eq)
  moreover have "char_of (n mod 256 ^ Suc m) = (char_of n :: char)"
    using char_of_mod_256 [of "n mod 256 ^ Suc m"] char_of_mod_256 [of n] by (simp add: mod_mult2_eq)
  ultimately show ?case using Suc.IH [of "n div 256"] by simp
qed simp

lemma le_bytes_numeral: "le_bytes (numeral k) n = char_of n # le_bytes (pred_numeral k) (n div 256)"
  by (subst numeral_eq_Suc) simp

lemma store_bytes:
  "int2store v = le_bytes 2 (unat v)" "int3store v = le_bytes 3 (unat v)" "int4store v = le_bytes 4 (unat v)"
  "int5store w = le_bytes 5 (unat w)" "int6store w = le_bytes 6 (unat w)"
  by (simp_all add: int2store_def int3store_def int4store_def int5store_def int6store_def byte_of_div
      le_bytes_numeral div_mult2_eq [symmetric])

lemma int8store_bytes: "int8store w = le_bytes 8 (unat w)"
proof -
  have "unat (ucast w :: u32) = unat w mod 256 ^ 4" "unat (ucast (drop_bit 32 w) :: u32) = unat w div 256 ^ 4 mod 256 ^ 4"
    unfolding unsigned_ucast_eq unat_drop_bit_eq by (simp_all add: take_bit_eq_mod drop_bit_eq_div)
  then show ?thesis
    using le_bytes_add [of 4 4 "unat w"] le_bytes_mod [of 4 "unat w"]
      le_bytes_mod [of 4 "unat w div 256 ^ 4"]
    by (simp add: int8store_def store_bytes)
qed


subsection \<open>Encoding and decoding a sequence\<close>

locale le_codec =
  fixes width :: nat and store :: "'v \<Rightarrow> bytes" and load :: "bytes \<Rightarrow> nat \<Rightarrow> 'v option"
    and fits :: "'v \<Rightarrow> bool"
  assumes length_store: "length (store v) = width"
    and load_store: "fits v \<Longrightarrow> load (pre @ store v @ post) (length pre) = Some v"
begin

lemma load_sequence:
  assumes "list_all fits vs" "k < length vs"
  shows "load (concat (map store vs)) (k * width) = Some (vs ! k)"
proof -
  have len: "length (concat (map store us)) = length us * width" for us
    by (induction us) (simp_all add: length_store)
  have "concat (map store vs) = concat (map store (take k vs)) @ store (vs ! k) @ concat (map store (drop (Suc k) vs))"
    using id_take_nth_drop [OF assms(2)] by (metis concat.simps(2) concat_append list.simps(9) map_append)
  moreover have "fits (vs ! k)" using assms by (simp add: list_all_length)
  ultimately show ?thesis
    using load_store [of "vs ! k" "concat (map store (take k vs))"] len [of "take k vs"] assms(2) by simp
qed

end

lemma stored_at: "length cs = w \<Longrightarrow> take w (drop (length pre) (pre @ cs @ post)) = cs"
  by simp

lemma unat_u16: "unat (ucast (v :: u16) :: u32) = unat v" and unat_u16_less: "unat (v :: u16) < 256 ^ 2"
  using unsigned_less [of v, where 'a = nat] by (simp_all add: unsigned_ucast_eq take_bit_nat_eq_self)

lemma unat_u32_less: "unat (v :: u32) < 256 ^ 4" and unat_u64_bound: "unat (w :: u64) < 256 ^ 8"
  using unsigned_less [of v, where 'a = nat] unsigned_less [of w, where 'a = nat] by simp_all

interpretation le2: le_codec 2 "\<lambda>v :: u16. int2store (ucast v)" uint2korr "\<lambda>_. True"
  by unfold_locales
    (simp_all add: store_bytes uint2korr_val stored_at le_val_le_bytes unat_u16 unat_u16_less [simplified])

interpretation le3: le_codec 3 int3store uint3korr "\<lambda>v. unat v < 2 ^ 24"
  by unfold_locales (simp_all add: store_bytes uint3korr_val stored_at le_val_le_bytes)

interpretation le4: le_codec 4 int4store uint4korr "\<lambda>_. True"
  by unfold_locales (simp_all add: store_bytes uint4korr_val stored_at le_val_le_bytes unat_u32_less [simplified])

interpretation le5: le_codec 5 int5store uint5korr "\<lambda>v. unat v < 2 ^ 40"
  by unfold_locales (simp_all add: store_bytes uint5korr_val stored_at le_val_le_bytes)

interpretation le6: le_codec 6 int6store uint6korr "\<lambda>v. unat v < 2 ^ 48"
  by unfold_locales (simp_all add: store_bytes uint6korr_val stored_at le_val_le_bytes)

interpretation le8: le_codec 8 int8store uint8korr "\<lambda>_. True"
  by unfold_locales (simp_all add: int8store_bytes uint8korr_val stored_at le_val_le_bytes unat_u64_bound [simplified])


subsection \<open>Properties\<close>

text \<open>
  C28: wherever eight bytes are left in the packet, every load macro yields the
  little-endian value of the bytes it covers, the signed ones in two's complement, the
  sign extension of the three-byte integer included.
\<close>

theorem korr_loads_reference:
  assumes "i + 8 \<le> length b"
  shows "map_option unat (uint2korr b i) = Some (le_val (take 2 (drop i b))) \<and>
    map_option unat (uint3korr b i) = Some (le_val (take 3 (drop i b))) \<and>
    map_option unat (uint4korr b i) = Some (le_val (take 4 (drop i b))) \<and>
    map_option unat (uint5korr b i) = Some (le_val (take 5 (drop i b))) \<and>
    map_option unat (uint6korr b i) = Some (le_val (take 6 (drop i b))) \<and>
    map_option unat (uint8korr b i) = Some (le_val (take 8 (drop i b))) \<and>
    sint2korr b i = Some (le_signed (take 2 (drop i b))) \<and>
    sint3korr b i = Some (le_signed (take 3 (drop i b))) \<and>
    sint4korr b i = Some (le_signed (take 4 (drop i b))) \<and>
    sint8korr b i = Some (le_signed (take 8 (drop i b)))"
  using assms le_signed_val(1) [of i 2 b] le_signed_val(1) [of i 3 b] le_signed_val(1) [of i 4 b]
    le_signed_val(1) [of i 5 b] le_signed_val(1) [of i 6 b] le_signed_val(1) [of i 8 b]
  by (simp add: uint2korr_val uint3korr_val uint4korr_val uint5korr_val uint6korr_val uint8korr_val
      sint2korr_val sint3korr_val sint4korr_val sint8korr_val unat_of_nat)

theorem korr_loads_reference_witness:
  "sint3korr [CHR 0xFE, CHR 0xFF, CHR 0xFF, CHR 0x00, CHR 0x00, CHR 0x00, CHR 0x00, CHR 0x00] 0 = Some (- 2) \<and>
   map_option unat (uint3korr [CHR 0xFE, CHR 0xFF, CHR 0xFF, CHR 0x00, CHR 0x00, CHR 0x00, CHR 0x00, CHR 0x00] 0) =
     Some 16777214"
  using korr_loads_reference [of 0 "[CHR 0xFE, CHR 0xFF, CHR 0xFF, CHR 0x00, CHR 0x00, CHR 0x00, CHR 0x00, CHR 0x00]"]
  by (simp add: le_signed_def ord_def)

text \<open>
  C29: a packet made of consecutive stores is read back value by value, for each of the
  six widths; three, five and six bytes carry the values below 2 to the 24, 40 and 48.
\<close>

theorem korr_store_load:
  assumes "k < length v2" and "k < length v3" and "k < length v4" and "k < length v5"
    and "k < length v6" and "k < length v8"
    and "list_all (\<lambda>v. unat v < 2 ^ 24) v3" and "list_all (\<lambda>v. unat v < 2 ^ 40) v5"
    and "list_all (\<lambda>v. unat v < 2 ^ 48) v6"
  shows "uint2korr (concat (map (\<lambda>v. int2store (ucast v)) v2)) (k * 2) = Some (v2 ! k) \<and>
    uint3korr (concat (map int3store v3)) (k * 3) = Some (v3 ! k) \<and>
    uint4korr (concat (map int4store v4)) (k * 4) = Some (v4 ! k) \<and>
    uint5korr (concat (map int5store v5)) (k * 5) = Some (v5 ! k) \<and>
    uint6korr (concat (map int6store v6)) (k * 6) = Some (v6 ! k) \<and>
    uint8korr (concat (map int8store v8)) (k * 8) = Some (v8 ! k)"
  using assms
  by (intro conjI le2.load_sequence le3.load_sequence le4.load_sequence le5.load_sequence
      le6.load_sequence le8.load_sequence) (simp_all add: list_all_iff)

theorem korr_store_load_witness:
  "uint3korr (concat (map int3store [7, 0xABCDEF])) (1 * 3) = Some 0xABCDEF \<and>
   uint8korr (concat (map int8store [1, - 1])) (1 * 8) = Some (- 1)"
  using korr_store_load [of 1 "[0, 1]" "[7, 0xABCDEF]" "[0, 1]" "[0, 1]" "[0, 1]" "[1, - 1]"] by simp

end
