(* ===== verification/Mrdb_Object.thy ===== *)
theory Mrdb_Object
  imports Mrdb_Delta Mrdb_Korr Mrdb_Exception
begin

text \<open>
  Python objects as far as the extension module looks at them, the functions of the
  interpreter and of the client library it hands values to, and the metadata of a column
  (\<open>MYSQL_FIELD\<close>, \<open>mariadb_extended_field_type\<close>).

  A pointer that may be \<open>NULL\<close> is an option: \<open>None\<close> is the null pointer. A computation that
  dereferences a null pointer, leaves a buffer or is undefined in C is \<open>None\<close> in the outer
  option of its result.
\<close>

subsection \<open>Objects\<close>

text \<open>
  A \<open>float\<close> is the bit pattern of its double, a \<open>str\<close> the list of its code points and a
  \<open>Decimal\<close> its canonical text. \<open>PyIndicator\<close> is an object with an attribute \<open>indicator\<close>;
  \<open>PyOther\<close> is an object of any other type, with the name of that type.
\<close>

datatype pyobj =
    PyNone
  | PyBool bool
  | PyLong int
  | PyFloat u64
  | PyBytes bytes
  | PyUnicode "nat list"
  | PyTemporal py_temporal
  | PyTimedelta py_delta
  | PyDecimal bytes
  | PyIndicator int
  | PyList "pyobj list"
  | PyTuple "pyobj list"
  | PyDict "(pyobj \<times> pyobj) list"
  | PyOther string

text \<open>
  Functions of the interpreter, the C library and the client library that are parameters
  of the model: \<open>PyLong_FromString\<close> with base 0, the UTF-8 codec behind
  \<open>PyUnicode_FromStringAndSize\<close> and \<open>PyUnicode_AsUTF8AndSize\<close>, \<open>atof\<close>, the widening of a
  float, the class \<open>decimal.Decimal\<close>, \<open>PyObject_Str\<close> in UTF-8, \<open>PyFloat_AsDouble\<close> on an object
  that is no float, the macro \<open>IS_NUM\<close> of the client library, and \<open>mysql_net_field_length\<close>,
  which returns the length stored at a position of a packet and the position behind it.
\<close>

record pyapi =
  long_from_string :: "bytes \<Rightarrow> int option"
  utf8_decode :: "bytes \<Rightarrow> nat list option"
  utf8_encode :: "nat list \<Rightarrow> bytes option"
  atof :: "bytes \<Rightarrow> u64"
  float_to_double :: "u32 \<Rightarrow> u64"
  decimal_new :: "bytes \<Rightarrow> bytes option"
  object_str :: "pyobj \<Rightarrow> bytes option"
  object_as_double :: "pyobj \<Rightarrow> u64"
  is_num :: "enum_field_types \<Rightarrow> bool"
  mysql_net_field_length :: "bytes \<Rightarrow> nat \<Rightarrow> (u64 \<times> nat) option"

text \<open>\<open>PyDate_FromDate\<close> and \<open>PyDateTime_FromDateAndTime\<close> raise outside the ranges of the class.\<close>

definition PyDate_FromDate :: "int \<Rightarrow> int \<Rightarrow> int \<Rightarrow> pyobj option" where
  "PyDate_FromDate y m d =
     (if 0 \<le> y \<and> 0 \<le> m \<and> 0 \<le> d \<and> valid_date (nat y) (nat m) (nat d)
      then Some (PyTemporal (PyDate (nat y) (nat m) (nat d))) else None)"

definition clock_range :: "int \<Rightarrow> int \<Rightarrow> int \<Rightarrow> int \<Rightarrow> bool" where
  "clock_range h m s us \<longleftrightarrow> 0 \<le> h \<and> h < 24 \<and> 0 \<le> m \<and> m < 60 \<and> 0 \<le> s \<and> s < 60 \<and>
     0 \<le> us \<and> us < 1000000"

definition PyDateTime_FromDateAndTime ::
    "int \<Rightarrow> int \<Rightarrow> int \<Rightarrow> int \<Rightarrow> int \<Rightarrow> int \<Rightarrow> int \<Rightarrow> pyobj option" where
  "PyDateTime_FromDateAndTime y mo d h m s us =
     (if PyDate_FromDate y mo d \<noteq> None \<and> clock_range h m s us
      then Some (PyTemporal (PyDateTime (nat y) (nat mo) (nat d) (nat h) (nat m) (nat s) (nat us)))
      else None)"

text \<open>The C string at a position of a buffer, and its length; without a NUL the scan leaves the buffer.\<close>

definition c_string :: "bytes \<Rightarrow> nat \<Rightarrow> bytes option" where
  "c_string b p = (if NUL \<in> set (drop p b) then Some (takeWhile (\<lambda>c. c \<noteq> NUL) (drop p b)) else None)"

lemma c_string_terminated [simp]:
  "NUL \<notin> set s \<Longrightarrow> c_string (s @ NUL # post) 0 = Some s"
  by (auto simp: c_string_def takeWhile_append)

subsection \<open>Columns\<close>

datatype enum_extended_field_type =
    EXT_TYPE_NONE | EXT_TYPE_JSON | EXT_TYPE_UUID | EXT_TYPE_INET4 | EXT_TYPE_INET6
  | EXT_TYPE_POINT | EXT_TYPE_MULTIPOINT | EXT_TYPE_LINESTRING | EXT_TYPE_MULTILINESTRING
  | EXT_TYPE_POLYGON | EXT_TYPE_MULTIPOLYGON | EXT_TYPE_GEOMETRYCOLLECTION

text \<open>
  The fields of \<open>MYSQL_FIELD\<close> that are read or written. \<open>attr_format_name\<close> and
  \<open>attr_data_type_name\<close> are what \<open>mariadb_field_attr\<close> gives for the two attributes; \<open>None\<close> is
  a failing call.
\<close>

record MYSQL_FIELD =
  field_type :: enum_field_types
  flags :: u32
  charsetnr :: u32
  max_length :: u64
  attr_format_name :: "bytes option"
  attr_data_type_name :: "bytes option"
  field_name :: bytes
  org_name :: bytes
  field_table :: bytes
  org_table :: bytes
  field_db :: bytes
  field_catalog :: bytes
  field_length :: u64
  decimals :: u32

definition CHARSET_BINARY :: u32 where "CHARSET_BINARY = 63"

definition UNSIGNED_FLAG :: u32 where "UNSIGNED_FLAG = 32"

definition extended_field_types :: "(enum_extended_field_type \<times> bytes) list" where
  "extended_field_types =
     [(EXT_TYPE_JSON, ''json''), (EXT_TYPE_UUID, ''uuid''), (EXT_TYPE_INET4, ''inet4''),
      (EXT_TYPE_INET6, ''inet6''), (EXT_TYPE_POINT, ''point''),
      (EXT_TYPE_MULTIPOINT, ''multipoint''), (EXT_TYPE_LINESTRING, ''linestring''),
      (EXT_TYPE_MULTILINESTRING, ''multilinestring''), (EXT_TYPE_POLYGON, ''polygon''),
      (EXT_TYPE_MULTIPOLYGON, ''multipolygon''),
      (EXT_TYPE_GEOMETRYCOLLECTION, ''geometrycollection'')]"

definition mariadb_extended_field_type ::
    "MYSQL_FIELD \<Rightarrow> (enum_extended_field_type \<times> bytes) option" where
  "mariadb_extended_field_type field = do {
     str \<leftarrow> attr_format_name field;
     str \<leftarrow> (if str = [] then attr_data_type_name field else Some str);
     if str \<noteq> [] then find (\<lambda>e. snd e = str) extended_field_types else None }"

end
