(* ===== verification/Mrdb_Fetch.thy ===== *)
theory Mrdb_Fetch
  imports Mrdb_Object
begin

text \<open>
  Values of a result set (\<open>mariadb_codecs.c\<close>): \<open>field_fetch_fromtext\<close> for the text protocol
  and \<open>field_fetch_callback\<close> for the binary protocol turn one column of a row into a Python
  object, store it in \<open>self->values\<close>, keep \<open>max_length\<close> up to date and call the user's
  converter.
\<close>

unbundle bit_operations_syntax

text \<open>
  The part of the cursor the two functions use. A converter maps a field type to a
  callable, whose result \<open>None\<close> is a raised exception.
\<close>

record fetch_state =
  cur_fields :: "MYSQL_FIELD list"
  fetch_values :: "pyobj option list"
  converter :: "(enum_field_types \<Rightarrow> (pyobj \<Rightarrow> pyobj option) option) option"

subsection \<open>Common steps\<close>

text \<open>Calling a function with a null pointer as its argument is a fault.\<close>

definition ma_convert_value ::
    "(enum_field_types \<Rightarrow> (pyobj \<Rightarrow> pyobj option) option) option \<Rightarrow> enum_field_types \<Rightarrow>
     pyobj option \<Rightarrow> pyobj option option" where
  "ma_convert_value conv type val =
     (case conv of
        None \<Rightarrow> Some None
      | Some dict \<Rightarrow>
          (case dict type of
             None \<Rightarrow> Some None
           | Some func \<Rightarrow> map_option func val))"

definition convert_type :: "MYSQL_FIELD \<Rightarrow> enum_field_types" where
  "convert_type field =
     (case mariadb_extended_field_type field of
        Some (ext_type, name) \<Rightarrow>
          (if ext_type = EXT_TYPE_JSON then MYSQL_TYPE_JSON else field_type field)
      | None \<Rightarrow> field_type field)"

definition convert_step :: "'a fetch_state_scheme \<Rightarrow> MYSQL_FIELD \<Rightarrow> pyobj option \<Rightarrow> pyobj option option" where
  "convert_step self field val =
     (if converter self \<noteq> None then do {
        new_value \<leftarrow> ma_convert_value (converter self) (convert_type field) val;
        Some (if new_value \<noteq> None then new_value else val) }
      else Some val)"

text \<open>
  \<open>PyBytes_FromStringAndSize\<close> or \<open>PyUnicode_FromStringAndSize\<close>, by the character set of the
  column, on \<open>len\<close> bytes from position \<open>p\<close>.
\<close>

definition text_object :: "pyapi \<Rightarrow> MYSQL_FIELD \<Rightarrow> bytes \<Rightarrow> nat \<Rightarrow> nat \<Rightarrow> pyobj option option" where
  "text_object api field b p len =
     (if p + len \<le> length b
      then Some (if charsetnr field = CHARSET_BINARY
                 then Some (PyBytes (take len (drop p b)))
                 else map_option PyUnicode (utf8_decode api (take len (drop p b))))
      else None)"

text \<open>The length of the object in characters; \<open>PyUnicode_GET_LENGTH\<close> of \<open>NULL\<close> is a fault.\<close>

fun object_length :: "pyobj option \<Rightarrow> nat \<Rightarrow> nat option" where
  "object_length (Some (PyUnicode cs)) n = Some (length cs)"
| "object_length (Some obj) n = Some n"
| "object_length None n = None"

definition grow :: "u64 \<Rightarrow> MYSQL_FIELD \<Rightarrow> MYSQL_FIELD" where
  "grow len field = (if len > max_length field then field\<lparr>max_length := len\<rparr> else field)"

text \<open>A blob: \<open>max_length\<close> is a number of bytes.\<close>

definition fetch_blob :: "pyapi \<Rightarrow> MYSQL_FIELD \<Rightarrow> bytes \<Rightarrow> nat \<Rightarrow> u64 \<Rightarrow>
    (MYSQL_FIELD \<times> pyobj option) option" where
  "fetch_blob api field b p len = do {
     obj \<leftarrow> text_object api field b p (unat len);
     Some (grow len field, obj) }"

text \<open>A string: \<open>max_length\<close> is a number of bytes or of characters, by the character set.\<close>

definition fetch_string :: "pyapi \<Rightarrow> MYSQL_FIELD \<Rightarrow> bytes \<Rightarrow> nat \<Rightarrow> u64 \<Rightarrow>
    (MYSQL_FIELD \<times> pyobj option) option" where
  "fetch_string api field b p len = do {
     obj \<leftarrow> text_object api field b p (unat len);
     n \<leftarrow> object_length obj (unat len);
     Some (grow (of_nat n) field, obj) }"

subsection \<open>Text protocol\<close>

definition text_long :: "pyapi \<Rightarrow> bytes \<Rightarrow> pyobj option option" where
  "text_long api data = do {
     s \<leftarrow> c_string data 0;
     let p = (if length s > 1 then dropWhile (\<lambda>c. c = CHR ''0'') s else s);
     Some (map_option PyLong (long_from_string api p)) }"

definition text_temporal :: "MYSQL_FIELD \<Rightarrow> bytes \<Rightarrow> pyobj option option" where
  "text_temporal field data = do {
     s \<leftarrow> c_string data 0;
     (rc, tm) \<leftarrow> Py_str_to_TIME (Some data) (length s) zero_time;
     if field_type field = MYSQL_TYPE_TIME then
       (if check_time tm then map_option (\<lambda>d. Some (PyTimedelta d)) (Mrdb_GetTimeDelta tm)
        else Some (Some PyNone))
     else if field_type field = MYSQL_TYPE_DATE then
       Some (if check_date (ucast (year tm)) (ucast (month tm)) (ucast (day tm))
             then PyDate_FromDate (sint (year tm)) (sint (month tm)) (sint (day tm))
             else Some PyNone)
     else
       Some (if check_date (ucast (year tm)) (ucast (month tm)) (ucast (day tm)) \<and> check_time tm
             then PyDateTime_FromDateAndTime (sint (year tm)) (sint (month tm)) (sint (day tm))
                    (sint (hour tm)) (sint (minute tm)) (sint (second tm))
                    (sint (ucast (second_part tm) :: u32))
             else Some PyNone) }"

text \<open>
  The switch: the column with its new \<open>max_length\<close> and the value stored, from the data, the
  lengths that \<open>mysql_fetch_lengths\<close> reports, and the value stored before.
\<close>

definition text_switch :: "pyapi \<Rightarrow> MYSQL_FIELD \<Rightarrow> bytes option \<Rightarrow> u64 option \<Rightarrow> pyobj option \<Rightarrow>
    (MYSQL_FIELD \<times> pyobj option) option" where
  "text_switch api field data len old =
     (case data of
        None \<Rightarrow> Some (field, Some PyNone)
      | Some b \<Rightarrow>
          let type = field_type field in
          if type = MYSQL_TYPE_NULL then Some (field, Some PyNone)
          else if type \<in> {MYSQL_TYPE_TINY, MYSQL_TYPE_SHORT, MYSQL_TYPE_YEAR, MYSQL_TYPE_INT24,
              MYSQL_TYPE_LONG, MYSQL_TYPE_LONGLONG}
          then map_option (Pair field) (text_long api b)
          else if type \<in> {MYSQL_TYPE_FLOAT, MYSQL_TYPE_DOUBLE}
          then map_option (\<lambda>s. (field, Some (PyFloat (atof api s)))) (c_string b 0)
          else if type \<in> {MYSQL_TYPE_TIME, MYSQL_TYPE_DATE, MYSQL_TYPE_DATETIME,
              MYSQL_TYPE_TIMESTAMP}
          then map_option (Pair field) (text_temporal field b)
          else if type \<in> {MYSQL_TYPE_TINY_BLOB, MYSQL_TYPE_MEDIUM_BLOB, MYSQL_TYPE_BLOB,
              MYSQL_TYPE_LONG_BLOB, MYSQL_TYPE_GEOMETRY, MYSQL_TYPE_BIT}
          then Option.bind len (fetch_blob api field b 0)
          else if type = MYSQL_TYPE_NEWDECIMAL
          then map_option (\<lambda>s. (field, map_option PyDecimal (decimal_new api s))) (c_string b 0)
          else if type \<in> {MYSQL_TYPE_STRING, MYSQL_TYPE_VAR_STRING, MYSQL_TYPE_JSON,
              MYSQL_TYPE_VARCHAR, MYSQL_TYPE_DECIMAL, MYSQL_TYPE_SET, MYSQL_TYPE_ENUM}
          then Option.bind len (fetch_string api field b 0)
          else Some (field, old))"

definition field_fetch_fromtext :: "pyapi \<Rightarrow> u64 list \<Rightarrow> 'a fetch_state_scheme \<Rightarrow> bytes option \<Rightarrow> nat \<Rightarrow>
    'a fetch_state_scheme option" where
  "field_fetch_fromtext api lengths self data column = do {
     field \<leftarrow> rd (cur_fields self) column;
     old \<leftarrow> rd (fetch_values self) column;
     (field, val) \<leftarrow> text_switch api field data (rd lengths column) old;
     val \<leftarrow> convert_step self field val;
     Some (self\<lparr>cur_fields := (cur_fields self)[column := field],
               fetch_values := (fetch_values self)[column := val]\<rparr>) }"

subsection \<open>Binary protocol\<close>

definition is_unsigned_field :: "MYSQL_FIELD \<Rightarrow> bool" where
  "is_unsigned_field field \<longleftrightarrow> flags field AND UNSIGNED_FLAG \<noteq> 0"

text \<open>\<open>memcpy\<close> of the bytes of a float or a double on a little-endian machine.\<close>

definition float4get :: "bytes \<Rightarrow> nat \<Rightarrow> u32 option" where
  "float4get b p = (if p + 4 \<le> length b then Some (of_nat (le_val (take 4 (drop p b)))) else None)"

definition float8get :: "bytes \<Rightarrow> nat \<Rightarrow> u64 option" where
  "float8get b p = (if p + 8 \<le> length b then Some (of_nat (le_val (take 8 (drop p b)))) else None)"

text \<open>Integers: the value and the number of bytes consumed.\<close>

definition binary_long :: "MYSQL_FIELD \<Rightarrow> bytes \<Rightarrow> nat \<Rightarrow> (pyobj option \<times> nat) option" where
  "binary_long field b p = do {
     let unsigned = is_unsigned_field field;
     (v, n) \<leftarrow>
       (if field_type field = MYSQL_TYPE_TINY then do {
          c \<leftarrow> rd b p; Some (int (ord c), 1) }
        else if field_type field \<in> {MYSQL_TYPE_SHORT, MYSQL_TYPE_YEAR} then do {
          v \<leftarrow> (if unsigned then map_option uint (uint2korr b p) else sint2korr b p); Some (v, 2) }
        else if field_type field = MYSQL_TYPE_INT24 then do {
          v \<leftarrow> (if unsigned then map_option uint (uint3korr b p) else sint3korr b p); Some (v, 4) }
        else if field_type field = MYSQL_TYPE_LONG then do {
          v \<leftarrow> (if unsigned then map_option uint (uint4korr b p) else sint4korr b p); Some (v, 4) }
        else do {
          l \<leftarrow> sint8korr b p;
          Some (if unsigned then uint (of_int l :: u64) else l, 8) });
     Some (Some (PyLong v), p + n) }"

definition binary_datetime :: "pyapi \<Rightarrow> bytes \<Rightarrow> nat \<Rightarrow> (pyobj option \<times> nat) option" where
  "binary_datetime api b p = do {
     (n, p) \<leftarrow> mysql_net_field_length api b p;
     let len = (ucast n :: u8);
     if len = 0 then Some (PyDateTime_FromDateAndTime 0 0 0 0 0 0 0, p)
     else do {
       y \<leftarrow> uint2korr b p;
       mo \<leftarrow> uint1korr b (p + 2);
       d \<leftarrow> uint1korr b (p + 3);
       (h, mi, s) \<leftarrow>
         (if len > 4 then do {
            h \<leftarrow> uint1korr b (p + 4);
            mi \<leftarrow> uint1korr b (p + 5);
            s \<leftarrow> uint1korr b (p + 6);
            Some (uint h, uint mi, uint s) }
          else Some (0, 0, 0));
       us \<leftarrow> (if len = 11 then map_option sint (uint4korr b (p + 7)) else Some 0);
       Some (PyDateTime_FromDateAndTime (uint y) (uint mo) (uint d) h mi s us, p + unat len) } }"

definition binary_date :: "pyapi \<Rightarrow> bytes \<Rightarrow> nat \<Rightarrow> (pyobj option \<times> nat) option" where
  "binary_date api b p = do {
     (n, p) \<leftarrow> mysql_net_field_length api b p;
     let len = (ucast n :: u8);
     if len = 0 then Some (PyDate_FromDate 0 0 0, p)
     else do {
       y \<leftarrow> uint2korr b p;
       mo \<leftarrow> uint1korr b (p + 2);
       d \<leftarrow> uint1korr b (p + 3);
       Some (PyDate_FromDate (uint y) (uint mo) (uint d), p + unat len) } }"

definition binary_time :: "pyapi \<Rightarrow> bytes \<Rightarrow> nat \<Rightarrow> (pyobj option \<times> nat) option" where
  "binary_time api b p = do {
     let tm = zero_time;
     (n, p) \<leftarrow> mysql_net_field_length api b p;
     let len = (ucast n :: u8);
     if len = 0 then do {
       d \<leftarrow> Mrdb_GetTimeDelta tm;
       Some (Some (PyTimedelta d), p) }
     else do {
       ng \<leftarrow> uint1korr b p;
       dy \<leftarrow> uint4korr b (p + 1);
       h \<leftarrow> uint1korr b (p + 5);
       mi \<leftarrow> uint1korr b (p + 6);
       s \<leftarrow> uint1korr b (p + 7);
       us \<leftarrow> (if len > 8 then uint4korr b (p + 8) else Some 0);
       let tm = tm\<lparr>neg := ng \<noteq> 0, day := dy, hour := ucast h, minute := ucast mi,
                   second := ucast s, second_part := ucast us\<rparr>;
       let tm = (if day tm \<noteq> 0 then tm\<lparr>hour := hour tm + day tm * 24\<rparr> else tm);
       d \<leftarrow> Mrdb_GetTimeDelta tm;
       Some (Some (PyTimedelta d), p + unat len) } }"

definition binary_decimal :: "pyapi \<Rightarrow> bytes \<Rightarrow> nat \<Rightarrow> (pyobj option \<times> nat) option" where
  "binary_decimal api b p = do {
     (len, p) \<leftarrow> mysql_net_field_length api b p;
     if len > 0 then
       (if p + unat len \<le> length b then do {
          tmp \<leftarrow> c_string (take (unat len) (drop p b) @ [NUL]) 0;
          Some (map_option PyDecimal (decimal_new api tmp), p + unat len) }
        else None)
     else Some (map_option PyDecimal (decimal_new api ''0''), p) }"

text \<open>A length-prefixed value given to one of the two text fetchers.\<close>

definition prefixed :: "pyapi \<Rightarrow> (bytes \<Rightarrow> nat \<Rightarrow> u64 \<Rightarrow> (MYSQL_FIELD \<times> pyobj option) option) \<Rightarrow>
    bytes \<Rightarrow> nat \<Rightarrow> (MYSQL_FIELD \<times> pyobj option \<times> nat) option" where
  "prefixed api fetch b p = do {
     (len, p) \<leftarrow> mysql_net_field_length api b p;
     (field, obj) \<leftarrow> fetch b p len;
     Some (field, obj, p + unat len) }"

definition binary_switch :: "pyapi \<Rightarrow> MYSQL_FIELD \<Rightarrow> bytes \<Rightarrow> nat \<Rightarrow> pyobj option \<Rightarrow>
    (MYSQL_FIELD \<times> pyobj option \<times> nat) option" where
  "binary_switch api field b p old =
     (let type = field_type field in
      if type = MYSQL_TYPE_NULL then Some (field, Some PyNone, p)
      else if type \<in> {MYSQL_TYPE_TINY, MYSQL_TYPE_SHORT, MYSQL_TYPE_YEAR, MYSQL_TYPE_INT24,
          MYSQL_TYPE_LONG, MYSQL_TYPE_LONGLONG}
      then map_option (Pair field) (binary_long field b p)
      else if type = MYSQL_TYPE_FLOAT
      then map_option (\<lambda>f. (field, Some (PyFloat (float_to_double api f)), p + 4)) (float4get b p)
      else if type = MYSQL_TYPE_DOUBLE
      then map_option (\<lambda>d. (field, Some (PyFloat d), p + 8)) (float8get b p)
      else if type \<in> {MYSQL_TYPE_DATETIME, MYSQL_TYPE_TIMESTAMP}
      then map_option (Pair field) (binary_datetime api b p)
      else if type = MYSQL_TYPE_DATE then map_option (Pair field) (binary_date api b p)
      else if type = MYSQL_TYPE_TIME then map_option (Pair field) (binary_time api b p)
      else if type \<in> {MYSQL_TYPE_TINY_BLOB, MYSQL_TYPE_MEDIUM_BLOB, MYSQL_TYPE_BLOB,
          MYSQL_TYPE_LONG_BLOB, MYSQL_TYPE_BIT}
      then prefixed api (fetch_blob api field) b p
      else if type = MYSQL_TYPE_NEWDECIMAL then map_option (Pair field) (binary_decimal api b p)
      else if type \<in> {MYSQL_TYPE_GEOMETRY, MYSQL_TYPE_STRING, MYSQL_TYPE_VAR_STRING,
          MYSQL_TYPE_JSON, MYSQL_TYPE_VARCHAR, MYSQL_TYPE_DECIMAL, MYSQL_TYPE_SET,
          MYSQL_TYPE_ENUM}
      then prefixed api (fetch_string api field) b p
      else Some (field, old, p))"

text \<open>
  \<open>row\<close> is \<open>None\<close> for a NULL value, else the packet and the position of the column in it;
  the result has the position of the next column. A NULL value is not given to the converter.
\<close>

definition field_fetch_callback :: "pyapi \<Rightarrow> 'a fetch_state_scheme \<Rightarrow> nat \<Rightarrow> (bytes \<times> nat) option \<Rightarrow>
    ('a fetch_state_scheme \<times> (bytes \<times> nat) option) option" where
  "field_fetch_callback api self column row = do {
     field \<leftarrow> rd (cur_fields self) column;
     old \<leftarrow> rd (fetch_values self) column;
     case row of
       None \<Rightarrow> Some (self\<lparr>fetch_values := (fetch_values self)[column := Some PyNone]\<rparr>, None)
     | Some (b, p) \<Rightarrow> do {
         (field, val, p) \<leftarrow> binary_switch api field b p old;
         val \<leftarrow> convert_step self field val;
         Some (self\<lparr>cur_fields := (cur_fields self)[column := field],
                   fetch_values := (fetch_values self)[column := val]\<rparr>, Some (b, p)) } }"

end
