(* ===== verification/Mrdb_Fetch_Values.thy ===== *)
theory Mrdb_Fetch_Values
  imports Mrdb_Fetch
begin

text \<open>
  What the two fetch functions store: integers, strings and blobs, SQL NULL, and what a fetch
  leaves alone. The behaviour assumed of the interpreter and the client library is stated in
  \<open>reads_decimal\<close> and \<open>reads_lenenc\<close>; \<open>ref_api\<close> is an instance of both.
\<close>

unbundle bit_operations_syntax

subsection \<open>Documented behaviour of the functions called\<close>

text \<open>
  \<open>PyLong_FromString\<close> with base 0 reads a decimal number that has no superfluous leading
  zero, with or without a minus sign, and fails on the empty string.
\<close>

definition plain_decimal :: "bytes \<Rightarrow> bool" where
  "plain_decimal ds \<longleftrightarrow> number ds \<and> (hd ds \<noteq> CHR ''0'' \<or> ds = ''0'')"

definition reads_decimal :: "pyapi \<Rightarrow> bool" where
  "reads_decimal api \<longleftrightarrow> long_from_string api [] = None \<and>
     (\<forall>ds. plain_decimal ds \<longrightarrow> long_from_string api ds = Some (int (dec_val ds)) \<and>
        long_from_string api (CHR ''-'' # ds) = Some (- int (dec_val ds)))"

text \<open>The length-encoded integer of the protocol, and that \<open>mysql_net_field_length\<close> reads it.\<close>

definition lenenc :: "nat \<Rightarrow> bytes" where
  "lenenc n = (if n < 251 then [char_of n] else if n < 2 ^ 16 then CHR 0xFC # le_bytes 2 n
     else if n < 2 ^ 24 then CHR 0xFD # le_bytes 3 n else CHR 0xFE # le_bytes 8 n)"

definition reads_lenenc :: "pyapi \<Rightarrow> bool" where
  "reads_lenenc api \<longleftrightarrow> (\<forall>pre n post. n < 2 ^ 64 \<longrightarrow>
     mysql_net_field_length api (pre @ lenenc n @ post) (length pre) =
       Some (of_nat n, length pre + length (lenenc n)))"

subsection \<open>Storing a value\<close>

definition column_ok :: "'a fetch_state_scheme \<Rightarrow> nat \<Rightarrow> bool" where
  "column_ok self column \<longleftrightarrow> column < length (cur_fields self) \<and> column < length (fetch_values self)"

text \<open>The object that ends up in the row: the converter's result when there is one.\<close>

definition delivered :: "'a fetch_state_scheme \<Rightarrow> MYSQL_FIELD \<Rightarrow> pyobj \<Rightarrow> pyobj" where
  "delivered self field v =
     (case converter self of
        None \<Rightarrow> v
      | Some dict \<Rightarrow>
          (case dict (convert_type field) of
             None \<Rightarrow> v
           | Some func \<Rightarrow> (case func v of None \<Rightarrow> v | Some w \<Rightarrow> w)))"

definition store_value :: "'a fetch_state_scheme \<Rightarrow> nat \<Rightarrow> MYSQL_FIELD \<Rightarrow> pyobj \<Rightarrow> 'a fetch_state_scheme" where
  "store_value self column field v =
     self\<lparr>cur_fields := (cur_fields self)[column := field],
          fetch_values := (fetch_values self)[column := Some (delivered self field v)]\<rparr>"

lemma convert_step_Some [simp]: "convert_step self field (Some v) = Some (Some (delivered self field v))"
  by (simp add: convert_step_def ma_convert_value_def delivered_def split: option.splits)

lemma fromtext_stores:
  assumes "column_ok self column" "rd lengths column = len"
    "\<And>old. text_switch api (cur_fields self ! column) data len old = Some (field, Some v)"
  shows "field_fetch_fromtext api lengths self data column = Some (store_value self column field v)"
  using assms by (simp add: field_fetch_fromtext_def column_ok_def rd_in store_value_def)

lemma callback_stores:
  assumes "column_ok self column"
    "\<And>old. binary_switch api (cur_fields self ! column) b p old = Some (field, Some v, q)"
  shows "field_fetch_callback api self column (Some (b, p)) =
    Some (store_value self column field v, Some (b, q))"
  using assms by (simp add: field_fetch_callback_def column_ok_def rd_in store_value_def)

subsection \<open>Integers\<close>

definition int_types :: "enum_field_types set" where
  "int_types = {MYSQL_TYPE_TINY, MYSQL_TYPE_SHORT, MYSQL_TYPE_YEAR, MYSQL_TYPE_INT24,
     MYSQL_TYPE_LONG, MYSQL_TYPE_LONGLONG}"

definition int_bits :: "enum_field_types \<Rightarrow> nat" where
  "int_bits t = (if t = MYSQL_TYPE_TINY then 8 else if t = MYSQL_TYPE_SHORT \<or> t = MYSQL_TYPE_YEAR then 16
     else if t = MYSQL_TYPE_INT24 then 24 else if t = MYSQL_TYPE_LONG then 32 else 64)"

text \<open>A three-byte integer takes four bytes in a row of the binary protocol.\<close>

definition int_width :: "enum_field_types \<Rightarrow> nat" where
  "int_width t = (if t = MYSQL_TYPE_INT24 then 4 else int_bits t div 8)"

definition int_col_fits :: "MYSQL_FIELD \<Rightarrow> int \<Rightarrow> bool" where
  "int_col_fits field v \<longleftrightarrow>
     (if is_unsigned_field field then 0 \<le> v \<and> v < 2 ^ int_bits (field_type field)
      else - (2 ^ int_bits (field_type field)) \<le> 2 * v \<and> 2 * v < 2 ^ int_bits (field_type field))"

definition int_wire :: "enum_field_types \<Rightarrow> int \<Rightarrow> bytes" where
  "int_wire t v = le_bytes (int_width t) (nat (v mod 256 ^ int_width t))"

lemma le_bytes_take: "k \<le> w \<Longrightarrow> take k (le_bytes w n) = le_bytes k n"
  using le_bytes_add [of k "w - k" n] by simp

lemma wire_take:
  assumes "k \<le> w"
  shows "take k (drop (length pre) (pre @ le_bytes w (nat (v mod 256 ^ w)) @ post)) = le_bytes k (nat (v mod 256 ^ k))"
proof -
  have "(256 :: int) ^ k dvd 256 ^ w" using assms by (rule le_imp_power_dvd)
  then have "nat (v mod 256 ^ w) mod 256 ^ k = nat (v mod 256 ^ k)"
    using nat_mod_distrib [of "v mod 256 ^ w" "256 ^ k"] mod_mod_cancel [of "256 ^ k" "256 ^ w" v]
    by (simp add: nat_power_eq)
  then show ?thesis
    using assms le_bytes_mod [of k "nat (v mod 256 ^ w)"] by (simp add: le_bytes_take)
qed

lemma nat_mod_less: "nat (v mod 256 ^ k) < 256 ^ k"
  using pos_mod_bound [of "256 ^ k" v] by (simp add: nat_less_iff)

lemma le_val_wire [simp]: "le_val (le_bytes k (nat (v mod 256 ^ k))) = nat (v mod 256 ^ k)"
  using nat_mod_less by (rule le_val_le_bytes)

lemma le_signed_wire:
  assumes "- (256 ^ k) \<le> 2 * v" "2 * v < 256 ^ k"
  shows "le_signed (le_bytes k (nat (v mod 256 ^ k))) = v"
proof -
  let ?n = "le_val (le_bytes k (nat (v mod 256 ^ k)))"
  have n: "int ?n = v mod 256 ^ k" by simp
  have "2 * ?n < 256 ^ k \<longleftrightarrow> int (2 * ?n) < int (256 ^ k)" by (simp only: of_nat_less_iff)
  also have "\<dots> \<longleftrightarrow> 2 * (v mod 256 ^ k) < 256 ^ k" using n by simp
  finally have half: "2 * ?n < 256 ^ k \<longleftrightarrow> 2 * (v mod 256 ^ k) < 256 ^ k" .
  have "v mod 256 ^ k = (if 0 \<le> v then v else v + 256 ^ k)"
    using assms mod_pos_pos_trivial [of v "256 ^ k"] mod_pos_pos_trivial [of "v + 256 ^ k" "256 ^ k"]
    by (simp split: if_splits)
  with assms n half show ?thesis unfolding le_signed_def length_le_bytes by (auto split: if_splits)
qed

lemma uint_wire: "0 \<le> v \<Longrightarrow> v < 2 ^ LENGTH('a) \<Longrightarrow> uint (of_nat (nat v) :: 'a::len word) = v"
  by (simp add: unsigned_of_int take_bit_int_eq_self)

lemma of_int_le_signed: "length cs = 8 \<Longrightarrow> word_of_int (le_signed cs) = (of_nat (le_val cs) :: u64)"
  by (simp add: le_signed_def)

lemma binary_long_wire:
  assumes "field_type field \<in> int_types" "int_col_fits field v"
    "field_type field = MYSQL_TYPE_TINY \<longrightarrow> 0 \<le> v"
  shows "binary_long field (pre @ int_wire (field_type field) v @ post) (length pre) =
    Some (Some (PyLong v), length pre + int_width (field_type field))"
proof -
  let ?b = "pre @ int_wire (field_type field) v @ post" and ?w = "int_width (field_type field)"
  have len: "length pre + k \<le> length ?b" if "k \<le> ?w" for k using that by (simp add: int_wire_def)
  have tk: "take k (drop (length pre) ?b) = le_bytes k (nat (v mod 256 ^ k))" if "k \<le> ?w" for k
    using wire_take [OF that] by (simp add: int_wire_def)
  have small: "v mod m = v" if "0 \<le> v" "v < m" for m using that by (simp add: mod_pos_pos_trivial)
  have val: "le_val (take k (drop (length pre) ?b)) = nat v" if "k \<le> ?w" "0 \<le> v" "v < 256 ^ k" for k
    using that by (simp only: tk le_val_wire) (simp add: small)
  have sval: "le_signed (take k (drop (length pre) ?b)) = v"
    if "k \<le> ?w" "- (256 ^ k) \<le> 2 * v" "2 * v < 256 ^ k" for k
    using that by (simp only: tk le_signed_wire)
  consider (tiny) "field_type field = MYSQL_TYPE_TINY" | (short) "field_type field \<in> {MYSQL_TYPE_SHORT, MYSQL_TYPE_YEAR}"
    | (int24) "field_type field = MYSQL_TYPE_INT24" | (long) "field_type field = MYSQL_TYPE_LONG"
    | (longlong) "field_type field = MYSQL_TYPE_LONGLONG"
    using assms(1) by (auto simp: int_types_def)
  then show ?thesis
  proof cases
    case tiny
    then have "0 \<le> v" "v < 256" using assms by (auto simp: int_col_fits_def int_bits_def split: if_splits)
    with tiny show ?thesis by (simp add: binary_long_def rd_def nth_append int_wire_def int_width_def int_bits_def small ord_char_of)
  next
    case short
    then show ?thesis
      using assms(2) len [of 2] val [of 2] sval [of 2] uint_wire [of v, where 'a = 16]
      by (auto simp: binary_long_def Let_def int_col_fits_def int_width_def int_bits_def uint2korr_val sint2korr_val
          simp del: append_assoc drop_append take_append length_append)
  next
    case int24
    then show ?thesis
      using assms(2) len [of 3] val [of 3] sval [of 3] uint_wire [of v, where 'a = 32]
      by (auto simp: binary_long_def Let_def int_col_fits_def int_width_def int_bits_def uint3korr_val sint3korr_val
          simp del: append_assoc drop_append take_append length_append)
  next
    case long
    then show ?thesis
      using assms(2) len [of 4] val [of 4] sval [of 4] uint_wire [of v, where 'a = 32]
      by (auto simp: binary_long_def Let_def int_col_fits_def int_width_def int_bits_def uint4korr_val sint4korr_val
          simp del: append_assoc drop_append take_append length_append)
  next
    case longlong
    then show ?thesis
      using assms(2) len [of 8] val [of 8] sval [of 8] uint_wire [of v, where 'a = 64]
      by (auto simp: binary_long_def Let_def int_col_fits_def int_width_def int_bits_def sint8korr_val of_int_le_signed
          simp del: append_assoc drop_append take_append length_append)
  qed
qed

text \<open>
  The text a server sends for an integer: a minus sign and a plain number, or a number
  that may be filled with zeros on the left.
\<close>

definition int_text :: "int \<Rightarrow> bytes \<Rightarrow> bool" where
  "int_text v s \<longleftrightarrow>
     (if v < 0 then \<exists>ds. s = CHR ''-'' # ds \<and> plain_decimal ds \<and> v = - int (dec_val ds)
      else number s \<and> v = int (dec_val s))"

lemma dec_val_zeros: "dec_val (dropWhile (\<lambda>c. c = CHR ''0'') ds) = dec_val ds"
  by (induction ds) (simp_all add: digit_val_def ord_def)

lemma text_long_value:
  assumes "reads_decimal api" "int_text v s" "v \<noteq> 0 \<or> s = ''0''"
  shows "text_long api (s @ NUL # rest) = Some (Some (PyLong v))"
proof -
  have nz: "NUL \<notin> set s" if "number s" for s
    using that by (auto simp: number_def list_all_iff isdigit_def ord_def)
  show ?thesis
  proof (cases "v < 0")
    case True
    then obtain ds where ds: "s = CHR ''-'' # ds" "plain_decimal ds" "v = - int (dec_val ds)"
      using assms(2) by (auto simp: int_text_def)
    then have "c_string (s @ NUL # rest) 0 = Some s"
      using nz [of ds] by (intro c_string_terminated) (auto simp: plain_decimal_def)
    with ds assms(1) show ?thesis
      by (auto simp: text_long_def reads_decimal_def plain_decimal_def number_def)
  next
    case False
    then have s: "number s" "v = int (dec_val s)" using assms(2) by (auto simp: int_text_def)
    define p where "p = (if length s > 1 then dropWhile (\<lambda>c. c = CHR ''0'') s else s)"
    have p: "dec_val p = dec_val s" by (simp add: p_def dec_val_zeros)
    have "plain_decimal p"
    proof (cases "s = ''0''")
      case True
      then show ?thesis by (simp add: p_def plain_decimal_def number_def isdigit_def ord_def)
    next
      case False
      then have "dec_val p \<noteq> 0" using assms(3) s(2) p by auto
      then have "p \<noteq> []" by auto
      moreover have "list_all isdigit p" using s(1) by (auto simp: p_def number_def list_all_iff dest: set_dropWhileD)
      moreover have "hd p \<noteq> CHR ''0''"
      proof (cases "length s > 1")
        case True
        then show ?thesis using \<open>p \<noteq> []\<close> hd_dropWhile [of "\<lambda>c. c = CHR ''0''" s] by (auto simp: p_def dropWhile_eq_Nil_conv)
      next
        case False
        then show ?thesis using \<open>dec_val p \<noteq> 0\<close> \<open>p \<noteq> []\<close> by (cases s) (auto simp: p_def digit_val_def ord_def)
      qed
      ultimately show ?thesis by (simp add: plain_decimal_def number_def)
    qed
    then have "long_from_string api p = Some v" using assms(1) s(2) p by (simp add: reads_decimal_def)
    then show ?thesis
      using c_string_terminated [OF nz [OF s(1)], of rest]
      unfolding text_long_def Let_def p_def by simp
  qed
qed

lemma int_switches:
  assumes "field_type field \<in> int_types"
  shows "text_switch api field (Some b) len old = map_option (Pair field) (text_long api b)"
    "binary_switch api field b p old = map_option (Pair field) (binary_long field b p)"
  using assms unfolding text_switch_def binary_switch_def int_types_def Let_def by auto


subsection \<open>An instance of the interfaces\<close>

definition ref_long :: "bytes \<Rightarrow> int option" where
  "ref_long s =
     (if plain_decimal s then Some (int (dec_val s))
      else if s \<noteq> [] \<and> hd s = CHR ''-'' \<and> plain_decimal (tl s) then Some (- int (dec_val (tl s)))
      else None)"

definition ref_net_length :: "bytes \<Rightarrow> nat \<Rightarrow> (u64 \<times> nat) option" where
  "ref_net_length b p = do {
     c \<leftarrow> rd b p;
     let w = (if ord c < 251 then 0 else if ord c = 252 then 2 else if ord c = 253 then 3 else 8);
     if w = 0 then Some (of_nat (ord c), p + 1)
     else if p + 1 + w \<le> length b then Some (of_nat (le_val (take w (drop (p + 1) b))), p + 1 + w)
     else None }"

definition ascii_decode :: "bytes \<Rightarrow> nat list option" where
  "ascii_decode b = (if list_all (\<lambda>c. ord c < 128) b then Some (map ord b) else None)"

definition ascii_encode :: "nat list \<Rightarrow> bytes option" where
  "ascii_encode cs = (if list_all (\<lambda>c. c < 128) cs then Some (map char_of cs) else None)"

definition ref_api :: pyapi where
  "ref_api = \<lparr>long_from_string = ref_long, utf8_decode = ascii_decode, utf8_encode = ascii_encode,
     atof = (\<lambda>s. 0), float_to_double = (\<lambda>f. 0), decimal_new = Some, object_str = (\<lambda>obj. None),
     object_as_double = (\<lambda>obj. 0),
     is_num = (\<lambda>t. t \<in> {MYSQL_TYPE_TINY, MYSQL_TYPE_SHORT, MYSQL_TYPE_LONG, MYSQL_TYPE_LONGLONG,
       MYSQL_TYPE_FLOAT, MYSQL_TYPE_DOUBLE}),
     mysql_net_field_length = ref_net_length\<rparr>"

lemma plain_not_minus: "\<not> plain_decimal (CHR ''-'' # ds)"
  by (simp add: plain_decimal_def number_def isdigit_def ord_def)

lemma ref_reads_decimal: "reads_decimal ref_api"
  by (auto simp: reads_decimal_def ref_api_def ref_long_def plain_not_minus)
     (simp add: plain_decimal_def number_def)

lemma ref_reads_lenenc: "reads_lenenc ref_api"
  unfolding reads_lenenc_def
proof (intro allI impI)
  fix pre n post assume n: "n < (2 :: nat) ^ 64"
  show "mysql_net_field_length ref_api (pre @ lenenc n @ post) (length pre) = Some (of_nat n, length pre + length (lenenc n))"
    using n by (simp add: ref_api_def ref_net_length_def lenenc_def rd_def nth_append ord_def le_val_le_bytes Let_def)
qed

text \<open>
  Zero filled zeros are lost in the text protocol. For a value of two or more zeros,
  the loop that removes leading zeros leaves the empty string, which \<open>PyLong_FromString\<close>
  rejects: the value of the column is the null pointer.
\<close>

theorem zerofill_zero_rejected:
  assumes "reads_decimal api" "column_ok self column" "field_type (cur_fields self ! column) \<in> int_types"
    and "converter self = None" "2 \<le> n"
  shows "field_fetch_fromtext api lengths self (Some (replicate n (CHR ''0'') @ [NUL])) column =
    Some (self\<lparr>fetch_values := (fetch_values self)[column := None]\<rparr>)"
proof -
  have "text_long api (replicate n (CHR ''0'') @ [NUL]) = Some None"
    using assms(1,5) by (simp add: text_long_def reads_decimal_def)
  then show ?thesis
    using assms(2-4)
    by (simp add: field_fetch_fromtext_def column_ok_def rd_in int_switches convert_step_def)
qed

text \<open>
  A negative TINYINT read over the binary protocol comes back as the number plus 256,
  because the byte is not sign-extended.
\<close>

theorem negative_tiny_unsigned:
  assumes "column_ok self column" "field = cur_fields self ! column" "field_type field = MYSQL_TYPE_TINY"
    and "- 128 \<le> v" "v < 0"
  shows "field_fetch_callback api self column (Some (int_wire MYSQL_TYPE_TINY v, 0)) =
    Some (store_value self column field (PyLong (v + 256)), Some (int_wire MYSQL_TYPE_TINY v, 1))"
proof -
  have "v mod 256 = v + 256" using assms(4,5) mod_pos_pos_trivial [of "v + 256" 256] by simp
  then have "binary_long field (int_wire MYSQL_TYPE_TINY v) 0 = Some (Some (PyLong (v + 256)), 1)"
    using assms(3-5) by (simp add: binary_long_def rd_def int_wire_def int_width_def int_bits_def ord_char_of)
  then show ?thesis
    using assms(2,3) callback_stores [OF assms(1)] by (simp add: int_switches int_types_def)
qed

definition sample_field :: "enum_field_types \<Rightarrow> MYSQL_FIELD" where
  "sample_field t = \<lparr>field_type = t, flags = 0, charsetnr = 33, max_length = 0,
     attr_format_name = Some [], attr_data_type_name = Some [],
     field_name = ''col'', org_name = ''col'', field_table = ''t'', org_table = ''t'', field_db = ''db'',
     field_catalog = ''def'', field_length = 20, decimals = 0\<rparr>"

definition sample_row :: "enum_field_types \<Rightarrow> fetch_state" where
  "sample_row t = \<lparr>cur_fields = [sample_field t], fetch_values = [None], converter = None\<rparr>"

lemmas sample_defs = sample_row_def sample_field_def column_ok_def int_types_def


theorem zerofill_zero_rejected_witness:
  "field_fetch_fromtext ref_api [4] (sample_row MYSQL_TYPE_LONG) (Some (''0000'' @ [NUL])) 0 =
     Some (sample_row MYSQL_TYPE_LONG)"
  using zerofill_zero_rejected [OF ref_reads_decimal, of "sample_row MYSQL_TYPE_LONG" 0 4 "[4]"]
  by (simp add: sample_defs numeral_eq_Suc)

theorem negative_tiny_unsigned_witness:
  "field_fetch_callback ref_api (sample_row MYSQL_TYPE_TINY) 0 (Some ([CHR 0xFF], 0)) =
     Some (store_value (sample_row MYSQL_TYPE_TINY) 0 (sample_field MYSQL_TYPE_TINY) (PyLong 255),
           Some ([CHR 0xFF], 1))"
proof -
  have "int_wire MYSQL_TYPE_TINY (- 1) = [CHR 0xFF]" by code_simp
  then show ?thesis
    using negative_tiny_unsigned [of "sample_row MYSQL_TYPE_TINY" 0 "sample_field MYSQL_TYPE_TINY" "- 1" ref_api]
    by (simp add: sample_defs)
qed

subsection \<open>Strings and blobs\<close>

definition blob_types :: "enum_field_types set" where
  "blob_types = {MYSQL_TYPE_TINY_BLOB, MYSQL_TYPE_MEDIUM_BLOB, MYSQL_TYPE_BLOB, MYSQL_TYPE_LONG_BLOB,
     MYSQL_TYPE_BIT}"

definition string_types :: "enum_field_types set" where
  "string_types = {MYSQL_TYPE_STRING, MYSQL_TYPE_VAR_STRING, MYSQL_TYPE_JSON, MYSQL_TYPE_VARCHAR,
     MYSQL_TYPE_DECIMAL, MYSQL_TYPE_SET, MYSQL_TYPE_ENUM}"

text \<open>What a text column stands for, and the length that \<open>max_length\<close> is compared with.\<close>

definition column_text :: "pyapi \<Rightarrow> MYSQL_FIELD \<Rightarrow> bytes \<Rightarrow> pyobj option" where
  "column_text api field s =
     (if charsetnr field = CHARSET_BINARY then Some (PyBytes s) else map_option PyUnicode (utf8_decode api s))"

definition text_measure :: "MYSQL_FIELD \<Rightarrow> bytes \<Rightarrow> pyobj \<Rightarrow> nat" where
  "text_measure field s obj =
     (case obj of PyUnicode cs \<Rightarrow> (if field_type field \<in> blob_types then length s else length cs) | _ \<Rightarrow> length s)"

lemma text_switches:
  "field_type field \<in> blob_types \<Longrightarrow> text_switch api field (Some b) len old = Option.bind len (fetch_blob api field b 0)"
  "field_type field \<in> string_types \<Longrightarrow> text_switch api field (Some b) len old = Option.bind len (fetch_string api field b 0)"
  "field_type field \<in> blob_types \<Longrightarrow> binary_switch api field b p old = prefixed api (fetch_blob api field) b p"
  "field_type field \<in> string_types \<Longrightarrow> binary_switch api field b p old = prefixed api (fetch_string api field) b p"
  unfolding text_switch_def binary_switch_def Let_def blob_types_def string_types_def by auto

lemma text_object_at:
  "text_object api field (pre @ s @ post) (length pre) (length s) = Some (column_text api field s)"
  by (simp add: text_object_def column_text_def)

lemma column_text_length:
  "column_text api field s = Some obj \<Longrightarrow> field_type field \<in> string_types \<Longrightarrow>
   object_length (Some obj) (length s) = Some (text_measure field s obj)"
  by (auto simp: column_text_def text_measure_def blob_types_def string_types_def split: if_splits)

lemma column_text_blob:
  "column_text api field s = Some obj \<Longrightarrow> field_type field \<in> blob_types \<Longrightarrow> text_measure field s obj = length s"
  by (auto simp: column_text_def text_measure_def split: if_splits)

lemma fetched_text:
  assumes "column_text api field s = Some obj" "length s < 2 ^ 64"
  shows "field_type field \<in> blob_types \<Longrightarrow> fetch_blob api field (pre @ s @ post) (length pre) (of_nat (length s)) =
      Some (grow (of_nat (text_measure field s obj)) field, Some obj)"
    "field_type field \<in> string_types \<Longrightarrow> fetch_string api field (pre @ s @ post) (length pre) (of_nat (length s)) =
      Some (grow (of_nat (text_measure field s obj)) field, Some obj)"
proof -
  have n: "unat (of_nat (length s) :: u64) = length s" using assms(2) by (simp add: unat_of_nat)
  show "fetch_blob api field (pre @ s @ post) (length pre) (of_nat (length s)) =
      Some (grow (of_nat (text_measure field s obj)) field, Some obj)" if "field_type field \<in> blob_types"
    using assms(1) that unfolding fetch_blob_def n text_object_at by (simp add: column_text_blob)
  show "fetch_string api field (pre @ s @ post) (length pre) (of_nat (length s)) =
      Some (grow (of_nat (text_measure field s obj)) field, Some obj)" if "field_type field \<in> string_types"
    using assms(1) that column_text_length [OF assms(1) that] unfolding fetch_string_def n text_object_at by simp
qed

text \<open>
  C21: a string or blob column gives the same row from both protocols: the bytes themselves
  under the binary character set, the decoded text otherwise; \<open>max_length\<close> of the column
  grows to the length of the value, which for strings is counted in characters.
\<close>

theorem text_column_agrees:
  assumes "reads_lenenc api" "column_ok self column" "field = cur_fields self ! column"
    and "field_type field \<in> blob_types \<union> string_types"
    and "column_text api field s = Some obj" "length s < 2 ^ 64" "rd lengths column = Some (of_nat (length s))"
  shows "field_fetch_fromtext api lengths self (Some (s @ [NUL])) column =
      Some (store_value self column (grow (of_nat (text_measure field s obj)) field) obj) \<and>
    field_fetch_callback api self column (Some (pre @ lenenc (length s) @ s @ post, length pre)) =
      Some (store_value self column (grow (of_nat (text_measure field s obj)) field) obj,
        Some (pre @ lenenc (length s) @ s @ post, length (pre @ lenenc (length s) @ s)))"
proof
  note f = fetched_text [OF assms(5,6)]
  have n: "unat (of_nat (length s) :: u64) = length s" using assms(6) by (simp add: unat_of_nat)
  show "field_fetch_fromtext api lengths self (Some (s @ [NUL])) column =
      Some (store_value self column (grow (of_nat (text_measure field s obj)) field) obj)"
    using f [of "[]" "[NUL]"] assms(3,4)
    by (intro fromtext_stores [OF assms(2,7)]) (auto simp: text_switches)
  let ?b = "(pre @ lenenc (length s)) @ s @ post"
  have "mysql_net_field_length api ?b (length pre) = Some (of_nat (length s), length (pre @ lenenc (length s)))"
    using assms(1,6) by (simp add: reads_lenenc_def)
  then have "binary_switch api field ?b (length pre) old =
      Some (grow (of_nat (text_measure field s obj)) field, Some obj, length (pre @ lenenc (length s) @ s))" for old
    using f [of "pre @ lenenc (length s)" post] assms(4)
    by (auto simp: text_switches prefixed_def n simp del: append_assoc)
  then show "field_fetch_callback api self column (Some (pre @ lenenc (length s) @ s @ post, length pre)) =
      Some (store_value self column (grow (of_nat (text_measure field s obj)) field) obj,
        Some (pre @ lenenc (length s) @ s @ post, length (pre @ lenenc (length s) @ s)))"
    using assms(3) by (intro callback_stores [OF assms(2)]) simp
qed

theorem text_column_agrees_witness:
  "field_fetch_fromtext ref_api [3] (sample_row MYSQL_TYPE_VAR_STRING) (Some (''abc'' @ [NUL])) 0 =
     Some (store_value (sample_row MYSQL_TYPE_VAR_STRING) 0 ((sample_field MYSQL_TYPE_VAR_STRING)\<lparr>max_length := 3\<rparr>)
       (PyUnicode [97, 98, 99]))"
  using text_column_agrees [OF ref_reads_lenenc, of "sample_row MYSQL_TYPE_VAR_STRING" 0
      "sample_field MYSQL_TYPE_VAR_STRING" "''abc''" "PyUnicode [97, 98, 99]" "[3]" "[]" "[]"]
  by (simp add: sample_defs string_types_def blob_types_def column_text_def ref_api_def ascii_decode_def ord_def
      CHARSET_BINARY_def rd_def text_measure_def grow_def)

text \<open>
  Text that is not valid UTF-8 in a string column faults in both protocols: the result of
  the failed decoding is the null pointer, whose length is taken.
\<close>

theorem undecodable_string_faults:
  assumes "reads_lenenc api" "column_ok self column" "field = cur_fields self ! column"
    and "field_type field \<in> string_types" "charsetnr field \<noteq> CHARSET_BINARY" "utf8_decode api s = None"
    and "length s < 2 ^ 64" "rd lengths column = Some (of_nat (length s))"
  shows "field_fetch_fromtext api lengths self (Some (s @ [NUL])) column = None \<and>
    field_fetch_callback api self column (Some (lenenc (length s) @ s, 0)) = None"
proof -
  have n: "unat (of_nat (length s) :: u64) = length s" using assms(7) by (simp add: unat_of_nat)
  have "column_text api field s = None" using assms(5,6) by (simp add: column_text_def)
  then have f: "fetch_string api field (q @ s @ post) (length q) (of_nat (length s)) = None" for q post
    unfolding fetch_string_def n text_object_at by simp
  have "mysql_net_field_length api (lenenc (length s) @ s) 0 = Some (of_nat (length s), length (lenenc (length s)))"
    using assms(1,7) unfolding reads_lenenc_def by (metis append_Nil add_0 list.size(3))
  then have "binary_switch api field (lenenc (length s) @ s) 0 old = None" for old
    using f [of "lenenc (length s)" "[]"] assms(4) by (simp add: text_switches prefixed_def)
  moreover have "text_switch api field (Some (s @ [NUL])) (Some (of_nat (length s))) old = None" for old
    using f [of "[]" "[NUL]"] assms(4) by (simp add: text_switches)
  ultimately show ?thesis
    using assms(2,3,8) by (simp add: field_fetch_fromtext_def field_fetch_callback_def column_ok_def rd_in)
qed

theorem undecodable_string_faults_witness:
  "field_fetch_fromtext ref_api [1] (sample_row MYSQL_TYPE_STRING) (Some ([CHR 0xFF] @ [NUL])) 0 = None"
  using undecodable_string_faults [OF ref_reads_lenenc, of "sample_row MYSQL_TYPE_STRING" 0
      "sample_field MYSQL_TYPE_STRING" "[CHR 0xFF]" "[1]"]
  by (simp add: sample_defs string_types_def ref_api_def ascii_decode_def ord_def CHARSET_BINARY_def rd_def)

subsection \<open>What a fetch may change\<close>

text \<open>
  The frame of a fetch: only the value of the column and its \<open>max_length\<close> change, and
  \<open>max_length\<close> does not shrink.
\<close>

definition fetch_frame :: "nat \<Rightarrow> 'a fetch_state_scheme \<Rightarrow> 'a fetch_state_scheme \<Rightarrow> bool" where
  "fetch_frame column self self' \<longleftrightarrow>
     (\<exists>n val. max_length (cur_fields self ! column) \<le> n \<and>
        self' = self\<lparr>cur_fields := (cur_fields self)[column := (cur_fields self ! column)\<lparr>max_length := n\<rparr>],
                     fetch_values := (fetch_values self)[column := val]\<rparr>)"

definition field_grows :: "MYSQL_FIELD \<Rightarrow> MYSQL_FIELD \<Rightarrow> bool" where
  "field_grows field field' \<longleftrightarrow> (\<exists>n. max_length field \<le> n \<and> field' = field\<lparr>max_length := n\<rparr>)"

lemma field_grows_refl [simp]: "field_grows field field"
  by (auto simp: field_grows_def intro: exI [of _ "max_length field"])

lemma field_grows_grow [simp]: "field_grows field (grow n field)"
  unfolding grow_def by (auto simp: field_grows_def intro: exI [of _ n])

lemma wlp_fetch_text:
  "wlp (fetch_blob api field b p len) (\<lambda>(field', val). field_grows field field')"
  "wlp (fetch_string api field b p len) (\<lambda>(field', val). field_grows field field')"
  by (auto simp: fetch_blob_def fetch_string_def wlp_def bind_eq_Some_conv)

lemma wlp_text_switch: "wlp (text_switch api field data len old) (\<lambda>(field', val). field_grows field field')"
  using wlp_fetch_text by (cases data; cases len) (auto simp: text_switch_def Let_def wp_simps intro!: wlp_all)

lemma wlp_prefixed:
  assumes "\<And>p len. wlp (fetch b p len) (\<lambda>(field', val). Q field')"
  shows "wlp (prefixed api fetch b p) (\<lambda>(field', val, p). Q field')"
  using assms by (fastforce simp: prefixed_def wlp_def bind_eq_Some_conv)

lemma wlp_binary_switch: "wlp (binary_switch api field b p old) (\<lambda>(field', val, p). field_grows field field')"
  using wlp_prefixed [of "fetch_blob api field" b "field_grows field"]
    wlp_prefixed [of "fetch_string api field" b "field_grows field"] wlp_fetch_text
  by (auto simp: binary_switch_def Let_def wp_simps intro!: wlp_all)

lemma fetch_frameI:
  "field_grows (cur_fields self ! column) field \<Longrightarrow> fetch_frame column self
     (self\<lparr>cur_fields := (cur_fields self)[column := field], fetch_values := (fetch_values self)[column := val]\<rparr>)"
  by (auto simp: fetch_frame_def field_grows_def)

lemma fetch_frame_value: "fetch_frame column self (self\<lparr>fetch_values := (fetch_values self)[column := val]\<rparr>)"
  using fetch_frameI [of self column "cur_fields self ! column" val] by simp

lemma fromtext_frame: "wlp (field_fetch_fromtext api lengths self data column) (fetch_frame column self)"
  using wlp_text_switch
  by (fastforce simp: field_fetch_fromtext_def wlp_def bind_eq_Some_conv dest: rd_SomeD intro: fetch_frameI)

lemma callback_frame: "wlp (field_fetch_callback api self column row) (\<lambda>(self', row'). fetch_frame column self self')"
proof (cases row)
  case None
  then show ?thesis by (auto simp: field_fetch_callback_def wp_simps fetch_frame_value)
next
  case (Some bp)
  then show ?thesis
    using wlp_binary_switch
    by (cases bp) (fastforce simp: field_fetch_callback_def wlp_def bind_eq_Some_conv dest: rd_SomeD intro: fetch_frameI)
qed

text \<open>
  C30: fetching one column, over either protocol and whatever the data, changes nothing of the
  cursor but that column's value and its \<open>max_length\<close>, which never shrinks; type, flags and
  character set of every column stay as they are.
\<close>

theorem fetch_changes_one_column:
  assumes "field_fetch_fromtext api lengths self data column = Some self1"
    and "field_fetch_callback api self column row = Some (self2, row')"
  shows "fetch_frame column self self1 \<and> fetch_frame column self self2"
  using wlpD [OF fromtext_frame assms(1)] wlpD [OF callback_frame assms(2)] by simp

theorem fetch_changes_one_column_witness:
  "\<exists>st. field_fetch_callback ref_api (sample_row MYSQL_TYPE_VAR_STRING) 0 (Some (lenenc 3 @ ''abc'', 0)) = Some (st, Some (lenenc 3 @ ''abc'', 4)) \<and>
     fetch_frame 0 (sample_row MYSQL_TYPE_VAR_STRING) st \<and> max_length (cur_fields st ! 0) = 3"
proof -
  let ?row = "sample_row MYSQL_TYPE_VAR_STRING"
  let ?st = "store_value ?row 0 ((sample_field MYSQL_TYPE_VAR_STRING)\<lparr>max_length := 3\<rparr>) (PyUnicode [97, 98, 99])"
  have t: "field_fetch_fromtext ref_api [3] ?row (Some (''abc'' @ [NUL])) 0 = Some ?st"
    and b: "field_fetch_callback ref_api ?row 0 (Some (lenenc 3 @ ''abc'', 0)) = Some (?st, Some (lenenc 3 @ ''abc'', 4))"
    by (simp_all add: field_fetch_fromtext_def field_fetch_callback_def text_switch_def binary_switch_def Let_def
        sample_defs rd_def fetch_string_def text_object_def CHARSET_BINARY_def ref_api_def ascii_decode_def
        ord_def grow_def store_value_def prefixed_def ref_net_length_def lenenc_def)
  show ?thesis
    using fetch_changes_one_column [OF t b] b by (intro exI [of _ ?st]) (simp add: sample_defs store_value_def)
qed

text \<open>
  An SQL NULL becomes \<open>None\<close> whatever the type of the column; the text protocol hands that
  \<open>None\<close> to the converter, the binary protocol does not.
\<close>

theorem null_column:
  assumes "column_ok self column"
  shows "field_fetch_fromtext api lengths self None column =
      Some (store_value self column (cur_fields self ! column) PyNone) \<and>
    field_fetch_callback api self column None =
      Some (self\<lparr>fetch_values := (fetch_values self)[column := Some PyNone]\<rparr>, None)"
  using assms fromtext_stores [OF assms refl, where data = None and v = PyNone and field = "cur_fields self ! column"]
  by (simp add: text_switch_def field_fetch_callback_def column_ok_def rd_in)

definition sample_converter :: "enum_field_types \<Rightarrow> (pyobj \<Rightarrow> pyobj option) option" where
  "sample_converter t = Some (\<lambda>v. Some (PyList [v]))"

theorem null_column_witness:
  "map_option fetch_values (field_fetch_fromtext ref_api [0]
     ((sample_row MYSQL_TYPE_LONG)\<lparr>converter := Some sample_converter\<rparr>) None 0) = Some [Some (PyList [PyNone])] \<and>
   map_option (fetch_values \<circ> fst) (field_fetch_callback ref_api
     ((sample_row MYSQL_TYPE_LONG)\<lparr>converter := Some sample_converter\<rparr>) 0 None) = Some [Some PyNone]"
  using null_column [of "(sample_row MYSQL_TYPE_LONG)\<lparr>converter := Some sample_converter\<rparr>" 0 ref_api "[0]"]
  by (simp add: sample_defs store_value_def delivered_def sample_converter_def)

end
