(* ===== verification/Mrdb_Fetch_Temporal.thy ===== *)
theory Mrdb_Fetch_Temporal
  imports Mrdb_Fetch_Values
begin

text \<open>
  What the two fetch functions store for DATE, DATETIME, TIMESTAMP and TIME columns: the text
  form goes through \<open>Py_str_to_TIME\<close> and the range checks, the binary form through the loads
  of \<open>mariadb_python.h\<close>, and both end at the same object.
\<close>

unbundle bit_operations_syntax

subsection \<open>Dates and times\<close>

text \<open>
  The binary forms of the protocol: a length byte, then as much of the fields as the length
  says; what is left out is zero.
\<close>

definition datetime_body :: "nat \<Rightarrow> nat \<Rightarrow> nat \<Rightarrow> nat \<Rightarrow> nat \<Rightarrow> nat \<Rightarrow> nat \<Rightarrow> bytes" where
  "datetime_body y mo d h m s us = le_bytes 2 y @ map char_of [mo, d, h, m, s] @ le_bytes 4 us"

definition time_body :: "bool \<Rightarrow> nat \<Rightarrow> nat \<Rightarrow> nat \<Rightarrow> nat \<Rightarrow> nat \<Rightarrow> bytes" where
  "time_body ng dy h m s us =
     (if ng then CHR 0x01 else CHR 0x00) # le_bytes 4 dy @ map char_of [h, m, s] @ le_bytes 4 us"

fun temporal_wire :: "nat \<Rightarrow> py_temporal \<Rightarrow> bytes" where
  "temporal_wire len (PyDate y mo d) = lenenc len @ take len (datetime_body y mo d 0 0 0 0)"
| "temporal_wire len (PyDateTime y mo d h m s us) = lenenc len @ take len (datetime_body y mo d h m s us)"
| "temporal_wire len (PyTime h m s us) = lenenc len @ take len (time_body False 0 h m s us)"

fun wire_length :: "nat \<Rightarrow> py_temporal \<Rightarrow> bool" where
  "wire_length len (PyDate y mo d) \<longleftrightarrow> len = 4"
| "wire_length len (PyDateTime y mo d h m s us) \<longleftrightarrow>
     len = 11 \<or> len = 7 \<and> us = 0 \<or> len = 4 \<and> h = 0 \<and> m = 0 \<and> s = 0 \<and> us = 0"
| "wire_length len (PyTime h m s us) \<longleftrightarrow> len = 12 \<or> len = 8 \<and> us = 0"

fun temporal_column :: "py_temporal \<Rightarrow> enum_field_types \<Rightarrow> bool" where
  "temporal_column (PyDate y mo d) t \<longleftrightarrow> t = MYSQL_TYPE_DATE"
| "temporal_column (PyDateTime y mo d h m s us) t \<longleftrightarrow> t = MYSQL_TYPE_DATETIME \<or> t = MYSQL_TYPE_TIMESTAMP"
| "temporal_column (PyTime h m s us) t \<longleftrightarrow> False"

lemma lenenc_read:
  assumes "reads_lenenc api" "n < 251"
  shows "mysql_net_field_length api (pre @ lenenc n @ rest) (length pre) = Some (of_nat n, length (pre @ lenenc n))"
  using assms by (simp add: reads_lenenc_def)

lemma uint1korr_body: "k < length body \<Longrightarrow> uint1korr (pre @ body @ post) (length pre + k) = Some (of_nat (ord (body ! k)))"
  by (simp add: uint1korr_def byte_at_nth nth_append)

lemma uint2korr_body:
  "2 + k \<le> length body \<Longrightarrow> uint2korr (pre @ body @ post) (length pre + k) = Some (of_nat (le_val (take 2 (drop k body))))"
  by (simp add: uint2korr_val)

lemma uint4korr_body:
  "4 + k \<le> length body \<Longrightarrow> uint4korr (pre @ body @ post) (length pre + k) = Some (of_nat (le_val (take 4 (drop k body))))"
  by (simp add: uint4korr_val)

lemma ucast_len: "n < 251 \<Longrightarrow> (ucast (of_nat n :: u64) :: u8) = of_nat n"
  by (simp add: word_unat_eq_iff unsigned_ucast_eq unat_of_nat take_bit_eq_mod)

lemma unat_small: "n < 256 \<Longrightarrow> unat (of_nat n :: u8) = n" "n < 65536 \<Longrightarrow> unat (of_nat n :: u16) = n"
  by (simp_all add: unat_of_nat)

lemma uint_small: "n < 256 \<Longrightarrow> uint (of_nat n :: u8) = int n" "n < 65536 \<Longrightarrow> uint (of_nat n :: u16) = int n"
  by (simp_all add: unsigned_of_nat take_bit_nat_eq_self)

lemma PyDate_FromDate_int [simp]:
  "valid_date y m d \<Longrightarrow> PyDate_FromDate (int y) (int m) (int d) = Some (PyTemporal (PyDate y m d))"
  by (simp add: PyDate_FromDate_def)

lemma PyDateTime_FromDateAndTime_int [simp]:
  "py_temporal_ok (PyDateTime y mo d h m s us) \<Longrightarrow>
   PyDateTime_FromDateAndTime (int y) (int mo) (int d) (int h) (int m) (int s) (int us) =
     Some (PyTemporal (PyDateTime y mo d h m s us))"
  by (simp add: PyDateTime_FromDateAndTime_def clock_range_def)

lemma valid_date_bounds: "valid_date y m d \<Longrightarrow> y \<le> 9999 \<and> 1 \<le> m \<and> m \<le> 12 \<and> 1 \<le> d \<and> d \<le> 31"
  using days_in_month_le [of y m] by (auto simp: valid_date_def)

lemma datetime_body_parts:
  assumes "valid_date y mo d" "4 \<le> len" "body = take len (datetime_body y mo d h m s us)"
  shows "of_nat (le_val (take 2 body)) = (of_nat y :: u16)"
    "of_nat (ord (body ! 2)) = (of_nat mo :: u8)" "of_nat (ord (body ! 3)) = (of_nat d :: u8)"
proof -
  have ymd: "y \<le> 9999" "mo \<le> 12" "d \<le> 31" using valid_date_bounds [OF assms(1)] by auto
  have "take 2 body = le_bytes 2 y" using assms(2) by (simp add: assms(3) datetime_body_def min_def)
  then show "of_nat (le_val (take 2 body)) = (of_nat y :: u16)" using ymd by (simp add: le_val_le_bytes)
  show "of_nat (ord (body ! 2)) = (of_nat mo :: u8)" "of_nat (ord (body ! 3)) = (of_nat d :: u8)"
    using assms(2) ymd by (simp_all add: assms(3) datetime_body_def nth_append ord_char_of)
qed

lemma clock_body_parts:
  assumes "h < 24" "m < 60" "s < 60" "us < 1000000" "7 \<le> len" "body = take len (datetime_body y mo d h m s us)"
  shows "of_nat (ord (body ! 4)) = (of_nat h :: u8)" "of_nat (ord (body ! 5)) = (of_nat m :: u8)"
    "of_nat (ord (body ! 6)) = (of_nat s :: u8)" "len = 11 \<Longrightarrow> le_val (take 4 (drop 7 body)) = us"
  using assms by (simp_all add: datetime_body_def nth_append ord_char_of le_val_le_bytes)

lemma binary_date_wire:
  assumes "reads_lenenc api" "valid_date y mo d"
  shows "binary_date api (pre @ temporal_wire 4 (PyDate y mo d) @ post) (length pre) =
    Some (Some (PyTemporal (PyDate y mo d)), length pre + 5)"
proof -
  define body where body: "body = take 4 (datetime_body y mo d 0 0 0 0)"
  let ?q = "pre @ lenenc 4"
  have b: "pre @ temporal_wire 4 (PyDate y mo d) @ post = ?q @ body @ post" by (simp add: body)
  have len: "length body = 4" by (simp add: body datetime_body_def)
  have lq: "length ?q = length pre + 1" by (simp add: lenenc_def)
  have rdlen: "mysql_net_field_length api (?q @ body @ post) (length pre) = Some (of_nat 4, length ?q)"
    using lenenc_read [OF assms(1), of 4 pre "body @ post"] by simp
  have "y \<le> 9999" "mo \<le> 12" "d \<le> 31" using valid_date_bounds [OF assms(2)] by auto
  then show ?thesis
    unfolding b binary_date_def rdlen
    using assms(2) datetime_body_parts [OF assms(2) _ body] lq
      uint1korr_body [of 2 body ?q post] uint1korr_body [of 3 body ?q post] uint2korr_body [of 0 body ?q post]
    by (simp add: len Let_def uint_small del: append_assoc)
qed

lemma binary_datetime_wire:
  assumes "reads_lenenc api" "py_temporal_ok (PyDateTime y mo d h m s us)"
    "wire_length len (PyDateTime y mo d h m s us)"
  shows "binary_datetime api (pre @ temporal_wire len (PyDateTime y mo d h m s us) @ post) (length pre) =
    Some (Some (PyTemporal (PyDateTime y mo d h m s us)), length pre + 1 + len)"
proof -
  define body where body: "body = take len (datetime_body y mo d h m s us)"
  let ?q = "pre @ lenenc len"
  have len: "len = 4 \<or> len = 7 \<or> len = 11" using assms(3) by auto
  have lb: "length body = len" using len by (auto simp: body datetime_body_def)
  have b: "pre @ temporal_wire len (PyDateTime y mo d h m s us) @ post = ?q @ body @ post" by (simp add: body)
  have lq: "length ?q = length pre + 1" using len by (auto simp: lenenc_def)
  have rdlen: "mysql_net_field_length api (?q @ body @ post) (length pre) = Some (of_nat len, length ?q)"
    using lenenc_read [OF assms(1), of len pre "body @ post"] len by auto
  have vd: "valid_date y mo d" and hms: "h < 24" "m < 60" "s < 60" "us < 1000000" using assms(2) by auto
  have "y \<le> 9999" "mo \<le> 12" "d \<le> 31" using valid_date_bounds [OF vd] by auto
  note facts = this hms datetime_body_parts [OF vd _ body] clock_body_parts [OF hms _ body]
    uint1korr_body [of 2 body ?q post] uint1korr_body [of 3 body ?q post] uint2korr_body [of 0 body ?q post]
    uint1korr_body [of 4 body ?q post] uint1korr_body [of 5 body ?q post] uint1korr_body [of 6 body ?q post]
    uint4korr_body [of 7 body ?q post]
  have us: "sint (of_nat us :: u32) = int us" using hms(4) sint_of_nat_u32 [of us] by simp
  have obj: "PyDateTime_FromDateAndTime (int y) (int mo) (int d) (int h) (int m) (int s) (int us) =
      Some (PyTemporal (PyDateTime y mo d h m s us))" using assms(2) by (rule PyDateTime_FromDateAndTime_int)
  from len show ?thesis
  proof (elim disjE)
    assume "len = 4"
    then show ?thesis unfolding b binary_datetime_def rdlen using facts lq assms(3) obj
      by (simp add: lb Let_def uint_small del: append_assoc PyDateTime_FromDateAndTime_int)
  next
    assume "len = 7"
    then show ?thesis unfolding b binary_datetime_def rdlen using facts lq assms(3) obj
      by (simp add: lb Let_def uint_small del: append_assoc PyDateTime_FromDateAndTime_int)
  next
    assume "len = 11"
    then show ?thesis unfolding b binary_datetime_def rdlen using facts lq assms(3) obj us
      by (simp add: lb Let_def uint_small del: append_assoc PyDateTime_FromDateAndTime_int)
  qed
qed

lemma micros_less: "list_all isdigit f \<Longrightarrow> micros f < 1000000"
proof -
  assume "list_all isdigit f"
  then have "list_all isdigit (take 6 f)" by (auto simp: list_all_iff dest: in_set_takeD)
  then have "dec_val (take 6 f) < 10 ^ length (take 6 f)" by (rule dec_val_less)
  then have "micros f < 10 ^ length (take 6 f) * 10 ^ (6 - length (take 6 f))"
    unfolding micros_def by simp
  also have "\<dots> = 10 ^ (length (take 6 f) + (6 - length (take 6 f)))" by (simp only: power_add)
  also have "length (take 6 f) + (6 - length (take 6 f)) = 6" by simp
  finally show ?thesis by simp
qed

lemma number_no_NUL: "number ds \<Longrightarrow> NUL \<notin> set ds"
  by (auto simp: number_def list_all_iff isdigit_def ord_def)

lemma temporal_text_no_NUL: "temporal_ok t \<Longrightarrow> NUL \<notin> set (temporal_text t)"
  using number_no_NUL
  by (cases t) (auto simp: time_text_def date_text_def time_digits_ok_def date_digits_ok_def)

lemma text_temporal_tm:
  assumes "temporal_ok t"
  shows "text_temporal field (temporal_text t @ [NUL]) =
    (let tm = temporal_tm t in
     if field_type field = MYSQL_TYPE_TIME then
       (if check_time tm then map_option (\<lambda>d. Some (PyTimedelta d)) (Mrdb_GetTimeDelta tm)
        else Some (Some PyNone))
     else if field_type field = MYSQL_TYPE_DATE then
       Some (if check_date (ucast (year tm)) (ucast (month tm)) (ucast (day tm))
             then PyDate_FromDate (sint (year tm)) (sint (month tm)) (sint (day tm))
             else Some PyNone)
     else
       Some (if check_date (ucast (year tm)) (ucast (month tm)) (ucast (day tm)) \<and> check_time tm
             then PyDateTime_FromDateAndTime (sint (year tm)) (sint (month tm)) (sint (day tm))
                    (sint (hour tm)) (sint (minute tm)) (sint (second tm))
                    (sint (ucast (second_part tm) :: u32))
             else Some PyNone))"
  unfolding text_temporal_def Let_def
  using c_string_terminated [OF temporal_text_no_NUL [OF assms], of "[]"] temporal_parsed_in [OF assms, of "[NUL]" zero_time]
  by simp

lemma ucast_date:
  "n < 65536 \<Longrightarrow> (ucast (of_nat n :: u32) :: u16) = of_nat n" "n < 256 \<Longrightarrow> (ucast (of_nat n :: u32) :: u8) = of_nat n"
  by (simp_all add: word_unat_eq_iff unsigned_ucast_eq unat_of_nat take_bit_eq_mod)

lemma sint_small: "n < 2147483648 \<Longrightarrow> sint (of_nat n :: u32) = int n"
  using sint_of_nat_u32 [of n] by simp

lemma check_date_valid: "valid_date y m d \<Longrightarrow> check_date (of_nat y) (of_nat m) (of_nat d)"
  using valid_date_bounds [of y m d] check_date_iff [of "of_nat d" "of_nat y" "of_nat m"]
  by (simp add: word_le_nat_alt unat_small)

lemma ucast_micros: "us < 1000000 \<Longrightarrow> (ucast (of_nat us :: u64) :: u32) = of_nat us"
  by (simp add: word_unat_eq_iff unsigned_ucast_eq unat_of_nat take_bit_eq_mod)

lemma check_time_clock:
  "h \<le> 838 \<Longrightarrow> m < 60 \<Longrightarrow> s < 60 \<Longrightarrow> us < 1000000 \<Longrightarrow>
   hour tm = of_nat h \<Longrightarrow> minute tm = of_nat m \<Longrightarrow> second tm = of_nat s \<Longrightarrow> second_part tm = of_nat us \<Longrightarrow>
   check_time tm"
  by (simp add: check_time_def word_less_nat_alt unat_of_nat)

lemma text_date_value:
  assumes "py_temporal_ok obj" "temporal_column obj (field_type field)"
  shows "text_temporal field (temporal_text (iso_tokens obj) @ [NUL]) = Some (Some (PyTemporal obj))"
proof -
  have ok: "temporal_ok (iso_tokens obj)"
    using assms date_digits_pad(1) time_digits_pad(1) by (cases obj) auto
  show ?thesis
  proof (cases obj)
    case (PyDate y mo d)
    then have v: "valid_date y mo d" using assms(1) by simp
    with PyDate assms(2) show ?thesis
      unfolding text_temporal_tm [OF ok]
      using valid_date_bounds [OF v] check_date_valid [OF v]
      by (simp add: date_digits_pad(2-4) ucast_date sint_small zero_time_def)
  next
    case (PyDateTime y mo d h m s us)
    then have v: "valid_date y mo d" and hms: "h < 24" "m < 60" "s < 60" "us < 1000000" using assms(1) by auto
    have "check_time (temporal_tm (iso_tokens obj))"
      using hms PyDateTime by (intro check_time_clock [of h m s us]) (simp_all add: time_digits_pad(2-4) micros_pad)
    with PyDateTime assms show ?thesis
      unfolding text_temporal_tm [OF ok]
      using valid_date_bounds [OF v] check_date_valid [OF v] hms
      by (auto simp: date_digits_pad(2-4) [OF v] time_digits_pad(2-4) micros_pad ucast_date
          sint_small ucast_micros zero_time_def)
  qed (use assms in simp)
qed

lemma temporal_switches:
  "field_type field \<in> {MYSQL_TYPE_TIME, MYSQL_TYPE_DATE, MYSQL_TYPE_DATETIME, MYSQL_TYPE_TIMESTAMP} \<Longrightarrow>
   text_switch api field (Some b) len old = map_option (Pair field) (text_temporal field b)"
  "field_type field = MYSQL_TYPE_DATE \<Longrightarrow>
   binary_switch api field b p old = map_option (Pair field) (binary_date api b p)"
  "field_type field \<in> {MYSQL_TYPE_DATETIME, MYSQL_TYPE_TIMESTAMP} \<Longrightarrow>
   binary_switch api field b p old = map_option (Pair field) (binary_datetime api b p)"
  "field_type field = MYSQL_TYPE_TIME \<Longrightarrow>
   binary_switch api field b p old = map_option (Pair field) (binary_time api b p)"
  unfolding text_switch_def binary_switch_def Let_def by auto

lemma binary_temporal_wire:
  assumes "reads_lenenc api" "py_temporal_ok obj" "temporal_column obj (field_type field)" "wire_length len obj"
  shows "binary_switch api field (pre @ temporal_wire len obj @ post) (length pre) old =
    Some (field, Some (PyTemporal obj), length pre + 1 + len)"
proof (cases obj)
  case (PyDate y mo d)
  then show ?thesis
    using assms binary_date_wire [OF assms(1), of y mo d pre post]
    by (simp add: temporal_switches del: temporal_wire.simps)
next
  case (PyDateTime y mo d h m s us)
  then show ?thesis
    using assms(2-4) binary_datetime_wire [OF assms(1), of y mo d h m s us len pre post]
    by (subst temporal_switches(3)) (simp_all del: temporal_wire.simps wire_length.simps py_temporal_ok.simps)
qed (use assms in simp)


definition sample_datetime :: py_temporal where
  "sample_datetime = PyDateTime 2024 2 29 23 59 58 0"


subsection \<open>Durations\<close>

definition time_wire :: "nat \<Rightarrow> bool \<Rightarrow> nat \<Rightarrow> nat \<Rightarrow> nat \<Rightarrow> nat \<Rightarrow> nat \<Rightarrow> bytes" where
  "time_wire len ng dy h m s us = lenenc len @ take len (time_body ng dy h m s us)"

definition clock_tm :: "bool \<Rightarrow> nat \<Rightarrow> nat \<Rightarrow> nat \<Rightarrow> nat \<Rightarrow> nat \<Rightarrow> MYSQL_TIME" where
  "clock_tm ng dy h m s us = zero_time\<lparr>neg := ng, day := of_nat dy, hour := of_nat h, minute := of_nat m,
     second := of_nat s, second_part := of_nat us\<rparr>"

lemma ucast_clock:
  "n < 256 \<Longrightarrow> (ucast (of_nat n :: u8) :: u32) = of_nat n" "n < 1000000 \<Longrightarrow> (ucast (of_nat n :: u32) :: u64) = of_nat n"
  by (simp_all add: word_unat_eq_iff unsigned_ucast_eq unat_of_nat take_bit_eq_mod)

lemma time_body_parts:
  assumes "h < 24" "m < 60" "s < 60" "us < 1000000" "dy < 2 ^ 32" "8 \<le> len" "body = take len (time_body ng dy h m s us)"
  shows "of_nat (ord (body ! 0)) \<noteq> (0 :: u8) \<longleftrightarrow> ng" "le_val (take 4 (drop 1 body)) = dy"
    "of_nat (ord (body ! 5)) = (of_nat h :: u8)" "of_nat (ord (body ! 6)) = (of_nat m :: u8)"
    "of_nat (ord (body ! 7)) = (of_nat s :: u8)" "len = 12 \<Longrightarrow> le_val (take 4 (drop 8 body)) = us"
proof -
  have "take 4 (drop 1 body) = le_bytes 4 dy" using assms(6) by (simp add: assms(7) time_body_def take_Cons' min_def)
  then show "le_val (take 4 (drop 1 body)) = dy" using assms(5) by (simp add: le_val_le_bytes)
  show "of_nat (ord (body ! 0)) \<noteq> (0 :: u8) \<longleftrightarrow> ng"
    using assms(6) by (simp add: assms(7) time_body_def ord_def)
qed (use assms in \<open>simp_all add: time_body_def nth_append ord_char_of le_val_le_bytes\<close>)

lemma binary_time_wire:
  assumes "reads_lenenc api" "h < 24" "m < 60" "s < 60" "us < 1000000" "dy < 2 ^ 32"
    "len = 12 \<or> len = 8 \<and> us = 0"
  shows "binary_time api (pre @ time_wire len ng dy h m s us @ post) (length pre) =
    map_option (\<lambda>d. (Some (PyTimedelta d), length pre + 1 + len)) (Mrdb_GetTimeDelta (clock_tm ng dy (h + dy * 24) m s us))"
proof -
  define body where body: "body = take len (time_body ng dy h m s us)"
  let ?q = "pre @ lenenc len"
  have len: "len = 12 \<or> len = 8" "8 \<le> len" using assms(7) by auto
  have lb: "length body = len" using len by (auto simp: body time_body_def)
  have b: "pre @ time_wire len ng dy h m s us @ post = ?q @ body @ post" by (simp add: body time_wire_def)
  have lq: "length ?q = length pre + 1" using len by (auto simp: lenenc_def)
  have rdlen: "mysql_net_field_length api (?q @ body @ post) (length pre) = Some (of_nat len, length ?q)"
    using lenenc_read [OF assms(1), of len pre "body @ post"] len by auto
  let ?tm = "clock_tm ng dy h m s us"
  have hour: "(if day ?tm \<noteq> 0 then ?tm\<lparr>hour := hour ?tm + day ?tm * 24\<rparr> else ?tm) = clock_tm ng dy (h + dy * 24) m s us"
    by (auto simp: clock_tm_def)
  note parts = time_body_parts [OF assms(2-6) len(2) body]
    uint1korr_body [of 0 body ?q post] uint4korr_body [of 1 body ?q post] uint1korr_body [of 5 body ?q post]
    uint1korr_body [of 6 body ?q post] uint1korr_body [of 7 body ?q post] uint4korr_body [of 8 body ?q post]
  have "binary_time api (?q @ body @ post) (length pre) =
      (do { d \<leftarrow> Mrdb_GetTimeDelta (if day ?tm \<noteq> 0 then ?tm\<lparr>hour := hour ?tm + day ?tm * 24\<rparr> else ?tm);
            Some (Some (PyTimedelta d), length ?q + len) })"
    using len(1)
  proof
    assume "len = 12"
    then show ?thesis unfolding binary_time_def rdlen using parts assms(2-7)
      by (simp add: lb ucast_clock clock_tm_def Let_def ucast_len del: append_assoc)
  next
    assume "len = 8"
    then show ?thesis unfolding binary_time_def rdlen using parts assms(2-7)
      by (simp add: lb ucast_clock clock_tm_def Let_def ucast_len del: append_assoc)
  qed
  then show ?thesis unfolding b hour lq by (simp add: map_conv_bind_option comp_def)
qed

lemma clock_tm_value:
  assumes "h < 2 ^ 31" "m < 60" "s < 60" "us < 1000000"
  shows "clock_ok (clock_tm ng dy h m s us)"
    "tm_micros (clock_tm ng dy h m s us) = (if ng then - 1 else 1) * int (((h * 60 + m) * 60 + s) * 1000000 + us)"
proof -
  have "uint (of_nat h :: u32) = int h" "uint (of_nat m :: u32) = int m" "uint (of_nat s :: u32) = int s"
    "uint (of_nat us :: u64) = int us"
    using assms by (simp_all add: unsigned_of_nat take_bit_nat_eq_self)
  then show "clock_ok (clock_tm ng dy h m s us)"
    "tm_micros (clock_tm ng dy h m s us) = (if ng then - 1 else 1) * int (((h * 60 + m) * 60 + s) * 1000000 + us)"
    using assms by (simp_all add: clock_ok_def tm_micros_def clock_tm_def algebra_simps)
qed

lemma GetTimeDelta_cong:
  assumes "clock_ok tm" "clock_ok tm'" "tm_micros tm = tm_micros tm'"
  shows "Mrdb_GetTimeDelta tm = Mrdb_GetTimeDelta tm'"
  using GetTimeDelta_value [OF assms(1)] GetTimeDelta_value [OF assms(2)] assms(3) delta_eqI by metis

text \<open>
  C23: a TIME column gives the same row from both protocols: the text of a duration of up to
  838 hours and its binary form, with days split off, are stored as the one \<open>timedelta\<close> of
  exactly that many microseconds, negative durations included.
\<close>

theorem time_column_agrees:
  assumes "reads_lenenc api" "column_ok self column" "field = cur_fields self ! column"
    and "field_type field = MYSQL_TYPE_TIME" "temporal_ok (TTime ng hs ms ss f)"
    and "dec_val hs = dy * 24 + h" "h < 24" "len = 12 \<or> len = 8 \<and> micros f = 0"
  shows "\<exists>d. delta_normal d \<and>
    delta_micros d = (if ng then - 1 else 1) *
      int (((dec_val hs * 60 + dec_val ms) * 60 + dec_val ss) * 1000000 + micros f) \<and>
    field_fetch_fromtext api lengths self (Some (temporal_text (TTime ng hs ms ss f) @ [NUL])) column =
      Some (store_value self column field (PyTimedelta d)) \<and>
    field_fetch_callback api self column
        (Some (pre @ time_wire len ng dy h (dec_val ms) (dec_val ss) (micros f) @ post, length pre)) =
      Some (store_value self column field (PyTimedelta d),
        Some (pre @ time_wire len ng dy h (dec_val ms) (dec_val ss) (micros f) @ post, length pre + 1 + len))"
proof -
  let ?t = "TTime ng hs ms ss f" and ?us = "micros f"
  have r: "dec_val hs \<le> 838" "dec_val ms < 60" "dec_val ss < 60" "?us < 1000000"
    using assms(5) micros_less [of f] by (auto simp: time_digits_ok_def number_def micros_def)
  then have hs: "dec_val hs < 2 ^ 31" and dy: "dy < 2 ^ 32" using assms(6) by simp_all
  let ?tm = "clock_tm ng dy (h + dy * 24) (dec_val ms) (dec_val ss) ?us"
  have hour: "h + dy * 24 = dec_val hs" using assms(6) by simp
  note val = clock_tm_value [OF hs r(2-4)]
  obtain d where d: "Mrdb_GetTimeDelta ?tm = Some d" "delta_normal d" "delta_micros d = tm_micros ?tm"
    using GetTimeDelta_value [OF val(1) [of ng dy]] hour by auto
  have tt: "temporal_tm ?t = (clock_tm ng 0 (dec_val hs) (dec_val ms) (dec_val ss) ?us)\<lparr>time_type := MYSQL_TIMESTAMP_TIME\<rparr>"
    by (simp add: clock_tm_def zero_time_def)
  have "Mrdb_GetTimeDelta (temporal_tm ?t) = Some d"
    unfolding tt d(1) [symmetric] hour
    using val [of ng 0] val [of ng dy] by (intro GetTimeDelta_cong) (simp_all add: clock_ok_def tm_micros_def)
  moreover have "check_time (temporal_tm ?t)"
    using r by (intro check_time_clock [of "dec_val hs" "dec_val ms" "dec_val ss" ?us]) simp_all
  ultimately have tx: "text_temporal field (temporal_text ?t @ [NUL]) = Some (Some (PyTimedelta d))"
    unfolding text_temporal_tm [OF assms(5)] Let_def using assms(4) by simp
  have bn: "binary_time api (pre @ time_wire len ng dy h (dec_val ms) (dec_val ss) ?us @ post) (length pre) =
      Some (Some (PyTimedelta d), length pre + 1 + len)"
    using binary_time_wire [OF assms(1,7) r(2-4) dy assms(8)] d(1) by simp
  have "text_switch api (cur_fields self ! column) (Some (temporal_text ?t @ [NUL])) len' old = Some (field, Some (PyTimedelta d))"
    for len' old using temporal_switches(1) [of field] by (simp only: assms(3) [symmetric] assms(4) tx option.map insert_iff simp_thms)
  moreover have "binary_switch api (cur_fields self ! column)
      (pre @ time_wire len ng dy h (dec_val ms) (dec_val ss) ?us @ post) (length pre) old =
      Some (field, Some (PyTimedelta d), length pre + 1 + len)"
    for old by (simp only: temporal_switches(4) [OF assms(4)] assms(3) [symmetric] bn option.map)
  moreover have "delta_micros d = (if ng then - 1 else 1) *
      int (((dec_val hs * 60 + dec_val ms) * 60 + dec_val ss) * 1000000 + ?us)"
    unfolding d(3) hour by (rule val(2))
  ultimately show ?thesis
    using d(2) fromtext_stores [OF assms(2) refl] callback_stores [OF assms(2)] by blast
qed

theorem time_column_agrees_witness:
  "\<exists>d. delta_micros d = - 90000500000 \<and>
    field_fetch_fromtext ref_api [12] (sample_row MYSQL_TYPE_TIME) (Some (''-25:00:00.5'' @ [NUL])) 0 =
      Some (store_value (sample_row MYSQL_TYPE_TIME) 0 (sample_field MYSQL_TYPE_TIME) (PyTimedelta d)) \<and>
    field_fetch_callback ref_api (sample_row MYSQL_TYPE_TIME) 0 (Some (time_wire 12 True 1 1 0 0 500000, 0)) =
      Some (store_value (sample_row MYSQL_TYPE_TIME) 0 (sample_field MYSQL_TYPE_TIME) (PyTimedelta d),
        Some (time_wire 12 True 1 1 0 0 500000, 13))"
proof -
  let ?row = "sample_row MYSQL_TYPE_TIME" and ?t = "TTime True ''25'' ''00'' ''00'' ''5''"
  have v: "dec_val ''25'' = 25" "dec_val ''00'' = 0" "micros ''5'' = 500000"
    by (simp_all add: micros_def digit_val_def ord_def)
  have ok: "temporal_ok ?t" by (simp add: time_digits_ok_def number_def isdigit_def digit_val_def ord_def)
  have tx: "temporal_text ?t = ''-25:00:00.5''" by (simp add: time_text_def)
  have "column_ok ?row 0" "sample_field MYSQL_TYPE_TIME = cur_fields ?row ! 0"
    "field_type (sample_field MYSQL_TYPE_TIME) = MYSQL_TYPE_TIME" by (simp_all add: sample_defs)
  from time_column_agrees [OF ref_reads_lenenc this ok, of 1 1 12 "[12]" "[]" "[]"]
  obtain d where "delta_micros d = - int (((25 * 60 + 0) * 60 + 0) * 1000000 + 500000)"
    "field_fetch_fromtext ref_api [12] ?row (Some (temporal_text ?t @ [NUL])) 0 =
      Some (store_value ?row 0 (sample_field MYSQL_TYPE_TIME) (PyTimedelta d))"
    "field_fetch_callback ref_api ?row 0 (Some (time_wire 12 True 1 1 0 0 500000, 0)) =
      Some (store_value ?row 0 (sample_field MYSQL_TYPE_TIME) (PyTimedelta d),
        Some (time_wire 12 True 1 1 0 0 500000, 13))"
    unfolding v by auto
  then show ?thesis unfolding tx by (intro exI [of _ d]) simp
qed

end
