(* ===== verification/Mrdb_Params.thy ===== *)
theory Mrdb_Params
  imports Mrdb_Fetch_Temporal Mrdb_Parser
begin

text \<open>
  Parameters of a statement (\<open>mariadb_codecs.c\<close>): the type of every column from the Python
  objects, the checks of \<open>execute\<close> and \<open>executemany\<close>, and the callback that fills the bind
  structures from a row of data.
\<close>

text \<open>
  \<open>mariadb_throw_exception\<close> with a message: handle and flag play no role then. The call of the
  exception class is taken to succeed.
\<close>

definition no_diag :: diag where
  "no_diag = \<lparr>mysql_errno = 0, mysql_error = [], mysql_sqlstate = [], mysql_stmt_errno = 0,
     mysql_stmt_error = [], mysql_stmt_sqlstate = []\<rparr>"

definition throw :: "exc_class \<Rightarrow> string \<Rightarrow> fmt_arg list \<Rightarrow> pyerr" where
  "throw cls fmt args = mariadb_throw_exception True no_diag (Some cls) False (Some (fmt, args))"

text \<open>
  A call that may raise, in a computation that may fault: \<open>None\<close> is a fault, \<open>Some (Inl e)\<close> an
  exception, \<open>Some (Inr v)\<close> a result.
\<close>

type_synonym 'a pyresult = "(pyerr + 'a) option"

definition try_bind :: "'a pyresult \<Rightarrow> ('a \<Rightarrow> 'b pyresult) \<Rightarrow> 'b pyresult" where
  "try_bind x f = Option.bind x (\<lambda>r. case r of Inl e \<Rightarrow> Some (Inl e) | Inr v \<Rightarrow> f v)"

lemma try_bind_simps [simp]:
  "try_bind (Some (Inr v)) f = f v" "try_bind (Some (Inl e)) f = Some (Inl e)" "try_bind None f = None"
  by (simp_all add: try_bind_def)

subsection \<open>State\<close>

record MrdbParamInfo =
  info_type :: enum_field_types
  info_bits :: nat

text \<open>\<open>pv_num\<close> are the eight bytes of \<open>num\<close>; \<open>pv_buffer\<close> is an allocated copy.\<close>

record MrdbParamValue =
  pv_value :: "pyobj option"
  pv_indicator :: int
  pv_free_me :: bool
  pv_buffer :: "bytes option"
  pv_num :: bytes
  pv_tm :: MYSQL_TIME

text \<open>
  What \<open>bind->buffer\<close> points at: nothing, \<open>value->num\<close>, \<open>value->tm\<close>, \<open>value->buffer\<close>, or the
  bytes inside a Python object.
\<close>

datatype bind_target = NoBuffer | NumBuffer | TmBuffer | OwnBuffer | ObjBuffer bytes

text \<open>\<open>bind_indicator\<close> is the value behind \<open>u.indicator\<close>, \<open>None\<close> for a null pointer.\<close>

record MYSQL_BIND =
  buffer_type :: enum_field_types
  bind_unsigned :: bool
  bind_buffer :: bind_target
  buffer_length :: nat
  bind_indicator :: "int option"

definition zero_bind :: MYSQL_BIND where
  "zero_bind = \<lparr>buffer_type = MYSQL_TYPE_DECIMAL, bind_unsigned = False, bind_buffer = NoBuffer,
     buffer_length = 0, bind_indicator = None\<rparr>"

definition zero_value :: MrdbParamValue where
  "zero_value = \<lparr>pv_value = None, pv_indicator = 0, pv_free_me = False, pv_buffer = None,
     pv_num = replicate 8 NUL, pv_tm = zero_time\<rparr>"

text \<open>
  The cursor as far as parameters are concerned. \<open>bulk_caps\<close> is the capability bit
  \<open>MARIADB_CLIENT_STMT_BULK_OPERATIONS\<close> of the connected server.
\<close>

record param_state = fetch_state +
  array_size :: u32
  cur_data :: pyobj
  pi_paramcount :: u32
  pi_paramstyle :: enum_paramstyle
  pi_keys :: "pyobj list"
  is_prepared :: bool
  cur_params :: "MYSQL_BIND list option"
  cur_value :: "MrdbParamValue list option"
  bulk_caps :: bool
  server_info :: string

subsection \<open>Type of an object\<close>

text \<open>\<open>_PyLong_NumBits\<close>: the number of bits of the absolute value.\<close>

fun num_bits :: "nat \<Rightarrow> nat" where
  "num_bits n = (if n = 0 then 0 else Suc (num_bits (n div 2)))"

declare num_bits.simps [simp del]

text \<open>The integer of an object of type \<open>int\<close>, of which \<open>bool\<close> is a subtype.\<close>

fun as_int :: "pyobj \<Rightarrow> int option" where
  "as_int (PyLong n) = Some n"
| "as_int (PyBool b) = Some (of_bool b)"
| "as_int obj = None"

text \<open>
  The return code and the updated information. The branch for \<open>bool\<close> of the source comes
  after the one for its supertype \<open>int\<close> and is not reached.
\<close>

definition mariadb_get_column_info :: "pyobj option \<Rightarrow> MrdbParamInfo \<Rightarrow> nat \<times> MrdbParamInfo" where
  "mariadb_get_column_info obj paraminfo =
     (case obj of
        None \<Rightarrow> (0, paraminfo\<lparr>info_type := MYSQL_TYPE_NULL\<rparr>)
      | Some obj \<Rightarrow>
          (case as_int obj of
             Some n \<Rightarrow>
               (let b = num_bits (nat \<bar>n\<bar>);
                    paraminfo = (if b > info_bits paraminfo then paraminfo\<lparr>info_bits := b\<rparr> else paraminfo)
                in (0, paraminfo\<lparr>info_type := MYSQL_TYPE_LONGLONG\<rparr>))
           | None \<Rightarrow>
               (case obj of
                  PyFloat d \<Rightarrow> (0, paraminfo\<lparr>info_type := MYSQL_TYPE_DOUBLE\<rparr>)
                | PyBytes b \<Rightarrow> (0, paraminfo\<lparr>info_type := MYSQL_TYPE_LONG_BLOB\<rparr>)
                | PyTemporal (PyDate y mo d) \<Rightarrow> (0, paraminfo\<lparr>info_type := MYSQL_TYPE_DATE\<rparr>)
                | PyTemporal (PyTime h m s us) \<Rightarrow> (0, paraminfo\<lparr>info_type := MYSQL_TYPE_TIME\<rparr>)
                | PyTimedelta d \<Rightarrow> (0, paraminfo\<lparr>info_type := MYSQL_TYPE_TIME\<rparr>)
                | PyTemporal (PyDateTime y mo d h m s us) \<Rightarrow>
                    (0, paraminfo\<lparr>info_type := MYSQL_TYPE_DATETIME\<rparr>)
                | PyUnicode cs \<Rightarrow> (0, paraminfo\<lparr>info_type := MYSQL_TYPE_VAR_STRING\<rparr>)
                | PyNone \<Rightarrow> (0, paraminfo\<lparr>info_type := MYSQL_TYPE_NULL\<rparr>)
                | PyDecimal s \<Rightarrow> (0, paraminfo\<lparr>info_type := MYSQL_TYPE_NEWDECIMAL\<rparr>)
                | _ \<Rightarrow> (2, paraminfo))))"

definition zero_info :: MrdbParamInfo where
  "zero_info = \<lparr>info_type = MYSQL_TYPE_DECIMAL, info_bits = 0\<rparr>"

subsection \<open>Access to the data\<close>

fun sequence_items :: "pyobj \<Rightarrow> pyobj list option" where
  "sequence_items (PyList xs) = Some xs"
| "sequence_items (PyTuple xs) = Some xs"
| "sequence_items obj = None"

definition ListOrTuple_GetItem :: "pyobj \<Rightarrow> nat \<Rightarrow> pyobj option" where
  "ListOrTuple_GetItem obj index = Option.bind (sequence_items obj) (\<lambda>xs. rd xs index)"

definition ListOrTuple_Size :: "pyobj \<Rightarrow> nat" where
  "ListOrTuple_Size obj = (case sequence_items obj of Some xs \<Rightarrow> length xs | None \<Rightarrow> 0)"

fun dict_items :: "pyobj \<Rightarrow> (pyobj \<times> pyobj) list option" where
  "dict_items (PyDict kvs) = Some kvs"
| "dict_items obj = None"

text \<open>\<open>(char)(uint8_t)MrdbIndicator_AsLong (column)\<close>.\<close>

definition indicator_char :: "int \<Rightarrow> int" where
  "indicator_char n = sint (of_int n :: u8)"

definition STMT_INDICATOR_NULL :: int where "STMT_INDICATOR_NULL = 1"

text \<open>The part of \<open>mariadb_get_parameter\<close> that finds the row.\<close>

definition get_row :: "'a param_state_scheme \<Rightarrow> bool \<Rightarrow> u32 \<Rightarrow> u32 \<Rightarrow> pyobj pyresult" where
  "get_row self is_bulk row_nr column_nr =
     (if is_bulk then
        (if row_nr > array_size self - 1 \<or> column_nr > pi_paramcount self - 1
         then Some (Inl (throw Mariadb_ProgrammingError ''Can't access data at row %d, column %d''
                [FmtInt (uint row_nr + 1), FmtInt (uint column_nr + 1)]))
         else case ListOrTuple_GetItem (cur_data self) (unat row_nr) of
                None \<Rightarrow> Some (Inl (throw Mariadb_ProgrammingError ''Can't access row number %d''
                          [FmtInt (uint row_nr + 1)]))
              | Some row \<Rightarrow> Some (Inr row))
      else Some (Inr (cur_data self)))"

text \<open>The part that finds the column; the dictionary functions on another object are a fault.\<close>

definition get_column :: "'a param_state_scheme \<Rightarrow> pyobj \<Rightarrow> u32 \<Rightarrow> u32 \<Rightarrow> pyobj pyresult" where
  "get_column self row row_nr column_nr =
     (if pi_paramstyle self \<noteq> PYFORMAT then
        (case ListOrTuple_GetItem row (unat column_nr) of
           None \<Rightarrow> Some (Inl (throw Mariadb_ProgrammingError ''Can't access column number %d at row %d''
                     [FmtInt (uint column_nr + 1), FmtInt (uint row_nr + 1)]))
         | Some column \<Rightarrow> Some (Inr column))
      else do {
        key \<leftarrow> rd (pi_keys self) (unat column_nr);
        kvs \<leftarrow> dict_items row;
        case map_of kvs key of
          None \<Rightarrow> Some (Inl (throw Mariadb_ProgrammingError ''Can't find key in parameter data'' []))
        | Some column \<Rightarrow> Some (Inr column) })"

text \<open>The part that stores value and indicator.\<close>

definition set_parameter :: "'a param_state_scheme \<Rightarrow> pyobj \<Rightarrow> MrdbParamValue \<Rightarrow> pyerr + MrdbParamValue" where
  "set_parameter self column param =
     (case column of
        PyIndicator n \<Rightarrow>
          (if \<not> bulk_caps self
           then Inl (throw Mariadb_NotSupportedError
                  (''MariaDB %s doesn't support indicator variables. '' @
                   ''Required version is 10.2.6 or newer'') [FmtStr (server_info self)])
           else Inr (param\<lparr>pv_indicator := indicator_char n, pv_value := None\<rparr>))
      | PyNone \<Rightarrow>
          Inr (if bulk_caps self then param\<lparr>pv_value := None, pv_indicator := STMT_INDICATOR_NULL\<rparr>
               else param\<lparr>pv_value := None\<rparr>)
      | _ \<Rightarrow> Inr (param\<lparr>pv_value := Some column, pv_indicator := 0\<rparr>))"

definition mariadb_get_parameter :: "'a param_state_scheme \<Rightarrow> bool \<Rightarrow> u32 \<Rightarrow> u32 \<Rightarrow> MrdbParamValue \<Rightarrow>
    MrdbParamValue pyresult" where
  "mariadb_get_parameter self is_bulk row_nr column_nr param =
     try_bind (get_row self is_bulk row_nr column_nr) (\<lambda>row.
     try_bind (get_column self row row_nr column_nr) (\<lambda>column.
     Some (set_parameter self column param)))"

subsection \<open>Type of a column\<close>

definition IS_DECIMAL_TYPE :: "enum_field_types \<Rightarrow> bool" where
  "IS_DECIMAL_TYPE t \<longleftrightarrow> t = MYSQL_TYPE_NEWDECIMAL \<or> t = MYSQL_TYPE_DOUBLE \<or> t = MYSQL_TYPE_FLOAT"

fun type_name :: "pyobj \<Rightarrow> string" where
  "type_name (PyOther s) = s"
| "type_name (PyList xs) = ''list''"
| "type_name (PyTuple xs) = ''tuple''"
| "type_name (PyDict kvs) = ''dict''"
| "type_name obj = ''object''"

text \<open>Choose the smallest integer type for the number of bits.\<close>

definition narrow_type :: "nat \<Rightarrow> MYSQL_BIND \<Rightarrow> MYSQL_BIND" where
  "narrow_type bits param =
     (if buffer_type param = MYSQL_TYPE_LONGLONG then
        (if bits \<le> 8 \<and> bind_unsigned param \<or> bits < 8 then param\<lparr>buffer_type := MYSQL_TYPE_TINY\<rparr>
         else if bits \<le> 16 \<and> bind_unsigned param \<or> bits < 16
         then param\<lparr>buffer_type := MYSQL_TYPE_SHORT\<rparr>
         else if bits \<le> 32 \<and> bind_unsigned param \<or> bits < 32
         then param\<lparr>buffer_type := MYSQL_TYPE_LONG\<rparr>
         else param\<lparr>buffer_type := MYSQL_TYPE_LONGLONG\<rparr>)
      else param)"

text \<open>
  \<open>PyLong_AsLongLong\<close> of an \<open>int\<close> object: minus one when the value does not fit. The test
  \<open>PyErr_Occurred\<close> of the source lacks its call and is true.
\<close>

definition reads_minus_one :: "pyobj option \<Rightarrow> bool" where
  "reads_minus_one obj =
     (case Option.bind obj as_int of
        Some n \<Rightarrow> n = - 1 \<or> n < - (2 ^ 63) \<or> 2 ^ 63 \<le> n
      | None \<Rightarrow> True)"

text \<open>What one row does to the bind structure and the bits: \<open>Inl\<close> leaves the loop.\<close>

definition type_mismatch :: "nat \<Rightarrow> u32 \<Rightarrow> pyerr" where
  "type_mismatch i column_nr = throw Mariadb_ProgrammingError
     ''Invalid parameter type at row %d, column %d'' [FmtInt (int i + 1), FmtInt (uint column_nr + 1)]"

definition merge_type :: "MYSQL_BIND \<Rightarrow> MrdbParamInfo \<Rightarrow> int \<Rightarrow> (MYSQL_BIND + MYSQL_BIND) option" where
  "merge_type param pinfo indicator =
     (if buffer_type param = MYSQL_TYPE_DECIMAL \<or> buffer_type param = MYSQL_TYPE_NULL
      then Some (Inr (param\<lparr>buffer_type := info_type pinfo\<rparr>))
      else if buffer_type param \<noteq> info_type pinfo \<and> info_type pinfo \<noteq> MYSQL_TYPE_NULL \<and> indicator = 0
      then (if buffer_type param \<in> {MYSQL_TYPE_TINY, MYSQL_TYPE_SHORT, MYSQL_TYPE_LONG} \<and>
               info_type pinfo = MYSQL_TYPE_LONGLONG
            then Some (Inl param)
            else if IS_DECIMAL_TYPE (info_type pinfo) \<and> IS_DECIMAL_TYPE (buffer_type param)
            then Some (Inl (param\<lparr>buffer_type := MYSQL_TYPE_NEWDECIMAL\<rparr>))
            else None)
      else Some (Inr param))"

text \<open>The loop over the rows from \<open>i\<close> on: the bind structure and the number of bits.\<close>

fun bulk_info :: "'a param_state_scheme \<Rightarrow> u32 \<Rightarrow> nat list \<Rightarrow> MrdbParamValue \<Rightarrow> MYSQL_BIND \<Rightarrow> nat \<Rightarrow>
    (MYSQL_BIND \<times> nat) pyresult" where
  "bulk_info self column_nr [] paramvalue param bits = Some (Inr (param, bits))"
| "bulk_info self column_nr (i # rows) paramvalue param bits =
     try_bind (mariadb_get_parameter self True (of_nat i) column_nr paramvalue) (\<lambda>paramvalue.
       let (rc, pinfo) = mariadb_get_column_info (pv_value paramvalue) zero_info in
       if rc \<noteq> 0 \<and> pv_indicator paramvalue = 0 then Some (Inl (type_mismatch i column_nr))
       else
         let (param, bits) =
           (if info_type pinfo = MYSQL_TYPE_LONGLONG
            then (if reads_minus_one (pv_value paramvalue) then param\<lparr>bind_unsigned := True\<rparr> else param,
                  if info_bits pinfo > bits then info_bits pinfo mod 2 ^ 32 else bits)
            else (param, bits))
         in case merge_type param pinfo (pv_indicator paramvalue) of
              None \<Rightarrow> Some (Inl (type_mismatch i column_nr))
            | Some (Inl param) \<Rightarrow> Some (Inr (param, bits))
            | Some (Inr param) \<Rightarrow> bulk_info self column_nr rows paramvalue param bits)"

definition single_info :: "'a param_state_scheme \<Rightarrow> u32 \<Rightarrow> MrdbParamValue \<Rightarrow> MYSQL_BIND \<Rightarrow>
    (MYSQL_BIND \<times> nat) pyresult" where
  "single_info self column_nr paramvalue param =
     try_bind (mariadb_get_parameter self False 0 column_nr paramvalue) (\<lambda>paramvalue.
       let (rc, pinfo) = mariadb_get_column_info (pv_value paramvalue) zero_info in
       if rc = 1 then Some (Inl (throw Mariadb_ProgrammingError
           ''Can't retrieve column information for parameter %d'' [FmtInt (uint column_nr)]))
       else if rc = 2 then Some (Inl (throw Mariadb_NotSupportedError
           ''Data type '%s' in column %d not supported in MariaDB Connector/Python''
           [FmtStr (case pv_value paramvalue of Some obj \<Rightarrow> type_name obj | None \<Rightarrow> []),
            FmtInt (uint column_nr)]))
       else Some (Inr (param\<lparr>buffer_type := info_type pinfo\<rparr>, info_bits pinfo mod 2 ^ 32)))"

definition mariadb_get_parameter_info :: "'a param_state_scheme \<Rightarrow> MYSQL_BIND \<Rightarrow> u32 \<Rightarrow> MYSQL_BIND pyresult" where
  "mariadb_get_parameter_info self param column_nr =
     (let param = param\<lparr>bind_unsigned := False\<rparr>;
          paramvalue = zero_value
      in try_bind
           (if array_size self = 0 then single_info self column_nr paramvalue param
            else bulk_info self column_nr [0..<unat (array_size self)] paramvalue param 0)
           (\<lambda>(param, bits). Some (Inr (narrow_type bits param))))"

subsection \<open>Checks before an execution\<close>

text \<open>The loop over the columns, which updates \<open>self->params\<close> in place until an error occurs.\<close>

fun column_infos :: "'a param_state_scheme \<Rightarrow> MYSQL_BIND list \<Rightarrow> nat list \<Rightarrow>
    (pyerr option \<times> MYSQL_BIND list) option" where
  "column_infos self params [] = Some (None, params)"
| "column_infos self params (i # is) = do {
     param \<leftarrow> rd params i;
     r \<leftarrow> mariadb_get_parameter_info self param (of_nat i);
     case r of
       Inl e \<Rightarrow> Some (Some e, params)
     | Inr param \<Rightarrow> column_infos self (params[i := param]) is }"

text \<open>Outcomes of the two allocations, and the sizes of the two structures.\<close>

record alloc_env =
  alloc_params :: bool
  alloc_value :: bool
  sizeof_bind :: nat
  sizeof_value :: nat

definition not_enough_memory :: "u32 \<Rightarrow> nat \<Rightarrow> pyerr" where
  "not_enough_memory n sz = throw Mariadb_InterfaceError
     ''Not enough memory (tried to allocated %lld bytes)'' [FmtInt (uint n * int sz)]"

text \<open>The label \<open>error\<close>: release the values and report.\<close>

definition check_error :: "pyerr \<Rightarrow> 'a param_state_scheme \<Rightarrow> (pyerr option \<times> 'a param_state_scheme) option" where
  "check_error e self = Some (Some e, self\<lparr>cur_value := None\<rparr>)"

text \<open>Both checks end with the loop over the columns.\<close>

definition check_columns :: "'a param_state_scheme \<Rightarrow> (pyerr option \<times> 'a param_state_scheme) option" where
  "check_columns self = do {
     params \<leftarrow> cur_params self;
     (err, params) \<leftarrow> column_infos self params [0..<unat (pi_paramcount self)];
     let self = self\<lparr>cur_params := Some params\<rparr>;
     case err of None \<Rightarrow> Some (None, self) | Some e \<Rightarrow> check_error e self }"

text \<open>The check of row number \<open>i\<close> of \<open>executemany\<close>.\<close>

definition check_row :: "'a param_state_scheme \<Rightarrow> nat \<Rightarrow> pyobj \<Rightarrow> pyerr option" where
  "check_row self i obj =
     (if pi_paramstyle self \<noteq> PYFORMAT \<and> sequence_items obj = None
      then Some (throw Mariadb_ProgrammingError
             (''Invalid parameter type in row %d. '' @ '' (Row data must be provided as tuple(s))'')
             [FmtInt (int i + 1)])
      else if pi_paramstyle self = PYFORMAT \<and> dict_items obj = None
      then Some (throw Mariadb_ProgrammingError
             (''Invalid parameter type in row %d. '' @ '' (Row data must be provided as dict)'')
             [FmtInt (int i + 1)])
      else if pi_paramcount self = 0 \<or>
              (pi_paramstyle self \<noteq> PYFORMAT \<and> unat (pi_paramcount self) \<noteq> ListOrTuple_Size obj)
      then Some (throw Mariadb_ProgrammingError ''Invalid number of parameters in row %d''
             [FmtInt (int i + 1)])
      else None)"

fun check_rows :: "'a param_state_scheme \<Rightarrow> nat \<Rightarrow> pyobj list \<Rightarrow> pyerr option" where
  "check_rows self i [] = None"
| "check_rows self i (obj # objs) =
     (case check_row self i obj of Some e \<Rightarrow> Some e | None \<Rightarrow> check_rows self (Suc i) objs)"

text \<open>
  A number of rows of 2 to the 32 or more is truncated, as in the source.
\<close>

definition mariadb_check_bulk_parameters :: "alloc_env \<Rightarrow> 'a param_state_scheme \<Rightarrow> pyobj \<Rightarrow>
    (pyerr option \<times> 'a param_state_scheme) option" where
  "mariadb_check_bulk_parameters env self data =
     (case sequence_items data of
        None \<Rightarrow> Some (Some (throw Mariadb_InterfaceError
                  ''Data must be passed as sequence (Tuple or List)'' []), self)
      | Some rows \<Rightarrow>
          let self = self\<lparr>array_size := of_nat (length rows)\<rparr> in
          if array_size self = 0
          then Some (Some (throw Mariadb_InterfaceError
                 ''Empty parameter list. At least one row must be specified'' []), self)
          else case check_rows self 0 (take (unat (array_size self)) rows) of
            Some e \<Rightarrow> Some (Some e, self)
          | None \<Rightarrow>
              if \<not> is_prepared self \<and> \<not> alloc_params env
              then check_error (not_enough_memory (pi_paramcount self) (sizeof_bind env)) (self\<lparr>cur_params := None\<rparr>)
              else
                let self = (if is_prepared self then self
                  else self\<lparr>cur_params := Some (replicate (unat (pi_paramcount self)) zero_bind)\<rparr>)
                in if \<not> alloc_value env
                   then check_error (not_enough_memory (pi_paramcount self) (sizeof_value env)) (self\<lparr>cur_value := None\<rparr>)
                   else check_columns
                     (self\<lparr>cur_value := Some (replicate (unat (pi_paramcount self)) zero_value)\<rparr>))"

definition mariadb_check_execute_parameters :: "alloc_env \<Rightarrow> 'a param_state_scheme \<Rightarrow>
    (pyerr option \<times> 'a param_state_scheme) option" where
  "mariadb_check_execute_parameters env self =
     (if pi_paramcount self = 0
      then check_error (throw Mariadb_ProgrammingError ''Invalid number of parameters'' []) self
      else if cur_params self = None \<and> \<not> alloc_params env
      then check_error (not_enough_memory (pi_paramcount self) (sizeof_bind env)) self
      else
        let self = (if cur_params self = None
          then self\<lparr>cur_params := Some (replicate (unat (pi_paramcount self)) zero_bind)\<rparr> else self)
        in if cur_value self = None \<and> \<not> alloc_value env
           then check_error (not_enough_memory (pi_paramcount self) (sizeof_value env)) self
           else check_columns
             (if cur_value self = None
              then self\<lparr>cur_value := Some (replicate (unat (pi_paramcount self)) zero_value)\<rparr>
              else self))"

subsection \<open>Filling a bnd structure\<close>

text \<open>
  \<open>PyLong_AsUnsignedLong\<close> and \<open>PyLong_AsLong\<close> at 64 bits: all bits set when the object is no
  \<open>int\<close> or does not fit.
\<close>

definition as_unsigned :: "pyobj \<Rightarrow> u64" where
  "as_unsigned obj =
     (case as_int obj of Some n \<Rightarrow> if 0 \<le> n \<and> n < 2 ^ 64 then of_int n else - 1 | None \<Rightarrow> - 1)"

definition as_signed :: "pyobj \<Rightarrow> u64" where
  "as_signed obj =
     (case as_int obj of Some n \<Rightarrow> if - (2 ^ 63) \<le> n \<and> n < 2 ^ 63 then of_int n else - 1 | None \<Rightarrow> - 1)"

text \<open>Store the low \<open>w\<close> bytes at the front of \<open>num\<close>; a large unsigned value sets the flag.\<close>

definition bind_int :: "nat \<Rightarrow> bool \<Rightarrow> pyobj \<Rightarrow> MYSQL_BIND \<Rightarrow> MrdbParamValue \<Rightarrow> MYSQL_BIND \<times> MrdbParamValue" where
  "bind_int w is_negative obj bnd value =
     (let n = unat (if is_negative then as_signed obj else as_unsigned obj) mod 256 ^ w;
          value = value\<lparr>pv_num := le_bytes w n @ drop w (pv_num value)\<rparr>
      in (if \<not> is_negative \<and> 256 ^ w \<le> 2 * n then bnd\<lparr>bind_unsigned := True\<rparr> else bnd, value))"

definition bind_time :: "enum_field_types \<Rightarrow> pyobj \<Rightarrow> MYSQL_TIME option" where
  "bind_time type obj =
     (case obj of
        PyTimedelta d \<Rightarrow> mariadb_pydelta_to_tm d
      | PyTemporal t \<Rightarrow> mariadb_pydate_to_tm type t
      | _ \<Rightarrow> None)"

text \<open>
  The switch on a value that is not \<open>NULL\<close>. Reading a Python object as an object of another
  type is a fault, and so is the use of the length after a failed conversion to UTF-8; the
  allocation of the copy of a decimal's text is taken to succeed.
\<close>

definition bind_object :: "pyapi \<Rightarrow> pyobj \<Rightarrow> MYSQL_BIND \<Rightarrow> MrdbParamValue \<Rightarrow>
    (bool \<times> MYSQL_BIND \<times> MrdbParamValue) option" where
  "bind_object api obj bnd value =
     (let is_negative = (case as_int obj of Some n \<Rightarrow> n < 0 | None \<Rightarrow> False) in
      case buffer_type bnd of
        MYSQL_TYPE_TINY \<Rightarrow> Some (False, bind_int 1 is_negative obj bnd value)
      | MYSQL_TYPE_SHORT \<Rightarrow> Some (False, bind_int 2 is_negative obj bnd value)
      | MYSQL_TYPE_LONG \<Rightarrow> Some (False, bind_int 4 is_negative obj bnd value)
      | MYSQL_TYPE_LONGLONG \<Rightarrow> Some (False, bind_int 8 is_negative obj bnd value)
      | MYSQL_TYPE_DOUBLE \<Rightarrow>
          Some (False, bnd,
            value\<lparr>pv_num := le_bytes 8 (unat (case obj of PyFloat d \<Rightarrow> d | _ \<Rightarrow> object_as_double api obj))\<rparr>)
      | MYSQL_TYPE_LONG_BLOB \<Rightarrow>
          (case obj of
             PyBytes b \<Rightarrow> Some (False, bnd\<lparr>buffer_length := length b, bind_buffer := ObjBuffer b\<rparr>, value)
           | _ \<Rightarrow> None)
      | MYSQL_TYPE_DATE \<Rightarrow>
          map_option (\<lambda>tm. (False, bnd\<lparr>bind_buffer := TmBuffer\<rparr>, value\<lparr>pv_tm := tm\<rparr>))
            (bind_time (buffer_type bnd) obj)
      | MYSQL_TYPE_TIME \<Rightarrow>
          map_option (\<lambda>tm. (False, bnd\<lparr>bind_buffer := TmBuffer\<rparr>, value\<lparr>pv_tm := tm\<rparr>))
            (bind_time (buffer_type bnd) obj)
      | MYSQL_TYPE_DATETIME \<Rightarrow>
          map_option (\<lambda>tm. (False, bnd\<lparr>bind_buffer := TmBuffer\<rparr>, value\<lparr>pv_tm := tm\<rparr>))
            (bind_time (buffer_type bnd) obj)
      | MYSQL_TYPE_NEWDECIMAL \<Rightarrow>
          map_option (\<lambda>s. (False, bnd\<lparr>bind_buffer := OwnBuffer, buffer_length := length s\<rparr>,
              value\<lparr>pv_buffer := Some s, pv_free_me := True\<rparr>))
            (case obj of PyDecimal s \<Rightarrow> Some s | _ \<Rightarrow> object_str api obj)
      | MYSQL_TYPE_VAR_STRING \<Rightarrow>
          (case obj of
             PyUnicode cs \<Rightarrow>
               map_option (\<lambda>s. (False, bnd\<lparr>bind_buffer := ObjBuffer s, buffer_length := length s\<rparr>, value))
                 (utf8_encode api cs)
           | _ \<Rightarrow> None)
      | MYSQL_TYPE_NULL \<Rightarrow> Some (False, bnd, value)
      | _ \<Rightarrow> Some (True, bnd, value))"

text \<open>The return code (\<open>True\<close> for 1) and both structures.\<close>

definition mariadb_param_to_bind :: "pyapi \<Rightarrow> MYSQL_BIND \<Rightarrow> MrdbParamValue \<Rightarrow>
    (bool \<times> MYSQL_BIND \<times> MrdbParamValue) option" where
  "mariadb_param_to_bind api bnd value =
     (if pv_indicator value > 0 then
        (if bind_indicator bnd = None then None
         else Some (False, bnd\<lparr>bind_indicator := Some (pv_indicator value)\<rparr>, value))
      else case pv_value value of
        None \<Rightarrow> Some (False, bnd\<lparr>buffer_type := MYSQL_TYPE_NULL\<rparr>, value)
      | Some obj \<Rightarrow>
          bind_object api obj
            (if is_num api (buffer_type bnd) then bnd\<lparr>bind_buffer := NumBuffer\<rparr> else bnd) value)"

text \<open>The body of the callback's loop: the return code of \<open>mariadb_param_to_bind\<close> and both structures.\<close>

definition update_column :: "pyapi \<Rightarrow> 'a param_state_scheme \<Rightarrow> u32 \<Rightarrow> u32 \<Rightarrow> MYSQL_BIND \<Rightarrow> MrdbParamValue \<Rightarrow>
    (bool \<times> MYSQL_BIND \<times> MrdbParamValue) pyresult" where
  "update_column api self row_nr i bnd v =
     try_bind (mariadb_get_parameter self (array_size self > 0) row_nr i v) (\<lambda>v.
       let bnd = (if pv_indicator v \<noteq> 0 then bnd\<lparr>bind_indicator := Some (pv_indicator v)\<rparr> else bnd)
       in map_option Inr
            (if pv_indicator v < 1 then mariadb_param_to_bind api bnd v else Some (False, bnd, v)))"

text \<open>The loop over the columns: a pending exception, the return code (\<open>True\<close> for 1), the arrays.\<close>

fun update_columns :: "pyapi \<Rightarrow> 'a param_state_scheme \<Rightarrow> u32 \<Rightarrow> MYSQL_BIND list \<Rightarrow> MrdbParamValue list \<Rightarrow>
    nat list \<Rightarrow> (pyerr option \<times> bool \<times> MYSQL_BIND list \<times> MrdbParamValue list) option" where
  "update_columns api self row_nr binds vals [] = Some (None, False, binds, vals)"
| "update_columns api self row_nr binds vals (i # is) = do {
     v \<leftarrow> rd vals i;
     bnd \<leftarrow> rd binds i;
     r \<leftarrow> update_column api self row_nr (of_nat i) bnd v;
     case r of
       Inl e \<Rightarrow> Some (Some e, True, binds, vals)
     | Inr (rc, bnd, v) \<Rightarrow>
         if rc then Some (None, True, binds[i := bnd], vals[i := v])
         else update_columns api self row_nr (binds[i := bnd]) (vals[i := v]) is }"

definition mariadb_param_update :: "pyapi \<Rightarrow> 'a param_state_scheme \<Rightarrow> u32 \<Rightarrow>
    (pyerr option \<times> bool \<times> 'a param_state_scheme) option" where
  "mariadb_param_update api self row_nr = do {
     binds \<leftarrow> cur_params self;
     vals \<leftarrow> cur_value self;
     (err, rc, binds, vals) \<leftarrow>
       update_columns api self row_nr binds vals [0..<unat (pi_paramcount self)];
     Some (err, rc, self\<lparr>cur_params := Some binds, cur_value := Some vals\<rparr>) }"

end
