(* ===== verification/Mrdb_Params_Single.thy ===== *)
theory Mrdb_Params_Single
  imports Mrdb_Params
begin

text \<open>
  What one execution sends: \<open>sent\<close> reads a bind structure the way the client library does,
  \<open>denotes\<close> is the SQL value of a Python object, and the theorem is that both agree for every
  parameter. The macro \<open>IS_NUM\<close> of the client library is a parameter; \<open>knows_numbers\<close> states what
  is needed of it.
\<close>

subsection \<open>What a bind structure sends\<close>

datatype wire_value =
    WNull
  | WInt int
  | WDouble u64
  | WBytes bytes
  | WText bytes
  | WDecimal bytes
  | WTime MYSQL_TIME
  | WIndicator int

definition sent_int :: "nat \<Rightarrow> MYSQL_BIND \<Rightarrow> MrdbParamValue \<Rightarrow> wire_value option" where
  "sent_int w b v =
     (if bind_buffer b = NumBuffer
      then Some (WInt (if bind_unsigned b then int (le_val (take w (pv_num v)))
                       else le_signed (take w (pv_num v))))
      else None)"

definition sent_text :: "(bytes \<Rightarrow> wire_value) \<Rightarrow> MYSQL_BIND \<Rightarrow> MrdbParamValue \<Rightarrow> wire_value option" where
  "sent_text f b v =
     (case bind_buffer b of
        ObjBuffer s \<Rightarrow> Some (f (take (buffer_length b) s))
      | OwnBuffer \<Rightarrow> map_option (\<lambda>s. f (take (buffer_length b) s)) (pv_buffer v)
      | _ \<Rightarrow> None)"

text \<open>
  The value that the client library reads from a bind structure, by its type: from the buffer
  it points at, at the width and with the sign the structure tells. \<open>None\<close> is a structure whose
  buffer does not belong to its type.
\<close>

definition sent :: "MYSQL_BIND \<Rightarrow> MrdbParamValue \<Rightarrow> wire_value option" where
  "sent b v =
     (if pv_indicator v = STMT_INDICATOR_NULL then Some WNull
      else if pv_indicator v > 0 then Some (WIndicator (pv_indicator v))
      else case buffer_type b of
        MYSQL_TYPE_NULL \<Rightarrow> Some WNull
      | MYSQL_TYPE_TINY \<Rightarrow> sent_int 1 b v
      | MYSQL_TYPE_SHORT \<Rightarrow> sent_int 2 b v
      | MYSQL_TYPE_LONG \<Rightarrow> sent_int 4 b v
      | MYSQL_TYPE_LONGLONG \<Rightarrow> sent_int 8 b v
      | MYSQL_TYPE_DOUBLE \<Rightarrow>
          (if bind_buffer b = NumBuffer then Some (WDouble (of_nat (le_val (pv_num v)))) else None)
      | MYSQL_TYPE_LONG_BLOB \<Rightarrow> sent_text WBytes b v
      | MYSQL_TYPE_VAR_STRING \<Rightarrow> sent_text WText b v
      | MYSQL_TYPE_NEWDECIMAL \<Rightarrow> sent_text WDecimal b v
      | MYSQL_TYPE_DATE \<Rightarrow> (if bind_buffer b = TmBuffer then Some (WTime (pv_tm v)) else None)
      | MYSQL_TYPE_TIME \<Rightarrow> (if bind_buffer b = TmBuffer then Some (WTime (pv_tm v)) else None)
      | MYSQL_TYPE_DATETIME \<Rightarrow> (if bind_buffer b = TmBuffer then Some (WTime (pv_tm v)) else None)
      | _ \<Rightarrow> None)"

text \<open>The value a Python object stands for in SQL.\<close>

fun denotes :: "pyapi \<Rightarrow> pyobj \<Rightarrow> wire_value \<Rightarrow> bool" where
  "denotes api PyNone w \<longleftrightarrow> w = WNull"
| "denotes api (PyLong n) w \<longleftrightarrow> w = WInt n"
| "denotes api (PyBool b) w \<longleftrightarrow> w = WInt (of_bool b)"
| "denotes api (PyFloat d) w \<longleftrightarrow> w = WDouble d"
| "denotes api (PyBytes b) w \<longleftrightarrow> w = WBytes b"
| "denotes api (PyUnicode cs) w \<longleftrightarrow> (\<exists>s. utf8_encode api cs = Some s \<and> w = WText s)"
| "denotes api (PyDecimal s) w \<longleftrightarrow> w = WDecimal s"
| "denotes api (PyTemporal t) w \<longleftrightarrow> w = WTime (temporal_tm (iso_tokens t))"
| "denotes api (PyTimedelta d) w \<longleftrightarrow>
     (\<exists>tm. w = WTime tm \<and> clock_ok tm \<and> tm_micros tm = delta_micros d)"
| "denotes api obj w \<longleftrightarrow> False"

fun bindable :: "pyapi \<Rightarrow> pyobj \<Rightarrow> bool" where
  "bindable api PyNone \<longleftrightarrow> True"
| "bindable api (PyLong n) \<longleftrightarrow> - (2 ^ 63) \<le> n \<and> n < 2 ^ 64"
| "bindable api (PyBool b) \<longleftrightarrow> True"
| "bindable api (PyFloat d) \<longleftrightarrow> True"
| "bindable api (PyBytes b) \<longleftrightarrow> True"
| "bindable api (PyUnicode cs) \<longleftrightarrow> utf8_encode api cs \<noteq> None"
| "bindable api (PyDecimal s) \<longleftrightarrow> True"
| "bindable api (PyTemporal t) \<longleftrightarrow> py_temporal_ok t"
| "bindable api (PyTimedelta d) \<longleftrightarrow> delta_in_range d"
| "bindable api obj \<longleftrightarrow> False"

text \<open>The macro \<open>IS_NUM\<close> of the client library holds of the numeric types.\<close>

definition knows_numbers :: "pyapi \<Rightarrow> bool" where
  "knows_numbers api \<longleftrightarrow> list_all (is_num api)
     [MYSQL_TYPE_TINY, MYSQL_TYPE_SHORT, MYSQL_TYPE_LONG, MYSQL_TYPE_LONGLONG, MYSQL_TYPE_DOUBLE]"

subsection \<open>Integers\<close>

lemma num_bits_le: "num_bits n \<le> k \<longleftrightarrow> n < 2 ^ k"
proof (induction n arbitrary: k rule: num_bits.induct)
  case (1 n)
  show ?case
  proof (cases "n = 0")
    case False
    show ?thesis
    proof (cases k)
      case 0
      with False show ?thesis by (simp add: num_bits.simps [of n])
    next
      case (Suc j)
      have "num_bits n \<le> k \<longleftrightarrow> num_bits (n div 2) \<le> j" using False Suc by (simp add: num_bits.simps [of n])
      also have "\<dots> \<longleftrightarrow> n div 2 < 2 ^ j" using 1 False by simp
      also have "\<dots> \<longleftrightarrow> n < 2 ^ k" by (simp add: Suc div_less_iff_less_mult mult.commute)
      finally show ?thesis .
    qed
  qed (simp add: num_bits.simps)
qed

lemma num_bits_less: "0 < k \<Longrightarrow> num_bits n < k \<longleftrightarrow> n < 2 ^ (k - 1)"
  using num_bits_le [of n "k - 1"] by (cases k) (simp_all add: less_Suc_eq_le)

text \<open>\<open>w\<close> bytes with or without a sign can hold the number.\<close>

definition holds :: "nat \<Rightarrow> bool \<Rightarrow> int \<Rightarrow> bool" where
  "holds w u n \<longleftrightarrow> (if u then 0 \<le> n \<and> n < 256 ^ w else - (256 ^ w) \<le> 2 * n \<and> 2 * n < 256 ^ w)"

lemma unat_word_mod:
  assumes "w \<le> 8"
  shows "unat (word_of_int n :: u64) mod 256 ^ w = nat (n mod 256 ^ w)"
proof -
  have e: "(18446744073709551616 :: int) = 256 ^ 8" by simp
  have "unat (word_of_int n :: u64) = nat (n mod 256 ^ 8)"
    unfolding e [symmetric] by (simp add: unsigned_of_int nat_take_bit_eq take_bit_eq_mod nat_mod_as_int)
  then have "unat (word_of_int n :: u64) mod 256 ^ w = nat (n mod 256 ^ 8) mod nat (256 ^ w)"
    by (simp add: nat_power_eq)
  also have "\<dots> = nat (n mod 256 ^ 8 mod 256 ^ w)" by (simp add: nat_mod_distrib)
  also have "n mod 256 ^ 8 mod 256 ^ w = n mod 256 ^ w"
    using le_imp_power_dvd [OF assms, of "256 :: int"] by (rule mod_mod_cancel)
  finally show ?thesis .
qed

lemma as_word:
  assumes "as_int obj = Some n" "- (2 ^ 63) \<le> n" "n < 2 ^ 64"
  shows "(if n < 0 then as_signed obj else as_unsigned obj) = word_of_int n"
  using assms by (simp add: as_signed_def as_unsigned_def)

text \<open>The bytes stored by \<open>bind_int\<close>, and when the flag changes.\<close>

lemma bind_int_bytes:
  assumes "as_int obj = Some n" "- (2 ^ 63) \<le> n" "n < 2 ^ 64" "w \<le> 8"
  shows "bind_int w (n < 0) obj b v =
    (if 0 \<le> n \<and> 256 ^ w \<le> 2 * nat (n mod 256 ^ w) then b\<lparr>bind_unsigned := True\<rparr> else b,
     v\<lparr>pv_num := le_bytes w (nat (n mod 256 ^ w)) @ drop w (pv_num v)\<rparr>)"
  unfolding bind_int_def Let_def as_word [OF assms(1-3)] unat_word_mod [OF assms(4)]
  by (simp add: not_less)

lemma sent_bind_int:
  assumes "as_int obj = Some n" "- (2 ^ 63) \<le> n" "n < 2 ^ 64" "w \<le> 8" "bind_buffer b = NumBuffer"
    "holds w (bind_unsigned b) n \<or> n < 256 ^ w \<and> 256 ^ w \<le> 2 * n" "bind_int w (n < 0) obj b v = (b', v')"
  shows "sent_int w b' v' = Some (WInt n)" "buffer_type b' = buffer_type b" "pv_indicator v' = pv_indicator v"
    "holds w (bind_unsigned b) n \<Longrightarrow> b' = b"
proof -
  let ?k = "nat (n mod 256 ^ w)"
  have b': "b' = (if 0 \<le> n \<and> 256 ^ w \<le> 2 * ?k then b\<lparr>bind_unsigned := True\<rparr> else b)"
    and v': "v' = v\<lparr>pv_num := le_bytes w ?k @ drop w (pv_num v)\<rparr>"
    using assms(7) unfolding bind_int_bytes [OF assms(1-4)] by auto
  show "buffer_type b' = buffer_type b" "pv_indicator v' = pv_indicator v" by (simp_all add: b' v')
  have tk: "take w (pv_num v') = le_bytes w ?k" by (simp add: v')
  have pos: "?k = nat n" if "0 \<le> n" "n < 256 ^ w" using that by simp
  have half: "256 ^ w \<le> 2 * nat n \<longleftrightarrow> 256 ^ w \<le> 2 * n" if "0 \<le> n"
  proof -
    have "256 ^ w \<le> 2 * nat n \<longleftrightarrow> int (256 ^ w) \<le> int (2 * nat n)" by (simp only: of_nat_le_iff)
    with that show ?thesis by simp
  qed
  have un: "bind_unsigned b' \<Longrightarrow> 0 \<le> n \<and> n < 256 ^ w" and si: "\<not> bind_unsigned b' \<Longrightarrow> - (256 ^ w) \<le> 2 * n \<and> 2 * n < 256 ^ w"
    using assms(6) pos half by (auto simp: b' holds_def split: if_splits)
  show "sent_int w b' v' = Some (WInt n)"
  proof (cases "bind_unsigned b'")
    case True
    with un show ?thesis using assms(5) unfolding sent_int_def tk le_val_wire by (simp add: b')
  next
    case False
    with si le_signed_wire [of w n] show ?thesis using assms(5) unfolding sent_int_def tk by (simp add: b')
  qed
  show "b' = b" if "holds w (bind_unsigned b) n"
    using that pos half by (auto simp: b' holds_def split: if_splits)
qed

text \<open>The width of the type that \<open>narrow_type\<close> chooses.\<close>

definition type_bytes :: "enum_field_types \<Rightarrow> nat" where
  "type_bytes t = (if t = MYSQL_TYPE_TINY then 1 else if t = MYSQL_TYPE_SHORT then 2
     else if t = MYSQL_TYPE_LONG then 4 else 8)"

abbreviation bound_ints :: "enum_field_types set" where
  "bound_ints \<equiv> {MYSQL_TYPE_TINY, MYSQL_TYPE_SHORT, MYSQL_TYPE_LONG, MYSQL_TYPE_LONGLONG}"

lemma narrow_type_int:
  assumes "buffer_type b = MYSQL_TYPE_LONGLONG"
  shows "buffer_type (narrow_type bits b) \<in> bound_ints" "bind_unsigned (narrow_type bits b) = bind_unsigned b"
    "bind_unsigned b \<Longrightarrow> bits \<le> 64 \<Longrightarrow> bits \<le> 8 * type_bytes (buffer_type (narrow_type bits b))"
    "\<not> bind_unsigned b \<Longrightarrow> bits < 64 \<Longrightarrow> bits < 8 * type_bytes (buffer_type (narrow_type bits b))"
    "\<not> bind_unsigned b \<Longrightarrow> \<not> bits < 32 \<Longrightarrow> buffer_type (narrow_type bits b) = MYSQL_TYPE_LONGLONG"
  using assms by (auto simp: narrow_type_def type_bytes_def)

lemma narrow_type_other [simp]: "buffer_type b \<noteq> MYSQL_TYPE_LONGLONG \<Longrightarrow> narrow_type bits b = b"
  by (simp add: narrow_type_def)

lemma bits_hold:
  assumes "0 < w"
  shows "num_bits (nat \<bar>n\<bar>) < 8 * w \<Longrightarrow> holds w False n" "0 \<le> n \<Longrightarrow> num_bits (nat \<bar>n\<bar>) \<le> 8 * w \<Longrightarrow> holds w True n"
proof -
  have p: "(256 :: nat) ^ w = 2 ^ (8 * w)" by (simp add: power_mult)
  have h: "(2 :: nat) ^ (8 * w) = 2 * 2 ^ (8 * w - 1)" using assms by (simp flip: power_Suc)
  show "holds w False n" if "num_bits (nat \<bar>n\<bar>) < 8 * w"
  proof -
    have "2 * nat \<bar>n\<bar> < 256 ^ w" using that assms unfolding p h by (simp add: num_bits_less)
    then have "int (2 * nat \<bar>n\<bar>) < int (256 ^ w)" by (simp only: of_nat_less_iff)
    then show ?thesis by (auto simp: holds_def)
  qed
  show "holds w True n" if "0 \<le> n" "num_bits (nat \<bar>n\<bar>) \<le> 8 * w"
  proof -
    have "nat n < 256 ^ w" using that unfolding p by (simp add: num_bits_le)
    then have "int (nat n) < int (256 ^ w)" by (simp only: of_nat_less_iff)
    then show ?thesis using that(1) by (simp add: holds_def)
  qed
qed

lemma to_bind_int:
  assumes "knows_numbers api" "as_int obj = Some n" "- (2 ^ 63) \<le> n" "n < 2 ^ 64" "buffer_type b \<in> bound_ints"
    "w = type_bytes (buffer_type b)" "holds w (bind_unsigned b) n \<or> n < 256 ^ w \<and> 256 ^ w \<le> 2 * n"
    "pv_value v = Some obj" "pv_indicator v = 0"
  obtains b' v' where "mariadb_param_to_bind api b v = Some (False, b', v')" "sent b' v' = Some (WInt n)"
    "holds w (bind_unsigned b) n \<Longrightarrow> b' = b\<lparr>bind_buffer := NumBuffer\<rparr>"
proof -
  let ?b = "b\<lparr>bind_buffer := NumBuffer\<rparr>"
  obtain b' v' where bi: "bind_int w (n < 0) obj ?b v = (b', v')" by fastforce
  have w: "w \<le> 8" by (simp add: assms(6) type_bytes_def)
  note s = sent_bind_int [OF assms(2-4) w _ _ bi]
  have num: "is_num api (buffer_type b)" using assms(1,5) by (auto simp: knows_numbers_def)
  have "mariadb_param_to_bind api b v = Some (False, b', v')"
    using assms(2,5,6,8,9) num bi by (auto simp: mariadb_param_to_bind_def bind_object_def type_bytes_def)
  moreover have "sent b' v' = Some (WInt n)"
    using s(1-3) assms(5-7,9) by (auto simp: sent_def type_bytes_def STMT_INDICATOR_NULL_def)
  moreover have "b' = ?b" if "holds w (bind_unsigned b) n" using s(4) that assms(7) by simp
  ultimately show thesis by (rule that)
qed

subsection \<open>The loops over the columns\<close>

lemma column_infos_ok:
  assumes "distinct is" "\<And>i. i \<in> set is \<Longrightarrow> i < length params"
    "\<And>i b. i \<in> set is \<Longrightarrow> \<exists>b1. mariadb_get_parameter_info self b (of_nat i) = Some (Inr b1) \<and> P i b1"
  shows "\<exists>ps. column_infos self params is = Some (None, ps) \<and> length ps = length params \<and>
    (\<forall>i\<in>set is. P i (ps ! i)) \<and> (\<forall>i. i \<notin> set is \<longrightarrow> ps ! i = params ! i)"
  using assms
proof (induction "is" arbitrary: params)
  case (Cons i js)
  obtain b1 where b1: "mariadb_get_parameter_info self (params ! i) (of_nat i) = Some (Inr b1)" "P i b1"
    using Cons.prems(3) [of i "params ! i"] by auto
  have "\<exists>ps. column_infos self (params[i := b1]) js = Some (None, ps) \<and> length ps = length (params[i := b1]) \<and>
      (\<forall>i\<in>set js. P i (ps ! i)) \<and> (\<forall>k. k \<notin> set js \<longrightarrow> ps ! k = params[i := b1] ! k)"
    using Cons.prems by (intro Cons.IH) auto
  then obtain ps where ps: "column_infos self (params[i := b1]) js = Some (None, ps)" "length ps = length params"
    "\<forall>i\<in>set js. P i (ps ! i)" "\<forall>k. k \<notin> set js \<longrightarrow> ps ! k = params[i := b1] ! k" by auto
  have i: "i < length params" "i \<notin> set js" using Cons.prems(1,2) by auto
  with ps(4) b1(2) have "P i (ps ! i)" by simp
  moreover have "ps ! k = params ! k" if "k \<notin> set (i # js)" for k using ps(4) that by simp
  ultimately show ?case using ps(1-3) b1(1) i(1) by (intro exI [of _ ps]) (simp add: rd_in)
qed simp

lemma update_columns_ok:
  assumes "distinct is" "\<And>i. i \<in> set is \<Longrightarrow> i < length binds \<and> i < length vals"
    "\<And>i. i \<in> set is \<Longrightarrow> \<exists>b v. update_column api self row (of_nat i) (binds ! i) (vals ! i) = Some (Inr (False, b, v)) \<and>
      P i b v"
  shows "\<exists>bs vs. update_columns api self row binds vals is = Some (None, False, bs, vs) \<and>
    length bs = length binds \<and> length vs = length vals \<and> (\<forall>i\<in>set is. P i (bs ! i) (vs ! i)) \<and>
    (\<forall>i. i \<notin> set is \<longrightarrow> bs ! i = binds ! i \<and> vs ! i = vals ! i)"
  using assms
proof (induction "is" arbitrary: binds vals)
  case (Cons i js)
  obtain b v where bv: "update_column api self row (of_nat i) (binds ! i) (vals ! i) = Some (Inr (False, b, v))" "P i b v"
    using Cons.prems(3) [of i] by auto
  have i: "i < length binds" "i < length vals" "i \<notin> set js" using Cons.prems(1,2) by auto
  have "\<exists>bs vs. update_columns api self row (binds[i := b]) (vals[i := v]) js = Some (None, False, bs, vs) \<and>
      length bs = length (binds[i := b]) \<and> length vs = length (vals[i := v]) \<and> (\<forall>i\<in>set js. P i (bs ! i) (vs ! i)) \<and>
      (\<forall>k. k \<notin> set js \<longrightarrow> bs ! k = binds[i := b] ! k \<and> vs ! k = vals[i := v] ! k)"
    using Cons.prems i(3) by (intro Cons.IH) (auto simp: nth_list_update)
  then obtain bs vs where u: "update_columns api self row (binds[i := b]) (vals[i := v]) js = Some (None, False, bs, vs)"
    "length bs = length binds" "length vs = length vals" "\<forall>i\<in>set js. P i (bs ! i) (vs ! i)"
    "\<forall>k. k \<notin> set js \<longrightarrow> bs ! k = binds[i := b] ! k \<and> vs ! k = vals[i := v] ! k" by auto
  have "P i (bs ! i) (vs ! i)" using u(5) bv(2) i by simp
  moreover have "bs ! k = binds ! k \<and> vs ! k = vals ! k" if "k \<notin> set (i # js)" for k using u(5) that by simp
  ultimately show ?case using u(1-4) bv(1) i by (intro exI [of _ bs] exI [of _ vs]) (simp add: rd_in)
qed simp

subsection \<open>One execution\<close>

definition value_ok :: "'a param_state_scheme \<Rightarrow> MrdbParamValue \<Rightarrow> bool" where
  "value_ok self v \<longleftrightarrow> bulk_caps self \<or> pv_indicator v = 0"

lemma get_parameter_single:
  assumes "sequence_items (cur_data self) = Some objs" "pi_paramstyle self \<noteq> PYFORMAT" "i < length objs" "length objs < 2 ^ 32"
  shows "mariadb_get_parameter self False r (of_nat i) v = Some (set_parameter self (objs ! i) v)"
proof -
  have "unat (of_nat i :: u32) = i" using assms(3,4) by (simp add: unat_of_nat)
  with assms show ?thesis
    by (simp add: mariadb_get_parameter_def get_row_def get_column_def ListOrTuple_GetItem_def rd_in)
qed

text \<open>The type and the bits of a bindable object.\<close>

lemma column_info_bindable:
  "bindable api obj \<Longrightarrow> fst (mariadb_get_column_info (Some obj) zero_info) = 0"
  by (cases obj; simp add: mariadb_get_column_info_def Let_def split: py_temporal.split)

lemma single_info_bindable:
  assumes "sequence_items (cur_data self) = Some objs" "pi_paramstyle self \<noteq> PYFORMAT" "array_size self = 0"
    "i < length objs" "length objs < 2 ^ 32" "bindable api (objs ! i)"
    "mariadb_get_column_info (if objs ! i = PyNone then None else Some (objs ! i)) zero_info = (rc, pinfo)"
  shows "mariadb_get_parameter_info self b (of_nat i) =
    Some (Inr (narrow_type (info_bits pinfo mod 2 ^ 32) (b\<lparr>bind_unsigned := False, buffer_type := info_type pinfo\<rparr>)))"
proof -
  have rc: "rc = 0" using column_info_bindable [OF assms(6)] assms(7)
    by (auto simp: mariadb_get_column_info_def split: if_splits)
  obtain v1 where v1: "set_parameter self (objs ! i) zero_value = Inr v1"
    "pv_value v1 = (if objs ! i = PyNone then None else Some (objs ! i))"
    using assms(6) by (cases "objs ! i") (auto simp: set_parameter_def)
  have "mariadb_get_parameter self False 0 (of_nat i) zero_value = Some (Inr v1)"
    using get_parameter_single [OF assms(1,2,4,5), of 0 zero_value] v1(1) by simp
  moreover have "mariadb_get_column_info (pv_value v1) zero_info = (0, pinfo)" using assms(7) v1(2) rc by simp
  ultimately show ?thesis using assms(3) by (simp add: mariadb_get_parameter_info_def single_info_def)
qed

text \<open>An object other than an integer, bound with its type.\<close>

lemma to_bind_object:
  assumes "knows_numbers api" "bindable api obj" "as_int obj = None" "obj \<noteq> PyNone"
    "buffer_type b = info_type (snd (mariadb_get_column_info (Some obj) zero_info))"
    "pv_value v = Some obj" "pv_indicator v = 0"
  shows "wp (mariadb_param_to_bind api b v) (\<lambda>(rc, b', v'). \<not> rc \<and> (\<exists>w. sent b' v' = Some w \<and> denotes api obj w))"
proof (cases obj)
  case (PyTemporal t)
  have "\<exists>tm. mariadb_pydate_to_tm (temporal_field_type t) t = Some tm \<and> tm = temporal_tm (iso_tokens t)"
    using pydate_to_tm_iso assms(2) PyTemporal by auto
  with PyTemporal assms(5-7) show ?thesis
    by (cases t) (auto simp: mariadb_param_to_bind_def bind_object_def bind_time_def mariadb_get_column_info_def sent_def
        STMT_INDICATOR_NULL_def wp_simps)
next
  case (PyTimedelta d)
  with assms(2) obtain tm where "mariadb_pydelta_to_tm d = Some tm" "clock_ok tm" "tm_micros tm = delta_micros d"
    using pydelta_value by auto
  with PyTimedelta assms(5-7) show ?thesis
    by (auto simp: mariadb_param_to_bind_def bind_object_def bind_time_def mariadb_get_column_info_def sent_def
        STMT_INDICATOR_NULL_def wp_simps)
next
  case (PyFloat d)
  then have "is_num api (buffer_type b)" using assms(1,5) by (simp add: knows_numbers_def mariadb_get_column_info_def)
  moreover have "le_val (le_bytes 8 (unat d)) = unat d" using unat_u64_bound [of d] by (intro le_val_le_bytes)
  ultimately show ?thesis using PyFloat assms(5-7)
    by (simp add: mariadb_param_to_bind_def bind_object_def mariadb_get_column_info_def sent_def STMT_INDICATOR_NULL_def wp_simps)
qed (use assms in \<open>auto simp: mariadb_param_to_bind_def bind_object_def mariadb_get_column_info_def sent_def
  sent_text_def STMT_INDICATOR_NULL_def wp_simps\<close>)

lemma int_type_bits:
  assumes "as_int obj = Some n" "- (2 ^ 63) \<le> n" "n < 2 ^ 64"
    "mariadb_get_column_info (Some obj) zero_info = (rc, pinfo)"
    "b1 = narrow_type (info_bits pinfo mod 2 ^ 32) (b\<lparr>bind_unsigned := False, buffer_type := info_type pinfo\<rparr>)"
    "w = type_bytes (buffer_type b1)"
  shows "buffer_type b1 \<in> bound_ints" "holds w (bind_unsigned b1) n \<or> n < 256 ^ w \<and> 256 ^ w \<le> 2 * n"
proof -
  have p: "info_type pinfo = MYSQL_TYPE_LONGLONG" "info_bits pinfo = num_bits (nat \<bar>n\<bar>)"
    using assms(1,4) by (auto simp: mariadb_get_column_info_def zero_info_def Let_def split: if_splits)
  let ?bits = "num_bits (nat \<bar>n\<bar>)"
  have "nat \<bar>n\<bar> < 2 ^ 64" using assms(2,3) by simp
  then have b64: "?bits \<le> 64" using num_bits_le by blast
  then have b1: "b1 = narrow_type ?bits (b\<lparr>bind_unsigned := False, buffer_type := MYSQL_TYPE_LONGLONG\<rparr>)"
    using assms(5) p by simp
  let ?b = "b\<lparr>bind_unsigned := False, buffer_type := MYSQL_TYPE_LONGLONG\<rparr>"
  have nt: "buffer_type ?b = MYSQL_TYPE_LONGLONG" "\<not> bind_unsigned ?b" by simp_all
  show "buffer_type b1 \<in> bound_ints" unfolding b1 using narrow_type_int(1) [OF nt(1)] .
  have u: "\<not> bind_unsigned b1" unfolding b1 using narrow_type_int(2) [OF nt(1)] nt(2) by simp
  show "holds w (bind_unsigned b1) n \<or> n < 256 ^ w \<and> 256 ^ w \<le> 2 * n"
  proof (cases "?bits < 64")
    case True
    have "0 < w" by (simp add: assms(6) type_bytes_def)
    moreover have "?bits < 8 * w" using narrow_type_int(4) [OF nt True] by (simp add: assms(6) b1)
    ultimately show ?thesis using bits_hold(1) u by auto
  next
    case False
    then have "w = 8" using narrow_type_int(5) [OF nt] by (simp add: assms(6) b1 type_bytes_def)
    then show ?thesis using u assms(2,3) by (auto simp: holds_def)
  qed
qed

definition single_ready :: "'a param_state_scheme \<Rightarrow> pyobj list \<Rightarrow> bool" where
  "single_ready self objs \<longleftrightarrow> sequence_items (cur_data self) = Some objs \<and> pi_paramstyle self \<noteq> PYFORMAT \<and>
     array_size self = 0 \<and> pi_paramcount self = of_nat (length objs) \<and> objs \<noteq> [] \<and> length objs < 2 ^ 32"

text \<open>The structure that \<open>mariadb_get_parameter_info\<close> leaves for an object.\<close>

definition typed_for :: "pyobj \<Rightarrow> MYSQL_BIND \<Rightarrow> bool" where
  "typed_for obj b1 \<longleftrightarrow> (\<exists>b rc pinfo.
     mariadb_get_column_info (if obj = PyNone then None else Some obj) zero_info = (rc, pinfo) \<and>
     b1 = narrow_type (info_bits pinfo mod 2 ^ 32) (b\<lparr>bind_unsigned := False, buffer_type := info_type pinfo\<rparr>))"

definition bound_to :: "pyapi \<Rightarrow> pyobj \<Rightarrow> MYSQL_BIND \<Rightarrow> MrdbParamValue \<Rightarrow> bool" where
  "bound_to api obj b v \<longleftrightarrow> (\<exists>w. sent b v = Some w \<and> denotes api obj w)"

lemma single_typed:
  assumes "single_ready self objs" "i < length objs" "bindable api (objs ! i)"
  shows "\<exists>b1. mariadb_get_parameter_info self b (of_nat i) = Some (Inr b1) \<and> typed_for (objs ! i) b1"
proof -
  obtain rc pinfo where "mariadb_get_column_info (if objs ! i = PyNone then None else Some (objs ! i)) zero_info = (rc, pinfo)"
    by fastforce
  with assms single_info_bindable [of self objs i api rc pinfo b] show ?thesis
    unfolding single_ready_def typed_for_def by blast
qed

lemma to_bind_typed:
  assumes "knows_numbers api" "bindable api obj" "obj \<noteq> PyNone" "typed_for obj b1"
    "pv_value v = Some obj" "pv_indicator v = 0"
  shows "\<exists>b2 v2. mariadb_param_to_bind api b1 v = Some (False, b2, v2) \<and> bound_to api obj b2 v2"
proof -
  obtain b rc pinfo where ci: "mariadb_get_column_info (Some obj) zero_info = (rc, pinfo)"
    and b1: "b1 = narrow_type (info_bits pinfo mod 2 ^ 32) (b\<lparr>bind_unsigned := False, buffer_type := info_type pinfo\<rparr>)"
    using assms(3,4) by (auto simp: typed_for_def)
  show ?thesis
  proof (cases "as_int obj")
    case (Some n)
    then have n: "- (2 ^ 63) \<le> n" "n < 2 ^ 64" using assms(2) by (cases obj; auto)+
    note ib = int_type_bits [OF Some n ci b1 refl]
    obtain b2 v2 where "mariadb_param_to_bind api b1 v = Some (False, b2, v2)" "sent b2 v2 = Some (WInt n)"
      using to_bind_int [OF assms(1) Some n ib(1) refl ib(2) assms(5,6)] by blast
    moreover have "denotes api obj (WInt n)" using Some by (cases obj) auto
    ultimately show ?thesis by (auto simp: bound_to_def)
  next
    case None
    then have "info_type pinfo \<noteq> MYSQL_TYPE_LONGLONG"
      using ci assms(2) by (cases obj) (auto simp: mariadb_get_column_info_def zero_info_def split: py_temporal.splits)
    then have "buffer_type b1 = info_type (snd (mariadb_get_column_info (Some obj) zero_info))"
      by (simp add: b1 ci)
    from to_bind_object [OF assms(1,2) None assms(3) this assms(5,6)] show ?thesis
      by (auto simp: wp_def bound_to_def)
  qed
qed

lemma bound_to_None:
  "pv_indicator v = 1 \<or> pv_indicator v = 0 \<and> buffer_type b = MYSQL_TYPE_NULL \<Longrightarrow> bound_to api PyNone b v"
  by (auto simp: bound_to_def sent_def STMT_INDICATOR_NULL_def)

lemma single_bound:
  assumes "knows_numbers api" "single_ready self objs" "i < length objs" "bindable api (objs ! i)"
    "typed_for (objs ! i) b1" "value_ok self v"
  shows "\<exists>b2 v2. update_column api self row (of_nat i) b1 v = Some (Inr (False, b2, v2)) \<and> bound_to api (objs ! i) b2 v2"
proof -
  have gp: "mariadb_get_parameter self (array_size self > 0) row (of_nat i) v = Some (set_parameter self (objs ! i) v)"
    using assms(2,3) get_parameter_single [of self objs i row v] by (simp add: single_ready_def)
  show ?thesis
  proof (cases "objs ! i = PyNone")
    case True
    show ?thesis
    proof (cases "bulk_caps self")
      case caps: True
      let ?b = "b1\<lparr>bind_indicator := Some 1\<rparr>" and ?v = "v\<lparr>pv_value := None, pv_indicator := 1\<rparr>"
      have "update_column api self row (of_nat i) b1 v = Some (Inr (False, ?b, ?v))"
        using True caps by (simp add: update_column_def gp set_parameter_def STMT_INDICATOR_NULL_def)
      then show ?thesis using True bound_to_None [of ?v ?b] by auto
    next
      case caps: False
      let ?b = "b1\<lparr>buffer_type := MYSQL_TYPE_NULL\<rparr>" and ?v = "v\<lparr>pv_value := None\<rparr>"
      have "update_column api self row (of_nat i) b1 v = Some (Inr (False, ?b, ?v))" and "pv_indicator ?v = 0"
        using True caps assms(6)
        by (simp_all add: update_column_def gp set_parameter_def value_ok_def mariadb_param_to_bind_def)
      then show ?thesis using True bound_to_None [of ?v ?b] by auto
    qed
  next
    case False
    then have sp: "set_parameter self (objs ! i) v = Inr (v\<lparr>pv_value := Some (objs ! i), pv_indicator := 0\<rparr>)"
      using assms(4) by (cases "objs ! i") (auto simp: set_parameter_def)
    obtain b2 v2 where "mariadb_param_to_bind api b1 (v\<lparr>pv_value := Some (objs ! i), pv_indicator := 0\<rparr>) = Some (False, b2, v2)"
      "bound_to api (objs ! i) b2 v2"
      using to_bind_typed [OF assms(1,4) False assms(5), of "v\<lparr>pv_value := Some (objs ! i), pv_indicator := 0\<rparr>"] by auto
    then show ?thesis by (auto simp: update_column_def gp sp)
  qed
qed

definition binds_ok :: "'a param_state_scheme \<Rightarrow> nat \<Rightarrow> bool" where
  "binds_ok self n \<longleftrightarrow> (\<forall>bs. cur_params self = Some bs \<longrightarrow> length bs = n) \<and>
     (\<forall>vs. cur_value self = Some vs \<longrightarrow> length vs = n \<and> list_all (value_ok self) vs)"

lemma ready_update [simp]:
  "single_ready (self\<lparr>cur_params := ps\<rparr>) objs = single_ready self objs"
  "single_ready (self\<lparr>cur_value := vs\<rparr>) objs = single_ready self objs"
  by (simp_all add: single_ready_def)

lemma check_columns_single:
  assumes "single_ready self objs" "list_all (bindable api) objs" "cur_params self = Some bs" "length bs = length objs"
  shows "\<exists>ps. check_columns self = Some (None, self\<lparr>cur_params := Some ps\<rparr>) \<and> length ps = length objs \<and>
    (\<forall>i<length objs. typed_for (objs ! i) (ps ! i))"
proof -
  have n: "unat (pi_paramcount self) = length objs" using assms(1) by (simp add: single_ready_def unat_of_nat)
  have "\<exists>ps. column_infos self bs [0..<length objs] = Some (None, ps) \<and> length ps = length bs \<and>
      (\<forall>i\<in>set [0..<length objs]. typed_for (objs ! i) (ps ! i)) \<and> (\<forall>i. i \<notin> set [0..<length objs] \<longrightarrow> ps ! i = bs ! i)"
    using assms single_typed [of self objs _ api] by (intro column_infos_ok) (auto simp: list_all_length)
  then show ?thesis using assms(3,4) by (auto simp: check_columns_def n)
qed

lemma param_update_single:
  assumes "knows_numbers api" "single_ready self objs" "list_all (bindable api) objs"
    "cur_params self = Some ps" "length ps = length objs" "\<forall>i<length objs. typed_for (objs ! i) (ps ! i)"
    "cur_value self = Some vs" "length vs = length objs" "list_all (value_ok self) vs"
  shows "\<exists>bs ws. mariadb_param_update api self row = Some (None, False, self\<lparr>cur_params := Some bs, cur_value := Some ws\<rparr>) \<and>
    length bs = length objs \<and> length ws = length objs \<and> (\<forall>i<length objs. bound_to api (objs ! i) (bs ! i) (ws ! i))"
proof -
  have n: "unat (pi_paramcount self) = length objs" using assms(2) by (simp add: single_ready_def unat_of_nat)
  have "\<exists>bs ws. update_columns api self row ps vs [0..<length objs] = Some (None, False, bs, ws) \<and>
      length bs = length ps \<and> length ws = length vs \<and>
      (\<forall>i\<in>set [0..<length objs]. bound_to api (objs ! i) (bs ! i) (ws ! i)) \<and>
      (\<forall>i. i \<notin> set [0..<length objs] \<longrightarrow> bs ! i = ps ! i \<and> ws ! i = vs ! i)"
    using assms single_bound [OF assms(1,2)] by (intro update_columns_ok) (auto simp: list_all_length)
  then obtain bs ws where u: "update_columns api self row ps vs [0..<length objs] = Some (None, False, bs, ws)"
    "length bs = length objs" "length ws = length objs" "\<forall>i<length objs. bound_to api (objs ! i) (bs ! i) (ws ! i)"
    using assms(5,8) by auto
  then show ?thesis
    using assms(4,7) by (intro exI [of _ bs] exI [of _ ws]) (simp add: mariadb_param_update_def n)
qed

lemma value_ok_zero [simp]: "value_ok self zero_value"
  by (simp add: value_ok_def zero_value_def)

lemma value_ok_update [simp]:
  "value_ok (self\<lparr>cur_params := ps\<rparr>) = value_ok self" "value_ok (self\<lparr>cur_value := vs\<rparr>) = value_ok self"
  by (simp_all add: value_ok_def fun_eq_iff)

lemma update_same:
  "cur_params self = ps \<Longrightarrow> self\<lparr>cur_params := ps\<rparr> = self" "cur_value self = vs \<Longrightarrow> self\<lparr>cur_value := vs\<rparr> = self"
  by auto

lemma check_execute_single:
  assumes "single_ready self objs" "list_all (bindable api) objs" "binds_ok self (length objs)"
    "alloc_params env" "alloc_value env"
  shows "\<exists>ps vs. mariadb_check_execute_parameters env self = Some (None, self\<lparr>cur_params := Some ps, cur_value := Some vs\<rparr>) \<and>
    length ps = length objs \<and> (\<forall>i<length objs. typed_for (objs ! i) (ps ! i)) \<and>
    length vs = length objs \<and> list_all (value_ok self) vs"
proof -
  have n: "unat (pi_paramcount self) = length objs" "pi_paramcount self \<noteq> 0"
    using assms(1) by (auto simp: single_ready_def unat_of_nat word_unat_eq_iff)
  define bs where "bs = (case cur_params self of None \<Rightarrow> replicate (length objs) zero_bind | Some bs \<Rightarrow> bs)"
  define vs where "vs = (case cur_value self of None \<Rightarrow> replicate (length objs) zero_value | Some vs \<Rightarrow> vs)"
  let ?self = "self\<lparr>cur_params := Some bs, cur_value := Some vs\<rparr>"
  have "mariadb_check_execute_parameters env self = check_columns ?self"
    using assms(4,5) n
    by (cases "cur_params self"; cases "cur_value self") (simp_all add: mariadb_check_execute_parameters_def bs_def vs_def update_same)
  moreover have "length bs = length objs" "length vs = length objs" "list_all (value_ok self) vs"
    using assms(3) by (auto simp: bs_def vs_def binds_ok_def list_all_length split: option.splits)
  moreover obtain ps where "check_columns ?self = Some (None, ?self\<lparr>cur_params := Some ps\<rparr>)" "length ps = length objs"
    "\<forall>i<length objs. typed_for (objs ! i) (ps ! i)"
    using check_columns_single [of ?self objs api bs] assms(1,2) calculation(2) by auto
  ultimately show ?thesis by (intro exI [of _ ps] exI [of _ vs]) simp
qed

text \<open>
  C6: \<open>execute\<close> binds every parameter to its value. For a sequence of supported objects, with
  integers from minus 2 to the 63 up to 2 to the 64, the checks succeed, the callback succeeds,
  and each bind structure, read at its type, width and sign, is the value of the object at its
  place. This holds for a cursor without arrays as well as for one that reuses arrays.
\<close>

theorem execute_binds_values:
  assumes "knows_numbers api" "single_ready self objs" "list_all (bindable api) objs" "binds_ok self (length objs)"
    and "alloc_params env" "alloc_value env"
  shows "\<exists>self1 self2 bs ws. mariadb_check_execute_parameters env self = Some (None, self1) \<and>
    mariadb_param_update api self1 0 = Some (None, False, self2) \<and>
    cur_params self2 = Some bs \<and> cur_value self2 = Some ws \<and> length bs = length objs \<and> length ws = length objs \<and>
    (\<forall>i<length objs. \<exists>w. sent (bs ! i) (ws ! i) = Some w \<and> denotes api (objs ! i) w)"
proof -
  obtain ps vs where c: "mariadb_check_execute_parameters env self = Some (None, self\<lparr>cur_params := Some ps, cur_value := Some vs\<rparr>)"
    "length ps = length objs" "\<forall>i<length objs. typed_for (objs ! i) (ps ! i)" "length vs = length objs" "list_all (value_ok self) vs"
    using check_execute_single [OF assms(2-6)] by blast
  let ?self1 = "self\<lparr>cur_params := Some ps, cur_value := Some vs\<rparr>"
  obtain bs ws where "mariadb_param_update api ?self1 0 = Some (None, False, ?self1\<lparr>cur_params := Some bs, cur_value := Some ws\<rparr>)"
    "length bs = length objs" "length ws = length objs" "\<forall>i<length objs. bound_to api (objs ! i) (bs ! i) (ws ! i)"
    using param_update_single [OF assms(1), of ?self1 objs ps vs 0] assms(2,3) c(2-5) by auto
  with c(1) show ?thesis unfolding bound_to_def by (intro exI conjI) (assumption | simp)+
qed

definition sample_params :: "pyobj \<Rightarrow> nat \<Rightarrow> param_state" where
  "sample_params data n = \<lparr>cur_fields = [], fetch_values = [], converter = None, array_size = 0, cur_data = data,
     pi_paramcount = of_nat n, pi_paramstyle = QMARK, pi_keys = [], is_prepared = False, cur_params = None,
     cur_value = None, bulk_caps = True, server_info = ''10.6.0''\<rparr>"

definition sample_alloc :: alloc_env where
  "sample_alloc = \<lparr>alloc_params = True, alloc_value = True, sizeof_bind = 112, sizeof_value = 104\<rparr>"

lemma ref_knows_numbers: "knows_numbers ref_api"
  by (simp add: knows_numbers_def ref_api_def)

theorem execute_binds_values_witness:
  "\<exists>self1 self2 bs ws. mariadb_check_execute_parameters sample_alloc
      (sample_params (PyTuple [PyLong (- 128), PyLong (2 ^ 64 - 1), PyNone]) 3) = Some (None, self1) \<and>
    mariadb_param_update ref_api self1 0 = Some (None, False, self2) \<and>
    cur_params self2 = Some bs \<and> cur_value self2 = Some ws \<and>
    sent (bs ! 0) (ws ! 0) = Some (WInt (- 128)) \<and> sent (bs ! 1) (ws ! 1) = Some (WInt (2 ^ 64 - 1)) \<and>
    sent (bs ! 2) (ws ! 2) = Some WNull"
proof -
  let ?objs = "[PyLong (- 128), PyLong (2 ^ 64 - 1), PyNone]"
  have "single_ready (sample_params (PyTuple ?objs) 3) ?objs" "list_all (bindable ref_api) ?objs"
    "binds_ok (sample_params (PyTuple ?objs) 3) (length ?objs)" "alloc_params sample_alloc" "alloc_value sample_alloc"
    by (simp_all add: single_ready_def sample_params_def binds_ok_def sample_alloc_def)
  from execute_binds_values [OF ref_knows_numbers this] obtain self1 self2 bs ws where
    r: "mariadb_check_execute_parameters sample_alloc (sample_params (PyTuple ?objs) 3) = Some (None, self1)"
      "mariadb_param_update ref_api self1 0 = Some (None, False, self2)" "cur_params self2 = Some bs" "cur_value self2 = Some ws"
    and s: "\<And>i. i < length ?objs \<Longrightarrow> \<exists>w. sent (bs ! i) (ws ! i) = Some w \<and> denotes ref_api (?objs ! i) w" by blast
  from s [of 0] s [of 1] s [of 2] r show ?thesis by auto
qed

end
