(* ===== verification/Mrdb_Params_Bulk.thy ===== *)
theory Mrdb_Params_Bulk
  imports Mrdb_Params_Single
begin

text \<open>
  What \<open>executemany\<close> sends for a column of integers, which rows it accepts, and where its
  checks fail.
\<close>

subsection \<open>Many executions\<close>

definition bulk_ready :: "'a param_state_scheme \<Rightarrow> pyobj list \<Rightarrow> bool" where
  "bulk_ready self rows \<longleftrightarrow> sequence_items (cur_data self) = Some rows \<and> pi_paramstyle self \<noteq> PYFORMAT \<and>
     array_size self = of_nat (length rows) \<and> rows \<noteq> [] \<and> length rows < 2 ^ 32"

text \<open>Column \<open>j\<close> of the data holds the integers \<open>ns\<close>, one for each row.\<close>

definition int_column :: "'a param_state_scheme \<Rightarrow> pyobj list \<Rightarrow> nat \<Rightarrow> int list \<Rightarrow> bool" where
  "int_column self rows j ns \<longleftrightarrow> length ns = length rows \<and> j < unat (pi_paramcount self) \<and>
     (\<forall>i<length rows. \<exists>items. sequence_items (rows ! i) = Some items \<and> j < length items \<and>
        as_int (items ! j) = Some (ns ! i))"

lemma of_nat_pred: "0 < n \<Longrightarrow> n < 2 ^ 32 \<Longrightarrow> unat (of_nat n - 1 :: u32) = n - 1"
proof -
  assume n: "0 < n" "n < 2 ^ 32"
  then have e: "(of_nat n - 1 :: u32) = of_nat (n - 1)" by (simp add: of_nat_diff)
  have "unat (of_nat (n - 1) :: u32) = (n - 1) mod 2 ^ 32" by (simp add: unat_of_nat del: of_nat_diff)
  with n show ?thesis unfolding e by simp
qed

lemma get_parameter_bulk:
  assumes "bulk_ready self rows" "int_column self rows j ns" "i < length rows"
  shows "\<exists>obj. as_int obj = Some (ns ! i) \<and> mariadb_get_parameter self True (of_nat i) (of_nat j) v =
    Some (Inr (v\<lparr>pv_value := Some obj, pv_indicator := 0\<rparr>))"
proof -
  obtain items where it: "sequence_items (rows ! i) = Some items" "j < length items" "as_int (items ! j) = Some (ns ! i)"
    using assms(2,3) by (auto simp: int_column_def)
  have j: "j < unat (pi_paramcount self)" using assms(2) by (simp add: int_column_def)
  then have j32: "j < 2 ^ 32" using unat_u32_less [of "pi_paramcount self"] by simp
  have i32: "i < 2 ^ 32" "length rows < 2 ^ 32" "0 < length rows" using assms(1,3) by (auto simp: bulk_ready_def)
  have u: "unat (of_nat i :: u32) = i" "unat (of_nat j :: u32) = j" using i32 j32 by (simp_all add: unat_of_nat)
  have "unat (pi_paramcount self - 1) = unat (pi_paramcount self) - 1"
    using of_nat_pred [of "unat (pi_paramcount self)"] j unat_u32_less [of "pi_paramcount self"] by simp
  moreover have "unat (array_size self - 1) = length rows - 1"
    using assms(1) of_nat_pred [of "length rows"] i32 by (simp add: bulk_ready_def)
  ultimately have ok: "\<not> (of_nat i > array_size self - 1 \<or> of_nat j > pi_paramcount self - 1)"
    using assms(3) j unfolding word_less_nat_alt u by linarith
  have "set_parameter self (items ! j) v = Inr (v\<lparr>pv_value := Some (items ! j), pv_indicator := 0\<rparr>)"
    using it(3) by (cases "items ! j") (auto simp: set_parameter_def)
  with it ok assms(1,3) show ?thesis
    by (intro exI [of _ "items ! j"])
      (simp add: mariadb_get_parameter_def get_row_def get_column_def bulk_ready_def ListOrTuple_GetItem_def u rd_in)
qed

abbreviation bits_of :: "int \<Rightarrow> nat" where
  "bits_of n \<equiv> num_bits (nat \<bar>n\<bar>)"

definition suspicious :: "int \<Rightarrow> bool" where
  "suspicious n \<longleftrightarrow> n = - 1 \<or> n < - (2 ^ 63) \<or> 2 ^ 63 \<le> n"

lemma int_column_info:
  assumes "as_int obj = Some n"
  shows "mariadb_get_column_info (Some obj) zero_info = (0, \<lparr>info_type = MYSQL_TYPE_LONGLONG, info_bits = bits_of n\<rparr>)"
    "reads_minus_one (Some obj) = suspicious n"
  using assms by (simp_all add: mariadb_get_column_info_def zero_info_def Let_def reads_minus_one_def suspicious_def)

lemma merge_type_int:
  "buffer_type p \<in> {MYSQL_TYPE_DECIMAL, MYSQL_TYPE_NULL, MYSQL_TYPE_LONGLONG} \<Longrightarrow>
   merge_type p \<lparr>info_type = MYSQL_TYPE_LONGLONG, info_bits = k\<rparr> ind = Some (Inr (p\<lparr>buffer_type := MYSQL_TYPE_LONGLONG\<rparr>))"
  by (auto simp: merge_type_def)

lemma bulk_info_ints:
  assumes "bulk_ready self rows" "int_column self rows j ns" "\<And>n. n \<in> set ns \<Longrightarrow> bits_of n < 2 ^ 32"
    "\<And>i. i \<in> set is \<Longrightarrow> i < length rows"
    "buffer_type p \<in> {MYSQL_TYPE_DECIMAL, MYSQL_TYPE_NULL, MYSQL_TYPE_LONGLONG}" "bits < 2 ^ 32"
  shows "\<exists>q. bulk_info self (of_nat j) is v p bits = Some (Inr (q, foldl (\<lambda>b i. max b (bits_of (ns ! i))) bits is)) \<and>
    buffer_type q = (if is = [] then buffer_type p else MYSQL_TYPE_LONGLONG) \<and>
    (bind_unsigned q \<longleftrightarrow> bind_unsigned p \<or> (\<exists>i\<in>set is. suspicious (ns ! i)))"
  using assms(4-6)
proof (induction "is" arbitrary: v p bits)
  case (Cons i js)
  obtain obj where obj: "as_int obj = Some (ns ! i)"
    "mariadb_get_parameter self True (of_nat i) (of_nat j) v = Some (Inr (v\<lparr>pv_value := Some obj, pv_indicator := 0\<rparr>))"
    using get_parameter_bulk [OF assms(1,2)] Cons.prems(1) by (meson list.set_intros(1))
  let ?p = "(if suspicious (ns ! i) then p\<lparr>bind_unsigned := True\<rparr> else p)\<lparr>buffer_type := MYSQL_TYPE_LONGLONG\<rparr>"
  let ?bits = "max bits (bits_of (ns ! i))"
  have i: "i < length rows" and ni: "ns ! i \<in> set ns" using Cons.prems(1) assms(2) by (auto simp: int_column_def)
  then have small: "bits_of (ns ! i) < 2 ^ 32" using assms(3) by blast
  have "bulk_info self (of_nat j) (i # js) v p bits =
      bulk_info self (of_nat j) js (v\<lparr>pv_value := Some obj, pv_indicator := 0\<rparr>) ?p ?bits"
    using obj(2) Cons.prems(2) small by (simp add: int_column_info [OF obj(1)] merge_type_int max_def)
  moreover obtain q where "bulk_info self (of_nat j) js (v\<lparr>pv_value := Some obj, pv_indicator := 0\<rparr>) ?p ?bits =
      Some (Inr (q, foldl (\<lambda>b i. max b (bits_of (ns ! i))) ?bits js))"
    "buffer_type q = (if js = [] then buffer_type ?p else MYSQL_TYPE_LONGLONG)"
    "bind_unsigned q \<longleftrightarrow> bind_unsigned ?p \<or> (\<exists>i\<in>set js. suspicious (ns ! i))"
    using Cons.IH [of ?p ?bits "v\<lparr>pv_value := Some obj, pv_indicator := 0\<rparr>"] Cons.prems small by auto
  ultimately show ?case by (intro exI [of _ q]) (simp del: bulk_info.simps)
qed simp

lemma foldl_max:
  "foldl (\<lambda>b i. max b (f i)) (b :: nat) is \<le> m \<longleftrightarrow> b \<le> m \<and> (\<forall>i\<in>set is. f i \<le> m)"
  by (induction "is" arbitrary: b) auto

text \<open>The bind structure of an integer column after \<open>mariadb_get_parameter_info\<close>.\<close>

lemma bulk_int_info:
  assumes "bulk_ready self rows" "int_column self rows j ns" "\<And>n. n \<in> set ns \<Longrightarrow> bits_of n \<le> 64"
    "buffer_type b \<in> {MYSQL_TYPE_DECIMAL, MYSQL_TYPE_NULL, MYSQL_TYPE_LONGLONG}"
  obtains bits p where "mariadb_get_parameter_info self b (of_nat j) = Some (Inr (narrow_type bits p))"
    "buffer_type p = MYSQL_TYPE_LONGLONG" "bind_unsigned p \<longleftrightarrow> (\<exists>n\<in>set ns. suspicious n)"
    "\<forall>m. bits \<le> m \<longleftrightarrow> (\<forall>n\<in>set ns. bits_of n \<le> m)"
proof -
  let ?n = "length rows" and ?b = "b\<lparr>bind_unsigned := False\<rparr>"
  let ?bits = "foldl (\<lambda>b i. max b (bits_of (ns ! i))) 0 [0..<?n]"
  have r: "rows \<noteq> []" "?n < 2 ^ 32" "array_size self = of_nat ?n" using assms(1) by (auto simp: bulk_ready_def)
  then have u: "unat (array_size self) = ?n" "array_size self \<noteq> 0" by (auto simp: unat_of_nat word_unat_eq_iff)
  have ns: "length ns = ?n" using assms(2) by (simp add: int_column_def)
  have small: "\<And>n. n \<in> set ns \<Longrightarrow> bits_of n < 2 ^ 32" using assms(3) by fastforce
  obtain p where p: "bulk_info self (of_nat j) [0..<?n] zero_value ?b 0 = Some (Inr (p, ?bits))"
    "buffer_type p = MYSQL_TYPE_LONGLONG" "bind_unsigned p \<longleftrightarrow> (\<exists>i\<in>set [0..<?n]. suspicious (ns ! i))"
    using bulk_info_ints [OF assms(1,2) small, of "[0..<?n]" ?b 0 zero_value] assms(4) r(1) by auto
  show thesis
  proof (rule that)
    show "mariadb_get_parameter_info self b (of_nat j) = Some (Inr (narrow_type ?bits p))"
      using p(1) u by (simp add: mariadb_get_parameter_info_def)
    show "bind_unsigned p \<longleftrightarrow> (\<exists>n\<in>set ns. suspicious n)"
      unfolding p(3) set_upt set_conv_nth [of ns] by (fastforce simp: ns)
    show "\<forall>m. ?bits \<le> m \<longleftrightarrow> (\<forall>n\<in>set ns. bits_of n \<le> m)"
      unfolding foldl_max set_upt set_conv_nth [of ns] by (fastforce simp: ns)
  qed (rule p(2))
qed

lemma update_column_bulk:
  assumes "bulk_ready self rows" "int_column self rows j ns" "i < length rows"
  obtains obj where "as_int obj = Some (ns ! i)"
    "update_column api self (of_nat i) (of_nat j) b v =
       map_option Inr (mariadb_param_to_bind api b (v\<lparr>pv_value := Some obj, pv_indicator := 0\<rparr>))"
proof -
  obtain obj where obj: "as_int obj = Some (ns ! i)"
    "mariadb_get_parameter self True (of_nat i) (of_nat j) v = Some (Inr (v\<lparr>pv_value := Some obj, pv_indicator := 0\<rparr>))"
    using get_parameter_bulk [OF assms] by blast
  have "array_size self > 0"
    using assms(1) by (auto simp: bulk_ready_def word_less_nat_alt unat_of_nat)
  then have "update_column api self (of_nat i) (of_nat j) b v =
      map_option Inr (mariadb_param_to_bind api b (v\<lparr>pv_value := Some obj, pv_indicator := 0\<rparr>))"
    using obj(2) by (simp add: update_column_def)
  with obj(1) show thesis by (rule that)
qed

definition same_shape :: "MYSQL_BIND \<Rightarrow> MYSQL_BIND \<Rightarrow> bool" where
  "same_shape b b' \<longleftrightarrow> buffer_type b = buffer_type b' \<and> bind_unsigned b = bind_unsigned b'"

text \<open>The integers of one column that \<open>executemany\<close> can send: all signed or all unsigned, no -1.\<close>

definition column_range :: "int list \<Rightarrow> bool" where
  "column_range ns \<longleftrightarrow> - 1 \<notin> set ns \<and>
     ((\<forall>n\<in>set ns. - (2 ^ 63) \<le> n \<and> n < 2 ^ 63) \<or> (\<forall>n\<in>set ns. 0 \<le> n \<and> n < 2 ^ 64))"

lemma column_range_holds:
  assumes "column_range ns" "buffer_type p = MYSQL_TYPE_LONGLONG" "bind_unsigned p \<longleftrightarrow> (\<exists>n\<in>set ns. suspicious n)"
    "\<forall>m. bits \<le> m \<longleftrightarrow> (\<forall>n\<in>set ns. bits_of n \<le> m)" "n \<in> set ns"
    "b1 = narrow_type bits p"
  shows "holds (type_bytes (buffer_type b1)) (bind_unsigned b1) n"
proof -
  let ?w = "type_bytes (buffer_type b1)"
  have w: "0 < ?w" by (simp add: type_bytes_def)
  have n: "bits_of n \<le> bits" using assms(4,5) by blast
  have u: "bind_unsigned b1 = bind_unsigned p" unfolding assms(6) by (rule narrow_type_int(2) [OF assms(2)])
  show ?thesis
  proof (cases "bind_unsigned p")
    case True
    then have all: "0 \<le> k \<and> k < 2 ^ 64" if "k \<in> set ns" for k
      using assms(1,3) that by (auto simp: column_range_def suspicious_def)
    have "bits_of k \<le> 64" if "k \<in> set ns" for k unfolding num_bits_le using all [OF that] by auto
    then have "bits \<le> 64" using assms(4) by simp
    then have "bits \<le> 8 * ?w" using narrow_type_int(3) [OF assms(2) True] by (simp add: assms(6))
    then show ?thesis unfolding u using True n all [OF assms(5)] bits_hold(2) [OF w, of n] by simp
  next
    case False
    then have lo: "- (2 ^ 63) \<le> k \<and> k < 2 ^ 63" if "k \<in> set ns" for k
      using assms(3) that by (auto simp: suspicious_def not_le not_less)
    show ?thesis
    proof (cases "bits < 64")
      case True
      then have "bits < 8 * ?w" using narrow_type_int(4) [OF assms(2) False] by (simp add: assms(6))
      then show ?thesis unfolding u using False n bits_hold(1) [OF w, of n] by simp
    next
      case big: False
      then have "?w = 8" using narrow_type_int(5) [OF assms(2) False] by (simp add: assms(6) type_bytes_def)
      then show ?thesis unfolding u using False lo [OF assms(5)] by (simp add: holds_def)
    qed
  qed
qed

lemma column_range_bits: "column_range ns \<Longrightarrow> n \<in> set ns \<Longrightarrow> bits_of n \<le> 64 \<and> - (2 ^ 63) \<le> n \<and> n < 2 ^ 64"
  unfolding num_bits_le by (fastforce simp: column_range_def)


text \<open>
  C36: a -1 in a column is sent as 255. The test for an overflow reads the name
  \<open>PyErr_Occurred\<close> instead of calling it, so -1 marks the column as unsigned; with numbers of at
  most eight bits the column is an unsigned TINYINT.
\<close>

theorem bulk_minus_one_corrupted:
  assumes "knows_numbers api" "bulk_ready self rows" "int_column self rows j ns"
    and "\<forall>n\<in>set ns. \<bar>n\<bar> < 256" "i < length rows" "ns ! i = - 1"
    and "buffer_type b \<in> {MYSQL_TYPE_DECIMAL, MYSQL_TYPE_NULL, MYSQL_TYPE_LONGLONG}"
  shows "\<exists>b1 b2 v'. mariadb_get_parameter_info self b (of_nat j) = Some (Inr b1) \<and>
    update_column api self (of_nat i) (of_nat j) b1 v = Some (Inr (False, b2, v')) \<and> sent b2 v' = Some (WInt 255)"
proof -
  have le8: "bits_of n \<le> 8" if "n \<in> set ns" for n unfolding num_bits_le using assms(4) that by auto
  have bits64: "\<And>n. n \<in> set ns \<Longrightarrow> bits_of n \<le> 64" using le8 by fastforce
  obtain p bits where pb: "mariadb_get_parameter_info self b (of_nat j) = Some (Inr (narrow_type bits p))"
    "buffer_type p = MYSQL_TYPE_LONGLONG" "bind_unsigned p \<longleftrightarrow> (\<exists>n\<in>set ns. suspicious n)"
    "\<forall>m. bits \<le> m \<longleftrightarrow> (\<forall>n\<in>set ns. bits_of n \<le> m)"
    by (rule bulk_int_info [OF assms(2,3) bits64 assms(7)])
  have "- 1 \<in> set ns" using assms(3,5,6) by (auto simp: int_column_def in_set_conv_nth)
  then have "bind_unsigned p" "bits \<le> 8" using pb(3,4) le8 by (auto simp: suspicious_def)
  then have b1: "buffer_type (narrow_type bits p) = MYSQL_TYPE_TINY" "bind_unsigned (narrow_type bits p)"
    using pb(2) by (simp_all add: narrow_type_def)
  obtain obj where obj: "as_int obj = Some (- 1)" "update_column api self (of_nat i) (of_nat j) (narrow_type bits p) v =
      map_option Inr (mariadb_param_to_bind api (narrow_type bits p) (v\<lparr>pv_value := Some obj, pv_indicator := 0\<rparr>))"
    using update_column_bulk [OF assms(2,3,5), of api "narrow_type bits p" v] assms(6) by auto
  let ?b2 = "(narrow_type bits p)\<lparr>bind_buffer := NumBuffer\<rparr>"
  let ?v = "v\<lparr>pv_value := Some obj, pv_indicator := 0, pv_num := le_bytes 1 255 @ drop 1 (pv_num v)\<rparr>"
  have "bind_int 1 True obj ?b2 (v\<lparr>pv_value := Some obj, pv_indicator := 0\<rparr>) = (?b2, ?v)"
    using bind_int_bytes [OF obj(1), of 1 ?b2 "v\<lparr>pv_value := Some obj, pv_indicator := 0\<rparr>"] by simp
  then have "mariadb_param_to_bind api (narrow_type bits p) (v\<lparr>pv_value := Some obj, pv_indicator := 0\<rparr>) = Some (False, ?b2, ?v)"
    using assms(1) b1(1) obj(1) by (simp add: mariadb_param_to_bind_def bind_object_def knows_numbers_def)
  moreover have "sent ?b2 ?v = Some (WInt 255)"
    using b1 by (simp add: sent_def sent_int_def STMT_INDICATOR_NULL_def ord_char_of)
  ultimately show ?thesis using pb(1) obj(2) by auto
qed

definition sample_bulk :: "int list \<Rightarrow> param_state" where
  "sample_bulk ns = (sample_params (PyList (map (\<lambda>n. PyTuple [PyLong n]) ns)) 1)\<lparr>array_size := of_nat (length ns)\<rparr>"

lemma sample_bulk_ready:
  assumes "ns \<noteq> []" "length ns < 2 ^ 32"
  shows "bulk_ready (sample_bulk ns) (map (\<lambda>n. PyTuple [PyLong n]) ns)"
    "int_column (sample_bulk ns) (map (\<lambda>n. PyTuple [PyLong n]) ns) 0 ns"
  using assms by (simp_all add: bulk_ready_def int_column_def sample_bulk_def sample_params_def)


theorem bulk_minus_one_corrupted_witness:
  "\<exists>b1 b2 v'. mariadb_get_parameter_info (sample_bulk [7, - 1]) zero_bind 0 = Some (Inr b1) \<and>
    update_column ref_api (sample_bulk [7, - 1]) 1 0 b1 zero_value = Some (Inr (False, b2, v')) \<and>
    sent b2 v' = Some (WInt 255)"
  using bulk_minus_one_corrupted [OF ref_knows_numbers sample_bulk_ready, of "[7, - 1]" 1 zero_bind zero_value]
  by (simp add: zero_bind_def)

subsection \<open>Checks of the data\<close>

lemma check_rows_ok:
  "check_rows self i objs = None \<longleftrightarrow> (\<forall>k<length objs. check_row self (i + k) (objs ! k) = None)"
proof (induction objs arbitrary: i)
  case (Cons obj objs)
  have "check_rows self i (obj # objs) = None \<longleftrightarrow> check_row self i obj = None \<and> check_rows self (Suc i) objs = None"
    by (simp split: option.splits)
  also have "\<dots> \<longleftrightarrow> (\<forall>k<length (obj # objs). check_row self (i + k) ((obj # objs) ! k) = None)"
    unfolding Cons.IH by (auto simp: less_Suc_eq_0_disj)
  finally show ?case .
qed simp

definition row_fits :: "'a param_state_scheme \<Rightarrow> pyobj \<Rightarrow> bool" where
  "row_fits self obj \<longleftrightarrow> pi_paramcount self \<noteq> 0 \<and>
     (if pi_paramstyle self = PYFORMAT then dict_items obj \<noteq> None
      else \<exists>items. sequence_items obj = Some items \<and> length items = unat (pi_paramcount self))"

lemma check_row_ok: "check_row self i obj = None \<longleftrightarrow> row_fits self obj"
  by (auto simp: check_row_def row_fits_def ListOrTuple_Size_def)

lemma row_fits_update [simp]: "row_fits (self\<lparr>array_size := n\<rparr>) = row_fits self"
  by (simp add: row_fits_def fun_eq_iff)

lemma check_columns_frame: "check_columns self = Some (err, self') \<Longrightarrow> array_size self' = array_size self"
  by (auto simp: check_columns_def check_error_def Let_def bind_eq_Some_conv split: option.splits)

text \<open>
  C31: the data of \<open>executemany\<close> is accepted only if it is a list or tuple with at least one row
  and every row has the shape the statement asks for: a dictionary for named parameters, else a
  list or tuple with as many items as there are placeholders. The number of rows is then the
  array size of the cursor.
\<close>

theorem bulk_data_checked:
  assumes "mariadb_check_bulk_parameters env self data = Some (None, self')"
    and "ListOrTuple_Size data < 2 ^ 32"
  shows "\<exists>rows. sequence_items data = Some rows \<and> rows \<noteq> [] \<and> array_size self' = of_nat (length rows) \<and>
    (\<forall>row\<in>set rows. row_fits self row)"
proof -
  obtain rows where rows: "sequence_items data = Some rows"
    using assms(1) by (auto simp: mariadb_check_bulk_parameters_def split: option.splits)
  let ?self = "self\<lparr>array_size := of_nat (length rows)\<rparr>"
  have n: "unat (of_nat (length rows) :: u32) = length rows"
    using assms(2) rows by (simp add: ListOrTuple_Size_def unat_of_nat)
  have r: "of_nat (length rows) \<noteq> (0 :: u32)" "check_rows ?self 0 rows = None"
    using assms(1) rows n by (auto simp: mariadb_check_bulk_parameters_def Let_def split: if_splits option.splits)
  then have "\<forall>row\<in>set rows. row_fits self row"
    by (auto simp: check_rows_ok check_row_ok in_set_conv_nth)
  moreover have "rows \<noteq> []" using r(1) by auto
  moreover have "array_size self' = of_nat (length rows)"
    using assms(1) rows r n
    by (auto simp: mariadb_check_bulk_parameters_def Let_def check_error_def dest!: check_columns_frame split: if_splits)
  ultimately show ?thesis using rows by blast
qed

theorem bulk_data_checked_witness:
  "\<exists>self'. mariadb_check_bulk_parameters sample_alloc (sample_bulk [1]) (PyList [PyTuple [PyLong 1]]) = Some (None, self') \<and>
     array_size self' = 1"
proof -
  let ?rows = "[PyTuple [PyLong 1]]"
  let ?self = "(sample_bulk [1])\<lparr>cur_params := Some [zero_bind], cur_value := Some [zero_value]\<rparr>"
  have rdy: "bulk_ready ?self ?rows" "int_column ?self ?rows 0 [1]"
    by (simp_all add: bulk_ready_def int_column_def sample_bulk_def sample_params_def)
  have bits: "\<And>n. n \<in> set [1] \<Longrightarrow> bits_of n \<le> 64" unfolding num_bits_le by simp
  have ty: "buffer_type zero_bind \<in> {MYSQL_TYPE_DECIMAL, MYSQL_TYPE_NULL, MYSQL_TYPE_LONGLONG}" by (simp add: zero_bind_def)
  obtain bits p where info: "mariadb_get_parameter_info ?self zero_bind (of_nat 0) = Some (Inr (narrow_type bits p))"
    by (rule bulk_int_info [OF rdy bits ty])
  have "mariadb_check_bulk_parameters sample_alloc (sample_bulk [1]) (PyList ?rows) = check_columns ?self"
    by (simp add: mariadb_check_bulk_parameters_def sample_alloc_def sample_bulk_def sample_params_def check_row_def
        ListOrTuple_Size_def)
  also have "\<dots> = Some (None, ?self\<lparr>cur_params := Some [narrow_type bits p]\<rparr>)"
    using info by (simp add: check_columns_def rd_def sample_bulk_def sample_params_def)
  finally have r: "mariadb_check_bulk_parameters sample_alloc (sample_bulk [1]) (PyList ?rows) =
    Some (None, ?self\<lparr>cur_params := Some [narrow_type bits p]\<rparr>)" .
  from bulk_data_checked [OF r] r show ?thesis by (auto simp: ListOrTuple_Size_def)
qed

text \<open>
  Once a column has mixed floats and decimals, its remaining rows are not looked at: any
  object in the third row is accepted, because the loop over the rows is left.
\<close>

theorem decimal_mix_skips_rows:
  "\<exists>b1. mariadb_get_parameter_info
      ((sample_params (PyList [PyTuple [PyFloat d], PyTuple [PyDecimal s], PyTuple [obj]]) 1)\<lparr>array_size := 3\<rparr>) zero_bind 0 =
        Some (Inr b1) \<and> buffer_type b1 = MYSQL_TYPE_NEWDECIMAL"
  by (simp add: mariadb_get_parameter_info_def upt_rec mariadb_get_parameter_def get_row_def get_column_def sample_params_def
      ListOrTuple_GetItem_def rd_def set_parameter_def mariadb_get_column_info_def zero_info_def merge_type_def zero_bind_def
      IS_DECIMAL_TYPE_def narrow_type_def)

end
