(* ===== verification/Mrdb_Runtime.thy ===== *)
theory Mrdb_Runtime
  imports Mrdb_Params
begin

text \<open>
  What the methods of connections and cursors run in: the lock of the interpreter and the
  pending exception, the client library behind the handle \<open>MYSQL\<close>, and the macros of
  \<open>mariadb_python.h\<close> that release the lock around a call to the server. The library calls
  \<open>MrdbConnection_process_status_info\<close> back while it reads an answer.

  The library is a parameter. Its state is of an unknown type \<open>'c\<close>; a function that talks to the
  server takes that state and gives the return code (\<open>True\<close> for any code but 0), the status
  information it reports on the way, and the new state.
\<close>

subsection \<open>State\<close>

datatype status_info =
    STATUS_TYPE u32
  | TRACK_SCHEMA bytes
  | TRACK_STATE_CHANGE bytes
  | TRACK_SYSTEM_VARIABLES bytes bytes
  | TRACK_OTHER

type_synonym 'c server_call = "'c \<Rightarrow> bool \<times> status_info list \<times> 'c"

text \<open>
  \<open>gil\<close>: the running thread holds the interpreter lock. \<open>py_err\<close>: the exception that is set.
  \<open>notified\<close>: the dictionaries the status callback was called with, oldest first. The other
  fields are those of \<open>MrdbConnection\<close>; \<open>thread_state\<close> and \<open>mysql\<close> say whether the pointer is
  set, and a status callback returns the exception it raises, if any.
\<close>

record 'c world =
  gil :: bool
  py_err :: "pyerr option"
  client :: 'c
  notified :: "pyobj list"
  thread_state :: bool
  mysql :: bool
  conn_closed :: bool
  host :: "bytes option"
  status_callback :: "(pyobj \<Rightarrow> pyerr option) option"
  tls_in_use :: bool

text \<open>Every use of the interpreter needs its lock.\<close>

definition set_error :: "pyerr \<Rightarrow> ('c, 'z) world_scheme \<Rightarrow> ('c, 'z) world_scheme option" where
  "set_error e w = (if gil w then Some (w\<lparr>py_err := Some e\<rparr>) else None)"

subsection \<open>The interpreter lock\<close>

text \<open>
  \<open>PyEval_SaveThread\<close> without the lock and \<open>PyEval_RestoreThread\<close> with it do not return: both are
  faults.
\<close>

definition MARIADB_BEGIN_ALLOW_THREADS :: "('c, 'z) world_scheme \<Rightarrow> ('c, 'z) world_scheme option" where
  "MARIADB_BEGIN_ALLOW_THREADS w =
     (if gil w then Some (w\<lparr>gil := False, thread_state := True\<rparr>) else None)"

definition MARIADB_END_ALLOW_THREADS :: "('c, 'z) world_scheme \<Rightarrow> ('c, 'z) world_scheme option" where
  "MARIADB_END_ALLOW_THREADS w =
     (if thread_state w
      then (if gil w then None else Some (w\<lparr>gil := True, thread_state := False\<rparr>))
      else Some w)"

text \<open>The two macros of the callback; the local variable \<open>_save\<close> is passed along.\<close>

definition MARIADB_UNBLOCK_THREADS :: "('c, 'z) world_scheme \<Rightarrow> (bool \<times> ('c, 'z) world_scheme) option" where
  "MARIADB_UNBLOCK_THREADS w =
     (if thread_state w
      then (if gil w then None else Some (True, w\<lparr>gil := True, thread_state := False\<rparr>))
      else Some (False, w))"

definition MARIADB_BLOCK_THREADS :: "bool \<Rightarrow> ('c, 'z) world_scheme \<Rightarrow> ('c, 'z) world_scheme option" where
  "MARIADB_BLOCK_THREADS save w =
     (if save
      then (if gil w then Some (w\<lparr>gil := False, thread_state := True\<rparr>) else None)
      else Some w)"

subsection \<open>Status information\<close>

text \<open>\<open>strncmp (s, t, n) == 0\<close>, for the \<open>n\<close> bytes of \<open>s\<close> and a literal \<open>t\<close>.\<close>

fun strncmp_eq :: "bytes \<Rightarrow> bytes \<Rightarrow> bool" where
  "strncmp_eq [] t \<longleftrightarrow> True"
| "strncmp_eq (c # s) [] \<longleftrightarrow> c = NUL"
| "strncmp_eq (c # s) (d # t) \<longleftrightarrow> c = d \<and> strncmp_eq s t"

definition unicode :: "string \<Rightarrow> pyobj" where
  "unicode s = PyUnicode (map ord s)"

text \<open>
  Build the dictionary with one entry and call the status callback with it. A value that could
  not be decoded is a null pointer, which \<open>PyDict_SetItem\<close> does not accept.
\<close>

definition notify :: "pyobj option \<Rightarrow> pyobj option \<Rightarrow> ('c, 'z) world_scheme \<Rightarrow> ('c, 'z) world_scheme option" where
  "notify dict_key dict_val w = do {
     key \<leftarrow> dict_key;
     val \<leftarrow> dict_val;
     f \<leftarrow> status_callback w;
     if gil w
     then let dict = PyDict [(key, val)] in
       Some (w\<lparr>notified := notified w @ [dict],
               py_err := (case f dict of Some e \<Rightarrow> Some e | None \<Rightarrow> py_err w)\<rparr>)
     else None }"

definition decode :: "pyapi \<Rightarrow> bytes \<Rightarrow> pyobj option" where
  "decode api s = map_option PyUnicode (utf8_decode api s)"

text \<open>
  A character set other than \<open>utf8mb4\<close> is an error. The name is copied to a buffer of 128 bytes.
\<close>

definition check_charset :: "bytes \<Rightarrow> bytes \<Rightarrow> ('c, 'z) world_scheme \<Rightarrow> ('c, 'z) world_scheme option" where
  "check_charset key val w =
     (if strncmp_eq key ''character_set_client'' \<and> \<not> strncmp_eq val ''utf8mb4''
      then (if length val < 128
            then set_error (throw Mariadb_ProgrammingError ''Character set '%s' is not supported''
                   [FmtStr (takeWhile (\<lambda>c. c \<noteq> NUL) val)]) w
            else None)
      else Some w)"

definition MrdbConnection_process_status_info :: "pyapi \<Rightarrow> status_info \<Rightarrow> ('c, 'z) world_scheme \<Rightarrow>
    ('c, 'z) world_scheme option" where
  "MrdbConnection_process_status_info api info w =
     (case info of
        STATUS_TYPE server_status \<Rightarrow>
          if status_callback w \<noteq> None then do {
            (save, w) \<leftarrow> MARIADB_UNBLOCK_THREADS w;
            w \<leftarrow> notify (Some (unicode ''server_status'')) (Some (PyLong (uint server_status))) w;
            MARIADB_BLOCK_THREADS save w }
          else Some w
      | _ \<Rightarrow> do {
          (save, w) \<leftarrow> MARIADB_UNBLOCK_THREADS w;
          w \<leftarrow> (case info of
                 TRACK_SCHEMA val \<Rightarrow>
                   if status_callback w \<noteq> None then notify (Some (unicode ''schema'')) (decode api val) w
                   else Some w
               | TRACK_STATE_CHANGE val \<Rightarrow>
                   if status_callback w \<noteq> None then notify (Some (unicode ''state_change'')) (decode api val) w
                   else Some w
               | TRACK_SYSTEM_VARIABLES key val \<Rightarrow> do {
                   w \<leftarrow> check_charset key val w;
                   if status_callback w \<noteq> None then notify (decode api key) (decode api val) w
                   else Some w }
               | _ \<Rightarrow> Some w);
          MARIADB_BLOCK_THREADS save w })"

fun process_all :: "pyapi \<Rightarrow> status_info list \<Rightarrow> ('c, 'z) world_scheme \<Rightarrow> ('c, 'z) world_scheme option" where
  "process_all api [] w = Some w"
| "process_all api (info # infos) w = do {
     w \<leftarrow> MrdbConnection_process_status_info api info w;
     process_all api infos w }"

subsection \<open>Calls to the server\<close>

definition server_call :: "pyapi \<Rightarrow> 'c server_call \<Rightarrow> ('c, 'z) world_scheme \<Rightarrow>
    (bool \<times> ('c, 'z) world_scheme) option" where
  "server_call api f w =
     (let (rc, infos, c) = f (client w) in do {
        w \<leftarrow> process_all api infos (w\<lparr>client := c\<rparr>);
        Some (rc, w) })"

definition blocking :: "pyapi \<Rightarrow> 'c server_call \<Rightarrow> ('c, 'z) world_scheme \<Rightarrow>
    (bool \<times> ('c, 'z) world_scheme) option" where
  "blocking api f w = do {
     w \<leftarrow> MARIADB_BEGIN_ALLOW_THREADS w;
     (rc, w) \<leftarrow> server_call api f w;
     w \<leftarrow> MARIADB_END_ALLOW_THREADS w;
     Some (rc, w) }"

text \<open>A call of the library that does not talk to the server.\<close>

definition lib_do :: "('c \<Rightarrow> 'c) \<Rightarrow> ('c, 'z) world_scheme \<Rightarrow> ('c, 'z) world_scheme" where
  "lib_do f w = w\<lparr>client := f (client w)\<rparr>"

text \<open>Return the null pointer with an exception set.\<close>

definition raise_null :: "pyerr \<Rightarrow> ('c, 'z) world_scheme \<Rightarrow> ('a option \<times> ('c, 'z) world_scheme) option" where
  "raise_null e w = map_option (Pair None) (set_error e w)"

subsection \<open>Lock discipline\<close>

text \<open>
  A method is entered and left with the lock held and no thread state stored. The callback may run
  in this state or, during a blocking call, in the opposite one, and keeps either.
\<close>

definition locked :: "('c, 'z) world_scheme \<Rightarrow> bool" where
  "locked w \<longleftrightarrow> gil w \<and> \<not> thread_state w"

definition lock_ok :: "('c, 'z) world_scheme \<Rightarrow> bool" where
  "lock_ok w \<longleftrightarrow> gil w \<noteq> thread_state w"

text \<open>Status information whose strings can be decoded and whose character set fits its buffer.\<close>

fun info_ok :: "pyapi \<Rightarrow> status_info \<Rightarrow> bool" where
  "info_ok api (TRACK_SCHEMA val) \<longleftrightarrow> utf8_decode api val \<noteq> None"
| "info_ok api (TRACK_STATE_CHANGE val) \<longleftrightarrow> utf8_decode api val \<noteq> None"
| "info_ok api (TRACK_SYSTEM_VARIABLES key val) \<longleftrightarrow>
     utf8_decode api key \<noteq> None \<and> utf8_decode api val \<noteq> None \<and> length val < 128"
| "info_ok api info \<longleftrightarrow> True"

text \<open>
  What a call may change of the world besides the library: the pending exception and the log of
  the callback.
\<close>

definition same_conn :: "('c, 'z) world_scheme \<Rightarrow> ('c, 'z) world_scheme \<Rightarrow> bool" where
  "same_conn w w' \<longleftrightarrow>
     gil w' = gil w \<and> thread_state w' = thread_state w \<and> mysql w' = mysql w \<and>
     conn_closed w' = conn_closed w \<and> host w' = host w \<and> status_callback w' = status_callback w \<and>
     tls_in_use w' = tls_in_use w \<and> world.more w' = world.more w"

lemma same_conn_refl [simp]: "same_conn w w"
  by (simp add: same_conn_def)

lemma same_conn_trans [trans]: "same_conn w w' \<Longrightarrow> same_conn w' w'' \<Longrightarrow> same_conn w w''"
  by (simp add: same_conn_def)

lemma same_conn_updates [simp]:
  "same_conn w (w'\<lparr>py_err := e\<rparr>) = same_conn w w'"
  "same_conn w (w'\<lparr>client := c\<rparr>) = same_conn w w'"
  "same_conn w (w'\<lparr>notified := ns\<rparr>) = same_conn w w'"
  by (simp_all add: same_conn_def)

text \<open>
  What the callback does, without the lock: the dictionaries it passes on and the exception that
  is set afterwards.
\<close>

fun info_dicts :: "pyapi \<Rightarrow> status_info \<Rightarrow> pyobj list" where
  "info_dicts api (STATUS_TYPE s) = [PyDict [(unicode ''server_status'', PyLong (uint s))]]"
| "info_dicts api (TRACK_SCHEMA val) = [PyDict [(unicode ''schema'', PyUnicode (the (utf8_decode api val)))]]"
| "info_dicts api (TRACK_STATE_CHANGE val) =
     [PyDict [(unicode ''state_change'', PyUnicode (the (utf8_decode api val)))]]"
| "info_dicts api (TRACK_SYSTEM_VARIABLES key val) =
     [PyDict [(PyUnicode (the (utf8_decode api key)), PyUnicode (the (utf8_decode api val)))]]"
| "info_dicts api TRACK_OTHER = []"

fun charset_error :: "status_info \<Rightarrow> pyerr option" where
  "charset_error (TRACK_SYSTEM_VARIABLES key val) =
     (if strncmp_eq key ''character_set_client'' \<and> \<not> strncmp_eq val ''utf8mb4''
      then Some (throw Mariadb_ProgrammingError ''Character set '%s' is not supported''
             [FmtStr (takeWhile (\<lambda>c. c \<noteq> NUL) val)])
      else None)"
| "charset_error info = None"

definition latest :: "pyerr option \<Rightarrow> pyerr option \<Rightarrow> pyerr option" where
  "latest e e' = (case e' of None \<Rightarrow> e | Some x \<Rightarrow> Some x)"

definition after_info :: "pyapi \<Rightarrow> status_info \<Rightarrow> ('c, 'z) world_scheme \<Rightarrow> ('c, 'z) world_scheme" where
  "after_info api info w =
     (let e = latest (py_err w) (charset_error info) in
      case status_callback w of
        None \<Rightarrow> w\<lparr>py_err := e\<rparr>
      | Some f \<Rightarrow> w\<lparr>notified := notified w @ info_dicts api info,
                    py_err := fold (\<lambda>d e. latest e (f d)) (info_dicts api info) e\<rparr>)"

lemma world_relock [simp]:
  "\<not> gil w \<Longrightarrow> thread_state w \<Longrightarrow> w\<lparr>gil := False, thread_state := True\<rparr> = w"
  "gil w \<Longrightarrow> \<not> thread_state w \<Longrightarrow> w\<lparr>gil := True, thread_state := False\<rparr> = w"
  by (cases w; simp)+

lemma process_status_info_eq:
  assumes "lock_ok w" "info_ok api info"
  shows "MrdbConnection_process_status_info api info w = Some (after_info api info w)"
proof -
  note defs = MrdbConnection_process_status_info_def MARIADB_UNBLOCK_THREADS_def MARIADB_BLOCK_THREADS_def
    notify_def check_charset_def set_error_def decode_def after_info_def latest_def
  have "w\<lparr>gil := True, thread_state := False, notified := ns, py_err := e, gil := False, thread_state := True\<rparr> =
      w\<lparr>notified := ns, py_err := e\<rparr>"
    "w\<lparr>gil := True, thread_state := False, py_err := e, gil := False, thread_state := True\<rparr> = w\<lparr>py_err := e\<rparr>"
    if "thread_state w" for ns e
    using assms(1) that by (cases w; simp add: lock_ok_def)+
  then show ?thesis
    using assms
    by (cases info; cases w; cases "thread_state w";
        auto simp: defs lock_ok_def Let_def split: option.splits if_splits)
qed

lemma after_info_frame [simp]:
  "same_conn w (after_info api info w)" "client (after_info api info w) = client w"
  by (simp_all add: after_info_def Let_def split: option.split)

lemma after_info_lock:
  "after_info api info (w\<lparr>gil := a, thread_state := b\<rparr>) = (after_info api info w)\<lparr>gil := a, thread_state := b\<rparr>"
  by (cases w) (simp add: after_info_def Let_def split: option.split)

lemma same_conn_lock: "same_conn w w' \<Longrightarrow> lock_ok w' = lock_ok w" "same_conn w w' \<Longrightarrow> locked w' = locked w"
  by (simp_all add: same_conn_def lock_ok_def locked_def)

lemma after_infos_frame [simp]:
  "same_conn w (fold (after_info api) infos w)" "client (fold (after_info api) infos w) = client w"
  by (induction infos arbitrary: w) (auto intro: same_conn_trans [OF after_info_frame(1)])

lemma after_infos_lock:
  "fold (after_info api) infos (w\<lparr>gil := a, thread_state := b\<rparr>) =
   (fold (after_info api) infos w)\<lparr>gil := a, thread_state := b\<rparr>"
  by (induction infos arbitrary: w) (simp_all add: after_info_lock)

lemma process_all_eq:
  "lock_ok w \<Longrightarrow> list_all (info_ok api) infos \<Longrightarrow> process_all api infos w = Some (fold (after_info api) infos w)"
  by (induction infos arbitrary: w)
    (simp_all add: process_status_info_eq same_conn_lock(1) [OF after_info_frame(1)])

subsection \<open>Calls whose status information is acceptable\<close>

text \<open>The world after a call, and the status information of the call.\<close>

definition call_infos :: "'c server_call \<Rightarrow> 'c \<Rightarrow> status_info list" where
  "call_infos f c = fst (snd (f c))"

definition call_rc :: "'c server_call \<Rightarrow> 'c \<Rightarrow> bool" where
  "call_rc f c = fst (f c)"

definition after_call :: "pyapi \<Rightarrow> 'c server_call \<Rightarrow> ('c, 'z) world_scheme \<Rightarrow> ('c, 'z) world_scheme" where
  "after_call api f w = fold (after_info api) (call_infos f (client w)) (w\<lparr>client := snd (snd (f (client w)))\<rparr>)"

definition call_ok :: "pyapi \<Rightarrow> 'c server_call \<Rightarrow> bool" where
  "call_ok api f \<longleftrightarrow> (\<forall>c. list_all (info_ok api) (call_infos f c))"

lemma after_call_frame [simp]:
  "same_conn w (after_call api f w)" "client (after_call api f w) = snd (snd (f (client w)))"
  using after_infos_frame(1) [of "w\<lparr>client := snd (snd (f (client w)))\<rparr>" api "call_infos f (client w)"]
  by (simp_all add: after_call_def same_conn_def)

lemma server_call_eq:
  assumes "lock_ok w" "call_ok api f"
  shows "server_call api f w = Some (call_rc f (client w), after_call api f w)"
proof -
  obtain rc infos c where f: "f (client w) = (rc, infos, c)" by (metis prod_cases3)
  then have "list_all (info_ok api) infos" using assms(2) by (metis call_ok_def call_infos_def fst_conv snd_conv)
  then show ?thesis
    using assms(1) process_all_eq [of "w\<lparr>client := c\<rparr>" api infos]
    by (simp add: f server_call_def after_call_def call_rc_def call_infos_def lock_ok_def)
qed

lemma world_client_first:
  "w\<lparr>gil := a, thread_state := b, client := c\<rparr> = w\<lparr>client := c, gil := a, thread_state := b\<rparr>"
  by (cases w) simp

lemma blocking_eq:
  assumes "locked w" "call_ok api f"
  shows "blocking api f w = Some (call_rc f (client w), after_call api f w)"
proof -
  let ?u = "w\<lparr>gil := False, thread_state := True\<rparr>"
  have after: "after_call api f ?u = (after_call api f w)\<lparr>gil := False, thread_state := True\<rparr>"
    using after_infos_lock [where api = api and infos = "call_infos f (client w)" and a = False and b = True and
        w = "w\<lparr>client := snd (snd (f (client w)))\<rparr>"]
    by (simp add: after_call_def world_client_first)
  have "locked (after_call api f w)" using assms(1) by (simp add: same_conn_lock(2) [OF after_call_frame(1)])
  then have "(after_call api f w)\<lparr>gil := False, thread_state := True, gil := True, thread_state := False\<rparr> = after_call api f w"
    by (simp add: locked_def)
  then show ?thesis
    using assms server_call_eq [of ?u api f]
    by (simp add: blocking_def MARIADB_BEGIN_ALLOW_THREADS_def MARIADB_END_ALLOW_THREADS_def locked_def lock_ok_def after)
qed

end
