(* ===== verification/Mrdb_Connection.thy ===== *)
theory Mrdb_Connection
  imports Mrdb_Runtime
begin

text \<open>
  Connections (\<open>mariadb_connection.c\<close>): establishing one, its methods and its getters. A method
  returns a pointer to an object, \<open>None\<close> for \<open>NULL\<close>, and the new world; \<open>None\<close> in the outer option
  is a fault. The code is taken as compiled with Connector/C 3.4.2 or newer.
\<close>

subsection \<open>The client library\<close>

datatype mysql_option =
    MYSQL_SET_CHARSET_NAME bytes | MYSQL_OPT_LOCAL_INFILE u32 | MYSQL_OPT_COMPRESS
  | MYSQL_INIT_COMMAND bytes | MYSQL_PLUGIN_DIR bytes
  | MYSQL_READ_DEFAULT_FILE bytes | MYSQL_READ_DEFAULT_GROUP bytes
  | MYSQL_OPT_CONNECT_TIMEOUT u32 | MYSQL_OPT_READ_TIMEOUT u32 | MYSQL_OPT_WRITE_TIMEOUT u32
  | SSL_SET "bytes option" "bytes option" "bytes option" "bytes option" "bytes option"
  | MYSQL_OPT_SSL_CRL bytes | MYSQL_OPT_SSL_CRLPATH bytes
  | MYSQL_OPT_SSL_VERIFY_SERVER_CERT u8
  | MARIADB_OPT_TLS_VERSION bytes | MARIADB_OPT_SSL_FP bytes | MARIADB_OPT_SSL_FP_LIST bytes

text \<open>
  The keyword arguments that \<open>PyArg_ParseTupleAndKeywords\<close> stores; an absent string is a null
  pointer and an absent number has the value the variable is initialised with.
\<close>

record conn_args =
  arg_dsn :: "bytes option"
  arg_host :: "bytes option"
  arg_user :: "bytes option"
  arg_password :: "bytes option"
  arg_schema :: "bytes option"
  arg_port :: u32
  arg_socket :: "bytes option"
  arg_connect_timeout :: u32
  arg_read_timeout :: u32
  arg_write_timeout :: u32
  arg_local_infile :: u32
  arg_compress :: u32
  arg_init_command :: "bytes option"
  arg_default_file :: "bytes option"
  arg_default_group :: "bytes option"
  arg_ssl_key :: "bytes option"
  arg_ssl_ca :: "bytes option"
  arg_ssl_cert :: "bytes option"
  arg_ssl_crl :: "bytes option"
  arg_ssl_cipher :: "bytes option"
  arg_ssl_capath :: "bytes option"
  arg_ssl_crlpath :: "bytes option"
  arg_ssl_verify_cert :: u32
  arg_ssl_enforce :: u8
  arg_client_flags :: u32
  arg_plugin_dir :: "bytes option"
  arg_status_callback :: "(pyobj \<Rightarrow> pyerr option) option"
  arg_tls_version :: "bytes option"
  arg_tls_fp :: "bytes option"
  arg_tls_fp_list :: "bytes option"

text \<open>What \<open>mariadb_get_infov\<close> stores in the union, read as a string and as a number.\<close>

record info_value =
  info_str :: "bytes option"
  info_num :: u64

text \<open>\<open>struct tm\<close> and the certificate of the peer.\<close>

record c_tm =
  tm_year :: int
  tm_mon :: int
  tm_mday :: int
  tm_hour :: int
  tm_min :: int
  tm_sec :: int

record X509_INFO =
  x509_version :: u32
  x509_subject :: bytes
  x509_issuer :: bytes
  x509_fingerprint :: bytes
  x509_not_before :: c_tm
  x509_not_after :: c_tm

text \<open>
  The functions of Connector/C that connections use, on the library's state. \<open>lib_diag\<close> is what
  \<open>mysql_errno\<close>, \<open>mysql_error\<close> and \<open>mysql_sqlstate\<close> and their statement variants report;
  \<open>mysql_init\<close> and \<open>mysql_options\<close> give \<open>True\<close> for a non-null handle and for an error. The first
  argument of \<open>mariadb_get_infov\<close> says whether its handle is non-null.
\<close>

record 'c clientlib =
  mysql_init :: "'c \<Rightarrow> bool \<times> 'c"
  set_status_callback :: "'c \<Rightarrow> bool \<times> 'c"
  mysql_options :: "mysql_option \<Rightarrow> 'c \<Rightarrow> bool \<times> 'c"
  mysql_real_connect :: "conn_args \<Rightarrow> 'c server_call"
  lib_diag :: "'c \<Rightarrow> diag"
  mysql_get_ssl_cipher :: "'c \<Rightarrow> bool"
  connection_host :: "'c \<Rightarrow> bytes option"
  mysql_close :: "'c \<Rightarrow> 'c"
  mysql_send_query :: "bytes \<Rightarrow> 'c server_call"
  db_read_query_result :: "'c server_call"
  mysql_ping :: "'c server_call"
  mysql_change_user :: "bytes \<Rightarrow> bytes option \<Rightarrow> bytes option \<Rightarrow> 'c server_call"
  mariadb_reconnect :: "'c server_call"
  mysql_reset_connection :: "'c server_call"
  mysql_dump_debug_info :: "'c server_call"
  get_reconnect_option :: "'c \<Rightarrow> bool"
  set_reconnect_option :: "bool \<Rightarrow> 'c \<Rightarrow> 'c"
  mariadb_get_infov :: "bool \<Rightarrow> u32 \<Rightarrow> 'c \<Rightarrow> info_value option"
  peer_cert :: "'c \<Rightarrow> X509_INFO option"
  mysql_thread_id :: "'c \<Rightarrow> u64"
  mysql_warning_count :: "'c \<Rightarrow> u32"
  mysql_get_socket :: "'c \<Rightarrow> u64"
  mysql_real_escape_string :: "bytes \<Rightarrow> 'c \<Rightarrow> bytes"

text \<open>The exception for the last error of the handle; the class argument has no effect then.\<close>

definition throw_handle :: "'c clientlib \<Rightarrow> exc_class option \<Rightarrow> bool \<Rightarrow> ('c, 'z) world_scheme \<Rightarrow> pyerr" where
  "throw_handle lib ty is_statement w =
     mariadb_throw_exception True (lib_diag lib (client w)) ty is_statement None"

subsection \<open>Establishing a connection\<close>

definition mariadb_default_charset :: bytes where
  "mariadb_default_charset = ''utf8mb4''"

definition given :: "'a option \<Rightarrow> ('a \<Rightarrow> mysql_option) \<Rightarrow> mysql_option list" where
  "given x opt = (case x of Some v \<Rightarrow> [opt v] | None \<Rightarrow> [])"

text \<open>The options in the order of the source; \<open>plugins\<close> is \<open>DEFAULT_PLUGINS_SUBDIR\<close>, if defined.\<close>

definition tls_requested :: "conn_args \<Rightarrow> bool" where
  "tls_requested a \<longleftrightarrow> arg_ssl_enforce a \<noteq> 0 \<or> arg_ssl_key a \<noteq> None \<or> arg_ssl_ca a \<noteq> None \<or>
     arg_ssl_cert a \<noteq> None \<or> arg_ssl_capath a \<noteq> None \<or> arg_ssl_cipher a \<noteq> None \<or>
     arg_tls_version a \<noteq> None \<or> arg_tls_fp a \<noteq> None \<or> arg_tls_fp_list a \<noteq> None"

definition connect_options :: "bytes option \<Rightarrow> conn_args \<Rightarrow> mysql_option list" where
  "connect_options plugins a =
     [MYSQL_SET_CHARSET_NAME mariadb_default_charset] @
     (if arg_local_infile a \<noteq> 0xFF then [MYSQL_OPT_LOCAL_INFILE (arg_local_infile a)] else []) @
     (if arg_compress a \<noteq> 0 then [MYSQL_OPT_COMPRESS] else []) @
     given (arg_init_command a) MYSQL_INIT_COMMAND @
     given (case arg_plugin_dir a of Some d \<Rightarrow> Some d | None \<Rightarrow> plugins) MYSQL_PLUGIN_DIR @
     given (arg_default_file a) MYSQL_READ_DEFAULT_FILE @
     given (arg_default_group a) MYSQL_READ_DEFAULT_GROUP @
     (if arg_connect_timeout a \<noteq> 0 then [MYSQL_OPT_CONNECT_TIMEOUT (arg_connect_timeout a)] else []) @
     (if arg_read_timeout a \<noteq> 0 then [MYSQL_OPT_READ_TIMEOUT (arg_read_timeout a)] else []) @
     (if arg_write_timeout a \<noteq> 0 then [MYSQL_OPT_WRITE_TIMEOUT (arg_write_timeout a)] else []) @
     (if tls_requested a
      then [SSL_SET (arg_ssl_key a) (arg_ssl_cert a) (arg_ssl_ca a) (arg_ssl_capath a) (arg_ssl_cipher a)]
      else []) @
     given (arg_ssl_crl a) MYSQL_OPT_SSL_CRL @
     given (arg_ssl_crlpath a) MYSQL_OPT_SSL_CRLPATH @
     [MYSQL_OPT_SSL_VERIFY_SERVER_CERT (ucast (arg_ssl_verify_cert a))] @
     given (arg_tls_version a) MARIADB_OPT_TLS_VERSION @
     given (arg_tls_fp a) MARIADB_OPT_SSL_FP @
     given (arg_tls_fp_list a) MARIADB_OPT_SSL_FP_LIST"

text \<open>An option that fails ends the list, except \<open>mysql_ssl_set\<close>, whose result is not looked at.\<close>

fun set_options :: "'c clientlib \<Rightarrow> mysql_option list \<Rightarrow> 'c \<Rightarrow> bool \<times> 'c" where
  "set_options lib [] c = (False, c)"
| "set_options lib (opt # opts) c =
     (let (err, c) = mysql_options lib opt c in
      if err \<and> (case opt of SSL_SET _ _ _ _ _ \<Rightarrow> False | _ \<Rightarrow> True) then (True, c)
      else set_options lib opts c)"

text \<open>From the first option to the label \<open>end\<close>: \<open>has_error\<close> and the world.\<close>

definition connect_server :: "pyapi \<Rightarrow> 'c clientlib \<Rightarrow> bytes option \<Rightarrow> conn_args \<Rightarrow> ('c, 'z) world_scheme \<Rightarrow>
    (bool \<times> ('c, 'z) world_scheme) option" where
  "connect_server api lib plugins a w =
     (let (err, c) = set_options lib (connect_options plugins a) (client w);
          w = w\<lparr>client := c\<rparr>
      in if err then Some (True, w)
         else do {
           (rc, w) \<leftarrow> server_call api (mysql_real_connect lib a) w;
           if mysql_errno (lib_diag lib (client w)) \<noteq> 0 then Some (True, w)
           else Some (False,
             w\<lparr>tls_in_use := tls_in_use w \<or> mysql_get_ssl_cipher lib (client w),
               host := connection_host lib (client w)\<rparr>) })"

text \<open>
  \<open>True\<close> is the return value -1. \<open>args\<close> is the outcome of parsing the arguments; \<open>warning\<close> is the
  exception raised when a warning is issued and warnings are errors.
\<close>

definition MrdbConnection_Initialize :: "pyapi \<Rightarrow> 'c clientlib \<Rightarrow> bytes option \<Rightarrow> pyerr option \<Rightarrow>
    (pyerr + conn_args) \<Rightarrow> ('c, 'z) world_scheme \<Rightarrow> (bool \<times> ('c, 'z) world_scheme) option" where
  "MrdbConnection_Initialize api lib plugins warning args w =
     (case args of
        Inl e \<Rightarrow> map_option (Pair True) (set_error e w)
      | Inr a \<Rightarrow>
          if arg_dsn a \<noteq> None
          then map_option (Pair True) (set_error (throw Mariadb_ProgrammingError ''dsn keyword is not supported'' []) w)
          else
            let (ok, c) = mysql_init lib (client w);
                w = w\<lparr>status_callback := arg_status_callback a, client := c, mysql := ok\<rparr>
            in if \<not> ok
               then map_option (Pair True)
                 (set_error (throw Mariadb_OperationalError ''Can't allocate memory for connection'' []) w)
               else do {
                 let (err, c) = set_status_callback lib (client w);
                 let w = w\<lparr>client := c\<rparr>;
                 w \<leftarrow> (case (if err then warning else None) of Some e \<Rightarrow> set_error e w | None \<Rightarrow> Some w);
                 w \<leftarrow> MARIADB_BEGIN_ALLOW_THREADS w;
                 (has_error, w) \<leftarrow> connect_server api lib plugins a w;
                 w \<leftarrow> MARIADB_END_ALLOW_THREADS w;
                 if has_error then map_option (Pair True) (set_error (throw_handle lib None False w) w)
                 else Some (py_err w \<noteq> None, w) })"

text \<open>The method \<open>connect\<close>, on the zeroed object of \<open>PyType_GenericAlloc\<close>.\<close>

definition new_connection :: "('c, 'z) world_scheme \<Rightarrow> ('c, 'z) world_scheme" where
  "new_connection w = w\<lparr>thread_state := False, mysql := False, conn_closed := False, host := None,
     status_callback := None, tls_in_use := False\<rparr>"

definition MrdbConnection_connect :: "pyapi \<Rightarrow> 'c clientlib \<Rightarrow> bytes option \<Rightarrow> pyerr option \<Rightarrow>
    (pyerr + conn_args) \<Rightarrow> ('c, 'z) world_scheme \<Rightarrow> (pyobj option \<times> ('c, 'z) world_scheme) option" where
  "MrdbConnection_connect api lib plugins warning args w = do {
     (failed, w) \<leftarrow> MrdbConnection_Initialize api lib plugins warning args (new_connection w);
     Some (if failed then None else Some (PyOther ''mariadb.connection''), w) }"

subsection \<open>Methods that talk to the server\<close>

text \<open>\<open>MARIADB_CHECK_CONNECTION\<close>, with the rest of the method.\<close>

definition invalid_connection :: pyerr where
  "invalid_connection = throw Mariadb_InterfaceError ''Invalid connection or not connected'' []"

definition MARIADB_CHECK_CONNECTION :: "(('c, 'z) world_scheme \<Rightarrow> ('a option \<times> ('c, 'z) world_scheme) option) \<Rightarrow>
    ('c, 'z) world_scheme \<Rightarrow> ('a option \<times> ('c, 'z) world_scheme) option" where
  "MARIADB_CHECK_CONNECTION body w = (if mysql w then body w else raise_null invalid_connection w)"

text \<open>A blocking call, then the exception of the handle or \<open>None\<close>.\<close>

definition none_or_raise :: "'c clientlib \<Rightarrow> exc_class option \<Rightarrow> bool \<Rightarrow> ('c, 'z) world_scheme \<Rightarrow>
    (pyobj option \<times> ('c, 'z) world_scheme) option" where
  "none_or_raise lib ty rc w =
     (if rc then raise_null (throw_handle lib ty False w) w else Some (Some PyNone, w))"

definition MrdbConnection_ping :: "pyapi \<Rightarrow> 'c clientlib \<Rightarrow> ('c, 'z) world_scheme \<Rightarrow>
    (pyobj option \<times> ('c, 'z) world_scheme) option" where
  "MrdbConnection_ping api lib = MARIADB_CHECK_CONNECTION (\<lambda>w. do {
     (rc, w) \<leftarrow> blocking api (mysql_ping lib) w;
     none_or_raise lib (Some Mariadb_InterfaceError) rc w })"

definition MrdbConnection_reset :: "pyapi \<Rightarrow> 'c clientlib \<Rightarrow> ('c, 'z) world_scheme \<Rightarrow>
    (pyobj option \<times> ('c, 'z) world_scheme) option" where
  "MrdbConnection_reset api lib = MARIADB_CHECK_CONNECTION (\<lambda>w. do {
     (rc, w) \<leftarrow> blocking api (mysql_reset_connection lib) w;
     none_or_raise lib None rc w })"

definition MrdbConnection_dump_debug_info :: "pyapi \<Rightarrow> 'c clientlib \<Rightarrow> ('c, 'z) world_scheme \<Rightarrow>
    (pyobj option \<times> ('c, 'z) world_scheme) option" where
  "MrdbConnection_dump_debug_info api lib = MARIADB_CHECK_CONNECTION (\<lambda>w. do {
     (rc, w) \<leftarrow> blocking api (mysql_dump_debug_info lib) w;
     none_or_raise lib None rc w })"

text \<open>\<open>args\<close> is the outcome of \<open>PyArg_ParseTuple\<close> with the format \<open>szz\<close>.\<close>

definition MrdbConnection_change_user :: "pyapi \<Rightarrow> 'c clientlib \<Rightarrow> (pyerr + bytes \<times> bytes option \<times> bytes option) \<Rightarrow>
    ('c, 'z) world_scheme \<Rightarrow> (pyobj option \<times> ('c, 'z) world_scheme) option" where
  "MrdbConnection_change_user api lib args = MARIADB_CHECK_CONNECTION (\<lambda>w.
     case args of
       Inl e \<Rightarrow> raise_null e w
     | Inr (user, password, database) \<Rightarrow> do {
         (rc, w) \<leftarrow> blocking api (mysql_change_user lib user password database) w;
         none_or_raise lib None rc w })"

text \<open>
  The bytes of a \<open>str\<close> object, \<open>NULL\<close> for another object or one that cannot be encoded;
  \<open>strlen\<close> stops at the first NUL and faults on \<open>NULL\<close>.
\<close>

definition as_utf8 :: "pyapi \<Rightarrow> pyobj \<Rightarrow> bytes option" where
  "as_utf8 api obj = (case obj of PyUnicode cs \<Rightarrow> utf8_encode api cs | _ \<Rightarrow> None)"

definition MrdbConnection_executecommand :: "pyapi \<Rightarrow> 'c clientlib \<Rightarrow> pyobj \<Rightarrow> ('c, 'z) world_scheme \<Rightarrow>
    (pyobj option \<times> ('c, 'z) world_scheme) option" where
  "MrdbConnection_executecommand api lib cmdobj = MARIADB_CHECK_CONNECTION (\<lambda>w. do {
     cmd \<leftarrow> as_utf8 api cmdobj;
     (rc, w) \<leftarrow> blocking api (mysql_send_query lib (takeWhile (\<lambda>c. c \<noteq> NUL) cmd)) w;
     none_or_raise lib None rc w })"

text \<open>No check of the connection: a null handle is dereferenced.\<close>

definition MrdbConnection_readresponse :: "pyapi \<Rightarrow> 'c clientlib \<Rightarrow> ('c, 'z) world_scheme \<Rightarrow>
    (pyobj option \<times> ('c, 'z) world_scheme) option" where
  "MrdbConnection_readresponse api lib w =
     (if mysql w then do {
        (rc, w) \<leftarrow> blocking api (db_read_query_result lib) w;
        none_or_raise lib None rc w }
      else None)"

definition MrdbConnection_reconnect :: "pyapi \<Rightarrow> 'c clientlib \<Rightarrow> ('c, 'z) world_scheme \<Rightarrow>
    (pyobj option \<times> ('c, 'z) world_scheme) option" where
  "MrdbConnection_reconnect api lib = MARIADB_CHECK_CONNECTION (\<lambda>w. do {
     let save_reconnect = get_reconnect_option lib (client w);
     let w = (if \<not> save_reconnect then lib_do (set_reconnect_option lib True) w else w);
     (rc, w) \<leftarrow> blocking api (mariadb_reconnect lib) w;
     let w = (if \<not> save_reconnect then lib_do (set_reconnect_option lib save_reconnect) w else w);
     none_or_raise lib None rc w })"

text \<open>Releasing the handle, in \<open>close\<close> and in the finalizer.\<close>

definition close_handle :: "'c clientlib \<Rightarrow> ('c, 'z) world_scheme \<Rightarrow> ('c, 'z) world_scheme option" where
  "close_handle lib w = do {
     w \<leftarrow> MARIADB_BEGIN_ALLOW_THREADS w;
     let w = lib_do (mysql_close lib) w;
     w \<leftarrow> MARIADB_END_ALLOW_THREADS w;
     Some (w\<lparr>mysql := False\<rparr>) }"

definition MrdbConnection_close :: "'c clientlib \<Rightarrow> ('c, 'z) world_scheme \<Rightarrow>
    (pyobj option \<times> ('c, 'z) world_scheme) option" where
  "MrdbConnection_close lib = MARIADB_CHECK_CONNECTION (\<lambda>w. do {
     w \<leftarrow> close_handle lib w;
     Some (Some PyNone, w\<lparr>conn_closed := True\<rparr>) })"

definition MrdbConnection_finalize :: "'c clientlib \<Rightarrow> ('c, 'z) world_scheme \<Rightarrow> ('c, 'z) world_scheme option" where
  "MrdbConnection_finalize lib w = (if mysql w then close_handle lib w else Some w)"

subsection \<open>Getters and local methods\<close>

definition MrdbConnection_getreconnect :: "'c clientlib \<Rightarrow> ('c, 'z) world_scheme \<Rightarrow>
    (pyobj option \<times> ('c, 'z) world_scheme) option" where
  "MrdbConnection_getreconnect lib w = Some (Some (PyBool (mysql w \<and> get_reconnect_option lib (client w))), w)"

text \<open>A setter; its result is 0 (\<open>False\<close>) or -1, and a deleted attribute is a null pointer.\<close>

definition MrdbConnection_setreconnect :: "'c clientlib \<Rightarrow> pyobj option \<Rightarrow> ('c, 'z) world_scheme \<Rightarrow>
    (bool \<times> ('c, 'z) world_scheme) option" where
  "MrdbConnection_setreconnect lib args w =
     (if \<not> mysql w then Some (False, w)
      else case args of
        Some (PyBool reconnect) \<Rightarrow> Some (False, lib_do (set_reconnect_option lib reconnect) w)
      | _ \<Rightarrow> map_option (Pair True) (set_error (SetString PyExc_TypeError (Text ''Argument must be boolean'')) w))"

definition MrdbConnection_connection_id :: "'c clientlib \<Rightarrow> ('c, 'z) world_scheme \<Rightarrow>
    (pyobj option \<times> ('c, 'z) world_scheme) option" where
  "MrdbConnection_connection_id lib = MARIADB_CHECK_CONNECTION (\<lambda>w.
     Some (Some (PyLong (uint (mysql_thread_id lib (client w)))), w))"

definition MrdbConnection_warnings :: "'c clientlib \<Rightarrow> ('c, 'z) world_scheme \<Rightarrow>
    (pyobj option \<times> ('c, 'z) world_scheme) option" where
  "MrdbConnection_warnings lib = MARIADB_CHECK_CONNECTION (\<lambda>w.
     Some (Some (PyLong (uint (mysql_warning_count lib (client w)))), w))"

definition MrdbConnection_socket :: "'c clientlib \<Rightarrow> ('c, 'z) world_scheme \<Rightarrow>
    (pyobj option \<times> ('c, 'z) world_scheme) option" where
  "MrdbConnection_socket lib = MARIADB_CHECK_CONNECTION (\<lambda>w.
     Some (Some (PyLong (sint (mysql_get_socket lib (client w)))), w))"

text \<open>\<open>PyUnicode_FromStringAndSize\<close>: the object, or \<open>NULL\<close> with an exception set.\<close>

definition new_unicode :: "pyapi \<Rightarrow> bytes \<Rightarrow> ('c, 'z) world_scheme \<Rightarrow>
    (pyobj option \<times> ('c, 'z) world_scheme) option" where
  "new_unicode api s w =
     (case utf8_decode api s of
        Some cs \<Rightarrow> Some (Some (PyUnicode cs), w)
      | None \<Rightarrow> raise_null (SetString PyExc_UnicodeError (Text ''invalid UTF-8'')) w)"

text \<open>
  The buffer has twice the length of the string plus one; a longer result leaves it.
  \<open>alloc\<close> is the outcome of the allocation.
\<close>

definition MrdbConnection_escape_string :: "pyapi \<Rightarrow> 'c clientlib \<Rightarrow> bool \<Rightarrow> pyobj \<Rightarrow> ('c, 'z) world_scheme \<Rightarrow>
    (pyobj option \<times> ('c, 'z) world_scheme) option" where
  "MrdbConnection_escape_string api lib alloc str = MARIADB_CHECK_CONNECTION (\<lambda>w.
     case str of
       PyUnicode cs \<Rightarrow> do {
         from \<leftarrow> utf8_encode api cs;
         if \<not> alloc then Some (None, w)
         else
           let to = mysql_real_escape_string lib from (client w) in
           if length to + 1 \<le> length from * 2 + 1 then new_unicode api to w else None }
     | _ \<Rightarrow> raise_null (SetString PyExc_TypeError (Text ''Parameter must be a string'')) w)"

text \<open>\<open>snprintf\<close> into a buffer of 384 bytes; \<open>address\<close> is the text of the object's address.\<close>

definition MrdbConnection_repr :: "pyapi \<Rightarrow> bytes \<Rightarrow> ('c, 'z) world_scheme \<Rightarrow>
    (pyobj option \<times> ('c, 'z) world_scheme) option" where
  "MrdbConnection_repr api address w =
     new_unicode api
       (take 383
         (if \<not> conn_closed w
          then ''<mariadb.connection connected to '' @ [CHR 0x27] @
               (case host w of Some h \<Rightarrow> h | None \<Rightarrow> ''(null)'') @ [CHR 0x27] @ '' at '' @ address @ ''>''
          else ''<mariadb.connection (closed) at '' @ address @ ''>'')) w"

subsection \<open>Information on the connection\<close>

datatype mariadb_info =
    PYMARIADB_CHARSET_ID | PYMARIADB_CHARSET_NAME | PYMARIADB_CLIENT_ERRORS
  | PYMARIADB_CLIENT_VERSION | PYMARIADB_CLIENT_VERSION_ID
  | PYMARIADB_CONNECTION_ASYNC_TIMEOUT | PYMARIADB_CONNECTION_ASYNC_TIMEOUT_MS
  | PYMARIADB_CONNECTION_MARIADB_CHARSET_INFO | PYMARIADB_CONNECTION_ERROR
  | PYMARIADB_CONNECTION_ERROR_ID | PYMARIADB_CONNECTION_HOST | PYMARIADB_CONNECTION_INFO
  | PYMARIADB_CONNECTION_PORT | PYMARIADB_CONNECTION_PROTOCOL_VERSION_ID
  | PYMARIADB_CONNECTION_PVIO_TYPE | PYMARIADB_CONNECTION_SCHEMA
  | PYMARIADB_CONNECTION_SERVER_TYPE | PYMARIADB_CONNECTION_SERVER_VERSION
  | PYMARIADB_CONNECTION_SERVER_VERSION_ID | PYMARIADB_CONNECTION_SOCKET
  | PYMARIADB_CONNECTION_SQLSTATE | PYMARIADB_CONNECTION_SSL_CIPHER | PYMARIADB_TLS_LIBRARY
  | PYMARIADB_CONNECTION_TLS_VERSION | PYMARIADB_CONNECTION_TLS_VERSION_ID
  | PYMARIADB_CONNECTION_TYPE | PYMARIADB_CONNECTION_UNIX_SOCKET | PYMARIADB_CONNECTION_USER
  | PYMARIADB_MAX_ALLOWED_PACKET | PYMARIADB_NET_BUFFER_LENGTH
  | PYMARIADB_CONNECTION_SERVER_STATUS | PYMARIADB_CONNECTION_SERVER_CAPABILITIES
  | PYMARIADB_CONNECTION_EXTENDED_SERVER_CAPABILITIES | PYMARIADB_CONNECTION_CLIENT_CAPABILITIES
  | PYMARIADB_CONNECTION_BYTES_READ | PYMARIADB_CONNECTION_BYTES_SENT
  | PYMARIADB_TLS_PEER_CERT_INFO | PYMARIADB_TLS_VERIFY_STATUS

text \<open>The constants in the order of their values.\<close>

definition mariadb_infos :: "mariadb_info list" where
  "mariadb_infos =
     [PYMARIADB_CHARSET_ID, PYMARIADB_CHARSET_NAME, PYMARIADB_CLIENT_ERRORS,
      PYMARIADB_CLIENT_VERSION, PYMARIADB_CLIENT_VERSION_ID,
      PYMARIADB_CONNECTION_ASYNC_TIMEOUT, PYMARIADB_CONNECTION_ASYNC_TIMEOUT_MS,
      PYMARIADB_CONNECTION_MARIADB_CHARSET_INFO, PYMARIADB_CONNECTION_ERROR,
      PYMARIADB_CONNECTION_ERROR_ID, PYMARIADB_CONNECTION_HOST, PYMARIADB_CONNECTION_INFO,
      PYMARIADB_CONNECTION_PORT, PYMARIADB_CONNECTION_PROTOCOL_VERSION_ID,
      PYMARIADB_CONNECTION_PVIO_TYPE, PYMARIADB_CONNECTION_SCHEMA,
      PYMARIADB_CONNECTION_SERVER_TYPE, PYMARIADB_CONNECTION_SERVER_VERSION,
      PYMARIADB_CONNECTION_SERVER_VERSION_ID, PYMARIADB_CONNECTION_SOCKET,
      PYMARIADB_CONNECTION_SQLSTATE, PYMARIADB_CONNECTION_SSL_CIPHER, PYMARIADB_TLS_LIBRARY,
      PYMARIADB_CONNECTION_TLS_VERSION, PYMARIADB_CONNECTION_TLS_VERSION_ID,
      PYMARIADB_CONNECTION_TYPE, PYMARIADB_CONNECTION_UNIX_SOCKET, PYMARIADB_CONNECTION_USER,
      PYMARIADB_MAX_ALLOWED_PACKET, PYMARIADB_NET_BUFFER_LENGTH,
      PYMARIADB_CONNECTION_SERVER_STATUS, PYMARIADB_CONNECTION_SERVER_CAPABILITIES,
      PYMARIADB_CONNECTION_EXTENDED_SERVER_CAPABILITIES, PYMARIADB_CONNECTION_CLIENT_CAPABILITIES,
      PYMARIADB_CONNECTION_BYTES_READ, PYMARIADB_CONNECTION_BYTES_SENT,
      PYMARIADB_TLS_PEER_CERT_INFO, PYMARIADB_TLS_VERIFY_STATUS]"

definition string_infos :: "mariadb_info list" where
  "string_infos =
     [PYMARIADB_CONNECTION_UNIX_SOCKET, PYMARIADB_CONNECTION_USER, PYMARIADB_CHARSET_NAME,
      PYMARIADB_TLS_LIBRARY, PYMARIADB_CLIENT_VERSION, PYMARIADB_CONNECTION_HOST,
      PYMARIADB_CONNECTION_INFO, PYMARIADB_CONNECTION_SCHEMA, PYMARIADB_CONNECTION_SQLSTATE,
      PYMARIADB_CONNECTION_SOCKET, PYMARIADB_CONNECTION_SSL_CIPHER,
      PYMARIADB_CONNECTION_TLS_VERSION, PYMARIADB_CONNECTION_SERVER_VERSION]"

definition number_infos :: "mariadb_info list" where
  "number_infos =
     [PYMARIADB_CHARSET_ID, PYMARIADB_CLIENT_VERSION_ID, PYMARIADB_CONNECTION_ASYNC_TIMEOUT,
      PYMARIADB_CONNECTION_ASYNC_TIMEOUT_MS, PYMARIADB_CONNECTION_PORT,
      PYMARIADB_CONNECTION_PROTOCOL_VERSION_ID, PYMARIADB_CONNECTION_SERVER_TYPE,
      PYMARIADB_CONNECTION_SERVER_VERSION_ID, PYMARIADB_CONNECTION_TLS_VERSION_ID,
      PYMARIADB_MAX_ALLOWED_PACKET, PYMARIADB_NET_BUFFER_LENGTH,
      PYMARIADB_CONNECTION_SERVER_STATUS, PYMARIADB_CONNECTION_SERVER_CAPABILITIES,
      PYMARIADB_CONNECTION_EXTENDED_SERVER_CAPABILITIES, PYMARIADB_CONNECTION_CLIENT_CAPABILITIES,
      PYMARIADB_CONNECTION_BYTES_READ, PYMARIADB_CONNECTION_BYTES_SENT, PYMARIADB_TLS_VERIFY_STATUS]"

text \<open>
  The dictionary for a certificate. \<open>PyDict_SetItem\<close> is given the values without a check, so a
  string that is not UTF-8 or a time outside the ranges of \<open>datetime\<close> is a fault.
\<close>

definition tm_datetime :: "c_tm \<Rightarrow> pyobj option" where
  "tm_datetime tmp = PyDateTime_FromDateAndTime (tm_year tmp + 1900) (tm_mon tmp + 1) (tm_mday tmp)
     (tm_hour tmp) (tm_min tmp) (tm_sec tmp) 0"

definition MrdbConnection_X509info :: "pyapi \<Rightarrow> X509_INFO option \<Rightarrow> pyobj option" where
  "MrdbConnection_X509info api info =
     (case info of
        None \<Rightarrow> Some PyNone
      | Some info \<Rightarrow> do {
          subject \<leftarrow> decode api (x509_subject info);
          issuer \<leftarrow> decode api (x509_issuer info);
          fingerprint \<leftarrow> decode api (x509_fingerprint info);
          not_before \<leftarrow> tm_datetime (x509_not_before info);
          not_after \<leftarrow> tm_datetime (x509_not_after info);
          Some (PyDict
            [(unicode ''version'', PyLong (uint (x509_version info))),
             (unicode ''subject'', subject), (unicode ''issuer'', issuer),
             (unicode ''fingerprint'', fingerprint),
             (unicode ''not_before'', not_before), (unicode ''not_after'', not_after)]) })"

definition info_of_code :: "u32 \<Rightarrow> mariadb_info option" where
  "info_of_code n = rd mariadb_infos (unat n)"

definition info_object :: "pyapi \<Rightarrow> 'c clientlib \<Rightarrow> u32 \<Rightarrow> info_value \<Rightarrow> ('c, 'z) world_scheme \<Rightarrow>
    (pyobj option \<times> ('c, 'z) world_scheme) option" where
  "info_object api lib opt val w =
     (case info_of_code opt of
        None \<Rightarrow> Some (Some PyNone, w)
      | Some i \<Rightarrow>
          if i \<in> set string_infos
          then new_unicode api (case info_str val of Some s \<Rightarrow> s | None \<Rightarrow> []) w
          else if i \<in> set number_infos then Some (Some (PyLong (sint (info_num val))), w)
          else if i = PYMARIADB_TLS_PEER_CERT_INFO
          then (if \<not> tls_in_use w then Some (Some PyNone, w)
                else map_option (\<lambda>d. (Some d, w)) (MrdbConnection_X509info api (peer_cert lib (client w))))
          else Some (Some PyNone, w))"

definition overflow_error :: pyerr where
  "overflow_error = SetString PyExc_OverflowError (Text ''Python int out of range'')"

definition MrdbConnection_getinfo :: "pyapi \<Rightarrow> 'c clientlib \<Rightarrow> pyobj \<Rightarrow> ('c, 'z) world_scheme \<Rightarrow>
    (pyobj option \<times> ('c, 'z) world_scheme) option" where
  "MrdbConnection_getinfo api lib optionval w =
     (case as_int optionval of
        None \<Rightarrow> raise_null (SetString PyExc_TypeError (Text ''Parameter must be an integer value'')) w
      | Some n \<Rightarrow> do {
          w \<leftarrow> (if 0 \<le> n \<and> n < 2 ^ 64 then Some w else set_error overflow_error w);
          let opt = (ucast (as_unsigned optionval) :: u32);
          case mariadb_get_infov lib (mysql w) opt (client w) of
            None \<Rightarrow> raise_null (throw Mariadb_ProgrammingError ''Parameter option not supported'' []) w
          | Some val \<Rightarrow> info_object api lib opt val w })"

end
