(* ===== verification/Mrdb_Cursor.thy ===== *)
theory Mrdb_Cursor
  imports Mrdb_Connection
begin

text \<open>
  Cursors (\<open>mariadb_cursor.c\<close>): initialisation and release, parsing and executing a statement,
  result sets and their rows. The world of the connection is extended by one of its cursors. The
  prepared statement and the result set of the cursor live in the client library; the cursor only
  knows whether it has them.
\<close>

subsection \<open>State\<close>

datatype enum_result_format = RESULT_TUPLE | RESULT_NAMED_TUPLE | RESULT_DICTIONARY

text \<open>
  \<open>cur_stmt\<close>, \<open>cur_result\<close> and \<open>data_set\<close> say whether the pointers \<open>stmt\<close>, \<open>result\<close> and \<open>data\<close> are
  set; a null \<open>fields\<close> or \<open>values\<close> is the empty list. Two fields are not in the source:
  \<open>fields_live\<close> says whether the memory behind \<open>fields\<close> still belongs to a result set or
  statement, and \<open>leaked\<close> counts the buffers of parameter values whose last reference was lost.
  The components of the structure that nothing reads (\<open>bind\<close>, \<open>statement\<close>, \<open>paraminfo\<close>) are left
  out.
\<close>

record MrdbCursor = param_state +
  cur_stmt :: bool
  cur_result :: bool
  data_set :: bool
  pi_statement :: "bytes option"
  pi_is_text :: bool
  pi_command :: enum_binary_command
  pi_paramlist :: "nat list option"
  field_count :: u32
  fields_live :: bool
  row_array_size :: u32
  prefetch_rows :: u64
  cursor_type :: u64
  affected_rows :: u64
  row_count :: u64
  lastrow_id :: u64
  row_number :: u64
  result_format :: enum_result_format
  sequence_fields :: "bytes list option"
  sequence_type :: "bytes list option"
  is_buffered :: bool
  fetched :: bool
  cur_closed :: bool
  reprepare :: bool
  leaked :: nat

record 'c cworld = "'c world" +
  csr :: MrdbCursor

definition upd_csr :: "(MrdbCursor \<Rightarrow> MrdbCursor) \<Rightarrow> ('c, 'z) cworld_scheme \<Rightarrow> ('c, 'z) cworld_scheme" where
  "upd_csr f w = w\<lparr>csr := f (csr w)\<rparr>"

subsection \<open>The client library\<close>

datatype stmt_attr =
    STMT_ATTR_ARRAY_SIZE u32 | STMT_ATTR_CURSOR_TYPE u64 | STMT_ATTR_PREBIND_PARAMS u32
  | STMT_ATTR_CB_USER_DATA | STMT_ATTR_CB_PARAM | STMT_ATTR_CB_RESULT

text \<open>
  What \<open>mysql_stmt_fetch\<close> does: a row packet with the position of the first column and the NULL
  flags of the columns, the end of the data, or an error.
\<close>

datatype stmt_row = FetchRow bytes nat "bool list" | MYSQL_NO_DATA | FetchError

type_synonym sent_rows = "(MYSQL_BIND list \<times> MrdbParamValue list) list"

text \<open>
  A function that may be given a null result has a first argument that says whether the pointer is
  set, and \<open>None\<close> stands for a fault. \<open>mysql_store_result\<close> and \<open>mysql_use_result\<close> return \<open>True\<close> for
  a null pointer. Functions that execute a statement are given the bind structures and values of
  the rows they send.
\<close>

record 'c stmtlib =
  mysql_field_count :: "'c \<Rightarrow> u32"
  mysql_stmt_field_count :: "'c \<Rightarrow> u32"
  mysql_affected_rows :: "'c \<Rightarrow> u64"
  mysql_stmt_affected_rows :: "'c \<Rightarrow> u64"
  mysql_insert_id :: "'c \<Rightarrow> u64"
  mysql_stmt_insert_id :: "'c \<Rightarrow> u64"
  mysql_num_rows :: "bool \<Rightarrow> 'c \<Rightarrow> u64 option"
  mysql_stmt_num_rows :: "'c \<Rightarrow> u64"
  mysql_stmt_warning_count :: "'c \<Rightarrow> u32"
  mysql_store_result :: "'c server_call"
  mysql_use_result :: "'c server_call"
  mysql_free_result :: "'c server_call"
  mysql_next_result :: "'c server_call"
  mysql_stmt_store_result :: "'c server_call"
  mysql_stmt_free_result :: "'c server_call"
  mysql_stmt_next_result :: "'c server_call"
  mysql_stmt_close :: "'c server_call"
  mysql_stmt_reset :: "'c server_call"
  mysql_stmt_init :: "'c \<Rightarrow> bool \<times> 'c"
  mysql_stmt_attr_set :: "stmt_attr \<Rightarrow> 'c \<Rightarrow> 'c"
  mysql_stmt_bind_param :: "MYSQL_BIND list option \<Rightarrow> 'c \<Rightarrow> 'c"
  db_execute_generate_request :: "sent_rows \<Rightarrow> 'c server_call"
  mysql_stmt_execute :: "sent_rows \<Rightarrow> 'c server_call"
  mysql_stmt_prepare :: "bytes \<Rightarrow> 'c server_call"
  mariadb_stmt_execute_direct :: "bytes \<Rightarrow> sent_rows \<Rightarrow> 'c server_call"
  mysql_fetch_fields :: "'c \<Rightarrow> MYSQL_FIELD list"
  mariadb_stmt_fetch_fields :: "'c \<Rightarrow> MYSQL_FIELD list"
  mysql_fetch_row :: "bool \<Rightarrow> 'c \<Rightarrow> (bytes option list \<times> u64 list) option \<times> status_info list \<times> 'c"
  mysql_stmt_fetch :: "'c \<Rightarrow> stmt_row \<times> status_info list \<times> 'c"
  mysql_data_seek :: "bool \<Rightarrow> u64 \<Rightarrow> 'c \<Rightarrow> 'c option"
  mysql_stmt_data_seek :: "u64 \<Rightarrow> 'c \<Rightarrow> 'c"
  charset_mbmaxlen :: "'c \<Rightarrow> u32"
  ps_pack_len :: "enum_field_types \<Rightarrow> int"

text \<open>A call whose return code is not looked at.\<close>

definition call_void :: "pyapi \<Rightarrow> 'c server_call \<Rightarrow> ('c, 'z) world_scheme \<Rightarrow> ('c, 'z) world_scheme option" where
  "call_void api f w = map_option snd (server_call api f w)"

subsection \<open>Macros\<close>

text \<open>
  The five macros that ask the connection or the statement. A function of the library that is given
  a null handle dereferences it.
\<close>

definition on_handle :: "'a \<Rightarrow> ('c, 'z) world_scheme \<Rightarrow> 'a option" where
  "on_handle x w = (if mysql w then Some x else None)"

definition CURSOR_FIELD_COUNT :: "'c stmtlib \<Rightarrow> ('c, 'z) cworld_scheme \<Rightarrow> u32 option" where
  "CURSOR_FIELD_COUNT sl w =
     (if pi_is_text (csr w) then on_handle (mysql_field_count sl (client w)) w
      else if cur_stmt (csr w) then Some (mysql_stmt_field_count sl (client w)) else Some 0)"

definition CURSOR_WARNING_COUNT :: "'c clientlib \<Rightarrow> 'c stmtlib \<Rightarrow> ('c, 'z) cworld_scheme \<Rightarrow> u32 option" where
  "CURSOR_WARNING_COUNT lib sl w =
     (if pi_is_text (csr w) then on_handle (mysql_warning_count lib (client w)) w
      else if cur_stmt (csr w) then Some (mysql_stmt_warning_count sl (client w)) else Some 0)"

definition CURSOR_AFFECTED_ROWS :: "'c stmtlib \<Rightarrow> ('c, 'z) cworld_scheme \<Rightarrow> u64 option" where
  "CURSOR_AFFECTED_ROWS sl w =
     (if pi_is_text (csr w) then on_handle (mysql_affected_rows sl (client w)) w
      else if cur_stmt (csr w) then Some (mysql_stmt_affected_rows sl (client w)) else Some 0)"

definition CURSOR_INSERT_ID :: "'c stmtlib \<Rightarrow> ('c, 'z) cworld_scheme \<Rightarrow> u64 option" where
  "CURSOR_INSERT_ID sl w =
     (if pi_is_text (csr w) then on_handle (mysql_insert_id sl (client w)) w
      else if cur_stmt (csr w) then Some (mysql_stmt_insert_id sl (client w)) else Some 0)"

definition CURSOR_NUM_ROWS :: "'c stmtlib \<Rightarrow> ('c, 'z) cworld_scheme \<Rightarrow> u64 option" where
  "CURSOR_NUM_ROWS sl w =
     (if pi_is_text (csr w) then mysql_num_rows sl (cur_result (csr w)) (client w)
      else if cur_stmt (csr w) then Some (mysql_stmt_num_rows sl (client w)) else Some 0)"

definition invalid_cursor :: pyerr where
  "invalid_cursor = throw Mariadb_ProgrammingError ''Invalid cursor or not connected'' []"

text \<open>Both macros only set the exception: the function that uses them goes on.\<close>

definition MARIADB_CHECK_STMT :: "('c, 'z) cworld_scheme \<Rightarrow> ('c, 'z) cworld_scheme option" where
  "MARIADB_CHECK_STMT w =
     (if \<not> mysql w \<or> cur_closed (csr w)
      then set_error invalid_cursor (upd_csr (\<lambda>c. c\<lparr>cur_closed := True\<rparr>) w)
      else Some w)"

definition MARIADB_CHECK_STMT_FETCH :: "('c, 'z) cworld_scheme \<Rightarrow> ('c, 'z) cworld_scheme option" where
  "MARIADB_CHECK_STMT_FETCH w =
     (if cur_closed (csr w) \<or> \<not> mysql w \<and> \<not> is_buffered (csr w)
      then set_error invalid_cursor (upd_csr (\<lambda>c. c\<lparr>cur_closed := True\<rparr>) w)
      else Some w)"

subsection \<open>Initialisation\<close>

definition CURSOR_TYPE_READ_ONLY :: u64 where "CURSOR_TYPE_READ_ONLY = 1"

text \<open>
  \<open>args\<close> is the outcome of parsing the arguments: prefetch size, cursor type and the flag
  \<open>prepared\<close>. The test looks at the type stored in the cursor, not at the argument. \<open>True\<close> is -1.
\<close>

definition MrdbCursor_initialize :: "(pyerr + u64 \<times> u64 \<times> bool) \<Rightarrow> ('c, 'z) cworld_scheme \<Rightarrow>
    (bool \<times> ('c, 'z) cworld_scheme) option" where
  "MrdbCursor_initialize args w =
     (case args of
        Inl e \<Rightarrow> map_option (Pair True) (set_error e w)
      | Inr (prefetch, type, prepared) \<Rightarrow>
          if \<not> mysql w
          then map_option (Pair True) (set_error (throw Mariadb_ProgrammingError ''Connection isn't valid anymore'' []) w)
          else if cursor_type (csr w) \<noteq> CURSOR_TYPE_READ_ONLY \<and> cursor_type (csr w) \<noteq> 0
          then map_option (Pair True)
            (set_error (throw Mariadb_DataError ''Invalid value %ld for cursor_type'' [FmtInt (sint type)]) w)
          else Some (False, upd_csr (\<lambda>c. c\<lparr>is_prepared := prepared, pi_is_text := False, cur_stmt := False,
                 prefetch_rows := prefetch, row_array_size := 1\<rparr>) w))"

definition MrdbCursor_repr :: "pyapi \<Rightarrow> bytes \<Rightarrow> ('c, 'z) cworld_scheme \<Rightarrow>
    (pyobj option \<times> ('c, 'z) cworld_scheme) option" where
  "MrdbCursor_repr api address w =
     new_unicode api
       (take 383
         (if \<not> cur_closed (csr w) then ''<mariadb.cursor at '' @ address @ ''>''
          else ''<mariadb.cursor (closed) at '' @ address @ ''>'')) w"

subsection \<open>Release of results and values\<close>

definition MrdbCursor_clearparseinfo :: "MrdbCursor \<Rightarrow> MrdbCursor" where
  "MrdbCursor_clearparseinfo c = c\<lparr>pi_statement := None, pi_paramstyle := NONE, pi_command := SQL_NONE,
     pi_paramcount := 0, pi_is_text := False, pi_paramlist := None, pi_keys := []\<rparr>"

text \<open>
  Both loops over the pending results repeat a step until it says that no further result is
  announced; a loop that never ends is \<open>None\<close> as well.
\<close>

partial_function (option) repeat_until :: "('w \<Rightarrow> (bool \<times> 'w) option) \<Rightarrow> 'w \<Rightarrow> 'w option" where
  "repeat_until step w =
     Option.bind (step w) (\<lambda>r. if fst r then Some (snd r) else repeat_until step (snd r))"

definition stmt_step :: "pyapi \<Rightarrow> 'c stmtlib \<Rightarrow> ('c, 'z) cworld_scheme \<Rightarrow> (bool \<times> ('c, 'z) cworld_scheme) option" where
  "stmt_step api sl w = do {
     (rc, w) \<leftarrow> server_call api (mysql_stmt_next_result sl) w;
     if rc then Some (True, w)
     else do {
       w \<leftarrow> (if mysql_stmt_field_count sl (client w) \<noteq> 0 then call_void api (mysql_stmt_free_result sl) w else Some w);
       Some (False, w) } }"

definition text_step :: "pyapi \<Rightarrow> 'c stmtlib \<Rightarrow> ('c, 'z) cworld_scheme \<Rightarrow> (bool \<times> ('c, 'z) cworld_scheme) option" where
  "text_step api sl w = do {
     (null, w) \<leftarrow> server_call api (mysql_use_result sl) w;
     w \<leftarrow> (if null then Some w else call_void api (mysql_free_result sl) w);
     server_call api (mysql_next_result sl) w }"

text \<open>\<open>mysql_free_result\<close> on the result of the cursor releases its columns, too.\<close>

definition free_result :: "pyapi \<Rightarrow> 'c stmtlib \<Rightarrow> ('c, 'z) cworld_scheme \<Rightarrow> ('c, 'z) cworld_scheme option" where
  "free_result api sl w = map_option (upd_csr (\<lambda>c. c\<lparr>fields_live := False\<rparr>)) (call_void api (mysql_free_result sl) w)"

definition MrdbCursor_clear_result :: "pyapi \<Rightarrow> 'c stmtlib \<Rightarrow> ('c, 'z) cworld_scheme \<Rightarrow>
    (pyobj option \<times> ('c, 'z) cworld_scheme) option" where
  "MrdbCursor_clear_result api sl w = do {
     w \<leftarrow> (if \<not> pi_is_text (csr w) \<and> cur_stmt (csr w) then do {
             w \<leftarrow> (if mysql_stmt_field_count sl (client w) \<noteq> 0 then call_void api (mysql_stmt_free_result sl) w
                  else Some w);
             repeat_until (stmt_step api sl) w }
           else if pi_is_text (csr w) then do {
             w \<leftarrow> (if cur_result (csr w) then free_result api sl w else Some w);
             if mysql w then repeat_until (text_step api sl) w else Some w }
           else Some w);
     w \<leftarrow> MARIADB_END_ALLOW_THREADS w;
     Some (Some PyNone, upd_csr (\<lambda>c. c\<lparr>cur_result := False\<rparr>) w) }"

text \<open>
  The buffers of the first \<open>paramcount\<close> values are released; what the other values own is lost with
  the array.
\<close>

definition owns_buffer :: "MrdbParamValue \<Rightarrow> bool" where
  "owns_buffer v \<longleftrightarrow> pv_free_me v \<and> pv_buffer v \<noteq> None"

definition MrdbCursor_FreeValues :: "MrdbCursor \<Rightarrow> MrdbCursor option" where
  "MrdbCursor_FreeValues c =
     (case cur_value c of
        None \<Rightarrow> Some c
      | Some vs \<Rightarrow>
          if unat (pi_paramcount c) \<le> length vs
          then Some (c\<lparr>cur_value := None,
                       leaked := leaked c + length (filter owns_buffer (drop (unat (pi_paramcount c)) vs))\<rparr>)
          else None)"

definition MrdbCursor_clear :: "pyapi \<Rightarrow> 'c stmtlib \<Rightarrow> bool \<Rightarrow> ('c, 'z) cworld_scheme \<Rightarrow>
    ('c, 'z) cworld_scheme option" where
  "MrdbCursor_clear api sl new_stmt w = do {
     (r, w) \<leftarrow> MrdbCursor_clear_result api sl w;
     w \<leftarrow> (if \<not> pi_is_text (csr w) \<and> cur_stmt (csr w) then
             (if new_stmt then do {
                w \<leftarrow> call_void api (mysql_stmt_close sl) w;
                let (ok, c) = mysql_stmt_init sl (client w);
                Some (upd_csr (\<lambda>c. c\<lparr>cur_stmt := ok\<rparr>) (w\<lparr>client := c\<rparr>)) }
              else do {
                w \<leftarrow> call_void api (mysql_stmt_reset sl) w;
                Some (lib_do (mysql_stmt_attr_set sl (STMT_ATTR_ARRAY_SIZE 0)) w) })
           else Some w);
     c \<leftarrow> MrdbCursor_FreeValues ((csr w)\<lparr>fetched := False, sequence_fields := None, cur_fields := [],
            row_count := 0, affected_rows := 0\<rparr>);
     Some (w\<lparr>csr := (MrdbCursor_clearparseinfo c)\<lparr>fetch_values := [], cur_params := None\<rparr>\<rparr>) }"

definition ma_cursor_close :: "pyapi \<Rightarrow> 'c stmtlib \<Rightarrow> ('c, 'z) cworld_scheme \<Rightarrow> ('c, 'z) cworld_scheme option" where
  "ma_cursor_close api sl w =
     (if \<not> cur_closed (csr w) then do {
        (r, w) \<leftarrow> MrdbCursor_clear_result api sl w;
        w \<leftarrow> (if \<not> pi_is_text (csr w) \<and> cur_stmt (csr w) then do {
                (rc, w) \<leftarrow> blocking api (mysql_stmt_close sl) w;
                Some (upd_csr (\<lambda>c. c\<lparr>cur_stmt := False, fields_live := False\<rparr>) w) }
              else Some w);
        w \<leftarrow> MrdbCursor_clear api sl False w;
        Some (upd_csr (\<lambda>c. (MrdbCursor_clearparseinfo c)\<lparr>cur_closed := True\<rparr>) w) }
      else Some w)"

definition MrdbCursor_close :: "pyapi \<Rightarrow> 'c stmtlib \<Rightarrow> ('c, 'z) cworld_scheme \<Rightarrow>
    (pyobj option \<times> ('c, 'z) cworld_scheme) option" where
  "MrdbCursor_close api sl w = map_option (Pair (Some PyNone)) (ma_cursor_close api sl w)"

definition MrdbCursor_finalize :: "pyapi \<Rightarrow> 'c stmtlib \<Rightarrow> ('c, 'z) cworld_scheme \<Rightarrow> ('c, 'z) cworld_scheme option" where
  "MrdbCursor_finalize api sl w = (if mysql w then ma_cursor_close api sl w else Some w)"

subsection \<open>Result sets\<close>

text \<open>Reading \<open>self->fields\<close> needs memory that is still there.\<close>

definition live_fields :: "MrdbCursor \<Rightarrow> MYSQL_FIELD list option" where
  "live_fields c = (if fields_live c \<or> cur_fields c = [] then Some (cur_fields c) else None)"

fun field_names :: "MYSQL_FIELD list \<Rightarrow> nat list \<Rightarrow> bytes list option" where
  "field_names fs [] = Some []"
| "field_names fs (i # is) = do { f \<leftarrow> rd fs i; ns \<leftarrow> field_names fs is; Some (field_name f # ns) }"

text \<open>
  \<open>True\<close> is the return value 1. \<open>alloc\<close> is the outcome of the allocation of the names; the new type
  for the rows is taken to be created.
\<close>

definition Mrdb_GetFieldInfo :: "pyapi \<Rightarrow> 'c clientlib \<Rightarrow> 'c stmtlib \<Rightarrow> bool \<Rightarrow> ('c, 'z) cworld_scheme \<Rightarrow>
    (bool \<times> ('c, 'z) cworld_scheme) option" where
  "Mrdb_GetFieldInfo api lib sl alloc w = do {
     let w = upd_csr (\<lambda>c. c\<lparr>row_number := 0\<rparr>) w;
     if field_count (csr w) \<noteq> 0 then do {
       (failed, w) \<leftarrow>
         (if pi_is_text (csr w) then do {
            (null, w) \<leftarrow> server_call api (if is_buffered (csr w) then mysql_store_result sl else mysql_use_result sl) w;
            let w = upd_csr (\<lambda>c. c\<lparr>cur_result := \<not> null\<rparr>) w;
            if null then map_option (Pair True) (set_error (throw_handle lib None False w) w) else Some (False, w) }
          else if is_buffered (csr w) then do {
            (rc, w) \<leftarrow> server_call api (mysql_stmt_store_result sl) w;
            if rc then map_option (Pair True) (set_error (throw_handle lib None True w) w) else Some (False, w) }
          else Some (False, w));
       if failed then Some (True, w)
       else do {
         n \<leftarrow> CURSOR_AFFECTED_ROWS sl w;
         let w = upd_csr (\<lambda>c. c\<lparr>affected_rows := n, fields_live := True,
                cur_fields := (if pi_is_text c then mysql_fetch_fields sl (client w)
                               else mariadb_stmt_fetch_fields sl (client w))\<rparr>) w;
         if result_format (csr w) = RESULT_NAMED_TUPLE then
           (if \<not> alloc then Some (True, upd_csr (\<lambda>c. c\<lparr>sequence_fields := None\<rparr>) w)
            else do {
              names \<leftarrow> field_names (cur_fields (csr w)) [0..<unat (field_count (csr w))];
              Some (False, upd_csr (\<lambda>c. c\<lparr>sequence_fields := Some names, sequence_type := Some names\<rparr>) w) })
         else Some (False, w) } }
     else Some (False, w) }"

text \<open>The two flags are the outcomes of the allocations of the names and of the values.\<close>

definition MrdbCursor_InitResultSet :: "pyapi \<Rightarrow> 'c clientlib \<Rightarrow> 'c stmtlib \<Rightarrow> bool \<Rightarrow> bool \<Rightarrow>
    ('c, 'z) cworld_scheme \<Rightarrow> (pyobj option \<times> ('c, 'z) cworld_scheme) option" where
  "MrdbCursor_InitResultSet api lib sl alloc_names alloc_vals w = do {
     let w = upd_csr (\<lambda>c. c\<lparr>sequence_fields := None, fetch_values := []\<rparr>) w;
     w \<leftarrow> (if cur_result (csr w)
          then map_option (upd_csr (\<lambda>c. c\<lparr>cur_result := False\<rparr>)) (free_result api sl w) else Some w);
     if field_count (csr w) \<noteq> 0 then do {
       (failed, w) \<leftarrow> Mrdb_GetFieldInfo api lib sl alloc_names w;
       if failed \<or> \<not> alloc_vals then Some (None, w)
       else do {
         let w = upd_csr (\<lambda>c. c\<lparr>fetch_values := replicate (unat (field_count c)) None\<rparr>) w;
         let w = (if pi_is_text (csr w) then w else lib_do (mysql_stmt_attr_set sl STMT_ATTR_CB_RESULT) w);
         n \<leftarrow> CURSOR_NUM_ROWS sl w;
         let w = upd_csr (\<lambda>c. c\<lparr>row_count := n, affected_rows := 0\<rparr>) w;
         id \<leftarrow> CURSOR_INSERT_ID sl w;
         Some (Some PyNone, upd_csr (\<lambda>c. c\<lparr>lastrow_id := id\<rparr>) w) } }
     else do {
       n \<leftarrow> CURSOR_AFFECTED_ROWS sl w;
       let w = upd_csr (\<lambda>c. c\<lparr>row_count := n, affected_rows := n\<rparr>) w;
       id \<leftarrow> CURSOR_INSERT_ID sl w;
       Some (Some PyNone, upd_csr (\<lambda>c. c\<lparr>lastrow_id := id\<rparr>) w) } }"

definition MrdbCursor_nextset :: "pyapi \<Rightarrow> 'c clientlib \<Rightarrow> 'c stmtlib \<Rightarrow> bool \<Rightarrow> bool \<Rightarrow>
    ('c, 'z) cworld_scheme \<Rightarrow> (pyobj option \<times> ('c, 'z) cworld_scheme) option" where
  "MrdbCursor_nextset api lib sl alloc_names alloc_vals w = do {
     w \<leftarrow> MARIADB_CHECK_STMT w;
     if py_err w \<noteq> None then Some (None, w)
     else if \<not> pi_is_text (csr w) \<and> \<not> cur_stmt (csr w) then Some (Some PyNone, w)
     else do {
       (rc, w) \<leftarrow>
         (if \<not> pi_is_text (csr w) then blocking api (mysql_stmt_next_result sl) w
          else do {
            w \<leftarrow> (if cur_result (csr w)
                 then map_option (upd_csr (\<lambda>c. c\<lparr>cur_result := False\<rparr>)) (free_result api sl w) else Some w);
            blocking api (mysql_next_result sl) w });
       if rc then Some (Some PyNone, w)
       else do {
         n \<leftarrow> CURSOR_FIELD_COUNT sl w;
         let w = upd_csr (\<lambda>c. c\<lparr>field_count := n\<rparr>) w;
         if field_count (csr w) \<noteq> 0 then do {
           (r, w) \<leftarrow> MrdbCursor_InitResultSet api lib sl alloc_names alloc_vals w;
           Some (if r = None then None else Some (PyBool True), w) }
         else Some (Some (PyBool True), upd_csr (\<lambda>c. c\<lparr>cur_fields := []\<rparr>) w) } } }"

definition MrdbCursor_seek :: "'c stmtlib \<Rightarrow> pyobj \<Rightarrow> ('c, 'z) cworld_scheme \<Rightarrow>
    (pyobj option \<times> ('c, 'z) cworld_scheme) option" where
  "MrdbCursor_seek sl pos w =
     (case as_int pos of
        None \<Rightarrow> raise_null (SetString PyExc_TypeError (Text ''Parameter must be an integer value'')) w
      | Some n \<Rightarrow> do {
          w \<leftarrow> (if 0 \<le> n \<and> n < 2 ^ 64 then Some w else set_error overflow_error w);
          w \<leftarrow> MARIADB_BEGIN_ALLOW_THREADS w;
          c \<leftarrow> (if pi_is_text (csr w) then mysql_data_seek sl (cur_result (csr w)) (as_unsigned pos) (client w)
               else if cur_stmt (csr w) then Some (mysql_stmt_data_seek sl (as_unsigned pos) (client w))
               else None);
          w \<leftarrow> MARIADB_END_ALLOW_THREADS (w\<lparr>client := c\<rparr>);
          Some (Some PyNone, w) })"

subsection \<open>Rows\<close>

text \<open>
  A row: a tuple, a named tuple with the names of its type, or a dictionary in the order of its
  keys. An item of a tuple may be a null pointer.
\<close>

datatype row_obj = RowTuple "pyobj option list" | RowNamed "bytes list" "pyobj option list"
  | RowDict "(bytes \<times> pyobj) list"

definition mariadb_get_sequence_or_tuple :: "MrdbCursor \<Rightarrow> row_obj option" where
  "mariadb_get_sequence_or_tuple c =
     (case result_format c of
        RESULT_NAMED_TUPLE \<Rightarrow> map_option (\<lambda>names. RowNamed names (replicate (length names) None)) (sequence_type c)
      | RESULT_DICTIONARY \<Rightarrow> Some (RowDict [])
      | RESULT_TUPLE \<Rightarrow> Some (RowTuple (replicate (unat (field_count c)) None)))"

text \<open>\<open>PyDict_SetItemString\<close> keeps the place of a key that is already there.\<close>

fun dict_set :: "bytes \<Rightarrow> pyobj \<Rightarrow> (bytes \<times> pyobj) list \<Rightarrow> (bytes \<times> pyobj) list" where
  "dict_set k v [] = [(k, v)]"
| "dict_set k v ((k', v') # kvs) = (if k = k' then (k', v) # kvs else (k', v') # dict_set k v kvs)"

definition ma_set_result_column_value :: "MrdbCursor \<Rightarrow> row_obj \<Rightarrow> nat \<Rightarrow> row_obj option" where
  "ma_set_result_column_value c row column = do {
     v \<leftarrow> rd (fetch_values c) column;
     case row of
       RowNamed names vs \<Rightarrow> if column < length vs then Some (RowNamed names (vs[column := v])) else None
     | RowDict kvs \<Rightarrow> do {
         fs \<leftarrow> live_fields c;
         f \<leftarrow> rd fs column;
         v \<leftarrow> v;
         Some (RowDict (dict_set (field_name f) v kvs)) }
     | RowTuple vs \<Rightarrow> if column < length vs then Some (RowTuple (vs[column := v])) else None }"

fun set_columns :: "MrdbCursor \<Rightarrow> row_obj \<Rightarrow> nat list \<Rightarrow> row_obj option" where
  "set_columns c row [] = Some row"
| "set_columns c row (i # is) = do { row \<leftarrow> ma_set_result_column_value c row i; set_columns c row is }"

text \<open>The columns of a text row, and the callback on the columns of a binary row.\<close>

fun text_columns :: "pyapi \<Rightarrow> u64 list \<Rightarrow> bytes option list \<Rightarrow> MrdbCursor \<Rightarrow> nat list \<Rightarrow> MrdbCursor option" where
  "text_columns api lengths row c [] = Some c"
| "text_columns api lengths row c (i # is) = do {
     data \<leftarrow> rd row i;
     c \<leftarrow> field_fetch_fromtext api lengths c data i;
     text_columns api lengths row c is }"

fun binary_columns :: "pyapi \<Rightarrow> bytes \<times> nat \<Rightarrow> MrdbCursor \<Rightarrow> nat \<Rightarrow> bool list \<Rightarrow> MrdbCursor option" where
  "binary_columns api row c i [] = Some c"
| "binary_columns api row c i (null # nulls) =
     (if null then do {
        (c, row') \<leftarrow> field_fetch_callback api c i None;
        binary_columns api row c (Suc i) nulls }
      else do {
        (c, row') \<leftarrow> field_fetch_callback api c i (Some row);
        row \<leftarrow> row';
        binary_columns api row c (Suc i) nulls })"

text \<open>
  \<open>True\<close> is the return value 1. An error of \<open>mysql_stmt_fetch\<close> is not told apart from a row, and
  an error of \<open>mysql_fetch_row\<close> not from the end of the data. Exceptions that the conversion of a
  value raises are not tracked; its value is then a null pointer.
\<close>

definition MrdbCursor_fetchinternal :: "pyapi \<Rightarrow> 'c stmtlib \<Rightarrow> ('c, 'z) cworld_scheme \<Rightarrow>
    (bool \<times> ('c, 'z) cworld_scheme) option" where
  "MrdbCursor_fetchinternal api sl w = do {
     let w = upd_csr (\<lambda>c. c\<lparr>fetched := True\<rparr>) w;
     if \<not> pi_is_text (csr w) then
       (if \<not> cur_stmt (csr w) then None
        else do {
          let (row, infos, c) = mysql_stmt_fetch sl (client w);
          w \<leftarrow> process_all api infos (w\<lparr>client := c\<rparr>);
          case row of
            MYSQL_NO_DATA \<Rightarrow> Some (True, w)
          | FetchError \<Rightarrow> Some (False, w)
          | FetchRow b p nulls \<Rightarrow> do {
              fs \<leftarrow> live_fields (csr w);
              c \<leftarrow> (if gil w then binary_columns api (b, p) (csr w) 0 nulls else None);
              Some (False, w\<lparr>csr := c\<rparr>) } })
     else do {
       let (row, infos, c) = mysql_fetch_row sl (cur_result (csr w)) (client w);
       w \<leftarrow> process_all api infos (w\<lparr>client := c\<rparr>);
       case row of
         None \<Rightarrow> Some (True, w)
       | Some (cols, lengths) \<Rightarrow> do {
           fs \<leftarrow> live_fields (csr w);
           c \<leftarrow> (if gil w then text_columns api lengths cols (csr w) [0..<unat (field_count (csr w))] else None);
           Some (False, w\<lparr>csr := c\<rparr>) } } }"

definition no_result_set :: pyerr where
  "no_result_set = throw Mariadb_ProgrammingError ''Cursor doesn't have a result set'' []"

text \<open>The row built from the values, with the row number increased.\<close>

definition build_row :: "('c, 'z) cworld_scheme \<Rightarrow> (row_obj \<times> ('c, 'z) cworld_scheme) option" where
  "build_row w = do {
     let w = upd_csr (\<lambda>c. c\<lparr>row_number := row_number c + 1\<rparr>) w;
     row \<leftarrow> mariadb_get_sequence_or_tuple (csr w);
     row \<leftarrow> set_columns (csr w) row [0..<unat (field_count (csr w))];
     Some (row, w) }"

text \<open>The result of a fetch: the null pointer, \<open>None\<close>, or a row.\<close>

datatype fetch_result = FetchNull | FetchNone | FetchedRow row_obj

definition MrdbCursor_fetchone :: "pyapi \<Rightarrow> 'c stmtlib \<Rightarrow> ('c, 'z) cworld_scheme \<Rightarrow>
    (fetch_result \<times> ('c, 'z) cworld_scheme) option" where
  "MrdbCursor_fetchone api sl w = do {
     w \<leftarrow> (if cursor_type (csr w) = CURSOR_TYPE_READ_ONLY then MARIADB_CHECK_STMT w else Some w);
     if py_err w \<noteq> None then Some (FetchNull, w)
     else if field_count (csr w) = 0 then map_option (Pair FetchNull) (set_error no_result_set w)
     else do {
       (nodata, w) \<leftarrow> MrdbCursor_fetchinternal api sl w;
       if nodata then Some (FetchNone, w)
       else do { (row, w) \<leftarrow> build_row w; Some (FetchedRow row, w) } } }"

text \<open>The loop over at most \<open>n\<close> rows.\<close>

fun fetch_loop :: "pyapi \<Rightarrow> 'c stmtlib \<Rightarrow> nat \<Rightarrow> ('c, 'z) cworld_scheme \<Rightarrow>
    (row_obj list \<times> ('c, 'z) cworld_scheme) option" where
  "fetch_loop api sl n w =
     (if n = 0 then Some ([], w)
      else do {
        (nodata, w) \<leftarrow> MrdbCursor_fetchinternal api sl w;
        if nodata then Some ([], w)
        else do {
          (row, w) \<leftarrow> build_row w;
          (rows, w) \<leftarrow> fetch_loop api sl (n - 1) w;
          Some (row # rows, w) } })"

declare fetch_loop.simps [simp del]

text \<open>\<open>PyLong_AsLongLong\<close>, converted to an unsigned number: -1 asks for all rows.\<close>

definition MrdbCursor_fetchrows :: "pyapi \<Rightarrow> 'c stmtlib \<Rightarrow> pyobj \<Rightarrow> ('c, 'z) cworld_scheme \<Rightarrow>
    (row_obj list option \<times> ('c, 'z) cworld_scheme) option" where
  "MrdbCursor_fetchrows api sl rows w = do {
     w \<leftarrow> MARIADB_CHECK_STMT_FETCH w;
     if field_count (csr w) = 0 then raise_null no_result_set w
     else case as_int rows of
       None \<Rightarrow> raise_null (SetString PyExc_TypeError (Text ''Parameter must be an integer value'')) w
     | Some n \<Rightarrow> do {
         w \<leftarrow> (if - (2 ^ 63) \<le> n \<and> n < 2 ^ 63 then Some w else set_error overflow_error w);
         (list, w) \<leftarrow> fetch_loop api sl (unat (as_signed rows)) w;
         k \<leftarrow> CURSOR_NUM_ROWS sl w;
         Some (Some list, upd_csr (\<lambda>c. c\<lparr>row_count := k\<rparr>) w) } }"

subsection \<open>Attributes\<close>

definition Mariadb_row_count :: "'c stmtlib \<Rightarrow> ('c, 'z) cworld_scheme \<Rightarrow>
    (pyobj option \<times> ('c, 'z) cworld_scheme) option" where
  "Mariadb_row_count sl w =
     (if pi_statement (csr w) = None then Some (Some (PyLong (- 1)), w)
      else if field_count (csr w) \<noteq> 0
      then map_option (\<lambda>n. (Some (PyLong (sint n)), w)) (CURSOR_NUM_ROWS sl w)
      else map_option (\<lambda>n. (Some (PyLong (sint n)), w)) (CURSOR_AFFECTED_ROWS sl w))"

definition Mariadb_row_number :: "('c, 'z) cworld_scheme \<Rightarrow> (pyobj option \<times> ('c, 'z) cworld_scheme) option" where
  "Mariadb_row_number w =
     Some (Some (if field_count (csr w) = 0 then PyNone else PyLong (sint (row_number (csr w)))), w)"

text \<open>The exception set by the check does not stop the function.\<close>

definition MrdbCursor_warnings :: "'c clientlib \<Rightarrow> 'c stmtlib \<Rightarrow> ('c, 'z) cworld_scheme \<Rightarrow>
    (pyobj option \<times> ('c, 'z) cworld_scheme) option" where
  "MrdbCursor_warnings lib sl w = do {
     w \<leftarrow> MARIADB_CHECK_STMT w;
     n \<leftarrow> CURSOR_WARNING_COUNT lib sl w;
     Some (Some (PyLong (uint n)), w) }"

definition MrdbCursor_closed :: "('c, 'z) cworld_scheme \<Rightarrow> (pyobj option \<times> ('c, 'z) cworld_scheme) option" where
  "MrdbCursor_closed w = Some (Some (PyBool (cur_closed (csr w) \<or> \<not> mysql w)), w)"

text \<open>The numbers of the field types and of the extended types.\<close>

fun type_code :: "enum_field_types \<Rightarrow> int" where
  "type_code MYSQL_TYPE_DECIMAL = 0"
| "type_code MYSQL_TYPE_TINY = 1"
| "type_code MYSQL_TYPE_SHORT = 2"
| "type_code MYSQL_TYPE_LONG = 3"
| "type_code MYSQL_TYPE_FLOAT = 4"
| "type_code MYSQL_TYPE_DOUBLE = 5"
| "type_code MYSQL_TYPE_NULL = 6"
| "type_code MYSQL_TYPE_TIMESTAMP = 7"
| "type_code MYSQL_TYPE_LONGLONG = 8"
| "type_code MYSQL_TYPE_INT24 = 9"
| "type_code MYSQL_TYPE_DATE = 10"
| "type_code MYSQL_TYPE_TIME = 11"
| "type_code MYSQL_TYPE_DATETIME = 12"
| "type_code MYSQL_TYPE_YEAR = 13"
| "type_code MYSQL_TYPE_NEWDATE = 14"
| "type_code MYSQL_TYPE_VARCHAR = 15"
| "type_code MYSQL_TYPE_BIT = 16"
| "type_code MYSQL_TYPE_TIMESTAMP2 = 17"
| "type_code MYSQL_TYPE_DATETIME2 = 18"
| "type_code MYSQL_TYPE_TIME2 = 19"
| "type_code MYSQL_TYPE_JSON = 245"
| "type_code MYSQL_TYPE_NEWDECIMAL = 246"
| "type_code MYSQL_TYPE_ENUM = 247"
| "type_code MYSQL_TYPE_SET = 248"
| "type_code MYSQL_TYPE_TINY_BLOB = 249"
| "type_code MYSQL_TYPE_MEDIUM_BLOB = 250"
| "type_code MYSQL_TYPE_LONG_BLOB = 251"
| "type_code MYSQL_TYPE_BLOB = 252"
| "type_code MYSQL_TYPE_VAR_STRING = 253"
| "type_code MYSQL_TYPE_STRING = 254"
| "type_code MYSQL_TYPE_GEOMETRY = 255"

fun ext_code :: "enum_extended_field_type \<Rightarrow> int" where
  "ext_code EXT_TYPE_NONE = 0"
| "ext_code EXT_TYPE_JSON = 1"
| "ext_code EXT_TYPE_UUID = 2"
| "ext_code EXT_TYPE_INET4 = 3"
| "ext_code EXT_TYPE_INET6 = 4"
| "ext_code EXT_TYPE_POINT = 5"
| "ext_code EXT_TYPE_MULTIPOINT = 6"
| "ext_code EXT_TYPE_LINESTRING = 7"
| "ext_code EXT_TYPE_MULTILINESTRING = 8"
| "ext_code EXT_TYPE_POLYGON = 9"
| "ext_code EXT_TYPE_MULTIPOLYGON = 10"
| "ext_code EXT_TYPE_GEOMETRYCOLLECTION = 11"

text \<open>
  The items of one column, in the order of the tuples; a name that is not UTF-8 would put a null
  pointer into a tuple and is a fault here.
\<close>

definition metadata_column :: "pyapi \<Rightarrow> MYSQL_FIELD \<Rightarrow> pyobj list option" where
  "metadata_column api f = do {
     catalog \<leftarrow> decode api (field_catalog f);
     db \<leftarrow> decode api (field_db f);
     name \<leftarrow> decode api (field_name f);
     org \<leftarrow> decode api (org_name f);
     tab \<leftarrow> decode api (field_table f);
     orgtab \<leftarrow> decode api (org_table f);
     Some [catalog, db, name, org, tab, orgtab, PyLong (type_code (field_type f)),
       PyLong (uint (charsetnr f)), PyLong (sint (max_length f)), PyLong (sint (field_length f)),
       PyLong (uint (decimals f)), PyLong (uint (flags f)),
       PyLong (case mariadb_extended_field_type f of Some (e, s) \<Rightarrow> ext_code e | None \<Rightarrow> ext_code EXT_TYPE_NONE)] }"

fun metadata_columns :: "pyapi \<Rightarrow> MYSQL_FIELD list \<Rightarrow> nat list \<Rightarrow> pyobj list list option" where
  "metadata_columns api fs [] = Some []"
| "metadata_columns api fs (i # is) = do {
     f \<leftarrow> rd fs i;
     col \<leftarrow> metadata_column api f;
     cols \<leftarrow> metadata_columns api fs is;
     Some (col # cols) }"

definition metadata_keys :: "string list" where
  "metadata_keys = [''catalog'', ''schema'', ''field'', ''org_field'', ''table'', ''org_table'', ''type'',
     ''charset'', ''length'', ''max_length'', ''decimals'', ''flags'', ''ext_type_or_format'']"

definition MrdbCursor_metadata :: "pyapi \<Rightarrow> ('c, 'z) cworld_scheme \<Rightarrow>
    (pyobj option \<times> ('c, 'z) cworld_scheme) option" where
  "MrdbCursor_metadata api w =
     (if field_count (csr w) = 0 then Some (Some PyNone, w)
      else if py_err w \<noteq> None then Some (None, w)
      else do {
        fs \<leftarrow> live_fields (csr w);
        cols \<leftarrow> metadata_columns api fs [0..<unat (field_count (csr w))];
        Some (Some (PyDict (map (\<lambda>(i, key). (unicode key, PyTuple (map (\<lambda>col. col ! i) cols)))
               (enumerate 0 metadata_keys))), w) })"

definition NOT_NULL_FLAG :: u32 where "NOT_NULL_FLAG = 1"

text \<open>
  One entry of the description. The format of \<open>Py_BuildValue\<close> reads the two lengths as 32-bit
  numbers; a name that cannot be decoded makes it fail (\<open>None\<close>).
\<close>

definition describe :: "pyapi \<Rightarrow> u32 \<Rightarrow> (enum_field_types \<Rightarrow> int) \<Rightarrow> MYSQL_FIELD \<Rightarrow> pyobj option" where
  "describe api mbmaxlen pack_len f =
     (let display_length = max (max_length f) (field_length f);
          packed_len = (if mbmaxlen > 1 then sint display_length else pack_len (field_type f));
          display_length = (if mbmaxlen > 1 then display_length div ucast mbmaxlen else display_length);
          has_decimals = decimals f \<noteq> 0 \<and> decimals f < 31;
          decs = (if has_decimals then decimals f else 0);
          precision = (if has_decimals then ucast (field_length f) else (0 :: u32));
          display_length = (if has_decimals then ucast (precision + 1) else display_length);
          type = convert_type f
      in do {
        name \<leftarrow> decode api (field_name f);
        tab \<leftarrow> decode api (field_table f);
        org \<leftarrow> decode api (org_name f);
        orgtab \<leftarrow> decode api (org_table f);
        Some (PyTuple [name, PyLong (type_code type), PyLong (uint (ucast display_length :: u32)),
          PyLong (sint (of_int (if packed_len \<ge> 0 then packed_len else - 1) :: u32)),
          PyLong (uint precision), PyLong (uint decs), PyBool (flags f AND NOT_NULL_FLAG = 0),
          PyLong (uint (flags f)), tab, org, orgtab]) })"

text \<open>The loop stores the type of a JSON column in the field; \<open>Inl\<close> is an error.\<close>

fun describe_columns :: "pyapi \<Rightarrow> u32 \<Rightarrow> (enum_field_types \<Rightarrow> int) \<Rightarrow> MYSQL_FIELD list \<Rightarrow> nat list \<Rightarrow>
    (MYSQL_FIELD list \<times> pyobj list option) option" where
  "describe_columns api mbmaxlen pack_len fs [] = Some (fs, Some [])"
| "describe_columns api mbmaxlen pack_len fs (i # is) = do {
     f \<leftarrow> rd fs i;
     let fs = fs[i := f\<lparr>field_type := convert_type f\<rparr>];
     case describe api mbmaxlen pack_len f of
       None \<Rightarrow> Some (fs, None)
     | Some desc \<Rightarrow> do {
         (fs, descs) \<leftarrow> describe_columns api mbmaxlen pack_len fs is;
         Some (fs, map_option (Cons desc) descs) } }"

definition MrdbCursor_description :: "pyapi \<Rightarrow> 'c stmtlib \<Rightarrow> ('c, 'z) cworld_scheme \<Rightarrow>
    (pyobj option \<times> ('c, 'z) cworld_scheme) option" where
  "MrdbCursor_description api sl w =
     (if py_err w \<noteq> None then Some (None, w)
      else if cur_fields (csr w) \<noteq> [] \<and> field_count (csr w) \<noteq> 0 then do {
        fs \<leftarrow> live_fields (csr w);
        mbmaxlen \<leftarrow> on_handle (charset_mbmaxlen sl (client w)) w;
        (fs, descs) \<leftarrow> describe_columns api mbmaxlen (ps_pack_len sl) fs [0..<unat (field_count (csr w))];
        let w = upd_csr (\<lambda>c. c\<lparr>cur_fields := fs\<rparr>) w;
        case descs of
          None \<Rightarrow> raise_null (throw Mariadb_OperationalError ''Can't build descriptor record'' []) w
        | Some ds \<Rightarrow> Some (Some (PyTuple ds), w) }
      else Some (Some PyNone, w))"

subsection \<open>Parsing a statement\<close>

text \<open>
  The parser's parameters, and the outcomes of its two allocations and of the allocation of the
  copy of the statement, which is not checked.
\<close>

record parse_env =
  env_cfg :: parse_cfg
  env_alloc_parser :: bool
  env_alloc_str :: bool
  env_alloc_copy :: bool

fun decode_keys :: "pyapi \<Rightarrow> bytes option list \<Rightarrow> nat list \<Rightarrow> pyobj list option" where
  "decode_keys api ks [] = Some []"
| "decode_keys api ks (i # is) = do {
     k \<leftarrow> rd ks i; s \<leftarrow> k; obj \<leftarrow> decode api s; rest \<leftarrow> decode_keys api ks is; Some (obj # rest) }"

text \<open>The arrays for the parameters are released when their number changes.\<close>

definition reset_arrays :: "nat \<Rightarrow> MrdbParser \<Rightarrow> MrdbCursor \<Rightarrow> MrdbCursor option" where
  "reset_arrays old_paramcount parser c =
     (if param_count parser \<noteq> 0 \<and> param_count parser \<noteq> old_paramcount
      then map_option (\<lambda>c. c\<lparr>fetch_values := []\<rparr>) (MrdbCursor_FreeValues (c\<lparr>cur_params := None\<rparr>))
      else Some c)"

definition save_parser :: "pyapi \<Rightarrow> parse_env \<Rightarrow> MrdbParser \<Rightarrow> MrdbCursor \<Rightarrow> MrdbCursor option" where
  "save_parser api env parser c =
     (if \<not> env_alloc_copy env then None
      else do {
        ks \<leftarrow> (if paramstyle parser = PYFORMAT \<and> keys parser \<noteq> []
              then decode_keys api (keys parser) [0..<param_count parser] else Some (pi_keys c));
        Some (c\<lparr>pi_paramcount := of_nat (param_count parser), pi_paramstyle := paramstyle parser,
          pi_statement := Some (take (statement_length parser) (statement_str parser)),
          pi_paramlist := Some (param_list parser),
          pi_is_text := (command parser = SQL_NONE \<or> command parser = SQL_OTHER),
          pi_command := command parser, pi_keys := ks\<rparr>) })"

definition MrdbCursor_parse :: "pyapi \<Rightarrow> parse_env \<Rightarrow> pyobj \<Rightarrow> ('c, 'z) cworld_scheme \<Rightarrow>
    (pyobj option \<times> ('c, 'z) cworld_scheme) option" where
  "MrdbCursor_parse api env stmt w = do {
     let old_paramcount = (if pi_statement (csr w) \<noteq> None then unat (pi_paramcount (csr w)) else 0);
     let w = (if pi_statement (csr w) \<noteq> None then upd_csr MrdbCursor_clearparseinfo w else w);
     let s = as_utf8 api stmt;
     parser \<leftarrow> MrdbParser_init (env_alloc_parser env) (env_alloc_str env) s (case s of Some b \<Rightarrow> length b | None \<Rightarrow> 0);
     case parser of
       None \<Rightarrow> raise_null (throw Mariadb_ProgrammingError ''Can't initialize parser.'' []) w
     | Some parser \<Rightarrow> do {
         r \<leftarrow> MrdbParser_parse (env_cfg env) (Some parser) False 128;
         case r of
           Inl (errmsg, p) \<Rightarrow> do {
             n \<leftarrow> MrdbParser_end p;
             raise_null (SetString Mariadb_ProgrammingError (Text errmsg)) w }
         | Inr parser \<Rightarrow> do {
             c \<leftarrow> reset_arrays old_paramcount parser (csr w);
             c \<leftarrow> save_parser api env parser c;
             n \<leftarrow> MrdbParser_end (Some parser);
             Some (Some PyNone, w\<lparr>csr := c\<rparr>) } } }"

subsection \<open>Executing a statement\<close>

text \<open>
  The rows of a bulk operation: the library calls \<open>mariadb_param_update\<close> for one row after the
  other and stops at an error.
\<close>

fun bulk_rows :: "pyapi \<Rightarrow> MrdbCursor \<Rightarrow> nat list \<Rightarrow> (pyerr option \<times> bool \<times> MrdbCursor \<times> sent_rows) option" where
  "bulk_rows api c [] = Some (None, False, c, [])"
| "bulk_rows api c (i # is) = do {
     (err, rc, c) \<leftarrow> mariadb_param_update api c (of_nat i);
     if rc then Some (err, True, c, [])
     else do {
       bs \<leftarrow> cur_params c;
       vs \<leftarrow> cur_value c;
       (err, rc, c, rows) \<leftarrow> bulk_rows api c is;
       Some (err, rc, c, (bs, vs) # rows) } }"

definition single_row :: "MrdbCursor \<Rightarrow> sent_rows" where
  "single_row c = (case (cur_params c, cur_value c) of (Some bs, Some vs) \<Rightarrow> [(bs, vs)] | _ \<Rightarrow> [])"

text \<open>
  A function of the library that needs the rows. With an array size it asks for them through the
  callback, which uses the interpreter and so needs its lock.
\<close>

definition with_rows :: "pyapi \<Rightarrow> (sent_rows \<Rightarrow> 'c server_call) \<Rightarrow> ('c, 'z) cworld_scheme \<Rightarrow>
    (bool \<times> ('c, 'z) cworld_scheme) option" where
  "with_rows api f w =
     (if array_size (csr w) \<noteq> 0 then
        (if gil w then do {
           (err, failed, c, rows) \<leftarrow> bulk_rows api (csr w) [0..<unat (array_size (csr w))];
           let w = w\<lparr>csr := c, py_err := latest (py_err w) err\<rparr>;
           if failed then Some (True, w) else server_call api (f rows) w }
         else None)
      else server_call api (f (single_row (csr w))) w)"

definition Mrdb_execute_direct :: "pyapi \<Rightarrow> 'c stmtlib \<Rightarrow> ('c, 'z) cworld_scheme \<Rightarrow>
    (bool \<times> ('c, 'z) cworld_scheme) option" where
  "Mrdb_execute_direct api sl w = do {
     w \<leftarrow> MARIADB_BEGIN_ALLOW_THREADS w;
     (r, w) \<leftarrow> MrdbCursor_clear_result api sl w;
     (rc, w) \<leftarrow>
       (if \<not> reprepare (csr w) then with_rows api (mysql_stmt_execute sl) w
        else do {
          stmt \<leftarrow> pi_statement (csr w);
          if \<not> bulk_caps (csr w) then do {
            (rc, w) \<leftarrow> server_call api (mysql_stmt_prepare sl stmt) w;
            if rc then Some (True, w) else with_rows api (mysql_stmt_execute sl) w }
          else with_rows api (mariadb_stmt_execute_direct sl stmt) w });
     w \<leftarrow> MARIADB_END_ALLOW_THREADS w;
     Some (rc, w) }"

text \<open>The statement handle, created if there is none: \<open>True\<close> if that fails.\<close>

definition need_stmt :: "'c stmtlib \<Rightarrow> ('c, 'z) cworld_scheme \<Rightarrow> bool \<times> ('c, 'z) cworld_scheme" where
  "need_stmt sl w =
     (if cur_stmt (csr w) then (False, w)
      else let (ok, c) = mysql_stmt_init sl (client w)
           in (\<not> ok, upd_csr (\<lambda>cu. cu\<lparr>cur_stmt := ok\<rparr>) (w\<lparr>client := c\<rparr>)))"

text \<open>Check and load the parameters of one execution: \<open>True\<close> on failure.\<close>

definition load_parameters :: "pyapi \<Rightarrow> alloc_env \<Rightarrow> ('c, 'z) cworld_scheme \<Rightarrow>
    (bool \<times> ('c, 'z) cworld_scheme) option" where
  "load_parameters api env w =
     (if data_set (csr w) \<and> pi_paramcount (csr w) \<noteq> 0 then do {
        (err, c) \<leftarrow> mariadb_check_execute_parameters env (csr w);
        let w = w\<lparr>csr := c, py_err := latest (py_err w) err\<rparr>;
        if err \<noteq> None then Some (True, w)
        else do {
          (err, rc, c) \<leftarrow> mariadb_param_update api (csr w) 0;
          Some (rc, w\<lparr>csr := c, py_err := latest (py_err w) err\<rparr>) } }
      else Some (False, w))"

definition MrdbCursor_execute_binary :: "pyapi \<Rightarrow> 'c clientlib \<Rightarrow> 'c stmtlib \<Rightarrow> alloc_env \<Rightarrow>
    ('c, 'z) cworld_scheme \<Rightarrow> (pyobj option \<times> ('c, 'z) cworld_scheme) option" where
  "MrdbCursor_execute_binary api lib sl env = MARIADB_CHECK_CONNECTION (\<lambda>w.
     let (failed, w) = need_stmt sl w in
     if failed then raise_null (throw_handle lib None False w) w
     else do {
       let w = upd_csr (\<lambda>c. c\<lparr>array_size := 0\<rparr>) w;
       let w = lib_do (mysql_stmt_attr_set sl (STMT_ATTR_ARRAY_SIZE 0)) w;
       (failed, w) \<leftarrow> (if gil w then load_parameters api env w else None);
       if failed then Some (None, w)
       else do {
         let w = (if reprepare (csr w)
                then lib_do (mysql_stmt_attr_set sl STMT_ATTR_CB_USER_DATA)
                  (lib_do (mysql_stmt_attr_set sl (STMT_ATTR_PREBIND_PARAMS (pi_paramcount (csr w))))
                    (lib_do (mysql_stmt_attr_set sl (STMT_ATTR_CURSOR_TYPE (cursor_type (csr w)))) w))
                else w);
         let w = (if pi_paramcount (csr w) \<noteq> 0
                then lib_do (mysql_stmt_bind_param sl (cur_params (csr w))) w else w);
         (null, w) \<leftarrow> with_rows api (db_execute_generate_request sl) w;
         if null then Some (None, w)
         else do {
           (rc, w) \<leftarrow> Mrdb_execute_direct api sl w;
           if rc then raise_null (throw_handle lib None True w) w
           else Some (Some PyNone, upd_csr (\<lambda>c. c\<lparr>field_count := mysql_stmt_field_count sl (client w)\<rparr>) w) } } })"

text \<open>
  The statement is a \<open>str\<close> or \<open>bytes\<close> object; when its conversion fails an exception is set and the
  empty statement is sent.
\<close>

definition MrdbCursor_execute_text :: "pyapi \<Rightarrow> 'c clientlib \<Rightarrow> pyobj \<Rightarrow> ('c, 'z) cworld_scheme \<Rightarrow>
    (pyobj option \<times> ('c, 'z) cworld_scheme) option" where
  "MrdbCursor_execute_text api lib stmt = MARIADB_CHECK_CONNECTION (\<lambda>w.
     let send = (\<lambda>s w. do {
       (rc, w) \<leftarrow> blocking api (mysql_send_query lib s) w;
       none_or_raise lib None rc w }) in
     case stmt of
       PyUnicode cs \<Rightarrow>
         (case utf8_encode api cs of
            Some s \<Rightarrow> send s w
          | None \<Rightarrow> do {
              w \<leftarrow> set_error (SetString PyExc_UnicodeError (Text ''surrogates not allowed'')) w;
              send [] w })
     | PyBytes s \<Rightarrow> send s w
     | _ \<Rightarrow> raise_null (SetString PyExc_TypeError (Text ''Parameter must be a string or bytes'')) w)"

definition MrdbCursor_readresponse :: "pyapi \<Rightarrow> 'c clientlib \<Rightarrow> 'c stmtlib \<Rightarrow> ('c, 'z) cworld_scheme \<Rightarrow>
    (pyobj option \<times> ('c, 'z) cworld_scheme) option" where
  "MrdbCursor_readresponse api lib sl = MARIADB_CHECK_CONNECTION (\<lambda>w.
     if pi_is_text (csr w) then do {
       (rc, w) \<leftarrow> blocking api (db_read_query_result lib) w;
       if rc then raise_null (throw_handle lib None False w) w
       else Some (Some PyNone, upd_csr (\<lambda>c. c\<lparr>field_count := mysql_field_count sl (client w)\<rparr>) w) }
     else Some (Some PyNone, w))"

text \<open>The label \<open>error\<close> of the bulk execution.\<close>

definition bulk_error :: "pyapi \<Rightarrow> 'c stmtlib \<Rightarrow> ('c, 'z) cworld_scheme \<Rightarrow>
    (pyobj option \<times> ('c, 'z) cworld_scheme) option" where
  "bulk_error api sl w = map_option (Pair None) (MrdbCursor_clear api sl False w)"

definition MrdbCursor_execute_bulk :: "pyapi \<Rightarrow> 'c clientlib \<Rightarrow> 'c stmtlib \<Rightarrow> alloc_env \<Rightarrow> bool \<Rightarrow> bool \<Rightarrow>
    ('c, 'z) cworld_scheme \<Rightarrow> (pyobj option \<times> ('c, 'z) cworld_scheme) option" where
  "MrdbCursor_execute_bulk api lib sl env alloc_names alloc_vals w = do {
     w \<leftarrow> MARIADB_CHECK_STMT w;
     if py_err w \<noteq> None then Some (None, w)
     else if \<not> data_set (csr w) then raise_null (SetString PyExc_TypeError (Text ''No data provided'')) w
     else
       let (failed, w) = need_stmt sl w in
       if failed then do { w \<leftarrow> set_error (throw_handle lib None False w) w; bulk_error api sl w }
       else do {
         (err, c) \<leftarrow> mariadb_check_bulk_parameters env (csr w) (cur_data (csr w));
         let w = w\<lparr>csr := c, py_err := latest (py_err w) err\<rparr>;
         if err \<noteq> None then bulk_error api sl w
         else do {
           let w = (if reprepare (csr w)
                  then lib_do (mysql_stmt_attr_set sl STMT_ATTR_CB_PARAM)
                    (lib_do (mysql_stmt_attr_set sl STMT_ATTR_CB_USER_DATA)
                      (lib_do (mysql_stmt_attr_set sl (STMT_ATTR_PREBIND_PARAMS (pi_paramcount (csr w)))) w))
                  else w);
           let w = lib_do (mysql_stmt_attr_set sl (STMT_ATTR_ARRAY_SIZE (array_size (csr w)))) w;
           let w = lib_do (mysql_stmt_bind_param sl (cur_params (csr w))) w;
           (null, w) \<leftarrow> with_rows api (db_execute_generate_request sl) w;
           if null then do { w \<leftarrow> set_error (throw_handle lib None True w) w; bulk_error api sl w }
           else do {
             (rc, w) \<leftarrow> Mrdb_execute_direct api sl w;
             if rc then do { w \<leftarrow> set_error (throw_handle lib None True w) w; bulk_error api sl w }
             else do {
               n \<leftarrow> CURSOR_FIELD_COUNT sl w;
               let w = upd_csr (\<lambda>c. c\<lparr>field_count := n\<rparr>) w;
               if field_count (csr w) \<noteq> 0 then do {
                 (r, w) \<leftarrow> MrdbCursor_InitResultSet api lib sl alloc_names alloc_vals w;
                 Some (if r = None then None else Some PyNone, w) }
               else do {
                 n \<leftarrow> CURSOR_AFFECTED_ROWS sl w;
                 id \<leftarrow> CURSOR_INSERT_ID sl w;
                 Some (Some PyNone,
                   upd_csr (\<lambda>c. c\<lparr>affected_rows := n, lastrow_id := id, fetch_values := []\<rparr>) w) } } } } } }"

subsection \<open>Types that need the binary protocol\<close>

text \<open>
  The object looked at for parameter \<open>i\<close>: of a dictionary the item in place \<open>i\<close>, whatever its key.
  Behind the last item the variable \<open>obj\<close> is not assigned, which is a fault.
\<close>

definition text_type_object :: "pyobj \<Rightarrow> nat \<Rightarrow> pyobj option" where
  "text_type_object data i =
     (case dict_items data of
        Some kvs \<Rightarrow> map_option snd (rd kvs i)
      | None \<Rightarrow> ListOrTuple_GetItem data i)"

fun is_binary_type :: "pyobj \<Rightarrow> bool" where
  "is_binary_type (PyBytes b) \<longleftrightarrow> True"
| "is_binary_type (PyOther s) \<longleftrightarrow> s = ''bytearray''"
| "is_binary_type (PyTemporal (PyDate y m d)) \<longleftrightarrow> True"
| "is_binary_type (PyTemporal (PyDateTime y mo d h m s us)) \<longleftrightarrow> True"
| "is_binary_type obj \<longleftrightarrow> False"

fun any_binary_type :: "pyobj \<Rightarrow> nat list \<Rightarrow> bool option" where
  "any_binary_type data [] = Some False"
| "any_binary_type data (i # is) = do {
     obj \<leftarrow> text_type_object data i;
     if is_binary_type obj then Some True else any_binary_type data is }"

definition MrdbCursor_check_text_types :: "MrdbCursor \<Rightarrow> pyobj option" where
  "MrdbCursor_check_text_types c =
     (if \<not> data_set c \<or> pi_paramcount c = 0 then Some PyNone
      else map_option (\<lambda>b. if b then PyBool True else PyNone)
        (any_binary_type (cur_data c) [0..<unat (pi_paramcount c)]))"

subsection \<open>The environment of the methods\<close>

text \<open>What the methods are given besides the world: the library, and the outcomes of allocations.\<close>

record 'c cursor_env =
  e_api :: pyapi
  e_lib :: "'c clientlib"
  e_sl :: "'c stmtlib"
  e_parse :: parse_env
  e_alloc :: alloc_env
  e_names :: bool
  e_values :: bool

end
