(* ===== verification/Mrdb_Connection_Safety.thy ===== *)
theory Mrdb_Connection_Safety
  imports Mrdb_Connection "HOL-Library.Sublist"
begin

text \<open>
  Properties of connections: every method keeps the discipline of the interpreter lock and the
  exception protocol, a closed connection rejects its methods and stays closed, and establishing
  a connection succeeds exactly without an exception.
\<close>

subsection \<open>The contract of a method\<close>

text \<open>
  What a method may do to a connection: the lock is held again, the handle never comes back, a
  closed connection stays closed and has no handle, the log of the status callback only grows.
\<close>

definition conn_step :: "('c, 'z) world_scheme \<Rightarrow> ('c, 'z) world_scheme \<Rightarrow> bool" where
  "conn_step w w' \<longleftrightarrow> locked w' \<and> (mysql w' \<longrightarrow> mysql w) \<and> (conn_closed w \<longrightarrow> conn_closed w') \<and>
     (conn_closed w' \<longrightarrow> conn_closed w \<or> \<not> mysql w') \<and> status_callback w' = status_callback w \<and>
     prefix (notified w) (notified w') \<and> world.more w' = world.more w"

definition conn_ok :: "('c, 'z) world_scheme \<Rightarrow> bool" where
  "conn_ok w \<longleftrightarrow> locked w \<and> (conn_closed w \<longrightarrow> \<not> mysql w)"

lemma conn_step_refl: "locked w \<Longrightarrow> conn_step w w"
  by (simp add: conn_step_def)

lemma conn_step_trans: "conn_step w w' \<Longrightarrow> conn_step w' w'' \<Longrightarrow> conn_step w w''"
  by (auto simp: conn_step_def)

text \<open>What a method returns: a null pointer only with an exception set.\<close>

definition method_post :: "('c, 'z) world_scheme \<Rightarrow> 'r option \<times> ('c, 'z) world_scheme \<Rightarrow> bool" where
  "method_post w = (\<lambda>(r, w'). conn_step w w' \<and> (r = None \<longrightarrow> py_err w' \<noteq> None))"

locale conn_method =
  fixes m :: "('c, 'z) world_scheme \<Rightarrow> ('r option \<times> ('c, 'z) world_scheme) option"
    and ok :: "('c, 'z) world_scheme \<Rightarrow> bool"
  assumes returns: "locked w \<Longrightarrow> ok w \<Longrightarrow> wp (m w) (method_post w)"
begin

lemma keeps_conn: "conn_ok w \<Longrightarrow> ok w \<Longrightarrow> wp (m w) (\<lambda>(r, w'). conn_ok w' \<and> conn_step w w')"
  by (rule wp_mono [OF returns]) (auto simp: conn_ok_def conn_step_def method_post_def)

lemma stays_closed: "conn_ok w \<Longrightarrow> ok w \<Longrightarrow> conn_closed w \<Longrightarrow> wp (m w) (\<lambda>(r, w'). conn_closed w' \<and> \<not> mysql w')"
  by (rule wp_mono [OF returns]) (auto simp: conn_ok_def conn_step_def method_post_def)

end

text \<open>A method that begins with the check of the connection.\<close>

locale checked_method = conn_method m ok
  for m :: "('c, 'z) world_scheme \<Rightarrow> ('r option \<times> ('c, 'z) world_scheme) option"
    and ok :: "('c, 'z) world_scheme \<Rightarrow> bool" +
  assumes rejects: "\<not> mysql w \<Longrightarrow> m w = raise_null invalid_connection w"
begin

lemma rejects_closed:
  "conn_ok w \<Longrightarrow> conn_closed w \<Longrightarrow> m w = Some (None, w\<lparr>py_err := Some invalid_connection\<rparr>)"
  using rejects [of w] by (simp add: conn_ok_def locked_def raise_null_def set_error_def)

end

subsection \<open>The methods\<close>

text \<open>
  What the methods rely on in the library: acceptable status information, and the documented
  bound of \<open>mysql_real_escape_string\<close>, twice the length of its argument.
\<close>

definition lib_ok :: "pyapi \<Rightarrow> 'c clientlib \<Rightarrow> bool" where
  "lib_ok api lib \<longleftrightarrow>
     (\<forall>a. call_ok api (mysql_real_connect lib a)) \<and> (\<forall>q. call_ok api (mysql_send_query lib q)) \<and>
     call_ok api (db_read_query_result lib) \<and> call_ok api (mysql_ping lib) \<and>
     (\<forall>u p d. call_ok api (mysql_change_user lib u p d)) \<and> call_ok api (mariadb_reconnect lib) \<and>
     call_ok api (mysql_reset_connection lib) \<and> call_ok api (mysql_dump_debug_info lib) \<and>
     (\<forall>s c. length (mysql_real_escape_string lib s c) \<le> 2 * length s)"

lemma after_info_step: "locked w \<Longrightarrow> conn_step w (after_info api info w)"
  by (auto simp: conn_step_def after_info_def locked_def Let_def split: option.split)

lemma after_infos_step: "locked w \<Longrightarrow> conn_step w (fold (after_info api) infos w)"
proof (induction infos arbitrary: w)
  case (Cons info infos)
  show ?case
    using after_info_step [OF Cons(2), of api info] Cons(1) [of "after_info api info w"]
    by (auto simp: conn_step_def)
qed (simp add: conn_step_refl)

lemma client_step: "conn_step (w\<lparr>client := c\<rparr>) w' = conn_step w w'"
  by (simp add: conn_step_def)

lemma after_call_step: "locked w \<Longrightarrow> conn_step w (after_call api f w)"
  using after_infos_step [of "w\<lparr>client := snd (snd (f (client w)))\<rparr>" api "call_infos f (client w)"]
  by (simp add: after_call_def client_step locked_def)

lemma err_step [simp]:
  "conn_step w (w'\<lparr>py_err := e\<rparr>) = conn_step w w'" "conn_step w (w'\<lparr>client := c\<rparr>) = conn_step w w'"
  by (simp_all add: conn_step_def locked_def)

text \<open>One rule per shape of a method.\<close>

lemma raise_null_wp: "conn_step v w \<Longrightarrow> wp (raise_null e w) (method_post v)"
  by (simp add: raise_null_def set_error_def conn_step_def locked_def method_post_def wp_simps)

lemma return_wp: "conn_step v w \<Longrightarrow> wp (Some (Some r, w)) (method_post v)"
  by (simp add: method_post_def wp_simps)

lemma none_or_raise_wp: "conn_step v w \<Longrightarrow> wp (none_or_raise lib ty rc w) (method_post v)"
  by (simp add: none_or_raise_def return_wp raise_null_wp)

lemma call_wp:
  assumes "conn_step v w" "call_ok api f"
    and "\<And>rc w'. conn_step v w' \<Longrightarrow> wp (k rc w') Q"
  shows "wp (Option.bind (blocking api f w) (\<lambda>(rc, w'). k rc w')) Q"
proof -
  have "locked w" using assms(1) by (simp add: conn_step_def)
  moreover have "conn_step v (after_call api f w)"
    using conn_step_trans [OF assms(1) after_call_step] \<open>locked w\<close> by blast
  ultimately show ?thesis using assms(2,3) by (simp add: blocking_eq wp_simps)
qed

lemma check_wp:
  assumes "locked w" "mysql w \<Longrightarrow> wp (body w) (method_post w)"
  shows "wp (MARIADB_CHECK_CONNECTION body w) (method_post w)"
  using assms raise_null_wp [OF conn_step_refl] by (auto simp: MARIADB_CHECK_CONNECTION_def)

lemma new_unicode_wp: "conn_step v w \<Longrightarrow> wp (new_unicode api s w) (method_post v)"
  by (simp add: new_unicode_def return_wp raise_null_wp split: option.split)

lemma close_handle_wp:
  "locked w \<Longrightarrow> wp (close_handle lib w) (\<lambda>w'. conn_step w w' \<and> \<not> mysql w' \<and> conn_closed w' = conn_closed w)"
  by (simp add: close_handle_def MARIADB_BEGIN_ALLOW_THREADS_def MARIADB_END_ALLOW_THREADS_def lib_do_def
      locked_def conn_step_def wp_simps)

lemmas method_wps = call_wp none_or_raise_wp return_wp raise_null_wp new_unicode_wp conn_step_refl

lemma check_rejects: "\<not> mysql w \<Longrightarrow> MARIADB_CHECK_CONNECTION body w = raise_null invalid_connection w"
  by (simp add: MARIADB_CHECK_CONNECTION_def)

interpretation ping: checked_method "MrdbConnection_ping api lib" "\<lambda>w. lib_ok api lib" for api lib
  by unfold_locales
    (auto simp: MrdbConnection_ping_def lib_ok_def check_rejects intro!: check_wp method_wps)

interpretation reset: checked_method "MrdbConnection_reset api lib" "\<lambda>w. lib_ok api lib" for api lib
  by unfold_locales
    (auto simp: MrdbConnection_reset_def lib_ok_def check_rejects intro!: check_wp method_wps)

interpretation dump: checked_method "MrdbConnection_dump_debug_info api lib" "\<lambda>w. lib_ok api lib" for api lib
  by unfold_locales
    (auto simp: MrdbConnection_dump_debug_info_def lib_ok_def check_rejects intro!: check_wp method_wps)

interpretation change_user: checked_method "MrdbConnection_change_user api lib args" "\<lambda>w. lib_ok api lib"
  for api lib args
  by unfold_locales
    (auto simp: MrdbConnection_change_user_def lib_ok_def check_rejects intro!: check_wp method_wps split: sum.split)

text \<open>The command must be a string that can be encoded.\<close>

interpretation executecommand: checked_method "MrdbConnection_executecommand api lib cmd"
  "\<lambda>w. lib_ok api lib \<and> as_utf8 api cmd \<noteq> None" for api lib cmd
  by unfold_locales
    (auto simp: MrdbConnection_executecommand_def lib_ok_def check_rejects intro!: check_wp method_wps)

interpretation reconnect: checked_method "MrdbConnection_reconnect api lib" "\<lambda>w. lib_ok api lib" for api lib
  by unfold_locales
    (auto simp: MrdbConnection_reconnect_def lib_ok_def check_rejects lib_do_def Let_def intro!: check_wp method_wps)

text \<open>Without a handle \<open>_read_response\<close> dereferences a null pointer.\<close>

interpretation readresponse: conn_method "MrdbConnection_readresponse api lib"
  "\<lambda>w. lib_ok api lib \<and> mysql w" for api lib
  by unfold_locales
    (auto simp: MrdbConnection_readresponse_def lib_ok_def intro!: method_wps)

interpretation close: checked_method "MrdbConnection_close lib" "\<lambda>w. True" for lib
proof unfold_locales
  fix w :: "('a, 'b) world_scheme"
  assume "locked w"
  then show "wp (MrdbConnection_close lib w) (method_post w)"
    using close_handle_wp [of w lib]
    by (intro check_wp [where body = "\<lambda>w. Option.bind (close_handle lib w) (\<lambda>w. Some (Some PyNone, w\<lparr>conn_closed := True\<rparr>))",
          folded MrdbConnection_close_def])
      (auto simp: wp_simps conn_step_def method_post_def locked_def elim!: wp_mono)
qed (simp add: MrdbConnection_close_def check_rejects)

interpretation connection_id: checked_method "MrdbConnection_connection_id lib" "\<lambda>w. True" for lib
  by unfold_locales
    (auto simp: MrdbConnection_connection_id_def check_rejects intro!: check_wp method_wps)

interpretation conn_warnings: checked_method "MrdbConnection_warnings lib" "\<lambda>w. True" for lib
  by unfold_locales
    (auto simp: MrdbConnection_warnings_def check_rejects intro!: check_wp method_wps)

interpretation socket: checked_method "MrdbConnection_socket lib" "\<lambda>w. True" for lib
  by unfold_locales
    (auto simp: MrdbConnection_socket_def check_rejects intro!: check_wp method_wps)

text \<open>A string that cannot be encoded has no bytes to escape; a failed allocation sets no exception.\<close>

interpretation escape_string: checked_method "MrdbConnection_escape_string api lib True str"
  "\<lambda>w. lib_ok api lib \<and> (\<forall>cs. str = PyUnicode cs \<longrightarrow> utf8_encode api cs \<noteq> None)" for api lib str
  by unfold_locales
    (auto simp: MrdbConnection_escape_string_def lib_ok_def check_rejects wp_simps mult.commute
      intro!: check_wp method_wps split: pyobj.split)

text \<open>A certificate whose texts and times cannot be converted is a fault.\<close>

definition cert_ok :: "pyapi \<Rightarrow> 'c clientlib \<Rightarrow> 'c \<Rightarrow> bool" where
  "cert_ok api lib c \<longleftrightarrow> MrdbConnection_X509info api (peer_cert lib c) \<noteq> None"

lemma info_object_wp:
  "conn_step v w \<Longrightarrow> cert_ok api lib (client w) \<Longrightarrow> wp (info_object api lib opt val w) (method_post v)"
  by (auto simp: info_object_def cert_ok_def intro!: method_wps split: option.split)

lemma set_error_step: "conn_step v w \<Longrightarrow> set_error e w = Some (w\<lparr>py_err := Some e\<rparr>)"
  by (simp add: set_error_def conn_step_def locked_def)

interpretation getinfo: conn_method "MrdbConnection_getinfo api lib optionval"
  "\<lambda>w. cert_ok api lib (client w)" for api lib optionval
proof unfold_locales
  fix w :: "('a, 'b) world_scheme"
  assume w: "locked w" "cert_ok api lib (client w)"
  show "wp (MrdbConnection_getinfo api lib optionval w) (method_post w)"
    using w
    by (auto simp: MrdbConnection_getinfo_def wp_simps set_error_step [OF conn_step_refl] conn_step_refl Let_def
        intro!: raise_null_wp info_object_wp split: option.split)
qed

interpretation getreconnect: conn_method "MrdbConnection_getreconnect lib" "\<lambda>w. True" for lib
  by unfold_locales (auto simp: MrdbConnection_getreconnect_def intro!: method_wps)

interpretation repr: conn_method "MrdbConnection_repr api address" "\<lambda>w. True" for api address
  by unfold_locales (auto simp: MrdbConnection_repr_def intro!: method_wps)

text \<open>The setter as a method: -1 is the null pointer.\<close>

definition set_auto_reconnect :: "'c clientlib \<Rightarrow> pyobj option \<Rightarrow> ('c, 'z) world_scheme \<Rightarrow>
    (pyobj option \<times> ('c, 'z) world_scheme) option" where
  "set_auto_reconnect lib args w =
     map_option (\<lambda>(rc, w). (if rc then None else Some PyNone, w)) (MrdbConnection_setreconnect lib args w)"

interpretation setreconnect: conn_method "set_auto_reconnect lib args" "\<lambda>w. True" for lib args
  by unfold_locales
    (auto simp: set_auto_reconnect_def MrdbConnection_setreconnect_def wp_simps method_post_def conn_step_refl lib_do_def
      set_error_step [OF conn_step_refl] split: option.split pyobj.split)

subsection \<open>Sequences of calls\<close>

datatype conn_call =
    Close | Ping | Reset | Dump | Reconnect
  | ChangeUser "pyerr + bytes \<times> bytes option \<times> bytes option"
  | ExecuteCommand pyobj | ReadResponse
  | ConnectionId | Warnings | Socket
  | GetReconnect | SetReconnect "pyobj option"
  | EscapeString pyobj | GetInfo pyobj | Repr bytes

fun run_call :: "pyapi \<Rightarrow> 'c clientlib \<Rightarrow> conn_call \<Rightarrow> ('c, 'z) world_scheme \<Rightarrow>
    (pyobj option \<times> ('c, 'z) world_scheme) option" where
  "run_call api lib Close = MrdbConnection_close lib"
| "run_call api lib Ping = MrdbConnection_ping api lib"
| "run_call api lib Reset = MrdbConnection_reset api lib"
| "run_call api lib Dump = MrdbConnection_dump_debug_info api lib"
| "run_call api lib Reconnect = MrdbConnection_reconnect api lib"
| "run_call api lib (ChangeUser args) = MrdbConnection_change_user api lib args"
| "run_call api lib (ExecuteCommand cmd) = MrdbConnection_executecommand api lib cmd"
| "run_call api lib ReadResponse = MrdbConnection_readresponse api lib"
| "run_call api lib ConnectionId = MrdbConnection_connection_id lib"
| "run_call api lib Warnings = MrdbConnection_warnings lib"
| "run_call api lib Socket = MrdbConnection_socket lib"
| "run_call api lib GetReconnect = MrdbConnection_getreconnect lib"
| "run_call api lib (SetReconnect args) = set_auto_reconnect lib args"
| "run_call api lib (EscapeString str) = MrdbConnection_escape_string api lib True str"
| "run_call api lib (GetInfo optionval) = MrdbConnection_getinfo api lib optionval"
| "run_call api lib (Repr address) = MrdbConnection_repr api address"

text \<open>
  The calls that cannot dereference a null pointer: an encodable string where one is needed, a
  handle for \<open>_read_response\<close>, a convertible certificate for \<open>_mariadb_get_info\<close>.
\<close>

fun call_safe :: "pyapi \<Rightarrow> 'c clientlib \<Rightarrow> conn_call \<Rightarrow> ('c, 'z) world_scheme \<Rightarrow> bool" where
  "call_safe api lib (ExecuteCommand cmd) w \<longleftrightarrow> as_utf8 api cmd \<noteq> None"
| "call_safe api lib ReadResponse w \<longleftrightarrow> mysql w"
| "call_safe api lib (EscapeString str) w \<longleftrightarrow> (\<forall>cs. str = PyUnicode cs \<longrightarrow> utf8_encode api cs \<noteq> None)"
| "call_safe api lib (GetInfo optionval) w \<longleftrightarrow> cert_ok api lib (client w)"
| "call_safe api lib call w \<longleftrightarrow> True"

text \<open>The calls that begin with the check of the connection.\<close>

definition checks_connection :: "conn_call \<Rightarrow> bool" where
  "checks_connection call \<longleftrightarrow>
     (case call of ReadResponse \<Rightarrow> False | GetReconnect \<Rightarrow> False | SetReconnect _ \<Rightarrow> False
      | GetInfo _ \<Rightarrow> False | Repr _ \<Rightarrow> False | _ \<Rightarrow> True)"

lemma run_call_returns:
  assumes "lib_ok api lib" "locked w" "call_safe api lib call w"
  shows "wp (run_call api lib call w) (method_post w)"
  using assms
  by (cases call)
    (auto intro!: ping.returns reset.returns dump.returns change_user.returns
      executecommand.returns reconnect.returns readresponse.returns close.returns
      connection_id.returns conn_warnings.returns socket.returns escape_string.returns
      getinfo.returns getreconnect.returns setreconnect.returns repr.returns)

lemma run_call_rejects:
  assumes "conn_ok w" "conn_closed w" "checks_connection call"
  shows "run_call api lib call w = Some (None, w\<lparr>py_err := Some invalid_connection\<rparr>)"
  using assms
  by (cases call)
    (simp_all add: checks_connection_def ping.rejects_closed reset.rejects_closed dump.rejects_closed
      change_user.rejects_closed executecommand.rejects_closed reconnect.rejects_closed
      close.rejects_closed connection_id.rejects_closed conn_warnings.rejects_closed
      socket.rejects_closed escape_string.rejects_closed)

text \<open>A program that makes safe calls: between two calls the interpreter handles the exception.\<close>

inductive conn_reach :: "pyapi \<Rightarrow> 'c clientlib \<Rightarrow> ('c, 'z) world_scheme \<Rightarrow> ('c, 'z) world_scheme \<Rightarrow> bool"
  for api lib where
  start: "conn_reach api lib w w"
| call: "conn_reach api lib w w' \<Longrightarrow> call_safe api lib cl w' \<Longrightarrow>
    run_call api lib cl w' = Some (r, w'') \<Longrightarrow> conn_reach api lib w (w''\<lparr>py_err := None\<rparr>)"

lemma conn_reach_inv:
  assumes "conn_reach api lib w w'" "lib_ok api lib" "conn_ok w"
  shows "conn_ok w' \<and> conn_step w w'"
  using assms
proof induction
  case (start w) then show ?case by (simp add: conn_ok_def conn_step_refl)
next
  case (call w w' cl r w'')
  then have "conn_step w' w''"
    using wpD [OF run_call_returns [OF call(5) _ call(2)] call(3)] by (auto simp: method_post_def conn_ok_def)
  then show ?case using call conn_step_trans [of w w' w''] by (auto simp: conn_ok_def conn_step_def locked_def)
qed

subsection \<open>Properties\<close>

text \<open>A library for the examples: its state counts the calls, and every answer reports the status 2.\<close>

definition sample_call :: "nat server_call" where
  "sample_call c = (False, [STATUS_TYPE 2], Suc c)"

definition sample_lib :: "nat clientlib" where
  "sample_lib = \<lparr>mysql_init = (\<lambda>c. (True, c)), set_status_callback = (\<lambda>c. (False, c)),
     mysql_options = (\<lambda>opt c. (False, c)), mysql_real_connect = (\<lambda>a. sample_call),
     lib_diag = (\<lambda>c. no_diag), mysql_get_ssl_cipher = (\<lambda>c. False), connection_host = (\<lambda>c. Some ''db''),
     mysql_close = Suc, mysql_send_query = (\<lambda>q. sample_call), db_read_query_result = sample_call,
     mysql_ping = sample_call, mysql_change_user = (\<lambda>u p d. sample_call), mariadb_reconnect = sample_call,
     mysql_reset_connection = sample_call, mysql_dump_debug_info = sample_call,
     get_reconnect_option = (\<lambda>c. False), set_reconnect_option = (\<lambda>b c. c),
     mariadb_get_infov = (\<lambda>h opt c. None), peer_cert = (\<lambda>c. None), mysql_thread_id = (\<lambda>c. 7),
     mysql_warning_count = (\<lambda>c. 0), mysql_get_socket = (\<lambda>c. 3),
     mysql_real_escape_string = (\<lambda>s c. concat (map (\<lambda>x. if x = CHR 0x27 then [x, x] else [x]) s))\<rparr>"

definition sample_world :: "nat world" where
  "sample_world = \<lparr>gil = True, py_err = None, client = 0, notified = [], thread_state = False, mysql = True,
     conn_closed = False, host = Some ''db'', status_callback = Some (\<lambda>d. None), tls_in_use = False\<rparr>"

lemma sample_call_ok [simp]: "call_ok api sample_call"
  by (simp add: call_ok_def call_infos_def sample_call_def)

lemma sample_escape: "length (concat (map (\<lambda>x. if P x then [x, x] else [x]) s)) \<le> 2 * length s"
  by (induction s) auto

lemma sample_lib_ok: "lib_ok api sample_lib"
  by (simp add: lib_ok_def sample_lib_def sample_escape)

lemma sample_world_ok: "conn_ok sample_world" "locked sample_world"
  by (simp_all add: conn_ok_def locked_def sample_world_def)

text \<open>
  C7: whatever safe calls a program makes on a connection, the interpreter lock is held between
  them and no thread state is left behind, a closed connection has no handle and stays closed; the
  next safe call returns, and it returns a null pointer only with an exception set.
\<close>

theorem connection_calls_safe:
  assumes "lib_ok api lib" "conn_ok w" "conn_reach api lib w w'" "call_safe api lib cl w'"
  shows "gil w' \<and> \<not> thread_state w' \<and> (conn_closed w' \<longrightarrow> \<not> mysql w') \<and> (conn_closed w \<longrightarrow> conn_closed w') \<and>
    (\<exists>r w''. run_call api lib cl w' = Some (r, w'') \<and> (r = None \<longrightarrow> py_err w'' \<noteq> None))"
proof -
  have w': "conn_ok w'" "conn_step w w'" using conn_reach_inv [OF assms(3,1,2)] by auto
  then have "wp (run_call api lib cl w') (method_post w')"
    using run_call_returns [OF assms(1) _ assms(4)] by (simp add: conn_ok_def)
  then show ?thesis using w' by (auto simp: wp_def method_post_def conn_ok_def conn_step_def locked_def)
qed

theorem connection_calls_safe_witness:
  "\<exists>w'. conn_reach ref_api sample_lib sample_world w' \<and> gil w' \<and> conn_closed w' \<and> \<not> mysql w' \<and>
     (\<exists>r w''. run_call ref_api sample_lib Ping w' = Some (r, w'') \<and> (r = None \<longrightarrow> py_err w'' \<noteq> None))"
proof -
  let ?w = "sample_world\<lparr>client := 1, mysql := False, conn_closed := True, py_err := None\<rparr>"
  have "run_call ref_api sample_lib Close sample_world =
      Some (Some PyNone, sample_world\<lparr>client := 1, mysql := False, conn_closed := True\<rparr>)"
    by (simp add: MrdbConnection_close_def MARIADB_CHECK_CONNECTION_def close_handle_def lib_do_def sample_world_def
        MARIADB_BEGIN_ALLOW_THREADS_def MARIADB_END_ALLOW_THREADS_def sample_lib_def)
  from conn_reach.call [OF conn_reach.start _ this] have r: "conn_reach ref_api sample_lib sample_world ?w" by simp
  have "conn_closed ?w" by simp
  then show ?thesis
    using connection_calls_safe [OF sample_lib_ok sample_world_ok(1) r, of Ping] r
    by (intro exI [of _ ?w]) simp
qed

text \<open>On a closed connection no call reaches the library.\<close>

lemma raise_null_client: "wlp (raise_null e w) (\<lambda>(r, w'). client w' = client w)"
  by (simp add: raise_null_def set_error_def wp_simps)

lemma new_unicode_client: "wlp (new_unicode api s w) (\<lambda>(r, w'). client w' = client w)"
  by (simp add: new_unicode_def wp_Some raise_null_client split: option.split)

lemma info_object_client: "wlp (info_object api lib opt val w) (\<lambda>(r, w'). client w' = client w)"
  by (auto simp: info_object_def new_unicode_client wp_Some wp_map_option wlp_all split: option.split)

lemma getinfo_client: "wlp (MrdbConnection_getinfo api lib optionval w) (\<lambda>(r, w'). client w' = client w)"
  using info_object_client [of api lib _ _ "w\<lparr>py_err := Some overflow_error\<rparr>"]
    raise_null_client [of _ "w\<lparr>py_err := Some overflow_error\<rparr>"]
  by (auto simp: MrdbConnection_getinfo_def set_error_def Let_def wp_simps info_object_client raise_null_client
      split: option.split)

lemma run_call_client:
  assumes "conn_ok w" "conn_closed w" "call_safe api lib cl w" "run_call api lib cl w = Some (r, w')"
  shows "client w' = client w"
proof (cases "checks_connection cl")
  case True
  then show ?thesis using run_call_rejects [OF assms(1,2) True, of api lib] assms(4) by auto
next
  case False
  then show ?thesis
    using assms by (cases cl)
      (auto simp: checks_connection_def conn_ok_def MrdbConnection_getreconnect_def set_auto_reconnect_def
        MrdbConnection_setreconnect_def MrdbConnection_repr_def
        dest: wlpD [OF getinfo_client] wlpD [OF new_unicode_client])
qed

lemma conn_reach_client:
  assumes "conn_reach api lib w w'" "lib_ok api lib" "conn_ok w" "conn_closed w"
  shows "client w' = client w"
  using assms
proof induction
  case (call w w' cl r w'')
  then have "conn_ok w'" "conn_closed w'"
    using conn_reach_inv [OF call(1,5,6)] by (auto simp: conn_step_def)
  then show ?case using call run_call_client [OF _ _ call(2,3)] by simp
qed simp

text \<open>
  C8: once a connection was closed, every method that checks the connection raises an
  \<open>InterfaceError\<close> and changes nothing else, however many calls were made in between, and none
  of these calls reaches the library.
\<close>

theorem closed_connection_rejects:
  assumes "lib_ok api lib" "conn_ok w" "mysql w" "MrdbConnection_close lib w = Some (r, w1)"
    and "conn_reach api lib w1 w2" "checks_connection cl"
  shows "run_call api lib cl w2 = Some (None, w2\<lparr>py_err := Some invalid_connection\<rparr>) \<and> client w2 = client w1"
proof -
  have ok: "conn_ok w1"
    using wpD [OF close.keeps_conn [OF assms(2)] assms(4)] by simp
  moreover have closed: "conn_closed w1"
    using assms(3,4) by (auto simp: MrdbConnection_close_def MARIADB_CHECK_CONNECTION_def bind_eq_Some_conv)
  ultimately have "conn_ok w2" "conn_closed w2"
    using conn_reach_inv [OF assms(5,1)] by (auto simp: conn_step_def)
  then show ?thesis
    using run_call_rejects [OF _ _ assms(6), of w2 api lib] conn_reach_client [OF assms(5,1) ok closed] by simp
qed

theorem closed_connection_rejects_witness:
  "\<exists>w1. MrdbConnection_close sample_lib sample_world = Some (Some PyNone, w1) \<and>
     MrdbConnection_ping ref_api sample_lib w1 = Some (None, w1\<lparr>py_err := Some invalid_connection\<rparr>)"
proof -
  let ?w = "sample_world\<lparr>client := 1, mysql := False, conn_closed := True\<rparr>"
  have c: "MrdbConnection_close sample_lib sample_world = Some (Some PyNone, ?w)"
    by (simp add: MrdbConnection_close_def MARIADB_CHECK_CONNECTION_def close_handle_def lib_do_def sample_world_def
        MARIADB_BEGIN_ALLOW_THREADS_def MARIADB_END_ALLOW_THREADS_def sample_lib_def)
  show ?thesis
    using closed_connection_rejects [OF sample_lib_ok sample_world_ok(1) _ c conn_reach.start, of Ping ref_api] c
    by (simp add: checks_connection_def sample_world_def)
qed

text \<open>
  C9: during a blocking call the lock is free; the status callback nevertheless runs with the lock
  held, once for each piece of status information and in the order the server sent them, and
  afterwards the lock is held as before the call.
\<close>

theorem status_callback_runs_locked:
  assumes "locked w" "f (client w) = (rc, infos, c)" "list_all (info_ok api) infos" "status_callback w = Some g"
  shows "\<exists>w'. blocking api f w = Some (rc, w') \<and> gil w' \<and> \<not> thread_state w' \<and> client w' = c \<and>
    notified w' = notified w @ concat (map (info_dicts api) infos)"
proof -
  have log: "notified (fold (after_info api) infos v) = notified v @ concat (map (info_dicts api) infos)"
    if "status_callback v = Some g" for v :: "('a, 'b) world_scheme"
    using that by (induction infos arbitrary: v) (simp_all add: after_info_def Let_def)
  let ?f = "\<lambda>x. (rc, infos, c)"
  have "blocking api f w = blocking api ?f w"
    using assms(2) by (simp add: blocking_def server_call_def MARIADB_BEGIN_ALLOW_THREADS_def)
  also have "\<dots> = Some (rc, after_call api ?f w)"
    using blocking_eq [OF assms(1), of api ?f] assms(3) by (simp add: call_ok_def call_infos_def call_rc_def)
  finally show ?thesis
    using assms(1,4) log [of "w\<lparr>client := c\<rparr>"] after_call_step [OF assms(1), of api ?f]
    by (auto simp: after_call_def call_infos_def conn_step_def locked_def)
qed

theorem status_callback_runs_locked_witness:
  "\<exists>w'. blocking ref_api sample_call sample_world = Some (False, w') \<and> gil w' \<and>
     notified w' = [PyDict [(unicode ''server_status'', PyLong 2)]]"
  using status_callback_runs_locked [of sample_world sample_call False "[STATUS_TYPE 2]" 1 ref_api "\<lambda>d. None"] sample_world_ok(2)
  by (auto simp: sample_world_def sample_call_def)

subsection \<open>Establishing a connection\<close>

lemma connect_server_wp:
  assumes "lock_ok w" "lib_ok api lib"
  shows "wp (connect_server api lib plugins a w) (\<lambda>(err, w'). gil w' = gil w \<and> thread_state w' = thread_state w \<and>
    mysql w' = mysql w \<and> (\<not> err \<longrightarrow> mysql_errno (lib_diag lib (client w')) = 0))"
proof -
  obtain err c where o: "set_options lib (connect_options plugins a) (client w) = (err, c)" by fastforce
  let ?w = "w\<lparr>client := c\<rparr>"
  have "lock_ok ?w" "call_ok api (mysql_real_connect lib a)"
    using assms by (simp_all add: lock_ok_def lib_ok_def)
  from server_call_eq [OF this] after_call_frame(1) [of ?w api "mysql_real_connect lib a"] show ?thesis
    by (auto simp: connect_server_def o Let_def wp_simps same_conn_def)
qed

definition init_post :: "'c clientlib \<Rightarrow> bool \<times> ('c, 'z) world_scheme \<Rightarrow> bool" where
  "init_post lib = (\<lambda>(failed, w'). gil w' \<and> \<not> thread_state w' \<and> (failed \<longleftrightarrow> py_err w' \<noteq> None) \<and>
     (\<not> failed \<longrightarrow> mysql w' \<and> mysql_errno (lib_diag lib (client w')) = 0))"

lemma connect_wp:
  assumes "locked v" "mysql v" "lib_ok api lib"
  shows "wp (Option.bind (MARIADB_BEGIN_ALLOW_THREADS v) (\<lambda>w.
      Option.bind (connect_server api lib plugins a w) (\<lambda>(has_error, w).
      Option.bind (MARIADB_END_ALLOW_THREADS w) (\<lambda>w.
      if has_error then map_option (Pair True) (set_error (throw_handle lib None False w) w)
      else Some (py_err w \<noteq> None, w))))) (init_post lib)"
proof -
  let ?u = "v\<lparr>gil := False, thread_state := True\<rparr>"
  have "wp (connect_server api lib plugins a ?u) (\<lambda>(err, w'). \<not> gil w' \<and> thread_state w' \<and> mysql w' \<and>
      (\<not> err \<longrightarrow> mysql_errno (lib_diag lib (client w')) = 0))"
    using connect_server_wp [OF _ assms(3), of ?u plugins a] assms(2) by (simp add: lock_ok_def)
  then show ?thesis
    using assms(1)
    by (auto simp: MARIADB_BEGIN_ALLOW_THREADS_def MARIADB_END_ALLOW_THREADS_def locked_def wp_simps set_error_def
        init_post_def split: prod.split elim!: wp_mono)
qed

text \<open>
  C10: \<open>MrdbConnection_Initialize\<close> follows the protocol of \<open>tp_init\<close>: it reports failure exactly
  when an exception is set, in whatever step it fails (arguments, handle, options, connect, status
  callback); on success there is a handle whose last operation had no error. The lock is held
  afterwards in either case.
\<close>

theorem initialize_outcome:
  assumes "lib_ok api lib" "locked w"
  shows "\<exists>failed w'. MrdbConnection_Initialize api lib plugins warning args w = Some (failed, w') \<and>
    gil w' \<and> \<not> thread_state w' \<and> (failed \<longleftrightarrow> py_err w' \<noteq> None) \<and>
    (\<not> failed \<longrightarrow> mysql w' \<and> mysql_errno (lib_diag lib (client w')) = 0)"
proof -
  have err: "wp (map_option (Pair True) (set_error e v)) (init_post lib)" if "locked v" for e and v :: "('a, 'b) world_scheme"
    using that by (simp add: set_error_def locked_def init_post_def wp_simps)
  have tail: "wp (Option.bind (case e of Some e \<Rightarrow> set_error e v | None \<Rightarrow> Some v) k) Q"
    if "locked v" "wp (k v) Q" "\<And>x. wp (k (v\<lparr>py_err := x\<rparr>)) Q" for e k Q and v :: "('a, 'b) world_scheme"
    using that by (simp add: set_error_def locked_def wp_simps split: option.split)
  have "wp (MrdbConnection_Initialize api lib plugins warning args w) (init_post lib)"
    using assms
    by (auto simp: MrdbConnection_Initialize_def Let_def locked_def err split: sum.split prod.split
        intro!: err tail connect_wp)
  then show ?thesis by (auto simp: wp_def init_post_def)
qed

definition sample_args :: conn_args where
  "sample_args = \<lparr>arg_dsn = None, arg_host = Some ''localhost'', arg_user = Some ''u'', arg_password = None,
     arg_schema = None, arg_port = 3306, arg_socket = None, arg_connect_timeout = 5, arg_read_timeout = 0,
     arg_write_timeout = 0, arg_local_infile = 0xFF, arg_compress = 0, arg_init_command = None,
     arg_default_file = None, arg_default_group = None, arg_ssl_key = None, arg_ssl_ca = None,
     arg_ssl_cert = None, arg_ssl_crl = None, arg_ssl_cipher = None, arg_ssl_capath = None,
     arg_ssl_crlpath = None, arg_ssl_verify_cert = 0, arg_ssl_enforce = 0, arg_client_flags = 0,
     arg_plugin_dir = None, arg_status_callback = None, arg_tls_version = None, arg_tls_fp = None,
     arg_tls_fp_list = None\<rparr>"

theorem initialize_outcome_witness:
  "\<exists>w'. MrdbConnection_Initialize ref_api sample_lib None None (Inr sample_args) sample_world = Some (False, w') \<and>
     gil w' \<and> mysql w' \<and> client w' = 1"
proof -
  have o: "set_options sample_lib opts c = (False, c)" for opts c
    by (induction opts) (simp_all add: sample_lib_def)
  have lib: "mysql_init sample_lib c = (True, c)" "set_status_callback sample_lib c = (False, c)"
    "mysql_real_connect sample_lib a = sample_call" "lib_diag sample_lib c = no_diag"
    "mysql_get_ssl_cipher sample_lib c = False" "connection_host sample_lib c = Some ''db''" for c a
    by (simp_all add: sample_lib_def)
  have args: "arg_dsn sample_args = None" "arg_status_callback sample_args = None" by (simp_all add: sample_args_def)
  have "connect_server ref_api sample_lib None sample_args v =
      Some (False, v\<lparr>client := Suc (client v), host := Some ''db''\<rparr>)" if "status_callback v = None" for v :: "nat world"
    using that by (simp add: connect_server_def o lib server_call_def sample_call_def no_diag_def
        MrdbConnection_process_status_info_def)
  then have "MrdbConnection_Initialize ref_api sample_lib None None (Inr sample_args) sample_world =
      Some (False, sample_world\<lparr>status_callback := None, client := 1, host := Some ''db''\<rparr>)"
    by (simp add: MrdbConnection_Initialize_def lib args MARIADB_BEGIN_ALLOW_THREADS_def MARIADB_END_ALLOW_THREADS_def
        sample_world_def)
  then show ?thesis
    using initialize_outcome [OF sample_lib_ok sample_world_ok(2), of ref_api None None "Inr sample_args"]
    by (auto simp: sample_world_def)
qed

text \<open>
  A change of the client character set is noticed while an answer is read, but not reported as
  PEP 249 asks for: the method returns \<open>None\<close> with the exception left set. A prefix of \<open>utf8mb4\<close>,
  such as \<open>utf8\<close>, is accepted, and a name of 128 bytes or more overflows the buffer it is copied to.
\<close>

theorem charset_change_reported:
  assumes "locked w" "mysql w" "status_callback w = None"
    and "mysql_ping lib (client w) = (False, [TRACK_SYSTEM_VARIABLES ''character_set_client'' cs], c)"
  shows "(strncmp_eq cs ''utf8mb4'' \<longrightarrow> MrdbConnection_ping api lib w = Some (Some PyNone, w\<lparr>client := c\<rparr>)) \<and>
    (\<not> strncmp_eq cs ''utf8mb4'' \<and> length cs < 128 \<longrightarrow>
       MrdbConnection_ping api lib w = Some (Some PyNone, w\<lparr>client := c,
         py_err := Some (throw Mariadb_ProgrammingError ''Character set '%s' is not supported''
           [FmtStr (takeWhile (\<lambda>c. c \<noteq> NUL) cs)])\<rparr>)) \<and>
    (\<not> strncmp_eq cs ''utf8mb4'' \<and> 128 \<le> length cs \<longrightarrow> MrdbConnection_ping api lib w = None)"
proof -
  have relock: "w\<lparr>gil := True, thread_state := False, client := c\<rparr> = w\<lparr>client := c\<rparr>"
    "w\<lparr>gil := True, thread_state := False, client := c, py_err := e\<rparr> = w\<lparr>client := c, py_err := e\<rparr>" for e
    using assms(1) by (cases w; simp add: locked_def)+
  show ?thesis
    using assms relock
    by (auto simp: MrdbConnection_ping_def MARIADB_CHECK_CONNECTION_def blocking_def server_call_def locked_def
        MARIADB_BEGIN_ALLOW_THREADS_def MARIADB_END_ALLOW_THREADS_def MrdbConnection_process_status_info_def
        MARIADB_UNBLOCK_THREADS_def MARIADB_BLOCK_THREADS_def check_charset_def set_error_def none_or_raise_def)
qed

theorem charset_change_reported_witness:
  "\<exists>e. MrdbConnection_ping ref_api
      (sample_lib\<lparr>mysql_ping := \<lambda>c. (False, [TRACK_SYSTEM_VARIABLES ''character_set_client'' ''latin1''], c)\<rparr>)
      (sample_world\<lparr>status_callback := None\<rparr>) = Some (Some PyNone, sample_world\<lparr>status_callback := None, py_err := Some e\<rparr>)"
  using charset_change_reported [of "sample_world\<lparr>status_callback := None\<rparr>"
      "sample_lib\<lparr>mysql_ping := \<lambda>c. (False, [TRACK_SYSTEM_VARIABLES ''character_set_client'' ''latin1''], c)\<rparr>" "''latin1''" 0 ref_api]
  by (simp add: sample_world_def locked_def)

end
