(* ===== verification/Mrdb_Cursor_Lock.thy ===== *)
theory Mrdb_Cursor_Lock
  imports Mrdb_Cursor Mrdb_Connection_Safety Mrdb_Params_Single Mrdb_Parser_Safety
begin

text \<open>
  The interpreter lock in cursors: every method of \<open>mariadb_cursor.c\<close> gives the lock back to its
  caller and leaves the fields of the connection alone, whatever the library answers. The steps of
  the methods are collected in \<open>kept_intros\<close>; the contract of a method is the locale \<open>lock_method\<close>.
\<close>

subsection \<open>The lock\<close>

text \<open>What is known of a call to the server without any assumption on the library.\<close>

lemma notify_frame: "wlp (notify key val w) (\<lambda>w'. same_conn w w')"
  by (auto simp: notify_def wlp_def bind_eq_Some_conv Let_def split: if_splits)

lemma check_charset_frame: "wlp (check_charset key val w) (\<lambda>w'. same_conn w w')"
  by (auto simp: check_charset_def set_error_def wlp_def split: if_splits)

lemma unlocked_frame:
  assumes "lock_ok w" "\<And>w. wlp (body w) (\<lambda>w'. same_conn w w')"
  shows "wlp (Option.bind (MARIADB_UNBLOCK_THREADS w) (\<lambda>(save, w). Option.bind (body w) (MARIADB_BLOCK_THREADS save)))
    (\<lambda>w'. same_conn w w')"
proof (cases "thread_state w")
  case True
  have "wlp (body (w\<lparr>gil := True, thread_state := False\<rparr>)) (\<lambda>v. wlp (MARIADB_BLOCK_THREADS True v) (\<lambda>w'. same_conn w w'))"
    by (rule wlp_mono [OF assms(2)])
      (use True assms(1) in \<open>simp add: MARIADB_BLOCK_THREADS_def same_conn_def lock_ok_def wp_simps\<close>)
  then show ?thesis using True assms(1) by (simp add: MARIADB_UNBLOCK_THREADS_def lock_ok_def wp_simps)
next
  case False
  have "wlp (body w) (\<lambda>v. wlp (MARIADB_BLOCK_THREADS False v) (\<lambda>w'. same_conn w w'))"
    by (rule wlp_mono [OF assms(2)]) (simp add: MARIADB_BLOCK_THREADS_def wp_simps)
  then show ?thesis using False by (simp add: MARIADB_UNBLOCK_THREADS_def wp_simps)
qed

lemma wlp_bind_trans:
  assumes "wlp x (\<lambda>w'. same_conn w w')" "\<And>w'. wlp (f w') (\<lambda>w''. same_conn w' w'')"
  shows "wlp (Option.bind x f) (\<lambda>w''. same_conn w w'')"
  unfolding wp_bind by (rule wlp_mono [OF assms(1)], rule wlp_mono [OF assms(2)], rule same_conn_trans)

lemma maybe_notify_frame:
  "wlp (if status_callback w \<noteq> None then notify key val w else Some w) (\<lambda>w'. same_conn w w')"
  by (simp add: wp_Some notify_frame)

lemma process_frame:
  assumes "lock_ok w"
  shows "wlp (MrdbConnection_process_status_info api info w) (\<lambda>w'. same_conn w w')"
proof (cases info)
  case (STATUS_TYPE s)
  show ?thesis
    unfolding STATUS_TYPE MrdbConnection_process_status_info_def status_info.case wp_if wp_Some
    using unlocked_frame [OF assms notify_frame] by simp
next
  case (TRACK_SCHEMA v)
  show ?thesis
    unfolding TRACK_SCHEMA MrdbConnection_process_status_info_def status_info.case
    by (rule unlocked_frame [OF assms maybe_notify_frame])
next
  case (TRACK_STATE_CHANGE v)
  show ?thesis
    unfolding TRACK_STATE_CHANGE MrdbConnection_process_status_info_def status_info.case
    by (rule unlocked_frame [OF assms maybe_notify_frame])
next
  case (TRACK_SYSTEM_VARIABLES k v)
  show ?thesis
    unfolding TRACK_SYSTEM_VARIABLES MrdbConnection_process_status_info_def status_info.case
    by (rule unlocked_frame [OF assms wlp_bind_trans [OF check_charset_frame maybe_notify_frame]])
next
  case TRACK_OTHER
  show ?thesis
    unfolding TRACK_OTHER MrdbConnection_process_status_info_def status_info.case
    by (rule unlocked_frame [OF assms]) (simp add: wp_Some)
qed

lemma process_all_frame: "lock_ok w \<Longrightarrow> wlp (process_all api infos w) (\<lambda>w'. same_conn w w')"
proof (induction infos arbitrary: w)
  case (Cons info infos)
  have "wlp (MrdbConnection_process_status_info api info w) (\<lambda>v. same_conn w v \<and> lock_ok v)"
    by (rule wlp_mono [OF process_frame [OF Cons(2)]]) (simp add: Cons(2) same_conn_lock(1))
  then show ?case
    unfolding process_all.simps wp_bind
    by (rule wlp_mono) (auto intro: wlp_mono [OF Cons(1)] same_conn_trans)
qed (simp add: wp_Some)

lemma same_conn_client [simp]: "same_conn (w\<lparr>client := c\<rparr>) w' = same_conn w w'"
  by (simp add: same_conn_def)

lemma server_call_frame:
  assumes "lock_ok w"
  shows "wlp (server_call api f w) (\<lambda>(rc, w'). same_conn w w')"
proof -
  obtain rc infos c where f: "f (client w) = (rc, infos, c)" by (cases "f (client w)") auto
  have "wlp (process_all api infos (w\<lparr>client := c\<rparr>)) (\<lambda>w'. same_conn w w')"
    using process_all_frame [of "w\<lparr>client := c\<rparr>" api infos] assms by (simp add: lock_ok_def)
  then show ?thesis by (simp add: server_call_def f wp_simps)
qed

lemma call_void_frame: "lock_ok w \<Longrightarrow> wlp (call_void api f w) (\<lambda>w'. same_conn w w')"
  using server_call_frame [of w api f] by (simp add: call_void_def wp_simps case_prod_unfold)

lemma blocking_frame:
  assumes "locked w"
  shows "wlp (blocking api f w) (\<lambda>(rc, w'). same_conn w w')"
proof -
  let ?u = "w\<lparr>gil := False, thread_state := True\<rparr>"
  have "wlp (server_call api f ?u)
      (\<lambda>(rc, v). wlp (MARIADB_END_ALLOW_THREADS v) (\<lambda>w'. same_conn w w'))"
    by (rule wlp_mono [OF server_call_frame])
      (use assms in \<open>auto simp: lock_ok_def locked_def MARIADB_END_ALLOW_THREADS_def same_conn_def wp_simps\<close>)
  then show ?thesis
    using assms by (simp add: blocking_def MARIADB_BEGIN_ALLOW_THREADS_def locked_def wp_simps case_prod_unfold)
qed

lemma same_conn_csr: "same_conn w w' \<Longrightarrow> csr w' = csr w"
  by (cases w; cases w') (simp add: same_conn_def)

text \<open>
  What the steps of a cursor's method keep: the lock, and every field of the connection. \<open>any_lock\<close>
  is the discipline inside a method, where the lock may be free.
\<close>

definition conn_kept :: "('c, 'z) cworld_scheme \<Rightarrow> ('c, 'z) cworld_scheme \<Rightarrow> bool" where
  "conn_kept w w' \<longleftrightarrow> gil w' = gil w \<and> thread_state w' = thread_state w \<and> mysql w' = mysql w \<and>
     conn_closed w' = conn_closed w \<and> host w' = host w \<and> status_callback w' = status_callback w \<and>
     tls_in_use w' = tls_in_use w"

lemma conn_kept_refl [simp]: "conn_kept w w"
  by (simp add: conn_kept_def)

lemma conn_kept_trans [trans]: "conn_kept w w' \<Longrightarrow> conn_kept w' w'' \<Longrightarrow> conn_kept w w''"
  by (simp add: conn_kept_def)

lemma conn_kept_updates [simp]:
  "conn_kept w (w'\<lparr>csr := c\<rparr>) = conn_kept w w'" "conn_kept w (upd_csr f w') = conn_kept w w'"
  "conn_kept w (w'\<lparr>client := cl\<rparr>) = conn_kept w w'" "conn_kept w (w'\<lparr>py_err := e\<rparr>) = conn_kept w w'"
  "conn_kept w (lib_do g w') = conn_kept w w'" "conn_kept w (if b then w' else w'') = (if b then conn_kept w w' else conn_kept w w'')"
  by (simp_all add: conn_kept_def upd_csr_def lib_do_def)

lemma same_conn_kept: "same_conn w w' \<Longrightarrow> conn_kept w w'"
  by (simp add: conn_kept_def same_conn_def)

lemma conn_kept_lock: "conn_kept w w' \<Longrightarrow> lock_ok w' = lock_ok w" "conn_kept w w' \<Longrightarrow> locked w' = locked w"
  by (simp_all add: conn_kept_def lock_ok_def locked_def)

text \<open>
  \<open>keeps w x\<close> and \<open>keepsW w x\<close>: when the computation returns, with a result or without, the connection
  is as in \<open>w\<close>.
\<close>

definition keeps :: "('c, 'z) cworld_scheme \<Rightarrow> ('r \<times> ('c, 'z) cworld_scheme) option \<Rightarrow> bool" where
  "keeps w x \<longleftrightarrow> wlp x (\<lambda>(r, w'). conn_kept w w')"

definition keepsW :: "('c, 'z) cworld_scheme \<Rightarrow> ('c, 'z) cworld_scheme option \<Rightarrow> bool" where
  "keepsW w x \<longleftrightarrow> wlp x (\<lambda>w'. conn_kept w w')"

named_theorems kept_intros \<open>steps that keep the connection\<close>

lemma kept_basic [kept_intros]:
  "conn_kept w w' \<Longrightarrow> keeps w (Some (r, w'))" "conn_kept w w' \<Longrightarrow> keepsW w (Some w')"
  "keeps w None" "keepsW w None"
  by (simp_all add: keeps_def keepsW_def wp_simps)

lemma kept_if [kept_intros]:
  "(b \<Longrightarrow> keeps w x) \<Longrightarrow> (\<not> b \<Longrightarrow> keeps w y) \<Longrightarrow> keeps w (if b then x else y)"
  "(b \<Longrightarrow> keepsW w x') \<Longrightarrow> (\<not> b \<Longrightarrow> keepsW w y') \<Longrightarrow> keepsW w (if b then x' else y')"
  by simp_all

lemma kept_map [kept_intros]:
  "keepsW w x \<Longrightarrow> keeps w (map_option (Pair r) x)"
  "keepsW w x \<Longrightarrow> keepsW w (map_option (upd_csr f) x)"
  by (simp_all add: keeps_def keepsW_def wp_simps)

lemma kept_bindP:
  "keeps w x \<Longrightarrow> (\<And>r w'. conn_kept w w' \<Longrightarrow> keeps w (f (r, w'))) \<Longrightarrow> keeps w (Option.bind x f)"
  "keeps w x' \<Longrightarrow> (\<And>r w'. conn_kept w w' \<Longrightarrow> keepsW w (g (r, w'))) \<Longrightarrow> keepsW w (Option.bind x' g)"
  unfolding keeps_def keepsW_def wp_bind by (auto elim!: wlp_mono)

lemma kept_bindW:
  "keepsW w x \<Longrightarrow> (\<And>w'. conn_kept w w' \<Longrightarrow> keeps w (f w')) \<Longrightarrow> keeps w (Option.bind x f)"
  "keepsW w x' \<Longrightarrow> (\<And>w'. conn_kept w w' \<Longrightarrow> keepsW w (g w')) \<Longrightarrow> keepsW w (Option.bind x' g)"
  unfolding keeps_def keepsW_def wp_bind by (auto elim!: wlp_mono)

lemma kept_bind_any:
  "(\<And>v. keeps w (f v)) \<Longrightarrow> keeps w (Option.bind x f)" "(\<And>v. keepsW w (g v)) \<Longrightarrow> keepsW w (Option.bind x' g)"
  by (simp_all add: keeps_def keepsW_def wp_bind wlp_all)

lemma kept_calls [kept_intros]:
  assumes "lock_ok w" "conn_kept w v"
  shows "keeps w (server_call api f v)" "keepsW w (call_void api g v)"
proof -
  have v: "lock_ok v" using conn_kept_lock(1) [OF assms(2)] assms(1) by simp
  show "keeps w (server_call api f v)"
    unfolding keeps_def
    by (rule wlp_mono [OF server_call_frame [OF v]]) (auto intro: conn_kept_trans [OF assms(2)] same_conn_kept)
  show "keepsW w (call_void api g v)"
    unfolding keepsW_def
    by (rule wlp_mono [OF call_void_frame [OF v]]) (auto intro: conn_kept_trans [OF assms(2)] same_conn_kept)
qed

lemma kept_blocking [kept_intros]:
  assumes "locked w" "conn_kept w v"
  shows "keeps w (blocking api f v)"
proof -
  have v: "locked v" using conn_kept_lock(2) [OF assms(2)] assms(1) by simp
  show ?thesis
    unfolding keeps_def
    by (rule wlp_mono [OF blocking_frame [OF v]]) (auto intro: conn_kept_trans [OF assms(2)] same_conn_kept)
qed

lemma kept_set_error [kept_intros]: "conn_kept w v \<Longrightarrow> keepsW w (set_error e v)"
  "conn_kept w v \<Longrightarrow> keeps w (raise_null e v)"
  by (simp_all add: set_error_def raise_null_def keepsW_def keeps_def wp_simps)

lemma locked_lock_ok: "locked w \<Longrightarrow> lock_ok w"
  by (simp add: locked_def lock_ok_def)

text \<open>The loop keeps what its step keeps.\<close>

lemma kept_repeat:
  assumes "\<And>v. conn_kept w v \<Longrightarrow> keeps w (step v)" "conn_kept w v"
  shows "keepsW w (repeat_until step v)"
proof -
  have "step = step \<longrightarrow> conn_kept w v \<longrightarrow> conn_kept w w'" if "repeat_until step v = Some w'" for w'
  proof (rule repeat_until.raw_induct [where P = "\<lambda>f v w'. f = step \<longrightarrow> conn_kept w v \<longrightarrow> conn_kept w w'", OF _ that])
    fix rep f v w'
    assume IH: "\<And>f v w'. rep f v = Some w' \<Longrightarrow> f = step \<longrightarrow> conn_kept w v \<longrightarrow> conn_kept w w'"
      and run: "Option.bind (f v) (\<lambda>r. if fst r then Some (snd r) else rep f (snd r)) = Some w'"
    show "f = step \<longrightarrow> conn_kept w v \<longrightarrow> conn_kept w w'"
    proof (intro impI)
      assume f: "f = step" and v: "conn_kept w v"
      obtain r where r: "step v = Some r" "(if fst r then Some (snd r) else rep step (snd r)) = Some w'"
        using run unfolding f bind_eq_Some_conv by blast
      have "conn_kept w (snd r)" using assms(1) [OF v] r(1) by (cases r) (simp add: keeps_def wp_simps)
      then show "conn_kept w w'" using r(2) IH by (auto split: if_splits)
    qed
  qed
  then show ?thesis using assms(2) by (simp add: keepsW_def wlp_def)
qed

text \<open>
  \<open>MrdbCursor_clear_result\<close> ends with the macro that takes the lock back, so it leaves the lock held
  even when it was called without it.
\<close>

definition relock :: "('c, 'z) cworld_scheme \<Rightarrow> ('c, 'z) cworld_scheme" where
  "relock w = w\<lparr>gil := True, thread_state := False\<rparr>"

lemma relock_locked [simp]: "locked w \<Longrightarrow> relock w = w" "locked (relock w)"
  by (simp_all add: relock_def locked_def)

lemma kept_end:
  assumes "lock_ok w" "conn_kept w v"
  shows "keepsW (relock w) (MARIADB_END_ALLOW_THREADS v)"
  using assms
  by (auto simp: MARIADB_END_ALLOW_THREADS_def keepsW_def relock_def conn_kept_def lock_ok_def wp_simps)

lemma kept_end_locked [kept_intros]:
  "locked w \<Longrightarrow> conn_kept w v \<Longrightarrow> keepsW w (MARIADB_END_ALLOW_THREADS v)"
  using kept_end [OF locked_lock_ok, of w v] by simp

lemma kept_steps [kept_intros]:
  assumes "lock_ok w" "conn_kept w v"
  shows "keeps w (stmt_step api sl v)" "keeps w (text_step api sl v)"
  unfolding stmt_step_def text_step_def
  by (rule kept_bindP kept_bindW kept_intros assms | assumption | simp only: prod.case)+

lemma kept_loops [kept_intros]:
  assumes "lock_ok w" "conn_kept w v"
  shows "keepsW w (repeat_until (stmt_step api sl) v)" "keepsW w (repeat_until (text_step api sl) v)"
  using assms by (auto intro: kept_repeat kept_steps)

lemma kept_free_result [kept_intros]: "lock_ok w \<Longrightarrow> conn_kept w v \<Longrightarrow> keepsW w (free_result api sl v)"
  unfolding free_result_def by (rule kept_intros | assumption)+

lemma kept_cases:
  "(\<And>a b. keeps w (f a b)) \<Longrightarrow> keeps w (case p of (a, b) \<Rightarrow> f a b)"
  "(\<And>a b. keepsW w (g a b)) \<Longrightarrow> keepsW w (case p of (a, b) \<Rightarrow> g a b)"
  "keeps w x \<Longrightarrow> (\<And>a. keeps w (h a)) \<Longrightarrow> keeps w (case q of None \<Rightarrow> x | Some a \<Rightarrow> h a)"
  "(\<And>a. keeps w (i a)) \<Longrightarrow> (\<And>b. keeps w (j b)) \<Longrightarrow> keeps w (case s of Inl a \<Rightarrow> i a | Inr b \<Rightarrow> j b)"
  "(\<And>a b c. keeps w (k a b c)) \<Longrightarrow> keeps w y \<Longrightarrow> keeps w z \<Longrightarrow>
    keeps w (case t of FetchRow a b c \<Rightarrow> k a b c | MYSQL_NO_DATA \<Rightarrow> y | FetchError \<Rightarrow> z)"
  by (simp_all split: prod.split option.split sum.split stmt_row.split)

lemma clear_result_kept:
  assumes "lock_ok w" "conn_kept w v"
  shows "keeps (relock w) (MrdbCursor_clear_result api sl v)"
proof -
  let ?x = "if \<not> pi_is_text (csr v) \<and> cur_stmt (csr v) then do {
             w \<leftarrow> (if mysql_stmt_field_count sl (client v) \<noteq> 0 then call_void api (mysql_stmt_free_result sl) v
                  else Some v);
             repeat_until (stmt_step api sl) w }
           else if pi_is_text (csr v) then do {
             w \<leftarrow> (if cur_result (csr v) then free_result api sl v else Some v);
             if mysql w then repeat_until (text_step api sl) w else Some w }
           else Some v"
  have "keepsW w ?x" by (rule kept_bindW kept_intros assms | assumption)+
  then have "wlp ?x (\<lambda>w'. keepsW (relock w) (MARIADB_END_ALLOW_THREADS w'))"
    unfolding keepsW_def by (rule wlp_mono) (rule kept_end [OF assms(1), unfolded keepsW_def])
  then show ?thesis
    unfolding MrdbCursor_clear_result_def keeps_def keepsW_def wp_bind by (simp add: wp_simps)
qed

lemma kept_clear_result [kept_intros]:
  "locked w \<Longrightarrow> conn_kept w v \<Longrightarrow> keeps w (MrdbCursor_clear_result api sl v)"
  using clear_result_kept [of w v api sl] by (simp add: locked_lock_ok)

lemma kept_clear [kept_intros]:
  assumes "locked w" "conn_kept w v"
  shows "keepsW w (MrdbCursor_clear api sl new_stmt v)"
  unfolding MrdbCursor_clear_def Let_def
  by (rule kept_bindP kept_bindW kept_intros assms locked_lock_ok | assumption | simp only: prod.case conn_kept_updates | rule kept_cases kept_bind_any)+

lemma kept_close [kept_intros]:
  assumes "locked w" "conn_kept w v"
  shows "keepsW w (ma_cursor_close api sl v)"
  unfolding ma_cursor_close_def Let_def
  by (rule kept_bindP kept_bindW kept_intros assms locked_lock_ok | assumption | simp only: prod.case conn_kept_updates | rule kept_cases kept_bind_any)+

lemma kept_with_rows [kept_intros]:
  assumes "lock_ok w" "conn_kept w v"
  shows "keeps w (with_rows api f v)"
  unfolding with_rows_def Let_def
  by (rule kept_intros assms | assumption | simp only: prod.case conn_kept_updates | rule kept_cases kept_bind_any)+

lemma kept_execute_direct [kept_intros]:
  assumes "locked w" "conn_kept w v"
  shows "keeps w (Mrdb_execute_direct api sl v)"
proof -
  let ?u = "v\<lparr>gil := False, thread_state := True\<rparr>"
  have u: "lock_ok ?u" "MARIADB_BEGIN_ALLOW_THREADS v = Some ?u" "conn_kept w (relock ?u)"
    using assms by (simp_all add: lock_ok_def MARIADB_BEGIN_ALLOW_THREADS_def conn_kept_def locked_def relock_def)
  have clear: "keeps w (MrdbCursor_clear_result api sl ?u)"
    using clear_result_kept [OF u(1), of ?u api sl] u(3) conn_kept_trans
    unfolding keeps_def by (auto elim!: wlp_mono)
  show ?thesis
    unfolding Mrdb_execute_direct_def u(2) Option.bind.simps
    by (rule clear kept_bindP kept_bindW kept_intros assms locked_lock_ok | assumption
        | simp only: prod.case conn_kept_updates | rule kept_cases kept_bind_any)+
qed

lemma kept_begin_seek:
  assumes "locked w" "conn_kept w v"
  shows "keeps w (Option.bind (MARIADB_BEGIN_ALLOW_THREADS v) (\<lambda>w. Option.bind (g w)
    (\<lambda>c. Option.bind (MARIADB_END_ALLOW_THREADS (w\<lparr>client := c\<rparr>)) (\<lambda>w. Some (r, w)))))"
  using assms
  by (auto simp: keeps_def MARIADB_BEGIN_ALLOW_THREADS_def MARIADB_END_ALLOW_THREADS_def conn_kept_def locked_def
      wlp_def bind_eq_Some_conv split: if_splits)

lemma kept_check [kept_intros]:
  "conn_kept w v \<Longrightarrow> keepsW w (MARIADB_CHECK_STMT v)" "conn_kept w v \<Longrightarrow> keepsW w (MARIADB_CHECK_STMT_FETCH v)"
  by (simp_all add: MARIADB_CHECK_STMT_def MARIADB_CHECK_STMT_FETCH_def kept_intros)

lemma kept_check_connection [kept_intros]:
  "conn_kept w v \<Longrightarrow> (mysql v \<Longrightarrow> keeps w (body v)) \<Longrightarrow> keeps w (MARIADB_CHECK_CONNECTION body v)"
  by (simp add: MARIADB_CHECK_CONNECTION_def kept_intros)

lemma kept_none_or_raise [kept_intros]: "conn_kept w v \<Longrightarrow> keeps w (none_or_raise lib ty rc v)"
  by (simp add: none_or_raise_def kept_intros)

lemma kept_process_all [kept_intros]:
  assumes "lock_ok w" "conn_kept w v"
  shows "keepsW w (process_all api infos v)"
proof -
  have v: "lock_ok v" using conn_kept_lock(1) [OF assms(2)] assms(1) by simp
  show ?thesis
    unfolding keepsW_def
    by (rule wlp_mono [OF process_all_frame [OF v]]) (auto intro: conn_kept_trans [OF assms(2)] same_conn_kept)
qed

subsection \<open>The contract of a cursor's method\<close>

locale lock_method =
  fixes m :: "('c, 'z) cworld_scheme \<Rightarrow> ('r \<times> ('c, 'z) cworld_scheme) option"
  assumes keeps_lock: "locked w \<Longrightarrow> conn_kept w v \<Longrightarrow> keeps w (m v)"
begin

lemma returns_locked: "locked w \<Longrightarrow> m w = Some (r, w') \<Longrightarrow> locked w' \<and> conn_kept w w'"
  using keeps_lock [of w w] conn_kept_lock(2) [of w w'] by (simp add: keeps_def wp_simps)

end
subsection \<open>Every method keeps the lock\<close>

lemma kept_GetFieldInfo [kept_intros]:
  assumes "locked w" "conn_kept w v"
  shows "keeps w (Mrdb_GetFieldInfo api lib sl alloc v)"
  unfolding Mrdb_GetFieldInfo_def Let_def
  by (rule kept_bindP kept_intros assms locked_lock_ok | assumption
      | simp only: prod.case conn_kept_updates if_cancel | rule kept_cases kept_bind_any)+

lemma kept_InitResultSet [kept_intros]:
  assumes "locked w" "conn_kept w v"
  shows "keeps w (MrdbCursor_InitResultSet api lib sl a1 a2 v)"
  unfolding MrdbCursor_InitResultSet_def Let_def
  by (rule kept_bindW kept_bindP kept_intros assms locked_lock_ok | assumption
      | simp only: prod.case conn_kept_updates if_cancel | rule kept_cases kept_bind_any)+

lemma kept_nextset [kept_intros]:
  assumes "locked w" "conn_kept w v"
  shows "keeps w (MrdbCursor_nextset api lib sl a1 a2 v)"
  unfolding MrdbCursor_nextset_def Let_def
  by (rule kept_bindW kept_bindP kept_intros assms locked_lock_ok | assumption
      | simp only: prod.case conn_kept_updates if_cancel | rule kept_cases kept_bind_any)+

lemma kept_fetchinternal [kept_intros]:
  assumes "locked w" "conn_kept w v"
  shows "keeps w (MrdbCursor_fetchinternal api sl v)"
  unfolding MrdbCursor_fetchinternal_def Let_def
  by (rule kept_bindW kept_bindP kept_intros assms locked_lock_ok | assumption
      | simp only: prod.case conn_kept_updates if_cancel | rule kept_cases kept_bind_any)+

lemma kept_build_row [kept_intros]: "conn_kept w v \<Longrightarrow> keeps w (build_row v)"
  unfolding build_row_def Let_def
  by (rule kept_intros | assumption | simp only: conn_kept_updates | rule kept_bind_any)+

lemma kept_fetchone [kept_intros]:
  assumes "locked w" "conn_kept w v"
  shows "keeps w (MrdbCursor_fetchone api sl v)"
  unfolding MrdbCursor_fetchone_def
  by (rule kept_bindW kept_bindP kept_intros assms locked_lock_ok | assumption
      | simp only: prod.case conn_kept_updates if_cancel | rule kept_cases kept_bind_any)+

lemma kept_fetch_loop [kept_intros]:
  "locked w \<Longrightarrow> conn_kept w v \<Longrightarrow> keeps w (fetch_loop api sl n v)"
proof (induction n arbitrary: v)
  case (Suc n)
  show ?case
    unfolding fetch_loop.simps [of api sl "Suc n"] diff_Suc_1
    by (rule kept_bindP kept_intros Suc locked_lock_ok | assumption | simp only: prod.case nat.distinct if_False)+
qed (simp add: fetch_loop.simps [of api sl 0] kept_intros)

lemma kept_fetchrows [kept_intros]:
  assumes "locked w" "conn_kept w v"
  shows "keeps w (MrdbCursor_fetchrows api sl rows v)"
  unfolding MrdbCursor_fetchrows_def
  by (rule kept_bindW kept_bindP kept_intros assms locked_lock_ok | assumption
      | simp only: prod.case conn_kept_updates if_cancel | rule kept_cases kept_bind_any)+

lemma kept_seek [kept_intros]:
  assumes "locked w" "conn_kept w v"
  shows "keeps w (MrdbCursor_seek sl pos v)"
  unfolding MrdbCursor_seek_def
  by (rule kept_begin_seek kept_bindW kept_intros assms | assumption | rule kept_cases)+

lemma kept_parse [kept_intros]:
  assumes "conn_kept w v"
  shows "keeps w (MrdbCursor_parse api env stmt v)"
  using assms unfolding MrdbCursor_parse_def Let_def
  by (intro kept_bind_any kept_cases kept_intros; simp)

lemma kept_load_parameters [kept_intros]:
  assumes "conn_kept w v"
  shows "keeps w (load_parameters api env v)"
  unfolding load_parameters_def Let_def
  by (rule kept_intros assms | assumption | simp only: prod.case conn_kept_updates if_cancel | rule kept_cases kept_bind_any)+

lemma kept_need_stmt:
  "conn_kept w v \<Longrightarrow> (\<And>b v'. conn_kept w v' \<Longrightarrow> keeps w (f b v')) \<Longrightarrow> keeps w (case need_stmt sl v of (b, v') \<Rightarrow> f b v')"
  by (simp add: need_stmt_def case_prod_unfold Let_def)

lemma kept_execute_binary [kept_intros]:
  assumes "locked w" "conn_kept w v"
  shows "keeps w (MrdbCursor_execute_binary api lib sl env v)"
  unfolding MrdbCursor_execute_binary_def Let_def
  by (rule kept_need_stmt kept_bindW kept_bindP kept_intros assms locked_lock_ok | assumption
      | simp only: prod.case conn_kept_updates if_cancel | rule kept_cases kept_bind_any)+

lemma kept_execute_text [kept_intros]:
  assumes "locked w" "conn_kept w v"
  shows "keeps w (MrdbCursor_execute_text api lib stmt v)"
proof -
  have send: "keeps w (Option.bind (blocking api (mysql_send_query lib s) v') (\<lambda>(rc, y). none_or_raise lib None rc y))"
    if "conn_kept w v'" for s v'
    by (rule kept_bindP kept_intros assms that | assumption | simp only: prod.case)+
  show ?thesis
    unfolding MrdbCursor_execute_text_def Let_def
    by (rule kept_check_connection [OF assms(2)])
      (auto split: pyobj.split option.split intro!: kept_bindW send kept_set_error assms)
qed

lemma kept_readresponse [kept_intros]:
  assumes "locked w" "conn_kept w v"
  shows "keeps w (MrdbCursor_readresponse api lib sl v)"
  unfolding MrdbCursor_readresponse_def
  by (rule kept_bindW kept_bindP kept_intros assms locked_lock_ok | assumption
      | simp only: prod.case conn_kept_updates)+

lemma kept_bulk_error [kept_intros]:
  "locked w \<Longrightarrow> conn_kept w v \<Longrightarrow> keeps w (bulk_error api sl v)"
  unfolding bulk_error_def by (intro kept_intros)

lemma kept_execute_bulk [kept_intros]:
  assumes "locked w" "conn_kept w v"
  shows "keeps w (MrdbCursor_execute_bulk api lib sl env a1 a2 v)"
  unfolding MrdbCursor_execute_bulk_def Let_def
  by (rule kept_need_stmt kept_bindW kept_bindP kept_intros assms locked_lock_ok | assumption
      | simp only: prod.case conn_kept_updates if_cancel | rule kept_cases kept_bind_any)+

subsection \<open>Sequences of calls on a cursor\<close>

datatype cursor_call =
    CursorClose | ClearResult | Nextset | Seek pyobj | Fetchone | Fetchrows pyobj
  | Parse pyobj | ExecuteBinary | ExecuteText pyobj | CursorReadResponse | ExecuteBulk
  | Rowcount | Rownumber | CursorWarnings | CursorClosed | Metadata | Description

definition drop_result :: "('r \<times> 'w) option \<Rightarrow> (unit \<times> 'w) option" where
  "drop_result = map_option (\<lambda>(r, w). ((), w))"

fun cursor_method :: "'c cursor_env \<Rightarrow> cursor_call \<Rightarrow> ('c, 'z) cworld_scheme \<Rightarrow>
    (unit \<times> ('c, 'z) cworld_scheme) option" where
  "cursor_method e CursorClose w = drop_result (MrdbCursor_close (e_api e) (e_sl e) w)"
| "cursor_method e ClearResult w = drop_result (MrdbCursor_clear_result (e_api e) (e_sl e) w)"
| "cursor_method e Nextset w = drop_result (MrdbCursor_nextset (e_api e) (e_lib e) (e_sl e) (e_names e) (e_values e) w)"
| "cursor_method e (Seek pos) w = drop_result (MrdbCursor_seek (e_sl e) pos w)"
| "cursor_method e Fetchone w = drop_result (MrdbCursor_fetchone (e_api e) (e_sl e) w)"
| "cursor_method e (Fetchrows n) w = drop_result (MrdbCursor_fetchrows (e_api e) (e_sl e) n w)"
| "cursor_method e (Parse stmt) w = drop_result (MrdbCursor_parse (e_api e) (e_parse e) stmt w)"
| "cursor_method e ExecuteBinary w = drop_result (MrdbCursor_execute_binary (e_api e) (e_lib e) (e_sl e) (e_alloc e) w)"
| "cursor_method e (ExecuteText stmt) w = drop_result (MrdbCursor_execute_text (e_api e) (e_lib e) stmt w)"
| "cursor_method e CursorReadResponse w = drop_result (MrdbCursor_readresponse (e_api e) (e_lib e) (e_sl e) w)"
| "cursor_method e ExecuteBulk w =
     drop_result (MrdbCursor_execute_bulk (e_api e) (e_lib e) (e_sl e) (e_alloc e) (e_names e) (e_values e) w)"
| "cursor_method e Rowcount w = drop_result (Mariadb_row_count (e_sl e) w)"
| "cursor_method e Rownumber w = drop_result (Mariadb_row_number w)"
| "cursor_method e CursorWarnings w = drop_result (MrdbCursor_warnings (e_lib e) (e_sl e) w)"
| "cursor_method e CursorClosed w = drop_result (MrdbCursor_closed w)"
| "cursor_method e Metadata w = drop_result (MrdbCursor_metadata (e_api e) w)"
| "cursor_method e Description w = drop_result (MrdbCursor_description (e_api e) (e_sl e) w)"

lemma kept_drop_result: "keeps w x \<Longrightarrow> keeps w (drop_result x)"
  by (simp add: keeps_def drop_result_def wp_simps case_prod_unfold)

lemma kept_getters [kept_intros]:
  assumes "conn_kept w v"
  shows "keeps w (Mariadb_row_count sl v)" "keeps w (Mariadb_row_number v)"
    "keeps w (MrdbCursor_warnings lib sl v)" "keeps w (MrdbCursor_closed v)"
    "keeps w (MrdbCursor_metadata api v)" "keeps w (MrdbCursor_description api sl v)"
  unfolding Mariadb_row_count_def Mariadb_row_number_def MrdbCursor_warnings_def MrdbCursor_closed_def
    MrdbCursor_metadata_def MrdbCursor_description_def Let_def map_conv_bind_option o_def
  by (rule kept_bindW kept_intros assms | assumption | simp only: prod.case conn_kept_updates
      | rule kept_cases kept_bind_any)+

lemma kept_close_method [kept_intros]:
  "locked w \<Longrightarrow> conn_kept w v \<Longrightarrow> keeps w (MrdbCursor_close api sl v)"
  unfolding MrdbCursor_close_def by (intro kept_intros)

text \<open>Every method of a cursor satisfies the contract, whatever the library does.\<close>

interpretation cursor: lock_method "cursor_method e call" for e call
  by unfold_locales (cases call; simp only: cursor_method.simps; intro kept_drop_result kept_intros; assumption)

text \<open>
  A program that calls methods of a cursor; between two calls the interpreter handles the
  exception.
\<close>

inductive cursor_reach :: "('c, 'z) cworld_scheme \<Rightarrow> ('c, 'z) cworld_scheme \<Rightarrow> bool" where
  start: "cursor_reach w w"
| call: "cursor_reach w w' \<Longrightarrow> cursor_method e cl w' = Some (r, w'') \<Longrightarrow> cursor_reach w (w''\<lparr>py_err := None\<rparr>)"

text \<open>
  C11: whatever the client library does, and whichever methods of a cursor are called in whichever
  order: a method that returns leaves the interpreter lock with the calling thread and no saved
  thread state behind, and the cursor never touches the fields of its connection.
\<close>

theorem cursor_calls_keep_lock:
  assumes "cursor_reach w w'" "locked w"
  shows "locked w' \<and> conn_kept w w'"
  using assms
proof induction
  case (call w w' e cl r w'')
  then have "conn_kept w' w''" using cursor.returns_locked by blast
  then show ?case
    using call conn_kept_trans [of w w' w''] conn_kept_lock(2) [of w w''] by (simp add: locked_def)
qed simp

subsection \<open>Samples\<close>

text \<open>A library whose state counts the calls: two rows, and at most five further results.\<close>

definition quiet_call :: "nat server_call" where
  "quiet_call c = (False, [], Suc c)"

definition sample_next :: "nat server_call" where
  "sample_next c = (5 \<le> c, [], Suc c)"

definition sample_sl :: "nat stmtlib" where
  "sample_sl = \<lparr>mysql_field_count = (\<lambda>c. 1), mysql_stmt_field_count = (\<lambda>c. 1), mysql_affected_rows = (\<lambda>c. 0),
     mysql_stmt_affected_rows = (\<lambda>c. 0), mysql_insert_id = (\<lambda>c. 0), mysql_stmt_insert_id = (\<lambda>c. 0),
     mysql_num_rows = (\<lambda>set c. if set then Some 2 else None), mysql_stmt_num_rows = (\<lambda>c. 2),
     mysql_stmt_warning_count = (\<lambda>c. 0), mysql_store_result = quiet_call, mysql_use_result = quiet_call,
     mysql_free_result = quiet_call, mysql_next_result = sample_next, mysql_stmt_store_result = quiet_call,
     mysql_stmt_free_result = quiet_call, mysql_stmt_next_result = sample_next, mysql_stmt_close = quiet_call,
     mysql_stmt_reset = quiet_call, mysql_stmt_init = (\<lambda>c. (True, Suc c)), mysql_stmt_attr_set = (\<lambda>a c. c),
     mysql_stmt_bind_param = (\<lambda>b c. c), db_execute_generate_request = (\<lambda>r. quiet_call),
     mysql_stmt_execute = (\<lambda>r. quiet_call), mysql_stmt_prepare = (\<lambda>s. quiet_call),
     mariadb_stmt_execute_direct = (\<lambda>s r. quiet_call),
     mysql_fetch_fields = (\<lambda>c. [sample_field MYSQL_TYPE_LONG]),
     mariadb_stmt_fetch_fields = (\<lambda>c. [sample_field MYSQL_TYPE_LONG]),
     mysql_fetch_row = (\<lambda>set c. (if set \<and> c < 2 then Some ([Some (''7'' @ [NUL])], [1]) else None, [], Suc c)),
     mysql_stmt_fetch = (\<lambda>c. (MYSQL_NO_DATA, [], Suc c)),
     mysql_data_seek = (\<lambda>set n c. Some c), mysql_stmt_data_seek = (\<lambda>n c. c),
     charset_mbmaxlen = (\<lambda>c. 4), ps_pack_len = (\<lambda>t. 4)\<rparr>"

text \<open>A cursor with a result set of one column and values of two parameters.\<close>

definition sample_cursor :: "bool \<Rightarrow> MrdbCursor" where
  "sample_cursor is_text = \<lparr>cur_fields = [sample_field MYSQL_TYPE_LONG], fetch_values = [None], converter = None,
     array_size = 0, cur_data = PyTuple [], pi_paramcount = 2, pi_paramstyle = QMARK, pi_keys = [],
     is_prepared = False, cur_params = Some [zero_bind, zero_bind], cur_value = Some [zero_value, zero_value],
     bulk_caps = True, server_info = ''10.6.0'',
     cur_stmt = \<not> is_text, cur_result = is_text, data_set = False, pi_statement = Some ''SELECT ?, ?'',
     pi_is_text = is_text, pi_command = SQL_SELECT, pi_paramlist = Some [7, 10], field_count = 1, fields_live = True,
     row_array_size = 1, prefetch_rows = 1, cursor_type = 0, affected_rows = 0, row_count = 0, lastrow_id = 0,
     row_number = 0, result_format = RESULT_TUPLE, sequence_fields = None, sequence_type = None,
     is_buffered = False, fetched = False, cur_closed = False, reprepare = False, leaked = 0\<rparr>"

definition sample_cworld :: "MrdbCursor \<Rightarrow> nat cworld" where
  "sample_cworld c = \<lparr>gil = True, py_err = None, client = 0, notified = [], thread_state = False, mysql = True,
     conn_closed = False, host = Some ''db'', status_callback = None, tls_in_use = False, csr = c\<rparr>"

lemma sample_cworld_simps [simp]:
  "locked (sample_cworld c)" "csr (sample_cworld c) = c" "client (sample_cworld c) = 0" "mysql (sample_cworld c)"
  "gil (sample_cworld c)" "py_err (sample_cworld c) = None" "\<not> thread_state (sample_cworld c)"
  by (simp_all add: sample_cworld_def locked_def)

definition sample_cenv :: "nat cursor_env" where
  "sample_cenv = \<lparr>e_api = ref_api, e_lib = sample_lib, e_sl = sample_sl,
     e_parse = \<lparr>env_cfg = sample_cfg, env_alloc_parser = True, env_alloc_str = True, env_alloc_copy = True\<rparr>,
     e_alloc = sample_alloc, e_names = True, e_values = True\<rparr>"

lemma sample_nextset:
  "\<exists>w'. MrdbCursor_nextset ref_api sample_lib sample_sl True True (sample_cworld (sample_cursor True)) =
     Some (Some (PyBool True), w') \<and> row_count (csr w') = 2 \<and> cur_result (csr w')"
  by (simp add: MrdbCursor_nextset_def MARIADB_CHECK_STMT_def sample_cursor_def free_result_def call_void_def
      server_call_def blocking_def MARIADB_BEGIN_ALLOW_THREADS_def MARIADB_END_ALLOW_THREADS_def sample_sl_def
      quiet_call_def sample_next_def CURSOR_FIELD_COUNT_def on_handle_def upd_csr_def MrdbCursor_InitResultSet_def
      Mrdb_GetFieldInfo_def CURSOR_AFFECTED_ROWS_def CURSOR_NUM_ROWS_def CURSOR_INSERT_ID_def Let_def sample_cworld_def)

theorem cursor_calls_keep_lock_witness:
  "\<exists>w'. cursor_reach (sample_cworld (sample_cursor True)) (w'\<lparr>py_err := None\<rparr>) \<and>
    row_count (csr w') = 2 \<and> gil w'"
proof -
  let ?w = "sample_cworld (sample_cursor True)"
  obtain w' where f: "cursor_method sample_cenv Nextset ?w = Some ((), w')" "row_count (csr w') = 2"
    using sample_nextset by (auto simp: sample_cenv_def drop_result_def)
  have "cursor_reach ?w (w'\<lparr>py_err := None\<rparr>)" using cursor_reach.call [OF cursor_reach.start f(1)] .
  with cursor_calls_keep_lock [OF this] f(2) show ?thesis by (auto simp: locked_def)
qed

end
