(* ===== verification/Mrdb_Cursor_Close.thy ===== *)
theory Mrdb_Cursor_Close
  imports Mrdb_Cursor_Lock
begin

text \<open>
  Closing a cursor ends, releases what the cursor owns and can be repeated; moving to the next
  result set releases the columns that the cursor still describes.
\<close>

subsection \<open>Closing a cursor\<close>

text \<open>
  What closing relies on in the library: acceptable status information, and finitely many pending
  results, each successful \<open>next_result\<close> taking one of them.
\<close>

definition shrinks :: "('c \<Rightarrow> nat) \<Rightarrow> 'c server_call \<Rightarrow> bool" where
  "shrinks pend f \<longleftrightarrow> (\<forall>c. \<not> call_rc f c \<longrightarrow> pend (snd (snd (f c))) < pend c)"

definition no_growth :: "('c \<Rightarrow> nat) \<Rightarrow> 'c server_call \<Rightarrow> bool" where
  "no_growth pend f \<longleftrightarrow> (\<forall>c. pend (snd (snd (f c))) \<le> pend c)"

definition drains :: "pyapi \<Rightarrow> 'c stmtlib \<Rightarrow> ('c \<Rightarrow> nat) \<Rightarrow> bool" where
  "drains api sl pend \<longleftrightarrow>
     call_ok api (mysql_stmt_next_result sl) \<and> shrinks pend (mysql_stmt_next_result sl) \<and>
     call_ok api (mysql_next_result sl) \<and> shrinks pend (mysql_next_result sl) \<and>
     call_ok api (mysql_use_result sl) \<and> no_growth pend (mysql_use_result sl) \<and>
     call_ok api (mysql_free_result sl) \<and> no_growth pend (mysql_free_result sl) \<and>
     call_ok api (mysql_stmt_free_result sl) \<and> no_growth pend (mysql_stmt_free_result sl) \<and>
     call_ok api (mysql_stmt_close sl) \<and> call_ok api (mysql_stmt_reset sl)"

text \<open>A loop whose step keeps an invariant and lets a number decrease returns.\<close>

lemma repeat_wp:
  fixes \<mu> :: "'w \<Rightarrow> nat"
  assumes "\<And>v. I v \<Longrightarrow> wp (step v) (\<lambda>(fin, v'). I v' \<and> (fin \<or> \<mu> v' < \<mu> v))" "I v"
  shows "wp (repeat_until step v) I"
  using assms(2)
proof (induction v rule: measure_induct_rule [of \<mu>])
  case (less v)
  have "wp (step v) (\<lambda>r. wp (if fst r then Some (snd r) else repeat_until step (snd r)) I)"
    by (rule wp_mono [OF assms(1) [OF less(2)]]) (use less(1) in \<open>auto simp: wp_simps\<close>)
  then show ?case unfolding repeat_until.simps [of step v] by (simp add: wp_simps)
qed

lemma wp_bind_pair:
  "wp x (\<lambda>(r, w). P r w) \<Longrightarrow> (\<And>r w. P r w \<Longrightarrow> wp (f (r, w)) Q) \<Longrightarrow> wp (Option.bind x f) Q"
  unfolding wp_bind by (auto elim!: wp_mono)

lemma call_void_eq: "lock_ok w \<Longrightarrow> call_ok api f \<Longrightarrow> call_void api f w = Some (after_call api f w)"
  by (simp add: call_void_def server_call_eq)

lemma same_after_call: "same_conn w v \<Longrightarrow> same_conn w (after_call api f v)"
  by (rule same_conn_trans [OF _ after_call_frame(1)])

lemma call_step_wp:
  assumes "lock_ok w" "same_conn w v" "call_ok api f" "no_growth pend f"
  shows "(\<And>rc v'. same_conn w v' \<Longrightarrow> pend (client v') \<le> pend (client v) \<Longrightarrow> wp (k rc v') Q) \<Longrightarrow>
      wp (Option.bind (server_call api f v) (\<lambda>(rc, v'). k rc v')) Q"
    "wp (call_void api f v) (\<lambda>v'. same_conn w v' \<and> pend (client v') \<le> pend (client v))"
proof -
  have v: "lock_ok v" using same_conn_lock(1) [OF assms(2)] assms(1) by simp
  have step: "same_conn w (after_call api f v)" "pend (client (after_call api f v)) \<le> pend (client v)"
    using assms(4) by (simp_all add: same_after_call [OF assms(2)] no_growth_def)
  show "wp (Option.bind (server_call api f v) (\<lambda>(rc, v'). k rc v')) Q"
    if "\<And>rc v'. same_conn w v' \<Longrightarrow> pend (client v') \<le> pend (client v) \<Longrightarrow> wp (k rc v') Q"
    using that [OF step] by (simp add: server_call_eq [OF v assms(3)] wp_simps)
  show "wp (call_void api f v) (\<lambda>v'. same_conn w v' \<and> pend (client v') \<le> pend (client v))"
    using step by (simp add: call_void_eq [OF v assms(3)] wp_simps)
qed

lemma next_step_wp:
  assumes "lock_ok w" "same_conn w v" "call_ok api f" "shrinks pend f"
  shows "wp (server_call api f v) (\<lambda>(rc, v'). same_conn w v' \<and> (rc \<or> pend (client v') < pend (client v)))"
proof -
  have v: "lock_ok v" using same_conn_lock(1) [OF assms(2)] assms(1) by simp
  show ?thesis
    using assms(4) by (auto simp: server_call_eq [OF v assms(3)] wp_simps same_after_call [OF assms(2)] shrinks_def)
qed

lemma steps_decrease:
  assumes "drains api sl pend" "lock_ok w" "same_conn w v"
  shows "wp (stmt_step api sl v) (\<lambda>(fin, v'). same_conn w v' \<and> (fin \<or> pend (client v') < pend (client v)))"
    "wp (text_step api sl v) (\<lambda>(fin, v'). same_conn w v' \<and> (fin \<or> pend (client v') < pend (client v)))"
proof -
  note lib = assms(1) [unfolded drains_def]
  have free: "wp (call_void api (mysql_stmt_free_result sl) v') (\<lambda>u. same_conn w u \<and> pend (client u) \<le> pend (client v'))"
    if "same_conn w v'" for v'
    by (rule call_step_wp(2)) (use lib assms(2) that in blast)+
  show "wp (stmt_step api sl v) (\<lambda>(fin, v'). same_conn w v' \<and> (fin \<or> pend (client v') < pend (client v)))"
    unfolding stmt_step_def wp_bind
    by (rule wp_mono [OF next_step_wp [where pend = pend, OF assms(2,3)]])
      (use lib in \<open>auto simp: wp_simps intro!: wp_mono [OF free]\<close>)
  have nxt: "wp (server_call api (mysql_next_result sl) v')
      (\<lambda>(fin, u). same_conn w u \<and> (fin \<or> pend (client u) < pend (client v)))"
    if "same_conn w v'" "pend (client v') \<le> pend (client v)" for v'
    by (rule wp_mono [OF next_step_wp [where pend = pend, OF assms(2) that(1)]]) (use lib that(2) in auto)
  show "wp (text_step api sl v) (\<lambda>(fin, v'). same_conn w v' \<and> (fin \<or> pend (client v') < pend (client v)))"
    unfolding text_step_def
  proof (rule call_step_wp(1) [where pend = pend, OF assms(2,3)])
    fix rc v' assume v': "same_conn w v'" "pend (client v') \<le> pend (client v)"
    have "wp (call_void api (mysql_free_result sl) v') (\<lambda>u. same_conn w u \<and> pend (client u) \<le> pend (client v'))"
      by (rule call_step_wp(2)) (use lib assms(2) v' in blast)+
    then show "wp (Option.bind (if rc then Some v' else call_void api (mysql_free_result sl) v')
        (server_call api (mysql_next_result sl)))
        (\<lambda>(fin, v'). same_conn w v' \<and> (fin \<or> pend (client v') < pend (client v)))"
      using v' by (auto simp: wp_simps intro!: nxt elim!: wp_mono)
  qed (use lib in blast)+
qed

lemma drain_loops:
  assumes "drains api sl pend" "lock_ok w" "same_conn w v"
  shows "wp (repeat_until (stmt_step api sl) v) (same_conn w)" "wp (repeat_until (text_step api sl) v) (same_conn w)"
  using steps_decrease [OF assms(1,2)] assms(3)
  by (auto intro: repeat_wp [where \<mu> = "\<lambda>v. pend (client v)" and I = "same_conn w"])

text \<open>What releasing the results changes of the cursor.\<close>

definition drained :: "('c, 'z) cworld_scheme \<Rightarrow> ('c, 'z) cworld_scheme \<Rightarrow> bool" where
  "drained w w' \<longleftrightarrow> conn_kept w w' \<and> (\<exists>b. csr w' = (csr w)\<lparr>fields_live := b\<rparr>)"

definition released :: "('c, 'z) cworld_scheme \<Rightarrow> ('c, 'z) cworld_scheme \<Rightarrow> bool" where
  "released w w' \<longleftrightarrow> conn_kept w w' \<and> (\<exists>b. csr w' = (csr w)\<lparr>cur_result := False, fields_live := b\<rparr>)"

lemma drained_same: "drained w v \<Longrightarrow> same_conn v u \<Longrightarrow> drained w u"
  using conn_kept_trans [of w v u] same_conn_kept [of v u] same_conn_csr [of v u] by (auto simp: drained_def)

lemma drained_refl [simp]: "drained w w"
  unfolding drained_def by (rule conjI, simp, rule exI [of _ "fields_live (csr w)"]) simp

lemma drained_void:
  assumes "locked w" "drained w v" "call_ok api f"
  shows "wp (call_void api f v) (drained w)"
proof -
  have "lock_ok v" using assms(1,2) conn_kept_lock(1) [of w v] by (simp add: drained_def locked_lock_ok)
  then show ?thesis using drained_same [OF assms(2) after_call_frame(1)] by (simp add: call_void_eq assms(3) wp_simps)
qed

lemma drained_end:
  assumes "locked w" "drained w v"
  shows "wp (Option.bind (MARIADB_END_ALLOW_THREADS v) (\<lambda>w. Some (Some PyNone, upd_csr (\<lambda>c. c\<lparr>cur_result := False\<rparr>) w)))
      (\<lambda>(r, w'). r = Some PyNone \<and> released w w')"
proof -
  obtain b where b: "csr v = (csr w)\<lparr>fields_live := b\<rparr>" using assms(2) by (auto simp: drained_def)
  have "MARIADB_END_ALLOW_THREADS v = Some v"
    using assms by (simp add: MARIADB_END_ALLOW_THREADS_def drained_def conn_kept_def locked_def)
  moreover have "released w (upd_csr (\<lambda>c. c\<lparr>cur_result := False\<rparr>) v)"
    unfolding released_def
    by (intro conjI exI [of _ b]) (use assms(2) in \<open>simp_all add: drained_def upd_csr_def b\<close>)
  ultimately show ?thesis by (simp add: wp_simps)
qed

lemma clear_result_wp:
  assumes "drains api sl pend" "locked w"
  shows "wp (MrdbCursor_clear_result api sl w) (\<lambda>(r, w'). r = Some PyNone \<and> released w w')"
proof -
  note lib = assms(1) [unfolded drains_def]
  have loops: "wp (repeat_until (stmt_step api sl) v) (drained w)" "wp (repeat_until (text_step api sl) v) (drained w)"
    if "drained w v" for v
  proof -
    have "lock_ok v" using assms(2) that conn_kept_lock(1) [of w v] by (simp add: drained_def locked_lock_ok)
    note runs = drain_loops [OF assms(1) this same_conn_refl]
    show "wp (repeat_until (stmt_step api sl) v) (drained w)" "wp (repeat_until (text_step api sl) v) (drained w)"
      by (rule wp_mono [OF runs(1)] wp_mono [OF runs(2)], rule drained_same [OF that], assumption)+
  qed
  have free: "wp (free_result api sl w) (drained w)"
    unfolding free_result_def wp_map_option
    by (rule wp_mono [OF drained_void [OF assms(2) drained_refl]])
      (use lib in \<open>auto simp: drained_def upd_csr_def intro: exI [of _ False]\<close>)
  have stmt: "wp (call_void api (mysql_stmt_free_result sl) w) (drained w)"
    using drained_void [OF assms(2) drained_refl] lib by blast
  let ?x = "if \<not> pi_is_text (csr w) \<and> cur_stmt (csr w) then do {
             w \<leftarrow> (if mysql_stmt_field_count sl (client w) \<noteq> 0 then call_void api (mysql_stmt_free_result sl) w
                  else Some w);
             repeat_until (stmt_step api sl) w }
           else if pi_is_text (csr w) then do {
             w \<leftarrow> (if cur_result (csr w) then free_result api sl w else Some w);
             if mysql w then repeat_until (text_step api sl) w else Some w }
           else Some w"
  have "wp ?x (drained w)"
    using stmt free by (auto simp: wp_simps intro!: loops elim!: wp_mono)
  then show ?thesis
    unfolding MrdbCursor_clear_result_def by (subst wp_bind(1)) (erule wp_mono, rule drained_end [OF assms(2)])
qed

text \<open>The array of values is as long as the number of parameters says.\<close>

definition values_fit :: "MrdbCursor \<Rightarrow> bool" where
  "values_fit c \<longleftrightarrow> (\<forall>vs. cur_value c = Some vs \<longrightarrow> unat (pi_paramcount c) = length vs)"

lemma FreeValues_fit: "values_fit c \<Longrightarrow> MrdbCursor_FreeValues c = Some (c\<lparr>cur_value := None\<rparr>)"
  by (cases c) (auto simp: MrdbCursor_FreeValues_def values_fit_def split: option.split)

text \<open>A cursor without results, values and arrays whose handle is as \<open>stmt\<close> says.\<close>

definition cleared :: "bool \<Rightarrow> nat \<Rightarrow> MrdbCursor \<Rightarrow> bool" where
  "cleared stmt lost c \<longleftrightarrow> \<not> cur_result c \<and> cur_stmt c = stmt \<and> cur_value c = None \<and> cur_params c = None \<and>
     cur_fields c = [] \<and> fetch_values c = [] \<and> pi_statement c = None \<and> leaked c = lost"

lemma clear_wp:
  assumes "drains api sl pend" "locked w" "values_fit (csr w)" "pi_is_text (csr w) \<or> \<not> cur_stmt (csr w)"
  shows "wp (MrdbCursor_clear api sl False w) (\<lambda>w'. conn_kept w w' \<and> cleared (cur_stmt (csr w)) (leaked (csr w)) (csr w'))"
proof -
  have "wp (Option.bind (MrdbCursor_FreeValues (csr v\<lparr>fetched := False, sequence_fields := None, cur_fields := [],
            row_count := 0, affected_rows := 0\<rparr>))
      (\<lambda>c. Some (v\<lparr>csr := (MrdbCursor_clearparseinfo c)\<lparr>fetch_values := [], cur_params := None\<rparr>\<rparr>)))
      (\<lambda>w'. conn_kept w w' \<and> cleared (cur_stmt (csr w)) (leaked (csr w)) (csr w'))"
    and "\<not> (\<not> pi_is_text (csr v) \<and> cur_stmt (csr v))"
    if "released w v" for v
    using that assms(3,4)
    by (auto simp: released_def FreeValues_fit values_fit_def wp_simps cleared_def MrdbCursor_clearparseinfo_def)
  then show ?thesis
    unfolding MrdbCursor_clear_def
    by (intro wp_bind_pair [OF clear_result_wp [OF assms(1,2)]]) (simp only: prod.case if_False Option.bind.simps)
qed

lemma close_stmt_wp:
  assumes "drains api sl pend" "locked w"
  shows "wp (if \<not> pi_is_text (csr w) \<and> cur_stmt (csr w) then do {
                (rc, w) \<leftarrow> blocking api (mysql_stmt_close sl) w;
                Some (upd_csr (\<lambda>c. c\<lparr>cur_stmt := False, fields_live := False\<rparr>) w) }
              else Some w)
     (\<lambda>w'. conn_kept w w' \<and> (\<exists>b. csr w' = (csr w)\<lparr>cur_stmt := cur_stmt (csr w) \<and> pi_is_text (csr w), fields_live := b\<rparr>))"
proof (cases "\<not> pi_is_text (csr w) \<and> cur_stmt (csr w)")
  case True
  let ?u = "upd_csr (\<lambda>c. c\<lparr>cur_stmt := False, fields_live := False\<rparr>) (after_call api (mysql_stmt_close sl) w)"
  have "blocking api (mysql_stmt_close sl) w = Some (call_rc (mysql_stmt_close sl) (client w), after_call api (mysql_stmt_close sl) w)"
    using assms(1) blocking_eq [OF assms(2)] by (simp add: drains_def)
  moreover have "csr ?u = (csr w)\<lparr>cur_stmt := cur_stmt (csr w) \<and> pi_is_text (csr w), fields_live := False\<rparr>"
    using True same_conn_csr [OF after_call_frame(1) [of w api "mysql_stmt_close sl"]] by (simp add: upd_csr_def)
  moreover have "conn_kept w ?u" using same_conn_kept [OF after_call_frame(1)] by simp
  ultimately show ?thesis unfolding if_P [OF True] by (simp only: Option.bind.simps prod.case wp_Some) blast
next
  case False
  then have "(csr w)\<lparr>cur_stmt := cur_stmt (csr w) \<and> pi_is_text (csr w), fields_live := fields_live (csr w)\<rparr> = csr w"
    by (cases "csr w") auto
  then show ?thesis unfolding if_not_P [OF False] wp_Some by (metis conn_kept_refl)
qed

text \<open>The cursor once its statement is closed.\<close>

definition stmt_closed :: "('c, 'z) cworld_scheme \<Rightarrow> ('c, 'z) cworld_scheme \<Rightarrow> bool" where
  "stmt_closed w v \<longleftrightarrow> conn_kept w v \<and> (\<exists>b. csr v = (csr w)\<lparr>cur_result := False,
      cur_stmt := cur_stmt (csr w) \<and> pi_is_text (csr w), fields_live := b\<rparr>)"

lemma stmt_closed_intro:
  assumes "released w v" "conn_kept v u"
    "csr u = (csr v)\<lparr>cur_stmt := cur_stmt (csr v) \<and> pi_is_text (csr v), fields_live := b\<rparr>"
  shows "stmt_closed w u"
proof -
  obtain c where c: "csr v = (csr w)\<lparr>cur_result := False, fields_live := c\<rparr>" using assms(1) by (auto simp: released_def)
  have "conn_kept w u" using assms(1,2) conn_kept_trans by (auto simp: released_def)
  moreover have "csr u = (csr w)\<lparr>cur_result := False, cur_stmt := cur_stmt (csr w) \<and> pi_is_text (csr w), fields_live := b\<rparr>"
    unfolding assms(3) c by simp
  ultimately show ?thesis unfolding stmt_closed_def by blast
qed

lemma stmt_closed_facts:
  assumes "stmt_closed w v" "values_fit (csr w)"
  shows "conn_kept w v" "values_fit (csr v)" "pi_is_text (csr v) \<or> \<not> cur_stmt (csr v)"
    "cur_stmt (csr v) = (cur_stmt (csr w) \<and> pi_is_text (csr w))" "leaked (csr v) = leaked (csr w)"
proof -
  obtain b where b: "csr v = (csr w)\<lparr>cur_result := False, cur_stmt := cur_stmt (csr w) \<and> pi_is_text (csr w), fields_live := b\<rparr>"
    using assms(1) unfolding stmt_closed_def by blast
  show "values_fit (csr v)" "pi_is_text (csr v) \<or> \<not> cur_stmt (csr v)"
    "cur_stmt (csr v) = (cur_stmt (csr w) \<and> pi_is_text (csr w))" "leaked (csr v) = leaked (csr w)"
    using assms(2) unfolding b by (simp_all add: values_fit_def)
qed (use assms(1) in \<open>simp add: stmt_closed_def\<close>)

lemma cleared_closed [simp]:
  "cleared s n (MrdbCursor_clearparseinfo c\<lparr>cur_closed := True\<rparr>) = cleared s n (c\<lparr>pi_statement := None\<rparr>)"
  by (simp add: cleared_def MrdbCursor_clearparseinfo_def)

lemma close_wp:
  assumes "drains api sl pend" "locked w" "values_fit (csr w)" "\<not> cur_closed (csr w)"
  shows "wp (MrdbCursor_close api sl w) (\<lambda>(r, w'). r = Some PyNone \<and> conn_kept w w' \<and> cur_closed (csr w') \<and>
     cleared (cur_stmt (csr w) \<and> pi_is_text (csr w)) (leaked (csr w)) (csr w'))"
proof -
  let ?fin = "\<lambda>w'. conn_kept w w' \<and> cur_closed (csr w') \<and> cleared (cur_stmt (csr w) \<and> pi_is_text (csr w)) (leaked (csr w)) (csr w')"
  have last: "wp (Option.bind (MrdbCursor_clear api sl False v)
      (\<lambda>w. Some (upd_csr (\<lambda>c. (MrdbCursor_clearparseinfo c)\<lparr>cur_closed := True\<rparr>) w))) ?fin" if "stmt_closed w v" for v
  proof -
    note facts = stmt_closed_facts [OF that assms(3)]
    have "locked v" using facts(1) assms(2) conn_kept_lock(2) by blast
    then show ?thesis
      using conn_kept_trans [OF facts(1)] unfolding wp_bind
      by (intro wp_mono [OF clear_wp [OF assms(1) _ facts(2,3)]])
        (simp_all add: wp_simps upd_csr_def facts(4,5), simp add: cleared_def)
  qed
  have mid: "wp (if \<not> pi_is_text (csr v) \<and> cur_stmt (csr v) then do {
                (rc, w) \<leftarrow> blocking api (mysql_stmt_close sl) v;
                Some (upd_csr (\<lambda>c. c\<lparr>cur_stmt := False, fields_live := False\<rparr>) w) }
              else Some v) (stmt_closed w)" if "released w v" for v
  proof -
    have "locked v" using that assms(2) conn_kept_lock(2) unfolding released_def by blast
    then show ?thesis
      by (intro wp_mono [OF close_stmt_wp [OF assms(1)]]) (use stmt_closed_intro [OF that] in blast)+
  qed
  have rest: "wp (Option.bind (if \<not> pi_is_text (csr v) \<and> cur_stmt (csr v) then do {
                (rc, w) \<leftarrow> blocking api (mysql_stmt_close sl) v;
                Some (upd_csr (\<lambda>c. c\<lparr>cur_stmt := False, fields_live := False\<rparr>) w) }
              else Some v) (\<lambda>w. Option.bind (MrdbCursor_clear api sl False w)
      (\<lambda>w. Some (upd_csr (\<lambda>c. (MrdbCursor_clearparseinfo c)\<lparr>cur_closed := True\<rparr>) w)))) ?fin" if "released w v" for v
    by (subst wp_bind(1), rule wp_mono [OF mid [OF that]], rule last)
  have "wp (ma_cursor_close api sl w) ?fin"
    unfolding ma_cursor_close_def if_P [OF assms(4)]
    by (rule wp_bind_pair [OF clear_result_wp [OF assms(1,2)]], simp only: prod.case, rule rest, blast)
  then show ?thesis by (simp add: MrdbCursor_close_def wp_map_option)
qed

lemma sample_drains: "drains ref_api sample_sl (\<lambda>c. 5 - c)"
  by (auto simp: drains_def sample_sl_def quiet_call_def sample_next_def call_ok_def call_infos_def call_rc_def
      shrinks_def no_growth_def)

subsection \<open>Properties\<close>



lemma free_result_csr:
  "lock_ok w \<Longrightarrow> wlp (free_result api sl w) (\<lambda>w'. conn_kept w w' \<and> csr w' = (csr w)\<lparr>fields_live := False\<rparr>)"
  unfolding free_result_def wp_map_option
  by (rule wlp_mono [OF call_void_frame]) (simp_all add: same_conn_kept same_conn_csr upd_csr_def)

lemma nextset_none_csr:
  assumes "locked w" "pi_is_text (csr w)" "cur_result (csr w)"
  shows "wlp (MrdbCursor_nextset api lib sl an av w)
    (\<lambda>(r, w'). r = Some PyNone \<longrightarrow> csr w' = (csr w)\<lparr>fields_live := False, cur_result := False\<rparr>)"
proof -
  let ?step = "\<lambda>w. map_option (upd_csr (\<lambda>c. c\<lparr>cur_result := False\<rparr>)) (free_result api sl w)"
  have run: "wlp (Option.bind (?step w) (blocking api (mysql_next_result sl)))
      (\<lambda>(rc, v). csr v = (csr w)\<lparr>fields_live := False, cur_result := False\<rparr>)"
    unfolding wp_bind wp_map_option
  proof (rule wlp_mono [OF free_result_csr [OF locked_lock_ok [OF assms(1)]]])
    fix v assume v: "conn_kept w v \<and> csr v = (csr w)\<lparr>fields_live := False\<rparr>"
    then have "locked (upd_csr (\<lambda>c. c\<lparr>cur_result := False\<rparr>) v)"
      using assms(1) conn_kept_lock(2) [of w v] by (simp add: locked_def upd_csr_def)
    from blocking_frame [OF this, of api "mysql_next_result sl"]
    show "wlp (blocking api (mysql_next_result sl) (upd_csr (\<lambda>c. c\<lparr>cur_result := False\<rparr>) v))
        (\<lambda>(rc, v). csr v = (csr w)\<lparr>fields_live := False, cur_result := False\<rparr>)"
      by (rule wlp_mono) (use v in \<open>auto dest: same_conn_csr simp: upd_csr_def\<close>)
  qed
  show ?thesis
  proof (cases "py_err w = None \<and> mysql w \<and> \<not> cur_closed (csr w)")
    case True
    then have "MARIADB_CHECK_STMT w = Some w" by (simp add: MARIADB_CHECK_STMT_def)
    then have eq: "MrdbCursor_nextset api lib sl an av w = Option.bind (Option.bind (?step w) (blocking api (mysql_next_result sl)))
        (\<lambda>(rc, w). if rc then Some (Some PyNone, w)
         else do {
           n \<leftarrow> CURSOR_FIELD_COUNT sl w;
           let w = upd_csr (\<lambda>c. c\<lparr>field_count := n\<rparr>) w;
           if field_count (csr w) \<noteq> 0 then do {
             (r, w) \<leftarrow> MrdbCursor_InitResultSet api lib sl an av w;
             Some (if r = None then None else Some (PyBool True), w) }
           else Some (Some (PyBool True), upd_csr (\<lambda>c. c\<lparr>cur_fields := []\<rparr>) w) })"
      using True assms(2,3) by (simp add: MrdbCursor_nextset_def)
    have after: "wlp (Option.bind (Option.bind (?step w) (blocking api (mysql_next_result sl))) f) Q"
      if "\<And>rc v. csr v = (csr w)\<lparr>fields_live := False, cur_result := False\<rparr> \<Longrightarrow> wlp (f (rc, v)) Q" for f Q
      by (subst wp_bind(2)) (rule wlp_mono [OF run], use that in auto)
    show ?thesis unfolding eq by (rule after) (simp add: wp_simps Let_def wlp_all case_prod_unfold)
  next
    case False
    then show ?thesis
      using assms(1)
      by (auto simp: MrdbCursor_nextset_def MARIADB_CHECK_STMT_def set_error_def locked_def wp_simps)
  qed
qed

text \<open>
  \<open>nextset\<close> on a text result releases the result before it knows whether another one follows.
  When there is none it returns \<open>None\<close> and keeps the number of columns and the pointer to them, so
  the attributes \<open>description\<close> and \<open>metadata\<close> then read memory that was released.
\<close>

theorem nextset_leaves_dangling_fields:
  assumes "MrdbCursor_nextset api lib sl an av w = Some (Some PyNone, w')" "locked w"
    and "pi_is_text (csr w)" "cur_result (csr w)" "cur_fields (csr w) \<noteq> []" "field_count (csr w) \<noteq> 0"
  shows "MrdbCursor_description api sl (w'\<lparr>py_err := None\<rparr>) = None \<and>
    MrdbCursor_metadata api (w'\<lparr>py_err := None\<rparr>) = None"
  using wlpD [OF nextset_none_csr [OF assms(2-4)] assms(1)] assms(5,6)
  by (simp add: MrdbCursor_description_def MrdbCursor_metadata_def live_fields_def)

theorem nextset_leaves_dangling_fields_witness:
  "\<exists>w'. MrdbCursor_nextset ref_api sample_lib sample_sl True True ((sample_cworld (sample_cursor True))\<lparr>client := 7\<rparr>) =
     Some (Some PyNone, w') \<and> MrdbCursor_description ref_api sample_sl (w'\<lparr>py_err := None\<rparr>) = None"
proof -
  let ?w = "(sample_cworld (sample_cursor True))\<lparr>client := 7\<rparr>"
  obtain w' where w': "MrdbCursor_nextset ref_api sample_lib sample_sl True True ?w = Some (Some PyNone, w')"
    by (simp add: MrdbCursor_nextset_def MARIADB_CHECK_STMT_def sample_cursor_def free_result_def call_void_def
      server_call_def blocking_def MARIADB_BEGIN_ALLOW_THREADS_def MARIADB_END_ALLOW_THREADS_def sample_sl_def
      quiet_call_def sample_next_def upd_csr_def sample_cworld_def)
  with nextset_leaves_dangling_fields [OF w'] show ?thesis
    by (simp add: sample_cworld_def sample_cursor_def locked_def)
qed

end
