(* ===== verification/Mrdb_PyConnection.thy ===== *)
theory Mrdb_PyConnection
  imports Mrdb_Connection_Safety
begin

unbundle bit_operations_syntax

text \<open>
  The class \<open>Connection\<close> of \<open>connections.py\<close> on top of the methods of \<open>mariadb_connection.c\<close>:
  transactions, two-phase commit (TPC), attributes. A method of the class returns a value or raises
  an exception; \<open>None\<close> stands for a fault of the code below it.
\<close>

subsection \<open>Exceptions in Python code\<close>

type_synonym ('w, 'r) pyfun = "'w \<Rightarrow> ((pyerr + 'r) \<times> 'w) option"

type_synonym 'w pymethod = "('w, pyobj) pyfun"

fun exc_of :: "pyerr \<Rightarrow> exc_class" where
  "exc_of (SetObject e) = exc_type e"
| "exc_of (SetString c t) = c"

text \<open>What \<open>except mariadb.Error\<close> catches: the classes of the module are all subclasses of \<open>Error\<close>.\<close>

definition is_mariadb_error :: "pyerr \<Rightarrow> bool" where
  "is_mariadb_error e \<longleftrightarrow> exc_of e \<in>
     {Mariadb_InterfaceError, Mariadb_Error, Mariadb_DatabaseError, Mariadb_DataError, Mariadb_PoolError,
      Mariadb_OperationalError, Mariadb_IntegrityError, Mariadb_InternalError, Mariadb_ProgrammingError,
      Mariadb_NotSupportedError, Mariadb_Warning}"

definition system_error :: "string \<Rightarrow> pyerr" where
  "system_error msg = SetString PyExc_SystemError (Text msg)"

definition raise :: "pyerr \<Rightarrow> 'w pymethod" where
  "raise e w = Some (Inl e, w)"

definition return :: "pyobj \<Rightarrow> 'w pymethod" where
  "return v w = Some (Inr v, w)"

text \<open>
  How the interpreter takes the result of a method in C. A value together with an exception, and a
  null pointer without one, become a \<open>SystemError\<close>.
\<close>

definition c_call :: "(('c, 'z) world_scheme \<Rightarrow> ('r option \<times> ('c, 'z) world_scheme) option) \<Rightarrow>
    (('c, 'z) world_scheme, 'r) pyfun" where
  "c_call m w = do {
     (r, w) \<leftarrow> m w;
     Some (case (r, py_err w) of
         (None, Some e) \<Rightarrow> (Inl e, w\<lparr>py_err := None\<rparr>)
       | (Some v, Some e) \<Rightarrow> (Inl (system_error ''returned a result with an exception set''), w\<lparr>py_err := None\<rparr>)
       | (Some v, None) \<Rightarrow> (Inr v, w)
       | (None, None) \<Rightarrow> (Inl (system_error ''returned NULL without setting an exception''), w)) }"

text \<open>One statement after the other, and \<open>except mariadb.Error: cleanup; raise\<close>.\<close>

definition py_then :: "'w pymethod \<Rightarrow> (pyobj \<Rightarrow> 'w pymethod) \<Rightarrow> 'w pymethod" where
  "py_then m k w = do { (r, w) \<leftarrow> m w; case r of Inl e \<Rightarrow> Some (Inl e, w) | Inr v \<Rightarrow> k v w }"

definition reraise :: "'w pymethod \<Rightarrow> ('w \<Rightarrow> 'w) \<Rightarrow> 'w pymethod" where
  "reraise m cleanup w = do {
     (r, w) \<leftarrow> m w;
     Some (r, case r of Inl e \<Rightarrow> if is_mariadb_error e then cleanup w else w | Inr v \<Rightarrow> w) }"

subsection \<open>State\<close>

datatype tpc_state = TPC_NONE | TPC_XID | TPC_PREPARE

fun tpc_num :: "tpc_state \<Rightarrow> nat" where
  "tpc_num TPC_NONE = 0"
| "tpc_num TPC_XID = 1"
| "tpc_num TPC_PREPARE = 2"

instantiation tpc_state :: linorder
begin

definition less_eq_tpc_state :: "tpc_state \<Rightarrow> tpc_state \<Rightarrow> bool" where
  "less_eq_tpc_state s t \<longleftrightarrow> tpc_num s \<le> tpc_num t"

definition less_tpc_state :: "tpc_state \<Rightarrow> tpc_state \<Rightarrow> bool" where
  "less_tpc_state s t \<longleftrightarrow> tpc_num s < tpc_num t"

instance
proof
  fix s t :: tpc_state
  assume "s \<le> t" "t \<le> s"
  then show "s = t" by (cases s; cases t) (simp_all add: less_eq_tpc_state_def)
qed (auto simp: less_eq_tpc_state_def less_tpc_state_def)

end

lemma tpc_order [simp]:
  "s < TPC_PREPARE \<longleftrightarrow> s \<noteq> TPC_PREPARE" "TPC_NONE < s \<longleftrightarrow> s \<noteq> TPC_NONE"
  by (cases s; simp add: less_tpc_state_def)+

text \<open>A \<open>str\<close> object is the list of its code points.\<close>

type_synonym pystr = "nat list"

type_synonym xid = "int \<times> pystr \<times> pystr"

record 'c pconn = "'c world" +
  tpc :: tpc_state
  conn_xid :: "xid option"

abbreviation ustr :: "string \<Rightarrow> pystr" where
  "ustr s \<equiv> map ord s"

text \<open>The decimal digits of a number, as \<open>str\<close> prints them.\<close>

fun nat_str :: "nat \<Rightarrow> pystr" where
  "nat_str n = (if n < 10 then [48 + n] else nat_str (n div 10) @ [48 + n mod 10])"

declare nat_str.simps [simp del]

definition int_str :: "int \<Rightarrow> pystr" where
  "int_str i = (if i < 0 then 45 # nat_str (nat (- i)) else nat_str (nat i))"

subsection \<open>Transaction identifiers\<close>

fun class_name :: "pyobj \<Rightarrow> string" where
  "class_name PyNone = ''NoneType''"
| "class_name (PyBool b) = ''bool''"
| "class_name (PyLong i) = ''int''"
| "class_name (PyFloat d) = ''float''"
| "class_name (PyBytes b) = ''bytes''"
| "class_name (PyUnicode s) = ''str''"
| "class_name (PyTemporal (PyDate y m d)) = ''date''"
| "class_name (PyTemporal (PyDateTime y mo d h m s us)) = ''datetime''"
| "class_name (PyTemporal t) = ''time''"
| "class_name (PyTimedelta d) = ''timedelta''"
| "class_name (PyDecimal b) = ''Decimal''"
| "class_name (PyIndicator i) = ''MrdbIndicator''"
| "class_name (PyList xs) = ''list''"
| "class_name (PyTuple xs) = ''tuple''"
| "class_name (PyDict kvs) = ''dict''"
| "class_name (PyOther s) = s"

definition MAX_TPC_XID_SIZE :: nat where "MAX_TPC_XID_SIZE = 64"

definition programming_error :: "string \<Rightarrow> pyerr" where
  "programming_error msg = SetString Mariadb_ProgrammingError (Text msg)"

text \<open>
  The attribute \<open>__mane__\<close> does not exist, so a wrong type of the second argument gives an
  \<open>AttributeError\<close>.
\<close>

definition new_xid :: "pyobj \<Rightarrow> pyobj \<Rightarrow> pyobj \<Rightarrow> pyerr + xid" where
  "new_xid format_id transaction_id branch_qualifier =
     (case as_int format_id of
        None \<Rightarrow> Inl (SetString Mariadb_ProgrammingError
          (Format ''argument 1 must be int, not %s'' [FmtStr (class_name format_id)]))
      | Some f \<Rightarrow>
     (case transaction_id of
        PyUnicode g \<Rightarrow>
       (case branch_qualifier of
          PyUnicode b \<Rightarrow>
            if MAX_TPC_XID_SIZE < length g then Inl (programming_error ''Maximum length of transaction_id exceeded.'')
            else if MAX_TPC_XID_SIZE < length b
            then Inl (programming_error ''Maximum length of branch_qualifier exceeded.'')
            else Inr (if f = 0 then 1 else f, g, b)
        | _ \<Rightarrow> Inl (SetString Mariadb_ProgrammingError
            (Format ''argument 3 must be str, not %s'' [FmtStr (class_name transaction_id)])))
      | _ \<Rightarrow> Inl (SetString PyExc_AttributeError (Text ''__mane__''))))"

text \<open>The text of a statement on a transaction: \<open>verb 'gtrid','bqual',format rest\<close>.\<close>

definition xa_stmt :: "string \<Rightarrow> xid \<Rightarrow> string \<Rightarrow> pystr" where
  "xa_stmt verb x rest = (case x of (f, g, b) \<Rightarrow>
     ustr verb @ ustr '' '' @ [39] @ g @ [39, 44, 39] @ b @ [39, 44] @ int_str f @ ustr rest)"

subsection \<open>Transactions\<close>

definition closed_error :: pyerr where
  "closed_error = programming_error ''Invalid connection or not connected''"

definition check_closed :: "('c, 'z) world_scheme pymethod \<Rightarrow> ('c, 'z) world_scheme pymethod" where
  "check_closed m w = (if conn_closed w then raise closed_error w else m w)"

definition execute_command :: "pyapi \<Rightarrow> 'c clientlib \<Rightarrow> pystr \<Rightarrow> ('c, 'z) world_scheme pymethod" where
  "execute_command api lib s = c_call (MrdbConnection_executecommand api lib (PyUnicode s))"

definition read_response :: "pyapi \<Rightarrow> 'c clientlib \<Rightarrow> ('c, 'z) world_scheme pymethod" where
  "read_response api lib = c_call (MrdbConnection_readresponse api lib)"

text \<open>\<open>_execute_command\<close>, then \<open>_read_response\<close>.\<close>

definition run_command :: "pyapi \<Rightarrow> 'c clientlib \<Rightarrow> pystr \<Rightarrow> ('c, 'z) world_scheme pymethod" where
  "run_command api lib s = py_then (execute_command api lib s) (\<lambda>_. read_response api lib)"

definition Connection_commit :: "pyapi \<Rightarrow> 'c clientlib \<Rightarrow> ('c, 'z) pconn_scheme pymethod" where
  "Connection_commit api lib = check_closed (\<lambda>w.
     if TPC_NONE < tpc w
     then raise (programming_error ''commit() is not allowed if a TPC transaction is active'') w
     else run_command api lib (ustr ''COMMIT'') w)"

definition Connection_rollback :: "pyapi \<Rightarrow> 'c clientlib \<Rightarrow> ('c, 'z) pconn_scheme pymethod" where
  "Connection_rollback api lib = check_closed (\<lambda>w.
     if TPC_NONE < tpc w
     then raise (programming_error ''rollback() is not allowed if a TPC transaction is active'') w
     else run_command api lib (ustr ''ROLLBACK'') w)"

definition Connection_begin :: "pyapi \<Rightarrow> 'c clientlib \<Rightarrow> ('c, 'z) pconn_scheme pymethod" where
  "Connection_begin api lib = check_closed (run_command api lib (ustr ''BEGIN''))"

definition Connection_kill :: "pyapi \<Rightarrow> 'c clientlib \<Rightarrow> pyobj \<Rightarrow> ('c, 'z) pconn_scheme pymethod" where
  "Connection_kill api lib pid = check_closed (\<lambda>w.
     case pid of
       PyLong i \<Rightarrow> run_command api lib (ustr ''KILL '' @ int_str i) w
     | PyBool b \<Rightarrow> run_command api lib (ustr ''KILL '' @ ustr (if b then ''True'' else ''False'')) w
     | _ \<Rightarrow> raise (programming_error ''id must be of type int.'') w)"

subsection \<open>Two-phase commit\<close>

text \<open>
  An argument \<open>xid\<close>: an object of the class \<open>xid\<close> or another object that counts as true. No
  argument and an object that counts as false are \<open>None\<close> in the methods where it is optional.
\<close>

datatype xid_arg = Xid xid | NotXid string

definition forget :: "('c, 'z) pconn_scheme \<Rightarrow> ('c, 'z) pconn_scheme" where
  "forget w = w\<lparr>conn_xid := None, tpc := TPC_NONE\<rparr>"

definition Connection_tpc_begin :: "pyapi \<Rightarrow> 'c clientlib \<Rightarrow> xid_arg \<Rightarrow> ('c, 'z) pconn_scheme pymethod" where
  "Connection_tpc_begin api lib arg = check_closed (\<lambda>w.
     case arg of
       NotXid t \<Rightarrow> raise (SetString Mariadb_ProgrammingError (Format ''argument 1 must be xid not %s'' [FmtStr t])) w
     | Xid x \<Rightarrow> do {
         (r, w) \<leftarrow> run_command api lib (xa_stmt ''XA BEGIN'' x '''') w;
         Some (r, case r of Inl e \<Rightarrow> w | Inr v \<Rightarrow> w\<lparr>tpc := TPC_XID, conn_xid := Some x\<rparr>) })"

definition not_started :: pyerr where
  "not_started = programming_error ''Transaction not started.''"

definition no_xid :: pyerr where
  "no_xid = SetString PyExc_TypeError (Text ''NoneType object is not subscriptable'')"

definition not_xid :: "string \<Rightarrow> pyerr" where
  "not_xid t = SetString Mariadb_ProgrammingError (Format ''argument 1 must be xid not %s'' [FmtStr t])"

text \<open>
  \<open>XA END\<close> before the transaction is prepared: only the exception of the response resets the state,
  not the one of the command.
\<close>

definition xa_end :: "pyapi \<Rightarrow> 'c clientlib \<Rightarrow> xid \<Rightarrow> ('c, 'z) pconn_scheme pymethod" where
  "xa_end api lib x w =
     (if tpc w < TPC_PREPARE
      then py_then (execute_command api lib (xa_stmt ''XA END'' x ''''))
             (\<lambda>_. reraise (read_response api lib) forget) w
      else return PyNone w)"

definition Connection_tpc_commit :: "pyapi \<Rightarrow> 'c clientlib \<Rightarrow> xid_arg option \<Rightarrow> ('c, 'z) pconn_scheme pymethod" where
  "Connection_tpc_commit api lib arg = check_closed (\<lambda>w.
     let x = (case arg of None \<Rightarrow> map_option Xid (conn_xid w) | Some a \<Rightarrow> Some a) in
     if tpc w = TPC_NONE then raise not_started w
     else if x = None \<and> tpc w \<noteq> TPC_PREPARE then raise (programming_error ''Transaction is not prepared.'') w
     else case x of
       Some (NotXid t) \<Rightarrow> raise (not_xid t) w
     | None \<Rightarrow> raise no_xid w
     | Some (Xid x) \<Rightarrow>
         py_then (xa_end api lib x) (\<lambda>_ w. do {
           (r, w) \<leftarrow> reraise (run_command api lib
             (xa_stmt ''XA COMMIT'' x (if tpc w < TPC_PREPARE then '' ONE PHASE'' else ''''))) forget w;
           Some (r, case r of Inl e \<Rightarrow> w | Inr v \<Rightarrow> forget w) }) w)"

definition Connection_tpc_prepare :: "pyapi \<Rightarrow> 'c clientlib \<Rightarrow> ('c, 'z) pconn_scheme pymethod" where
  "Connection_tpc_prepare api lib = check_closed (\<lambda>w.
     if tpc w = TPC_NONE then raise not_started w
     else if tpc w = TPC_PREPARE then raise (programming_error ''Transaction is already in prepared state.'') w
     else case conn_xid w of
       None \<Rightarrow> raise no_xid w
     | Some x \<Rightarrow>
         py_then (reraise (run_command api lib (xa_stmt ''XA END'' x '''')) forget) (\<lambda>_ w. do {
           (r, w) \<leftarrow> reraise (run_command api lib (xa_stmt ''XA PREPARE'' x '''')) forget w;
           Some (r, case r of Inl e \<Rightarrow> w | Inr v \<Rightarrow> w\<lparr>tpc := TPC_PREPARE\<rparr>) }) w)"

text \<open>At the end of a rollback the state is set to \<open>PREPARE\<close>, and the identifier is kept.\<close>

definition Connection_tpc_rollback :: "pyapi \<Rightarrow> 'c clientlib \<Rightarrow> xid_arg option \<Rightarrow> ('c, 'z) pconn_scheme pymethod" where
  "Connection_tpc_rollback api lib arg = check_closed (\<lambda>w.
     if tpc w = TPC_NONE then raise not_started w
     else case arg of
       Some (NotXid t) \<Rightarrow> raise (not_xid t) w
     | _ \<Rightarrow>
       (case (case arg of Some (Xid x) \<Rightarrow> Some x | _ \<Rightarrow> conn_xid w) of
          None \<Rightarrow> raise no_xid w
        | Some x \<Rightarrow>
            py_then (xa_end api lib x) (\<lambda>_ w. do {
              (r, w) \<leftarrow> reraise (run_command api lib (xa_stmt ''XA ROLLBACK'' x '''')) forget w;
              Some (r, case r of Inl e \<Rightarrow> w | Inr v \<Rightarrow> w\<lparr>tpc := TPC_PREPARE\<rparr>) }) w))"

subsection \<open>Attributes and other methods\<close>

datatype info_attr =
    Database | User | Client_capabilities | Server_capabilities | Extended_server_capabilities
  | Server_port | Unix_socket | Server_name | Server_info | Server_status | Server_version

text \<open>The constant of \<open>INFO.py\<close> an attribute asks for.\<close>

fun attr_info :: "info_attr \<Rightarrow> int" where
  "attr_info Database = 15"
| "attr_info User = 27"
| "attr_info Client_capabilities = 33"
| "attr_info Server_capabilities = 31"
| "attr_info Extended_server_capabilities = 32"
| "attr_info Server_port = 12"
| "attr_info Unix_socket = 26"
| "attr_info Server_name = 10"
| "attr_info Server_info = 17"
| "attr_info Server_status = 30"
| "attr_info Server_version = 18"

definition get_info :: "pyapi \<Rightarrow> 'c clientlib \<Rightarrow> int \<Rightarrow> ('c, 'z) world_scheme pymethod" where
  "get_info api lib n = c_call (MrdbConnection_getinfo api lib (PyLong n))"

definition Connection_attr :: "pyapi \<Rightarrow> 'c clientlib \<Rightarrow> info_attr \<Rightarrow> ('c, 'z) world_scheme pymethod" where
  "Connection_attr api lib a = check_closed (get_info api lib (attr_info a))"

text \<open>The attributes \<open>tls_cipher\<close> and \<open>tls_version\<close>.\<close>

definition Connection_tls_attr :: "pyapi \<Rightarrow> 'c clientlib \<Rightarrow> int \<Rightarrow> ('c, 'z) world_scheme pymethod" where
  "Connection_tls_attr api lib n = check_closed (\<lambda>w. if tls_in_use w then get_info api lib n w else return PyNone w)"

text \<open>
  \<open>int(version / 10000)\<close>, \<open>int((version % 10000) / 100)\<close>, \<open>version % 100\<close>; a version number is not
  negative, so the conversions round down.
\<close>

definition version_tuple :: "int \<Rightarrow> pyobj" where
  "version_tuple v = PyTuple [PyLong (v div 10000), PyLong (v mod 10000 div 100), PyLong (v mod 100)]"

definition Connection_server_version_info :: "pyapi \<Rightarrow> 'c clientlib \<Rightarrow> ('c, 'z) world_scheme pymethod" where
  "Connection_server_version_info api lib = check_closed (py_then (Connection_attr api lib Server_version) (\<lambda>v.
     case v of PyLong n \<Rightarrow> return (version_tuple n)
     | _ \<Rightarrow> raise (SetString PyExc_TypeError (Text ''unsupported operand''))))"

definition STATUS_IN_TRANS :: int where "STATUS_IN_TRANS = 1"

definition STATUS_AUTOCOMMIT :: int where "STATUS_AUTOCOMMIT = 2"

definition Connection_autocommit :: "pyapi \<Rightarrow> 'c clientlib \<Rightarrow> ('c, 'z) world_scheme pymethod" where
  "Connection_autocommit api lib = check_closed (py_then (Connection_attr api lib Server_status) (\<lambda>v.
     case v of PyLong n \<Rightarrow> return (PyBool (n AND STATUS_AUTOCOMMIT \<noteq> 0))
     | _ \<Rightarrow> raise (SetString PyExc_TypeError (Text ''unsupported operand''))))"

definition set_autocommit :: "pyapi \<Rightarrow> 'c clientlib \<Rightarrow> bool \<Rightarrow> ('c, 'z) world_scheme pymethod" where
  "set_autocommit api lib mode = check_closed (py_then (Connection_autocommit api lib) (\<lambda>v.
     if v = PyBool mode then return PyNone
     else run_command api lib (ustr ''SET AUTOCOMMIT='' @ int_str (if mode then 1 else 0))))"

definition set_database :: "pyapi \<Rightarrow> 'c clientlib \<Rightarrow> pystr \<Rightarrow> ('c, 'z) world_scheme pymethod" where
  "set_database api lib schema = check_closed (run_command api lib (ustr ''USE '' @ schema))"

definition Connection_open :: "pyapi \<Rightarrow> 'c clientlib \<Rightarrow> ('c, 'z) world_scheme pymethod" where
  "Connection_open api lib = check_closed (\<lambda>w. do {
     (r, w) \<leftarrow> c_call (MrdbConnection_ping api lib) w;
     case r of
       Inr v \<Rightarrow> return (PyBool True) w
     | Inl e \<Rightarrow> if is_mariadb_error e then return (PyBool False) w else raise e w })"

text \<open>\<open>close\<close> of a connection that belongs to no pool.\<close>

definition Connection_close :: "'c clientlib \<Rightarrow> ('c, 'z) world_scheme pymethod" where
  "Connection_close lib = check_closed (c_call (MrdbConnection_close lib))"

text \<open>
  \<open>Connection.__init__\<close> behind the keyword arguments it takes out for itself: \<open>autocommit\<close> and
  \<open>reconnect\<close>. The initialiser of a class returns no object, so an exception that is set counts
  alone.
\<close>

definition c_init :: "(('c, 'z) world_scheme \<Rightarrow> (bool \<times> ('c, 'z) world_scheme) option) \<Rightarrow>
    ('c, 'z) world_scheme pymethod" where
  "c_init m = c_call (\<lambda>w. map_option (\<lambda>(failed, w). (if failed then None else Some PyNone, w)) (m w))"

definition Connection_init :: "pyapi \<Rightarrow> 'c clientlib \<Rightarrow> bytes option \<Rightarrow> pyerr option \<Rightarrow> (pyerr + conn_args) \<Rightarrow>
    bool \<Rightarrow> bool \<Rightarrow> ('c, 'z) pconn_scheme pymethod" where
  "Connection_init api lib plugins warning args autocommit reconnect w =
     py_then (c_init (MrdbConnection_Initialize api lib plugins warning args)) (\<lambda>_.
       py_then (set_autocommit api lib autocommit) (\<lambda>_.
         c_init (MrdbConnection_setreconnect lib (Some (PyBool reconnect)))))
     (new_connection w\<lparr>tpc := TPC_NONE, conn_xid := None\<rparr>)"

subsection \<open>Python code with results\<close>

definition py_return :: "'r \<Rightarrow> ('s, 'r) pyfun" where
  "py_return v s = Some (Inr v, s)"

definition py_raise :: "pyerr \<Rightarrow> ('s, 'r) pyfun" where
  "py_raise e s = Some (Inl e, s)"

definition py_bind :: "('s, 'a) pyfun \<Rightarrow> ('a \<Rightarrow> ('s, 'b) pyfun) \<Rightarrow> ('s, 'b) pyfun" where
  "py_bind m k s = do { (r, s) \<leftarrow> m s; case r of Inl e \<Rightarrow> Some (Inl e, s) | Inr v \<Rightarrow> k v s }"

text \<open>\<open>try: m except mariadb.Error: h\<close>\<close>

definition py_except :: "('s, 'a) pyfun \<Rightarrow> ('s, 'a) pyfun \<Rightarrow> ('s, 'a) pyfun" where
  "py_except m h s = do {
     (r, s) \<leftarrow> m s;
     case r of Inl e \<Rightarrow> if is_mariadb_error e then h s else Some (Inl e, s) | Inr v \<Rightarrow> Some (Inr v, s) }"

definition py_modify :: "('s \<Rightarrow> 's) \<Rightarrow> ('s, unit) pyfun" where
  "py_modify f s = Some (Inr (), f s)"

end
