(* ===== verification/Mrdb_Tpc.thy ===== *)
theory Mrdb_Tpc
  imports Mrdb_PyConnection
begin

text \<open>
  Two-phase commit: the state that \<open>Connection\<close> keeps against the state of the transaction in the
  server, as the documentation of the \<open>XA\<close> statements describes it.
\<close>

subsection \<open>Commands\<close>

text \<open>A step of Python code between two exceptions: the handle and the fields of the class stay.\<close>

definition py_step :: "('c, 'z) world_scheme \<Rightarrow> ('c, 'z) world_scheme \<Rightarrow> bool" where
  "py_step w w' \<longleftrightarrow> same_conn w w' \<and> py_err w' = None"

definition call_state :: "'c server_call \<Rightarrow> 'c \<Rightarrow> 'c" where
  "call_state f c = snd (snd (f c))"

lemma py_step_trans: "py_step w w' \<Longrightarrow> py_step w' w'' \<Longrightarrow> py_step w w''"
  using same_conn_trans [of w w' w''] by (simp add: py_step_def)

lemma py_step_fields:
  assumes "py_step w w'"
  shows "locked w' = locked w" "mysql w' = mysql w" "conn_closed w' = conn_closed w" "world.more w' = world.more w"
  using assms by (simp_all add: py_step_def same_conn_def locked_def)

lemma py_step_tpc: "py_step w w' \<Longrightarrow> tpc w' = tpc w" "py_step w w' \<Longrightarrow> conn_xid w' = conn_xid w"
  by (cases w; cases w'; simp add: py_step_def same_conn_def)+

text \<open>A call to the server made by a method in C whose answer decides between \<open>None\<close> and an exception.\<close>

lemma c_call_blocking:
  assumes "locked w" "call_ok api f" "m w = Option.bind (blocking api f w) (\<lambda>(rc, w). none_or_raise lib ty rc w)"
  shows "wp (c_call m w) (\<lambda>(r, w'). py_step w w' \<and> client w' = call_state f (client w) \<and> (\<forall>v. r = Inr v \<longrightarrow> \<not> call_rc f (client w)))"
proof -
  let ?v = "after_call api f w"
  have v: "same_conn w ?v" "client ?v = call_state f (client w)" "gil ?v"
    using assms(1) same_conn_lock(2) [OF after_call_frame(1) [of w api f]] by (simp_all add: call_state_def locked_def)
  have "m w = (if call_rc f (client w) then Some (None, ?v\<lparr>py_err := Some (throw_handle lib ty False ?v)\<rparr>) else Some (Some PyNone, ?v))"
    using v(3) unfolding assms(3) by (simp add: blocking_eq [OF assms(1,2)] none_or_raise_def raise_null_def set_error_def)
  then show ?thesis
    using v(1,2) by (auto simp: c_call_def wp_simps py_step_def split: option.split)
qed

lemma execute_command_wp:
  assumes "lib_ok api lib" "locked w" "mysql w" "utf8_encode api s = Some b"
  shows "wp (execute_command api lib s w) (\<lambda>(r, w'). py_step w w' \<and>
    client w' = call_state (mysql_send_query lib (takeWhile (\<lambda>c. c \<noteq> NUL) b)) (client w) \<and>
    (\<forall>v. r = Inr v \<longrightarrow> \<not> call_rc (mysql_send_query lib (takeWhile (\<lambda>c. c \<noteq> NUL) b)) (client w)))"
  unfolding execute_command_def
  by (rule c_call_blocking [where api = api and lib = lib])
    (use assms in \<open>simp_all add: lib_ok_def MrdbConnection_executecommand_def MARIADB_CHECK_CONNECTION_def as_utf8_def\<close>)

lemma read_response_wp:
  assumes "lib_ok api lib" "locked w" "mysql w"
  shows "wp (read_response api lib w) (\<lambda>(r, w'). py_step w w' \<and>
    client w' = call_state (db_read_query_result lib) (client w) \<and>
    (\<forall>v. r = Inr v \<longrightarrow> \<not> call_rc (db_read_query_result lib) (client w)))"
  unfolding read_response_def
  by (rule c_call_blocking [where api = api and lib = lib])
    (use assms in \<open>simp_all add: lib_ok_def MrdbConnection_readresponse_def\<close>)

text \<open>The server has accepted the command that was sent as the bytes \<open>b\<close>.\<close>

definition accepted :: "'c clientlib \<Rightarrow> bytes \<Rightarrow> 'c \<Rightarrow> 'c \<Rightarrow> bool" where
  "accepted lib b c c' \<longleftrightarrow>
     (let q = mysql_send_query lib (takeWhile (\<lambda>c. c \<noteq> NUL) b); c1 = call_state q c in
      \<not> call_rc q c \<and> \<not> call_rc (db_read_query_result lib) c1 \<and> c' = call_state (db_read_query_result lib) c1)"

text \<open>
  The outcome of one command in the three forms the methods use: without a handler, with a handler
  around command and response, with a handler around the response only.
\<close>

definition cmd_post :: "'c clientlib \<Rightarrow> bytes \<Rightarrow> ('c, 'z) pconn_scheme \<Rightarrow>
    (pyerr + pyobj) \<times> ('c, 'z) pconn_scheme \<Rightarrow> bool" where
  "cmd_post lib b w = (\<lambda>(r, w'). case r of
     Inl e \<Rightarrow> \<exists>v. py_step w v \<and> (w' = v \<or> w' = forget v)
   | Inr x \<Rightarrow> py_step w w' \<and> accepted lib b (client w) (client w'))"

lemma cmd_post_simps [simp]:
  "cmd_post lib b w (Inl e, w') \<longleftrightarrow> (\<exists>v. py_step w v \<and> (w' = v \<or> w' = forget v))"
  "cmd_post lib b w (Inr x, w') \<longleftrightarrow> py_step w w' \<and> accepted lib b (client w) (client w')"
  by (simp_all add: cmd_post_def)

lemma forget_forget [simp]: "forget (forget w) = forget w"
  by (simp add: forget_def)

lemma reraise_wp:
  "wp (m w) (cmd_post lib b u) \<Longrightarrow> wp (reraise m forget w) (cmd_post lib b u)"
  unfolding reraise_def wp_bind
  by (erule wp_mono) (auto simp: wp_simps split: sum.split, blast+)

lemma commands_wp:
  assumes "lib_ok api lib" "locked w" "mysql w" "utf8_encode api s = Some b"
  shows "wp (run_command api lib s w) (cmd_post lib b w)"
    "wp (reraise (run_command api lib s) forget w) (cmd_post lib b w)"
    "wp (py_then (execute_command api lib s) (\<lambda>_. reraise (read_response api lib) forget) w) (cmd_post lib b w)"
proof -
  have step: "wp (py_then (execute_command api lib s) (\<lambda>_. k) w) (cmd_post lib b w)"
    if k: "\<And>v. py_step w v \<Longrightarrow> \<not> call_rc (mysql_send_query lib (takeWhile (\<lambda>c. c \<noteq> NUL) b)) (client w) \<Longrightarrow>
      client v = call_state (mysql_send_query lib (takeWhile (\<lambda>c. c \<noteq> NUL) b)) (client w) \<Longrightarrow> wp (k v) (cmd_post lib b w)"
    for k
    unfolding py_then_def wp_bind
    by (rule wp_mono [OF execute_command_wp [OF assms]])
      (auto simp: wp_simps split: sum.split intro: k)
  have read: "wp (read_response api lib v) (cmd_post lib b w)"
    if v: "py_step w v" "\<not> call_rc (mysql_send_query lib (takeWhile (\<lambda>c. c \<noteq> NUL) b)) (client w)"
      "client v = call_state (mysql_send_query lib (takeWhile (\<lambda>c. c \<noteq> NUL) b)) (client w)" for v
  proof -
    have "locked v" "mysql v" using py_step_fields [OF v(1)] assms(2,3) by simp_all
    have "cmd_post lib b w p" if "case p of (r, w') \<Rightarrow> py_step v w' \<and> client w' = call_state (db_read_query_result lib) (client v) \<and>
        (\<forall>x. r = Inr x \<longrightarrow> \<not> call_rc (db_read_query_result lib) (client v))" for p
      using that v py_step_trans [OF v(1)] by (cases p; cases "fst p") (auto simp: accepted_def Let_def)
    with read_response_wp [OF assms(1) \<open>locked v\<close> \<open>mysql v\<close>] show ?thesis by (rule wp_mono)
  qed
  show "wp (run_command api lib s w) (cmd_post lib b w)"
    unfolding run_command_def by (rule step [OF read])
  then show "wp (reraise (run_command api lib s) forget w) (cmd_post lib b w)" by (rule reraise_wp)
  show "wp (py_then (execute_command api lib s) (\<lambda>_. reraise (read_response api lib) forget) w) (cmd_post lib b w)"
    by (rule step [OF reraise_wp [OF read]])
qed

subsection \<open>The transaction in the server\<close>

datatype xa_state = XA_NONACTIVE | XA_ACTIVE xid | XA_IDLE xid | XA_PREPARED xid

datatype xa_cmd = XA_BEGIN | XA_END | XA_PREPARE | XA_COMMIT | XA_COMMIT_ONE_PHASE | XA_ROLLBACK

fun xa_text :: "xa_cmd \<Rightarrow> xid \<Rightarrow> pystr" where
  "xa_text XA_BEGIN x = xa_stmt ''XA BEGIN'' x ''''"
| "xa_text XA_END x = xa_stmt ''XA END'' x ''''"
| "xa_text XA_PREPARE x = xa_stmt ''XA PREPARE'' x ''''"
| "xa_text XA_COMMIT x = xa_stmt ''XA COMMIT'' x ''''"
| "xa_text XA_COMMIT_ONE_PHASE x = xa_stmt ''XA COMMIT'' x '' ONE PHASE''"
| "xa_text XA_ROLLBACK x = xa_stmt ''XA ROLLBACK'' x ''''"

text \<open>
  The transitions of the server; \<open>None\<close> is an error. \<open>XA COMMIT\<close> and \<open>XA ROLLBACK\<close> without a
  transaction of the session finish a transaction that another session has prepared.
\<close>

fun xa_next :: "xa_cmd \<Rightarrow> xid \<Rightarrow> xa_state \<Rightarrow> xa_state option" where
  "xa_next XA_BEGIN x XA_NONACTIVE = Some (XA_ACTIVE x)"
| "xa_next XA_END x (XA_ACTIVE y) = (if x = y then Some (XA_IDLE x) else None)"
| "xa_next XA_PREPARE x (XA_IDLE y) = (if x = y then Some (XA_PREPARED x) else None)"
| "xa_next XA_COMMIT x (XA_PREPARED y) = (if x = y then Some XA_NONACTIVE else None)"
| "xa_next XA_COMMIT x XA_NONACTIVE = Some XA_NONACTIVE"
| "xa_next XA_COMMIT_ONE_PHASE x (XA_IDLE y) = (if x = y then Some XA_NONACTIVE else None)"
| "xa_next XA_ROLLBACK x (XA_IDLE y) = (if x = y then Some XA_NONACTIVE else None)"
| "xa_next XA_ROLLBACK x (XA_PREPARED y) = (if x = y then Some XA_NONACTIVE else None)"
| "xa_next XA_ROLLBACK x XA_NONACTIVE = Some XA_NONACTIVE"
| "xa_next cmd x s = None"

text \<open>
  The library talks to such a server: \<open>xa\<close> reads the state of the session, and a statement about the
  transaction \<open>x\<close> that is accepted makes its transition.
\<close>

definition xa_server :: "pyapi \<Rightarrow> 'c clientlib \<Rightarrow> ('c \<Rightarrow> xa_state) \<Rightarrow> xid \<Rightarrow> bool" where
  "xa_server api lib xa x \<longleftrightarrow> (\<forall>cmd b c c'. utf8_encode api (xa_text cmd x) = Some b \<longrightarrow> accepted lib b c c' \<longrightarrow>
     xa_next cmd x (xa c) = Some (xa c'))"

text \<open>The state kept by the connection is that of the server.\<close>

fun tracks :: "tpc_state \<Rightarrow> xid option \<Rightarrow> xa_state \<Rightarrow> bool" where
  "tracks TPC_NONE None XA_NONACTIVE \<longleftrightarrow> True"
| "tracks TPC_XID (Some x) (XA_ACTIVE y) \<longleftrightarrow> x = y"
| "tracks TPC_PREPARE (Some x) (XA_PREPARED y) \<longleftrightarrow> x = y"
| "tracks _ _ _ \<longleftrightarrow> False"

definition sendable :: "pyapi \<Rightarrow> xid \<Rightarrow> bool" where
  "sendable api x \<longleftrightarrow> (\<forall>cmd. utf8_encode api (xa_text cmd x) \<noteq> None)"

text \<open>A connection between two calls, in step with its server.\<close>

definition tpc_ready :: "pyapi \<Rightarrow> ('c \<Rightarrow> xa_state) \<Rightarrow> xid \<Rightarrow> ('c, 'z) pconn_scheme \<Rightarrow> bool" where
  "tpc_ready api xa x w \<longleftrightarrow> py_err w = None \<and> locked w \<and> mysql w \<and> \<not> conn_closed w \<and>
     tracks (tpc w) (conn_xid w) (xa (client w)) \<and> conn_xid w \<in> {None, Some x} \<and> sendable api x"

datatype tpc_call = Tpc_begin | Tpc_prepare | Tpc_commit

fun run_tpc :: "pyapi \<Rightarrow> 'c clientlib \<Rightarrow> xid \<Rightarrow> tpc_call \<Rightarrow> ('c, 'z) pconn_scheme pymethod" where
  "run_tpc api lib x Tpc_begin = Connection_tpc_begin api lib (Xid x)"
| "run_tpc api lib x Tpc_prepare = Connection_tpc_prepare api lib"
| "run_tpc api lib x Tpc_commit = Connection_tpc_commit api lib None"

fun tpc_after :: "tpc_call \<Rightarrow> tpc_state" where
  "tpc_after Tpc_begin = TPC_XID"
| "tpc_after Tpc_prepare = TPC_PREPARE"
| "tpc_after Tpc_commit = TPC_NONE"

subsection \<open>The methods\<close>

lemma then_cmd:
  assumes "wp (m w) (cmd_post lib b w)" "\<And>e v. py_step w v \<Longrightarrow> Q (Inl e, v)" "\<And>e v. py_step w v \<Longrightarrow> Q (Inl e, forget v)"
    "\<And>x v. py_step w v \<Longrightarrow> accepted lib b (client w) (client v) \<Longrightarrow> wp (k x v) Q"
  shows "wp (py_then m k w) Q"
  unfolding py_then_def wp_bind
  by (rule wp_mono [OF assms(1)]) (use assms(2-4) in \<open>auto simp: wp_simps split: sum.split\<close>)

lemma last_cmd:
  assumes "wp (m w) (cmd_post lib b w)" "\<And>e v. py_step w v \<Longrightarrow> Q (Inl e, v)" "\<And>e v. py_step w v \<Longrightarrow> Q (Inl e, forget v)"
    "\<And>x v. py_step w v \<Longrightarrow> accepted lib b (client w) (client v) \<Longrightarrow> Q (Inr x, g v)"
  shows "wp (Option.bind (m w) (\<lambda>(r, w). Some (r, case r of Inl e \<Rightarrow> w | Inr v \<Rightarrow> g w))) Q"
  unfolding wp_bind
  by (rule wp_mono [OF assms(1)]) (use assms(2-4) in \<open>auto simp: wp_simps split: sum.split\<close>)

text \<open>What a method leaves: after an exception the old state or none, otherwise the state \<open>s\<close> of the server.\<close>

definition tpc_post :: "('c \<Rightarrow> xa_state) \<Rightarrow> tpc_state \<Rightarrow> xid option \<Rightarrow> xa_state \<Rightarrow> ('c, 'z) pconn_scheme \<Rightarrow>
    (pyerr + pyobj) \<times> ('c, 'z) pconn_scheme \<Rightarrow> bool" where
  "tpc_post xa s xo t w = (\<lambda>(r, w'). locked w' \<and> mysql w' \<and> \<not> conn_closed w' \<and>
     (case r of Inl e \<Rightarrow> tpc w' = tpc w \<and> conn_xid w' = conn_xid w \<or> tpc w' = TPC_NONE \<and> conn_xid w' = None
      | Inr v \<Rightarrow> tpc w' = s \<and> conn_xid w' = xo \<and> xa (client w') = t))"

lemma tpc_post_error:
  assumes "locked w" "mysql w" "\<not> conn_closed w" "py_step w v"
  shows "tpc_post xa s xo t w (Inl e, v)" "tpc_post xa s xo t w (Inl e, forget v)"
  using assms py_step_fields [OF assms(4)] py_step_tpc [OF assms(4)]
  by (simp_all add: tpc_post_def forget_def locked_def)

lemma raise_post: "locked w \<Longrightarrow> mysql w \<Longrightarrow> \<not> conn_closed w \<Longrightarrow> wp (raise e w) (tpc_post xa s xo t w)"
  by (simp add: raise_def tpc_post_def wp_simps)

lemma xa_accepted:
  "xa_server api lib xa x \<Longrightarrow> utf8_encode api (xa_text cmd x) = Some b \<Longrightarrow> accepted lib b c c' \<Longrightarrow>
   xa_next cmd x (xa c) = Some (xa c')"
  unfolding xa_server_def by blast

lemma sendable_bytes: "sendable api x \<Longrightarrow> \<exists>b. utf8_encode api (xa_text cmd x) = Some b"
  unfolding sendable_def by blast

lemma xa_next_elims:
  "xa_next XA_BEGIN x s = Some s' \<Longrightarrow> s = XA_NONACTIVE \<and> s' = XA_ACTIVE x"
  "xa_next XA_END x s = Some s' \<Longrightarrow> s = XA_ACTIVE x \<and> s' = XA_IDLE x"
  "xa_next XA_PREPARE x s = Some s' \<Longrightarrow> s = XA_IDLE x \<and> s' = XA_PREPARED x"
  "xa_next XA_COMMIT x s = Some s' \<Longrightarrow> s' = XA_NONACTIVE"
  "xa_next XA_COMMIT_ONE_PHASE x s = Some s' \<Longrightarrow> s' = XA_NONACTIVE"
  "xa_next XA_ROLLBACK x s = Some s' \<Longrightarrow> s' = XA_NONACTIVE"
  by (cases s; auto split: if_splits)+

lemma tpc_begin_post:
  assumes "lib_ok api lib" "xa_server api lib xa x" "locked w" "mysql w" "\<not> conn_closed w" "sendable api x"
  shows "wp (Connection_tpc_begin api lib (Xid x) w)
    (tpc_post xa TPC_XID (Some x) (XA_ACTIVE x) w)"
proof -
  obtain b where b: "utf8_encode api (xa_text XA_BEGIN x) = Some b" using sendable_bytes [OF assms(6)] by blast
  note run = commands_wp(1) [OF assms(1,3,4) b]
  have fin: "tpc_post xa TPC_XID (Some x) (XA_ACTIVE x) w (Inr y, v\<lparr>tpc := TPC_XID, conn_xid := Some x\<rparr>)"
    if "py_step w v" "accepted lib b (client w) (client v)" for v y
    using py_step_fields [OF that(1)] xa_next_elims(1) [OF xa_accepted [OF assms(2) b that(2)]] assms(3-5)
    by (simp add: tpc_post_def locked_def)
  show ?thesis
    unfolding Connection_tpc_begin_def check_closed_def if_not_P [OF assms(5)] xid_arg.case
    by (rule last_cmd [where lib = lib and b = b])
      (use run fin tpc_post_error [OF assms(3-5)] in simp_all)
qed

text \<open>The last command of a method, sent after a step: the outcome is that of the whole method.\<close>

lemma second_cmd:
  assumes "lib_ok api lib" "xa_server api lib xa x" "locked w" "mysql w" "\<not> conn_closed w" "py_step w v" "sendable api x"
    and "\<And>c. xa_next cmd x (xa (client v)) = Some (xa c) \<Longrightarrow> xa c = t"
    and "(\<forall>u. g u = u\<lparr>tpc := s\<rparr>) \<and> xo = conn_xid w \<or> g = forget \<and> s = TPC_NONE \<and> xo = None"
  shows "wp (Option.bind (reraise (run_command api lib (xa_text cmd x)) forget v)
      (\<lambda>(r, w). Some (r, case r of Inl e \<Rightarrow> w | Inr v \<Rightarrow> g w))) (tpc_post xa s xo t w)"
proof -
  obtain b where b: "utf8_encode api (xa_text cmd x) = Some b" using sendable_bytes [OF assms(7)] by blast
  have v: "locked v" "mysql v" using py_step_fields [OF assms(6)] assms(3,4) by simp_all
  have fin: "tpc_post xa s xo t w (Inr y, g u)" if "py_step v u" "accepted lib b (client v) (client u)" for u y
  proof -
    have "locked u" "mysql u" "\<not> conn_closed u"
      using py_step_fields [OF py_step_trans [OF assms(6) that(1)]] assms(3-5) by simp_all
    moreover have "xa (client u) = t" using assms(8) xa_accepted [OF assms(2) b that(2)] by blast
    moreover have "conn_xid u = conn_xid w" using py_step_tpc(2) [OF py_step_trans [OF assms(6) that(1)]] .
    ultimately show ?thesis using assms(9) by (auto simp: tpc_post_def locked_def forget_def)
  qed
  show ?thesis
    by (rule last_cmd [where lib = lib and b = b])
      (use commands_wp(2) [OF assms(1) v b] fin tpc_post_error [OF assms(3-5) py_step_trans [OF assms(6)]] in simp_all)
qed

lemma xa_end_wp:
  assumes "lib_ok api lib" "xa_server api lib xa x" "locked w" "mysql w" "sendable api x" "tpc w < TPC_PREPARE"
    and "\<And>e v. py_step w v \<Longrightarrow> Q (Inl e, v)" "\<And>e v. py_step w v \<Longrightarrow> Q (Inl e, forget v)"
    and "\<And>y v. py_step w v \<Longrightarrow> xa (client v) = XA_IDLE x \<Longrightarrow> wp (k y v) Q"
  shows "wp (py_then (xa_end api lib x) k w) Q"
    "wp (py_then (reraise (run_command api lib (xa_text XA_END x)) forget) k w) Q"
proof -
  obtain b where b: "utf8_encode api (xa_text XA_END x) = Some b" using sendable_bytes [OF assms(5)] by blast
  have idle: "xa c = XA_IDLE x" if "accepted lib b (client w) c" for c
    using xa_next_elims(2) [OF xa_accepted [OF assms(2) b that]] by simp
  have "wp (xa_end api lib x w) (cmd_post lib b w)"
    using commands_wp(3) [OF assms(1,3,4) b] assms(6) by (simp add: xa_end_def)
  then show "wp (py_then (xa_end api lib x) k w) Q"
    by (rule then_cmd) (use assms(7-9) idle in auto)
  show "wp (py_then (reraise (run_command api lib (xa_text XA_END x)) forget) k w) Q"
    by (rule then_cmd [where b = b], rule commands_wp(2) [OF assms(1,3,4) b]) (use assms(7-9) idle in auto)
qed

lemma tpc_prepare_post:
  assumes "lib_ok api lib" "xa_server api lib xa x" "locked w" "mysql w" "\<not> conn_closed w"
    and "tpc w = TPC_XID" "conn_xid w = Some x" "sendable api x"
  shows "wp (Connection_tpc_prepare api lib w) (tpc_post xa TPC_PREPARE (Some x) (XA_PREPARED x) w)"
proof -
  have eq: "Connection_tpc_prepare api lib w =
      py_then (reraise (run_command api lib (xa_text XA_END x)) forget) (\<lambda>_ w. do {
           (r, w) \<leftarrow> reraise (run_command api lib (xa_text XA_PREPARE x)) forget w;
           Some (r, case r of Inl e \<Rightarrow> w | Inr v \<Rightarrow> w\<lparr>tpc := TPC_PREPARE\<rparr>) }) w"
    using assms(5-7) by (simp add: Connection_tpc_prepare_def check_closed_def)
  show ?thesis
    unfolding eq
    by (rule xa_end_wp(2) [OF assms(1-4,8)], simp add: assms(6), rule tpc_post_error(1) [OF assms(3-5)], assumption,
        rule tpc_post_error(2) [OF assms(3-5)], assumption, rule second_cmd [OF assms(1-5) _ assms(8)])
      (auto simp: assms(7))
qed

lemma commit_text:
  "xa_stmt ''XA COMMIT'' x (if b then '' ONE PHASE'' else '''') = xa_text (if b then XA_COMMIT_ONE_PHASE else XA_COMMIT) x"
  by simp

lemma tpc_commit_post:
  assumes "lib_ok api lib" "xa_server api lib xa x" "locked w" "mysql w" "\<not> conn_closed w"
    and "tpc w \<noteq> TPC_NONE" "conn_xid w = Some x" "sendable api x" "py_err w = None"
  shows "wp (Connection_tpc_commit api lib None w) (tpc_post xa TPC_NONE None XA_NONACTIVE w)"
proof -
  let ?cmd = "\<lambda>w. if tpc w < TPC_PREPARE then XA_COMMIT_ONE_PHASE else XA_COMMIT"
  have eq: "Connection_tpc_commit api lib None w =
      py_then (xa_end api lib x) (\<lambda>_ w. do {
           (r, w) \<leftarrow> reraise (run_command api lib (xa_text (?cmd w) x)) forget w;
           Some (r, case r of Inl e \<Rightarrow> w | Inr v \<Rightarrow> forget w) }) w"
    using assms(5-7) by (simp add: Connection_tpc_commit_def check_closed_def commit_text)
  have last: "wp (Option.bind (reraise (run_command api lib (xa_text (?cmd v) x)) forget v)
      (\<lambda>(r, w). Some (r, case r of Inl e \<Rightarrow> w | Inr v \<Rightarrow> forget w))) (tpc_post xa TPC_NONE None XA_NONACTIVE w)"
    if "py_step w v" for v
    by (rule second_cmd [OF assms(1-5) that assms(8)]) (auto dest: xa_next_elims split: if_splits)
  show ?thesis
  proof (cases "tpc w < TPC_PREPARE")
    case True
    show ?thesis
      unfolding eq
      by (rule xa_end_wp(1) [OF assms(1-4,8) True], rule tpc_post_error(1) [OF assms(3-5)], assumption,
          rule tpc_post_error(2) [OF assms(3-5)], assumption, rule last)
  next
    case False
    show ?thesis
      using False last [of w] assms(9) unfolding eq by (simp add: py_then_def xa_end_def return_def py_step_def)
  qed
qed

lemma tpc_rollback_post:
  assumes "lib_ok api lib" "xa_server api lib xa x" "locked w" "mysql w" "\<not> conn_closed w"
    and "tpc w \<noteq> TPC_NONE" "conn_xid w = Some x" "sendable api x" "py_err w = None"
  shows "wp (Connection_tpc_rollback api lib None w) (tpc_post xa TPC_PREPARE (Some x) XA_NONACTIVE w)"
proof -
  have eq: "Connection_tpc_rollback api lib None w =
      py_then (xa_end api lib x) (\<lambda>_ w. do {
           (r, w) \<leftarrow> reraise (run_command api lib (xa_text XA_ROLLBACK x)) forget w;
           Some (r, case r of Inl e \<Rightarrow> w | Inr v \<Rightarrow> w\<lparr>tpc := TPC_PREPARE\<rparr>) }) w"
    using assms(5-7) by (simp add: Connection_tpc_rollback_def check_closed_def)
  have last: "wp (Option.bind (reraise (run_command api lib (xa_text XA_ROLLBACK x)) forget v)
      (\<lambda>(r, w). Some (r, case r of Inl e \<Rightarrow> w | Inr v \<Rightarrow> w\<lparr>tpc := TPC_PREPARE\<rparr>))) (tpc_post xa TPC_PREPARE (Some x) XA_NONACTIVE w)"
    if "py_step w v" for v
    by (rule second_cmd [OF assms(1-5) that assms(8)]) (auto dest: xa_next_elims simp: assms(7))
  show ?thesis
  proof (cases "tpc w < TPC_PREPARE")
    case True
    show ?thesis
      unfolding eq
      by (rule xa_end_wp(1) [OF assms(1-4,8) True], rule tpc_post_error(1) [OF assms(3-5)], assumption,
          rule tpc_post_error(2) [OF assms(3-5)], assumption, rule last)
  next
    case False
    then show ?thesis
      using last [of w] assms(9) unfolding eq by (simp add: py_then_def xa_end_def return_def py_step_def)
  qed
qed

lemma tracks_cases:
  assumes "tracks s xo t"
  obtains "s = TPC_NONE" "xo = None" "t = XA_NONACTIVE"
  | x where "s = TPC_XID" "xo = Some x" "t = XA_ACTIVE x"
  | x where "s = TPC_PREPARE" "xo = Some x" "t = XA_PREPARED x"
  using assms by (cases "(s, xo, t)" rule: tracks.cases) auto

lemma run_tpc_post:
  assumes "lib_ok api lib" "xa_server api lib xa x" "tpc_ready api xa x w"
  shows "wp (run_tpc api lib x call w) (\<lambda>(r, w'). locked w' \<and> mysql w' \<and> \<not> conn_closed w' \<and>
    (case r of Inl e \<Rightarrow> tpc w' = tpc w \<and> conn_xid w' = conn_xid w \<or> tpc w' = TPC_NONE \<and> conn_xid w' = None
     | Inr v \<Rightarrow> tpc w' = tpc_after call \<and> tracks (tpc w') (conn_xid w') (xa (client w'))))"
proof -
  note w = assms(3) [unfolded tpc_ready_def]
  then have conn: "locked w" "mysql w" "\<not> conn_closed w" "py_err w = None" and x: "sendable api x" by simp_all
  have post: ?thesis
    if "wp (run_tpc api lib x call w) (tpc_post xa (tpc_after call) xo t w)" "tracks (tpc_after call) xo t" for xo t
    by (rule wp_mono [OF that(1)]) (use that(2) in \<open>auto simp: tpc_post_def split: sum.splits\<close>)
  have guard: "tpc_post xa s xo t w (Inl e, w)" for s xo t e
    using conn by (simp add: tpc_post_def)
  show ?thesis
  proof (cases call)
    case Tpc_begin
    then show ?thesis
      using post [of "Some x" "XA_ACTIVE x"] tpc_begin_post [OF assms(1,2) conn(1-3) x] by simp
  next
    case Tpc_prepare
    have "wp (Connection_tpc_prepare api lib w) (tpc_post xa TPC_PREPARE (Some x) (XA_PREPARED x) w)"
      using w tpc_prepare_post [OF assms(1,2) conn(1-3) _ _ x] guard
      by (cases "tpc w") (auto simp: Connection_tpc_prepare_def check_closed_def raise_def wp_simps elim!: tracks_cases)
    then show ?thesis using Tpc_prepare post [of "Some x" "XA_PREPARED x"] by simp
  next
    case Tpc_commit
    have "wp (Connection_tpc_commit api lib None w) (tpc_post xa TPC_NONE None XA_NONACTIVE w)"
      using w tpc_commit_post [OF assms(1,2) conn(1-3) _ _ x conn(4)] guard
      by (cases "tpc w = TPC_NONE")
        (auto simp: Connection_tpc_commit_def check_closed_def raise_def wp_simps elim!: tracks_cases)
    then show ?thesis using Tpc_commit post [of None XA_NONACTIVE] by simp
  qed
qed

subsection \<open>Properties\<close>

text \<open>
  C14: the state of a two-phase transaction that the connection keeps is the one of the server. From a
  state in step with the server, \<open>tpc_begin\<close>, \<open>tpc_prepare\<close> and \<open>tpc_commit\<close> return to Python with the
  lock held. Without an exception the connection is in the state the method announces, which is again
  that of the server; with one it has kept its state or forgotten the transaction.
\<close>

theorem tpc_state_follows_server:
  assumes "lib_ok api lib" "xa_server api lib xa x" "tpc_ready api xa x w"
  shows "\<exists>r w'. run_tpc api lib x call w = Some (r, w') \<and> locked w' \<and>
    (case r of Inl e \<Rightarrow> tpc w' = tpc w \<and> conn_xid w' = conn_xid w \<or> tpc w' = TPC_NONE \<and> conn_xid w' = None
     | Inr v \<Rightarrow> tpc w' = tpc_after call \<and> tracks (tpc w') (conn_xid w') (xa (client w')))"
  using run_tpc_post [OF assms, of call] by (auto simp: wp_def split: option.splits)

text \<open>
  C37: a successful \<open>tpc_rollback\<close> leaves the connection unusable for transactions. The server has no
  transaction any more, but the connection is in the state \<open>PREPARE\<close>, so \<open>commit\<close>, \<open>rollback\<close> and
  \<open>tpc_prepare\<close> raise an exception without a word to the server.
\<close>

theorem tpc_rollback_leaves_prepared:
  assumes "lib_ok api lib" "xa_server api lib xa x" "tpc_ready api xa x w"
    and "Connection_tpc_rollback api lib None w = Some (Inr v, w')"
  shows "xa (client w') = XA_NONACTIVE \<and> tpc w' = TPC_PREPARE \<and>
    Connection_commit api lib w' =
      Some (Inl (programming_error ''commit() is not allowed if a TPC transaction is active''), w') \<and>
    Connection_rollback api lib w' =
      Some (Inl (programming_error ''rollback() is not allowed if a TPC transaction is active''), w') \<and>
    Connection_tpc_prepare api lib w' =
      Some (Inl (programming_error ''Transaction is already in prepared state.''), w')"
proof -
  note w = assms(3) [unfolded tpc_ready_def]
  then have conn: "locked w" "mysql w" "\<not> conn_closed w" "py_err w = None" and x: "sendable api x" by simp_all
  have "tpc w \<noteq> TPC_NONE" using assms(4) conn(3) by (auto simp: Connection_tpc_rollback_def check_closed_def raise_def)
  then have "conn_xid w = Some x" using w by (auto elim!: tracks_cases)
  from wpD [OF tpc_rollback_post [OF assms(1,2) conn(1-3) \<open>tpc w \<noteq> TPC_NONE\<close> this x conn(4)] assms(4)]
  show ?thesis
    by (simp add: tpc_post_def Connection_commit_def Connection_rollback_def Connection_tpc_prepare_def check_closed_def raise_def)
qed

subsection \<open>A server\<close>

text \<open>A library in front of a server that knows one transaction; its state also holds the pending answer.\<close>

definition sample_xid :: xid where
  "sample_xid = (1, ustr ''tx'', ustr ''b1'')"

definition xa_cmds :: "xa_cmd list" where
  "xa_cmds = [XA_BEGIN, XA_END, XA_PREPARE, XA_COMMIT, XA_COMMIT_ONE_PHASE, XA_ROLLBACK]"

definition xa_query :: "bytes \<Rightarrow> (xa_state \<times> xa_state option) server_call" where
  "xa_query s c = (False, [], fst c,
     Option.bind (List.find (\<lambda>cmd. ascii_encode (xa_text cmd sample_xid) = Some s) xa_cmds)
       (\<lambda>cmd. xa_next cmd sample_xid (fst c)))"

definition xa_read :: "(xa_state \<times> xa_state option) server_call" where
  "xa_read c = (case snd c of None \<Rightarrow> (True, [], fst c, None) | Some s \<Rightarrow> (False, [], s, None))"

definition xa_other :: "(xa_state \<times> xa_state option) server_call" where
  "xa_other c = (False, [], c)"

definition xa_lib :: "(xa_state \<times> xa_state option) clientlib" where
  "xa_lib = \<lparr>mysql_init = (\<lambda>c. (True, c)), set_status_callback = (\<lambda>c. (False, c)),
     mysql_options = (\<lambda>opt c. (False, c)), mysql_real_connect = (\<lambda>a. xa_other),
     lib_diag = (\<lambda>c. no_diag), mysql_get_ssl_cipher = (\<lambda>c. False), connection_host = (\<lambda>c. Some ''db''),
     mysql_close = (\<lambda>c. c), mysql_send_query = xa_query, db_read_query_result = xa_read,
     mysql_ping = xa_other, mysql_change_user = (\<lambda>u p d. xa_other), mariadb_reconnect = xa_other,
     mysql_reset_connection = xa_other, mysql_dump_debug_info = xa_other,
     get_reconnect_option = (\<lambda>c. False), set_reconnect_option = (\<lambda>b c. c),
     mariadb_get_infov = (\<lambda>h opt c. None), peer_cert = (\<lambda>c. None), mysql_thread_id = (\<lambda>c. 7),
     mysql_warning_count = (\<lambda>c. 0), mysql_get_socket = (\<lambda>c. 3), mysql_real_escape_string = (\<lambda>s c. s)\<rparr>"

definition sample_pconn :: "tpc_state \<Rightarrow> xid option \<Rightarrow> xa_state \<Rightarrow> (xa_state \<times> xa_state option) pconn" where
  "sample_pconn s xo t = \<lparr>gil = True, py_err = None, client = (t, None), notified = [], thread_state = False,
     mysql = True, conn_closed = False, host = Some ''db'', status_callback = None, tls_in_use = False,
     tpc = s, conn_xid = xo\<rparr>"

lemma xa_texts_differ:
  "list_all (\<lambda>cmd'. List.find (\<lambda>cmd. ascii_encode (xa_text cmd sample_xid) = ascii_encode (xa_text cmd' sample_xid)) xa_cmds = Some cmd' \<and>
     (case ascii_encode (xa_text cmd' sample_xid) of None \<Rightarrow> False | Some b \<Rightarrow> list_all (\<lambda>c. c \<noteq> NUL) b)) xa_cmds"
  by code_simp

lemma xa_answer:
  obtains b where "ascii_encode (xa_text cmd sample_xid) = Some b" "takeWhile (\<lambda>c. c \<noteq> NUL) b = b"
    "\<And>c. xa_query b c = (False, [], fst c, xa_next cmd sample_xid (fst c))"
proof -
  have "cmd \<in> set xa_cmds" by (cases cmd) (simp_all add: xa_cmds_def)
  then have f: "List.find (\<lambda>cm. ascii_encode (xa_text cm sample_xid) = ascii_encode (xa_text cmd sample_xid)) xa_cmds = Some cmd"
    "case ascii_encode (xa_text cmd sample_xid) of None \<Rightarrow> False | Some b \<Rightarrow> list_all (\<lambda>c. c \<noteq> NUL) b"
    using xa_texts_differ unfolding list_all_iff by blast+
  then obtain b where b: "ascii_encode (xa_text cmd sample_xid) = Some b" "list_all (\<lambda>c. c \<noteq> NUL) b"
    by (auto split: option.splits)
  have "xa_query b c = (False, [], fst c, xa_next cmd sample_xid (fst c))" for c
    using f(1) unfolding b(1) by (simp only: xa_query_def Option.bind.simps)
  then show ?thesis using that [OF b(1)] b(2) by (auto simp: list_all_iff takeWhile_eq_all_conv)
qed

lemma sample_server: "xa_server ref_api xa_lib fst sample_xid"
  unfolding xa_server_def
proof (intro allI impI)
  fix cmd b and c c' :: "xa_state \<times> xa_state option"
  assume b: "utf8_encode ref_api (xa_text cmd sample_xid) = Some b" and acc: "accepted xa_lib b c c'"
  obtain b' where b': "ascii_encode (xa_text cmd sample_xid) = Some b'" "takeWhile (\<lambda>c. c \<noteq> NUL) b' = b'"
    "\<And>c. xa_query b' c = (False, [], fst c, xa_next cmd sample_xid (fst c))" using xa_answer [of cmd] by metis
  have "b' = b" using b b'(1) by (simp add: ref_api_def)
  then show "xa_next cmd sample_xid (fst c) = Some (fst c')"
    using acc b'(2,3)
    by (cases "xa_next cmd sample_xid (fst c)")
      (simp_all add: accepted_def xa_lib_def xa_read_def call_rc_def call_state_def Let_def
        del: takeWhile_eq_all_conv)
qed

lemma sample_xa_ok: "lib_ok ref_api xa_lib" "sendable ref_api sample_xid"
proof -
  show "lib_ok ref_api xa_lib"
    by (auto simp: lib_ok_def xa_lib_def call_ok_def call_infos_def xa_query_def xa_read_def xa_other_def split: option.split)
  have "utf8_encode ref_api (xa_text cmd sample_xid) \<noteq> None" for cmd
    by (rule xa_answer [of cmd]) (simp add: ref_api_def)
  then show "sendable ref_api sample_xid" by (simp add: sendable_def)
qed

lemma sample_ready:
  "tracks s xo t \<Longrightarrow> xo \<in> {None, Some sample_xid} \<Longrightarrow> tpc_ready ref_api fst sample_xid (sample_pconn s xo t)"
  by (simp add: tpc_ready_def sample_pconn_def locked_def sample_xa_ok)

text \<open>A command whose answer is known, as the methods send it.\<close>

lemma sample_command:
  assumes "xa_next cmd sample_xid t = Some t'"
  shows "run_command ref_api xa_lib (xa_text cmd sample_xid) (sample_pconn s xo t) = Some (Inr PyNone, sample_pconn s xo t')"
proof -
  obtain b where "ascii_encode (xa_text cmd sample_xid) = Some b" "takeWhile (\<lambda>c. c \<noteq> NUL) b = b"
    "\<And>c. xa_query b c = (False, [], fst c, xa_next cmd sample_xid (fst c))" using xa_answer [of cmd] by metis
  then show ?thesis
    using assms
    by (simp add: run_command_def py_then_def execute_command_def read_response_def c_call_def MrdbConnection_executecommand_def
      MARIADB_CHECK_CONNECTION_def as_utf8_def blocking_def MARIADB_BEGIN_ALLOW_THREADS_def MARIADB_END_ALLOW_THREADS_def
      server_call_def MrdbConnection_readresponse_def none_or_raise_def sample_pconn_def xa_lib_def ref_api_def xa_read_def
      del: takeWhile_eq_all_conv)
qed

theorem tpc_state_follows_server_witness:
  "\<exists>w'. run_tpc ref_api xa_lib sample_xid Tpc_begin (sample_pconn TPC_NONE None XA_NONACTIVE) = Some (Inr PyNone, w') \<and>
     tpc w' = TPC_XID \<and> fst (client w') = XA_ACTIVE sample_xid"
proof -
  let ?w = "sample_pconn TPC_NONE None XA_NONACTIVE"
  have "run_tpc ref_api xa_lib sample_xid Tpc_begin ?w = Some (Inr PyNone, sample_pconn TPC_XID (Some sample_xid) (XA_ACTIVE sample_xid))"
    using sample_command [of XA_BEGIN XA_NONACTIVE "XA_ACTIVE sample_xid" TPC_NONE None]
    by (simp add: Connection_tpc_begin_def check_closed_def sample_pconn_def)
  then show ?thesis
    using tpc_state_follows_server [OF sample_xa_ok(1) sample_server sample_ready [of TPC_NONE None XA_NONACTIVE], of Tpc_begin]
    by (simp add: sample_pconn_def)
qed

theorem tpc_rollback_leaves_prepared_witness:
  "\<exists>w'. Connection_tpc_rollback ref_api xa_lib None (sample_pconn TPC_PREPARE (Some sample_xid) (XA_PREPARED sample_xid)) =
     Some (Inr PyNone, w') \<and> fst (client w') = XA_NONACTIVE \<and>
     Connection_commit ref_api xa_lib w' =
       Some (Inl (programming_error ''commit() is not allowed if a TPC transaction is active''), w')"
proof -
  let ?w = "sample_pconn TPC_PREPARE (Some sample_xid) (XA_PREPARED sample_xid)"
  have r: "Connection_tpc_rollback ref_api xa_lib None ?w =
      Some (Inr PyNone, sample_pconn TPC_PREPARE (Some sample_xid) XA_NONACTIVE)"
    using sample_command [of XA_ROLLBACK "XA_PREPARED sample_xid" XA_NONACTIVE TPC_PREPARE "Some sample_xid"]
    by (simp add: Connection_tpc_rollback_def check_closed_def sample_pconn_def py_then_def xa_end_def return_def reraise_def)
  then show ?thesis
    using tpc_rollback_leaves_prepared [OF sample_xa_ok(1) sample_server sample_ready r] by simp
qed

end
