(* ===== verification/Mrdb_Pool.thy ===== *)
theory Mrdb_Pool
  imports Mrdb_PyConnection
begin

unbundle bit_operations_syntax

text \<open>
  Connection pools (\<open>connectionpool.py\<close>, \<open>connect\<close> of \<open>__init__.py\<close> and \<open>close\<close> of a pooled
  connection). Connections and pools are objects with an address in the state of the process: two
  names for one connection are two uses of one address.

  A method runs to its end before the next one starts, as the lock of the pool makes it; only the
  test for a free slot of \<open>add_connection\<close> lies outside the lock, and it is a definition of its own.
  The argument \<open>now\<close> is the value of \<open>time.perf_counter_ns()\<close> during the call.
\<close>

subsection \<open>State\<close>

text \<open>The keyword arguments of a connection, without those of the pool.\<close>

record conn_config =
  cfg_args :: "pyerr + conn_args"
  cfg_autocommit :: bool
  cfg_reconnect :: bool

text \<open>A connection without arguments has the values its variables are initialised with.\<close>

definition default_args :: conn_args where
  "default_args = \<lparr>arg_dsn = None, arg_host = None, arg_user = None, arg_password = None,
     arg_schema = None, arg_port = 0, arg_socket = None, arg_connect_timeout = 0, arg_read_timeout = 0,
     arg_write_timeout = 0, arg_local_infile = 0xFF, arg_compress = 0, arg_init_command = None,
     arg_default_file = None, arg_default_group = None, arg_ssl_key = None, arg_ssl_ca = None,
     arg_ssl_cert = None, arg_ssl_crl = None, arg_ssl_cipher = None, arg_ssl_capath = None,
     arg_ssl_crlpath = None, arg_ssl_verify_cert = 0, arg_ssl_enforce = 0, arg_client_flags = 0,
     arg_plugin_dir = None, arg_status_callback = None, arg_tls_version = None, arg_tls_fp = None,
     arg_tls_fp_list = None\<rparr>"

definition config_of :: "conn_config option \<Rightarrow> conn_config" where
  "config_of kw = (case kw of
     Some cfg \<Rightarrow> cfg
   | None \<Rightarrow> \<lparr>cfg_args = Inr default_args, cfg_autocommit = False, cfg_reconnect = False\<rparr>)"

text \<open>
  A pool. \<open>pool_config\<close> is \<open>None\<close> for an empty dictionary. \<open>close\<close> sets both lists to \<open>None\<close>, here
  the flag \<open>lists_gone\<close>.
\<close>

record pool =
  pool_name :: pystr
  pool_size :: int
  reset_connection :: bool
  validation_interval :: int
  pool_config :: "conn_config option"
  lists_gone :: bool
  connections_free :: "nat list"
  connections_used :: "nat list"

text \<open>
  The process: the connections with the attributes \<open>_Connection__pool\<close>, \<open>_used\<close> and
  \<open>_ConnectionPool__last_used\<close>, the pools, and \<open>mariadb._CONNECTION_POOLS\<close>.
\<close>

record 'c process =
  objs :: "nat \<Rightarrow> 'c pconn"
  next_obj :: nat
  conn_pool :: "nat \<Rightarrow> nat option"
  conn_used :: "nat \<Rightarrow> nat"
  last_used :: "nat \<Rightarrow> int"
  pools :: "nat \<Rightarrow> pool"
  next_pool :: nat
  registry :: "pystr \<Rightarrow> nat option"

text \<open>
  What a connection needs from outside: the interpreter, the library, the two build options of
  \<open>Mrdb_Connection\<close>, and the interpreter and library state a new connection starts in.
\<close>

record 'c pool_env =
  env_api :: pyapi
  env_lib :: "'c clientlib"
  env_plugins :: "bytes option"
  env_warning :: "pyerr option"
  env_fresh :: "nat \<Rightarrow> 'c pconn"

subsection \<open>Access to the state\<close>

text \<open>A method of a connection that does not know its pool.\<close>

definition on_conn :: "nat \<Rightarrow> 'c pconn pymethod \<Rightarrow> ('c process, pyobj) pyfun" where
  "on_conn n m s = do { (r, w) \<leftarrow> m (objs s n); Some (r, s\<lparr>objs := (objs s)(n := w)\<rparr>) }"

definition upd_pool :: "nat \<Rightarrow> (pool \<Rightarrow> pool) \<Rightarrow> 'c process \<Rightarrow> 'c process" where
  "upd_pool p f s = s\<lparr>pools := (pools s)(p := f (pools s p))\<rparr>"

definition pool_error :: "string \<Rightarrow> pyerr" where
  "pool_error msg = SetString Mariadb_PoolError (Text msg)"

definition lists_error :: pyerr where
  "lists_error = SetString PyExc_TypeError (Text ''the lists of the pool are None'')"

subsection \<open>Connections of a pool\<close>

text \<open>\<open>mariadb.Connection(**args)\<close>; an object whose initialiser raises is not kept.\<close>

definition new_conn :: "'c pool_env \<Rightarrow> conn_config \<Rightarrow> ('c process, nat) pyfun" where
  "new_conn env cfg s = (let n = next_obj s in do {
     (r, w) \<leftarrow> Connection_init (env_api env) (env_lib env) (env_plugins env) (env_warning env)
       (cfg_args cfg) (cfg_autocommit cfg) (cfg_reconnect cfg) (env_fresh env n);
     let s = s\<lparr>next_obj := Suc n\<rparr>;
     Some (case r of
         Inl e \<Rightarrow> (Inl e, s)
       | Inr v \<Rightarrow> (Inr n, s\<lparr>objs := (objs s)(n := w), conn_pool := (conn_pool s)(n := None),
                          conn_used := (conn_used s)(n := 0)\<rparr>)) })"

datatype conn_arg = Conn nat | NotConn

text \<open>The tests of \<open>add_connection\<close> before it takes the lock.\<close>

definition add_checks :: "nat \<Rightarrow> conn_arg option \<Rightarrow> 'c process \<Rightarrow> pyerr option" where
  "add_checks p connection s =
     (let q = pools s p; total = length (connections_free q @ connections_used q) in
      if pool_config q = None then Some (pool_error ''Couldn't get configuration for pool'')
      else if connection = Some NotConn then Some (programming_error ''Passed parameter is not a connection object'')
      else if lists_gone q then Some lists_error
      else if pool_size q \<le> int total then Some (pool_error ''Can't add connection to pool: No free slot available'')
      else None)"

definition add_new :: "int \<Rightarrow> nat \<Rightarrow> nat \<Rightarrow> 'c process \<Rightarrow> 'c process" where
  "add_new now p n s = upd_pool p (\<lambda>q. q\<lparr>connections_free := connections_free q @ [n]\<rparr>)
     (s\<lparr>conn_pool := (conn_pool s)(n := Some p), last_used := (last_used s)(n := now)\<rparr>)"

text \<open>The part under the lock.\<close>

definition add_locked :: "'c pool_env \<Rightarrow> int \<Rightarrow> nat \<Rightarrow> conn_arg option \<Rightarrow> ('c process, nat) pyfun" where
  "add_locked env now p connection s =
     py_bind (case connection of
                Some (Conn n) \<Rightarrow> py_return n
              | _ \<Rightarrow> new_conn env (config_of (pool_config (pools s p))))
       (\<lambda>n. py_bind (py_modify (add_new now p n)) (\<lambda>_. py_return n)) s"

definition add_connection :: "'c pool_env \<Rightarrow> int \<Rightarrow> nat \<Rightarrow> conn_arg option \<Rightarrow> ('c process, nat) pyfun" where
  "add_connection env now p connection s =
     (case add_checks p connection s of
        Some e \<Rightarrow> py_raise e s
      | None \<Rightarrow> add_locked env now p connection s)"

text \<open>
  \<open>_replace_connection\<close>. The first entry of the connection is removed; the connection then belongs to
  no pool, so that its \<open>close\<close> ends the session.
\<close>

definition drop_conn :: "nat \<Rightarrow> nat \<Rightarrow> 'c process \<Rightarrow> 'c process" where
  "drop_conn p n s =
     (let s = upd_pool p (\<lambda>q.
        if n \<in> set (connections_free q) then q\<lparr>connections_free := remove1 n (connections_free q)\<rparr>
        else q\<lparr>connections_used := remove1 n (connections_used q)\<rparr>) s
      in s\<lparr>conn_pool := (conn_pool s)(n := None)\<rparr>)"

definition replace_connection :: "'c pool_env \<Rightarrow> int \<Rightarrow> nat \<Rightarrow> nat \<Rightarrow> ('c process, nat) pyfun" where
  "replace_connection env now p n s =
     (if lists_gone (pools s p) then py_raise lists_error s
      else py_bind (py_modify (drop_conn p n)) (\<lambda>_.
        py_bind (on_conn n (Connection_close (env_lib env))) (\<lambda>_.
          add_connection env now p None)) s)"

text \<open>
  \<open>get_connection\<close>. The body of the loop returns or raises in its first round, since a connection
  object counts as true. The quotient \<open>dt\<close> is compared as an exact number.
\<close>

definition take_conn :: "nat \<Rightarrow> nat \<Rightarrow> 'c process \<Rightarrow> 'c process" where
  "take_conn p n s = upd_pool p (\<lambda>q. q\<lparr>connections_used := connections_used q @ [n],
       connections_free := remove1 n (connections_free q)\<rparr>)
     (s\<lparr>conn_used := (conn_used s)(n := Suc (conn_used s n))\<rparr>)"

definition get_connection :: "'c pool_env \<Rightarrow> int \<Rightarrow> nat \<Rightarrow> ('c process, nat) pyfun" where
  "get_connection env now p s =
     (let q = pools s p in
      if lists_gone q then py_raise lists_error s
      else case connections_free q of
        [] \<Rightarrow> py_raise (pool_error ''No connection available'') s
      | n # _ \<Rightarrow>
          py_bind
            (if validation_interval q * 1000000 < now - last_used s n
             then py_except (py_bind (on_conn n (c_call (MrdbConnection_ping (env_api env) (env_lib env)))) (\<lambda>_. py_return n))
                    (replace_connection env now p n)
             else py_return n)
            (\<lambda>n. py_bind (py_modify (take_conn p n)) (\<lambda>_. py_return n)) s)"

text \<open>\<open>_close_connection\<close>\<close>

definition give_back :: "int \<Rightarrow> nat \<Rightarrow> nat \<Rightarrow> 'c process \<Rightarrow> 'c process" where
  "give_back now p n s =
     (if n \<in> set (connections_used (pools s p))
      then upd_pool p (\<lambda>q. q\<lparr>connections_used := remove1 n (connections_used q),
             connections_free := connections_free q @ [n]\<rparr>) (s\<lparr>last_used := (last_used s)(n := now)\<rparr>)
      else s)"

definition clean_conn :: "'c pool_env \<Rightarrow> bool \<Rightarrow> 'c pconn pymethod" where
  "clean_conn env reset =
     (if reset then c_call (MrdbConnection_reset (env_api env) (env_lib env))
      else py_then (Connection_attr (env_api env) (env_lib env) Server_status) (\<lambda>v.
        case v of
          PyLong status \<Rightarrow> if status AND STATUS_IN_TRANS \<noteq> 0 then Connection_rollback (env_api env) (env_lib env)
            else return PyNone
        | _ \<Rightarrow> raise (SetString PyExc_TypeError (Text ''unsupported operand''))))"

definition close_connection :: "'c pool_env \<Rightarrow> int \<Rightarrow> nat \<Rightarrow> nat \<Rightarrow> ('c process, unit) pyfun" where
  "close_connection env now p n s =
     py_bind (py_except
         (py_bind (on_conn n (clean_conn env (reset_connection (pools s p)))) (\<lambda>_. py_return ()))
         (py_bind (replace_connection env now p n) (\<lambda>_. py_return ())))
       (\<lambda>_ s. if lists_gone (pools s p) then py_raise lists_error s
              else py_modify (give_back now p n) s) s"

text \<open>\<open>Connection.close\<close>\<close>

definition conn_close :: "'c pool_env \<Rightarrow> int \<Rightarrow> nat \<Rightarrow> ('c process, unit) pyfun" where
  "conn_close env now n s =
     (if conn_closed (objs s n) then py_raise closed_error s
      else case conn_pool s n of
        Some p \<Rightarrow> close_connection env now p n s
      | None \<Rightarrow> py_bind (on_conn n (c_call (MrdbConnection_close (env_lib env)))) (\<lambda>_. py_return ()) s)"

definition set_config :: "nat \<Rightarrow> conn_config option \<Rightarrow> ('c process, unit) pyfun" where
  "set_config p cfg = py_modify (upd_pool p (\<lambda>q. q\<lparr>pool_config := cfg\<rparr>))"

subsection \<open>Creating and closing a pool\<close>

text \<open>
  The handler of the loop in \<open>__init__\<close>: for every index \<open>j\<close> of the list as it was at the start,
  close the connection at \<open>j\<close> and delete the entry.
\<close>

definition index_error :: pyerr where
  "index_error = SetString PyExc_IndexError (Text ''list index out of range'')"

definition del_at :: "nat \<Rightarrow> 'a list \<Rightarrow> 'a list" where
  "del_at j xs = take j xs @ drop (Suc j) xs"

definition drop_free :: "nat \<Rightarrow> nat \<Rightarrow> ('c process, unit) pyfun" where
  "drop_free p j s =
     (if j < length (connections_free (pools s p))
      then py_modify (upd_pool p (\<lambda>q. q\<lparr>connections_free := del_at j (connections_free q)\<rparr>)) s
      else py_raise index_error s)"

fun close_all_free :: "'c pool_env \<Rightarrow> int \<Rightarrow> nat \<Rightarrow> nat list \<Rightarrow> ('c process, unit) pyfun" where
  "close_all_free env now p [] s = py_return () s"
| "close_all_free env now p (j # js) s =
     py_bind (py_except
         (\<lambda>s. if j < length (connections_free (pools s p))
              then conn_close env now (connections_free (pools s p) ! j) s
              else py_raise index_error s)
         (py_return ()))
       (\<lambda>_. py_bind (drop_free p j) (\<lambda>_. close_all_free env now p js)) s"

text \<open>The loop that fills the pool, for \<open>i\<close> more connections.\<close>

fun fill_pool :: "'c pool_env \<Rightarrow> int \<Rightarrow> conn_config \<Rightarrow> nat \<Rightarrow> nat \<Rightarrow> ('c process, unit) pyfun" where
  "fill_pool env now cfg p 0 s = py_return () s"
| "fill_pool env now cfg p (Suc i) s = do {
     (r, s) \<leftarrow> new_conn env cfg s;
     case r of
       Inl e \<Rightarrow>
         if is_mariadb_error e
         then py_bind (close_all_free env now p [0..<length (connections_free (pools s p))]) (\<lambda>_. py_raise e) s
         else py_raise e s
     | Inr n \<Rightarrow> py_bind (add_connection env now p (Some (Conn n))) (\<lambda>_. fill_pool env now cfg p i) s }"

text \<open>The keyword arguments of a pool; an absent name is \<open>None\<close>.\<close>

record pool_kwargs =
  kw_name :: "pystr option"
  kw_size :: int
  kw_reset :: bool
  kw_interval :: int
  kw_config :: "conn_config option"

definition MAX_POOL_SIZE :: int where "MAX_POOL_SIZE = 64"

definition ConnectionPool_init :: "'c pool_env \<Rightarrow> int \<Rightarrow> pool_kwargs \<Rightarrow> ('c process, nat) pyfun" where
  "ConnectionPool_init env now kw s =
     (case kw_name kw of
        None \<Rightarrow> py_raise (programming_error ''No pool name specified'') s
      | Some name \<Rightarrow>
          if registry s name \<noteq> None then py_raise (programming_error ''Pool already exists'') s
          else if \<not> (0 < kw_size kw \<and> kw_size kw \<le> MAX_POOL_SIZE)
          then py_raise (programming_error ''Pool size must be in range of 1 and 64'') s
          else
            let p = next_pool s;
                q = \<lparr>pool_name = name, pool_size = kw_size kw, reset_connection = kw_reset kw,
                     validation_interval = kw_interval kw, pool_config = kw_config kw, lists_gone = False,
                     connections_free = [], connections_used = []\<rparr>;
                s = s\<lparr>pools := (pools s)(p := q), next_pool := Suc p\<rparr>
            in py_bind (case kw_config kw of
                   None \<Rightarrow> py_return ()
                 | Some cfg \<Rightarrow> fill_pool env now cfg p (nat (kw_size kw)))
                 (\<lambda>_. py_bind (py_modify (\<lambda>s. s\<lparr>registry := (registry s)(name \<mapsto> p)\<rparr>)) (\<lambda>_. py_return p)) s)"

text \<open>\<open>close\<close>; the clause \<open>finally\<close> runs whether a connection raises or not.\<close>

fun close_each :: "'c pool_env \<Rightarrow> nat list \<Rightarrow> ('c process, unit) pyfun" where
  "close_each env [] s = py_return () s"
| "close_each env (n # ns) s =
     py_bind (py_modify (\<lambda>s. s\<lparr>conn_pool := (conn_pool s)(n := None)\<rparr>)) (\<lambda>_.
       py_bind (on_conn n (Connection_close (env_lib env))) (\<lambda>_. close_each env ns)) s"

definition ConnectionPool_close :: "'c pool_env \<Rightarrow> nat \<Rightarrow> ('c process, unit) pyfun" where
  "ConnectionPool_close env p s =
     (let q = pools s p in do {
        (r, s) \<leftarrow> (if lists_gone q then py_raise lists_error s
                   else close_each env (connections_free q @ connections_used q) s);
        let s = upd_pool p (\<lambda>q. q\<lparr>lists_gone := True, connections_free := [], connections_used := []\<rparr>) s;
        if registry s (pool_name q) = None then py_raise (SetString PyExc_KeyError (Text ''pool name'')) s
        else Some (r, s\<lparr>registry := (registry s)(pool_name q := None)\<rparr>) })"

text \<open>\<open>mariadb.connect\<close> with the default class.\<close>

definition connect :: "'c pool_env \<Rightarrow> int \<Rightarrow> pool_kwargs \<Rightarrow> ('c process, nat) pyfun" where
  "connect env now kw s =
     (case kw_name kw of
        Some name \<Rightarrow>
          py_bind (case registry s name of None \<Rightarrow> ConnectionPool_init env now kw | Some p \<Rightarrow> py_return p)
            (\<lambda>p. get_connection env now p) s
      | None \<Rightarrow> new_conn env (config_of (kw_config kw)) s)"

end
