(* ===== verification/Mrdb_Pool_Safety.thy ===== *)
theory Mrdb_Pool_Safety
  imports Mrdb_Pool
begin

text \<open>
  What a pool promises: its two lists never share a connection, it has at most \<open>pool_size\<close> of them,
  and a connection that was handed out is not handed out again before it is returned. The contract
  of a method is the locale \<open>pool_method\<close>, interpreted for every operation of \<open>Mrdb_Pool\<close>.
\<close>

subsection \<open>Contract\<close>

abbreviation pool_ids :: "'c process \<Rightarrow> nat \<Rightarrow> nat list" where
  "pool_ids s p \<equiv> connections_free (pools s p) @ connections_used (pools s p)"

definition pools_ok :: "'c process \<Rightarrow> bool" where
  "pools_ok s \<longleftrightarrow>
     (\<forall>p. distinct (pool_ids s p) \<and> int (length (pool_ids s p)) \<le> pool_size (pools s p) \<and>
       (lists_gone (pools s p) \<or> next_pool s \<le> p \<longrightarrow> pool_ids s p = []) \<and>
       (\<forall>n\<in>set (pool_ids s p). n < next_obj s \<and> conn_pool s n = Some p)) \<and>
     (\<forall>n p. conn_pool s n = Some p \<longrightarrow> p < next_pool s)"

text \<open>The connections in \<open>gone\<close> may leave their list of used connections.\<close>

definition pool_step :: "nat set \<Rightarrow> 'c process \<Rightarrow> 'c process \<Rightarrow> bool" where
  "pool_step gone s s' \<longleftrightarrow> pools_ok s' \<and> next_obj s \<le> next_obj s' \<and> next_pool s \<le> next_pool s' \<and>
     (\<forall>p. set (connections_used (pools s p)) - gone \<subseteq> set (connections_used (pools s' p)))"

lemma pool_step_refl [simp]: "pools_ok s \<Longrightarrow> pool_step gone s s"
  by (simp add: pool_step_def)

lemma pool_step_trans: "pool_step gone s s' \<Longrightarrow> pool_step gone s' s'' \<Longrightarrow> pool_step gone s s''"
  unfolding pool_step_def by fastforce

lemma pool_step_mono: "pool_step gone s s' \<Longrightarrow> gone \<subseteq> gone' \<Longrightarrow> pool_step gone' s s'"
  unfolding pool_step_def by blast

locale pool_method =
  fixes m :: "('c process, 'r) pyfun"
    and ok :: "'c process \<Rightarrow> bool"
    and gone :: "'c process \<Rightarrow> nat set"
  assumes keeps: "pools_ok s \<Longrightarrow> ok s \<Longrightarrow> wlp (m s) (\<lambda>(r, s'). pool_step (gone s) s s')"
begin

lemma stays_ok: "pools_ok s \<Longrightarrow> ok s \<Longrightarrow> m s = Some (r, s') \<Longrightarrow> pools_ok s'"
  using wlpD [OF keeps] by (fastforce simp: pool_step_def)

lemma stays_held:
  "pools_ok s \<Longrightarrow> ok s \<Longrightarrow> m s = Some (r, s') \<Longrightarrow> n \<in> set (connections_used (pools s p)) \<Longrightarrow> n \<notin> gone s \<Longrightarrow>
   n \<in> set (connections_used (pools s' p))"
  using wlpD [OF keeps] by (fastforce simp: pool_step_def)

end

subsection \<open>Steps of the state\<close>

lemma pools_ok_upd:
  assumes "pools_ok s"
    and "distinct (connections_free q @ connections_used q)"
    and "int (length (connections_free q @ connections_used q)) \<le> pool_size q"
    and "lists_gone q \<or> next_pool s \<le> p \<Longrightarrow> connections_free q @ connections_used q = []"
    and "\<And>n. n \<in> set (connections_free q @ connections_used q) \<Longrightarrow> n < next_obj s \<and> conn_pool s n = Some p"
  shows "pools_ok (upd_pool p (\<lambda>_. q) s)"
  using assms by (auto simp: pools_ok_def upd_pool_def)

lemma pools_okD:
  assumes "pools_ok s"
  shows "distinct (connections_free (pools s p))" "distinct (connections_used (pools s p))"
    "set (connections_free (pools s p)) \<inter> set (connections_used (pools s p)) = {}"
    "int (length (connections_free (pools s p)) + length (connections_used (pools s p))) \<le> pool_size (pools s p)"
    "n \<in> set (connections_free (pools s p)) \<Longrightarrow> n < next_obj s \<and> conn_pool s n = Some p \<and> p < next_pool s \<and> \<not> lists_gone (pools s p)"
    "n \<in> set (connections_used (pools s p)) \<Longrightarrow> n < next_obj s \<and> conn_pool s n = Some p \<and> p < next_pool s \<and> \<not> lists_gone (pools s p)"
    "conn_pool s n = Some p \<Longrightarrow> p < next_pool s"
proof -
  have h: "distinct (pool_ids s p)" "int (length (pool_ids s p)) \<le> pool_size (pools s p)"
    "lists_gone (pools s p) \<or> next_pool s \<le> p \<Longrightarrow> pool_ids s p = []"
    "\<And>n. n \<in> set (pool_ids s p) \<Longrightarrow> n < next_obj s \<and> conn_pool s n = Some p"
    using assms unfolding pools_ok_def by blast+
  have "n < next_obj s \<and> conn_pool s n = Some p \<and> p < next_pool s \<and> \<not> lists_gone (pools s p)"
    if "n \<in> set (pool_ids s p)"
    using h(3) h(4) [OF that] that by (metis empty_iff empty_set not_le)
  then show "n \<in> set (connections_free (pools s p)) \<Longrightarrow> n < next_obj s \<and> conn_pool s n = Some p \<and> p < next_pool s \<and> \<not> lists_gone (pools s p)"
    "n \<in> set (connections_used (pools s p)) \<Longrightarrow> n < next_obj s \<and> conn_pool s n = Some p \<and> p < next_pool s \<and> \<not> lists_gone (pools s p)"
    by simp_all
  show "conn_pool s n = Some p \<Longrightarrow> p < next_pool s" using assms unfolding pools_ok_def by blast
qed (use assms in \<open>simp_all add: pools_ok_def\<close>)

lemma gone_empty:
  assumes "pools_ok s" "lists_gone (pools s p) \<or> next_pool s \<le> p"
  shows "connections_free (pools s p) = []" "connections_used (pools s p) = []"
  using assms unfolding pools_ok_def by auto

text \<open>Fields that the invariant does not mention.\<close>

lemma pools_ok_frame [simp]:
  "pools_ok (s\<lparr>objs := x\<rparr>) = pools_ok s" "pools_ok (s\<lparr>conn_used := y\<rparr>) = pools_ok s"
  "pools_ok (s\<lparr>last_used := z\<rparr>) = pools_ok s" "pools_ok (s\<lparr>registry := r\<rparr>) = pools_ok s"
  by (simp_all add: pools_ok_def)

lemma upd_pool_fields [simp]:
  "pools (upd_pool p f s) p' = (if p' = p then f (pools s p) else pools s p')"
  "next_obj (upd_pool p f s) = next_obj s" "next_pool (upd_pool p f s) = next_pool s"
  "conn_pool (upd_pool p f s) = conn_pool s" "objs (upd_pool p f s) = objs s"
  by (simp_all add: upd_pool_def)

lemma pools_ok_upd_pool:
  assumes "pools_ok s"
    and "distinct (connections_free (f (pools s p)) @ connections_used (f (pools s p)))"
    and "int (length (connections_free (f (pools s p)) @ connections_used (f (pools s p)))) \<le> pool_size (f (pools s p))"
    and "lists_gone (f (pools s p)) \<or> next_pool s \<le> p \<Longrightarrow> connections_free (f (pools s p)) @ connections_used (f (pools s p)) = []"
    and "\<And>n. n \<in> set (connections_free (f (pools s p)) @ connections_used (f (pools s p))) \<Longrightarrow> n < next_obj s \<and> conn_pool s n = Some p"
  shows "pools_ok (upd_pool p f s)"
  using pools_ok_upd [OF assms] by (simp add: upd_pool_def)

lemma unpooled_elsewhere:
  assumes "pools_ok s" "conn_pool s n = None \<or> conn_pool s n = Some p"
  shows "p' \<noteq> p \<Longrightarrow> n \<notin> set (pool_ids s p')"
  using assms pools_okD(5,6) [OF assms(1), of n p'] by auto

lemma add_new_step:
  assumes "pools_ok s" "conn_pool s n = None" "n < next_obj s" "p < next_pool s" "add_checks p c s = None"
  shows "pool_step {} s (add_new now p n s)"
proof -
  let ?s = "s\<lparr>conn_pool := (conn_pool s)(n := Some p), last_used := (last_used s)(n := now)\<rparr>"
  have fresh: "n \<notin> set (pool_ids s p')" for p' using pools_okD(5,6) [OF assms(1), of n p'] assms(2) by auto
  have "pools_ok ?s"
    using assms(1,2,4) fresh unfolding pools_ok_def by (auto simp: Ball_def)
  moreover have "\<not> lists_gone (pools s p)" "int (length (pool_ids s p)) < pool_size (pools s p)"
    using assms(5) by (auto simp: add_checks_def Let_def split: if_splits)
  ultimately have "pools_ok (add_new now p n s)"
    unfolding add_new_def
    by (intro pools_ok_upd_pool) (use assms fresh [of p] pools_okD(1-4) [OF assms(1), of p] in \<open>auto dest: pools_okD(5,6) [OF assms(1)]\<close>)
  then show ?thesis by (simp add: pool_step_def add_new_def)
qed

text \<open>
  A connection leaves the lists of its pool, a connection is taken from the free ones, and a
  connection is given back.
\<close>

lemma pools_ok_unpool:
  assumes "pools_ok s" "\<And>p. n \<notin> set (pool_ids s p)"
  shows "pools_ok (s\<lparr>conn_pool := (conn_pool s)(n := None)\<rparr>)"
  using assms(1) assms(2) unfolding pools_ok_def by auto

lemma drop_conn_step:
  assumes "pools_ok s" "conn_pool s n = Some p"
  shows "pool_step {n} s (drop_conn p n s)" "conn_pool (drop_conn p n s) n = None"
    "next_obj (drop_conn p n s) = next_obj s" "next_pool (drop_conn p n s) = next_pool s"
proof -
  note ok = pools_okD(1-4) [OF assms(1), of p] pools_okD(7) [OF assms]
  let ?f = "\<lambda>q. if n \<in> set (connections_free q) then q\<lparr>connections_free := remove1 n (connections_free q)\<rparr>
        else q\<lparr>connections_used := remove1 n (connections_used q)\<rparr>"
  have "pools_ok (upd_pool p ?f s)"
    by (rule pools_ok_upd_pool [OF assms(1)])
      (use ok gone_empty [OF assms(1), of p] in \<open>auto simp: length_remove1 dest: notin_set_remove1 pools_okD(5,6) [OF assms(1)]
        split: if_splits\<close>)
  moreover have "n \<notin> set (pool_ids (upd_pool p ?f s) p')" for p'
    using ok unpooled_elsewhere [OF assms(1), of n p p'] assms(2) by auto
  ultimately have "pools_ok (drop_conn p n s)"
    unfolding drop_conn_def Let_def by (rule pools_ok_unpool)
  then show "pool_step {n} s (drop_conn p n s)"
    using ok(2) by (auto simp: pool_step_def drop_conn_def Let_def)
qed (simp_all add: drop_conn_def)

lemma take_conn_step:
  assumes "pools_ok s" "n \<in> set (connections_free (pools s p))"
  shows "pool_step {} s (take_conn p n s)" "n \<in> set (connections_used (pools (take_conn p n s) p))"
proof -
  note ok = pools_okD(1-4) [OF assms(1), of p] pools_okD(5) [OF assms]
  have "length (remove1 n (connections_free (pools s p))) + 1 = length (connections_free (pools s p))"
    using assms(2) by (simp add: length_remove1) (metis Suc_pred length_pos_if_in_set)
  then have "pools_ok (take_conn p n s)"
    unfolding take_conn_def
    by (intro pools_ok_upd_pool)
      (use ok assms in \<open>auto dest: notin_set_remove1 pools_okD(5,6) [OF assms(1)]\<close>)
  then show "pool_step {} s (take_conn p n s)" "n \<in> set (connections_used (pools (take_conn p n s) p))"
    by (auto simp: pool_step_def take_conn_def)
qed

lemma give_back_step:
  assumes "pools_ok s"
  shows "pool_step {n} s (give_back now p n s)"
proof (cases "n \<in> set (connections_used (pools s p))")
  case True
  note ok = pools_okD(1-4) [OF assms(1), of p] pools_okD(6) [OF assms True]
  have "length (remove1 n (connections_used (pools s p))) + 1 = length (connections_used (pools s p))"
    using True by (simp add: length_remove1) (metis Suc_pred length_pos_if_in_set)
  then have "pools_ok (give_back now p n s)"
    unfolding give_back_def using True
    by (simp, intro pools_ok_upd_pool)
      (use ok assms in \<open>auto dest: notin_set_remove1 pools_okD(5,6) [OF assms(1)]\<close>)
  then show ?thesis using True ok(2) by (auto simp: pool_step_def give_back_def)
qed (simp add: assms give_back_def)

lemma del_free_step:
  assumes "pools_ok s"
  shows "pool_step {} s (upd_pool p (\<lambda>q. q\<lparr>connections_free := del_at j (connections_free q)\<rparr>) s)"
proof -
  note ok = pools_okD(1-4) [OF assms(1), of p]
  have sub: "set (del_at j xs) \<subseteq> set xs" "length (del_at j xs) \<le> length xs" "distinct xs \<Longrightarrow> distinct (del_at j xs)"
    for xs :: "nat list"
    using set_take_disj_set_drop_if_distinct [of xs j "Suc j"]
    by (auto simp: del_at_def dest: in_set_takeD in_set_dropD)
  have "pools_ok (upd_pool p (\<lambda>q. q\<lparr>connections_free := del_at j (connections_free q)\<rparr>) s)"
    by (rule pools_ok_upd_pool [OF assms])
      (use ok gone_empty [OF assms, of p] sub [of "connections_free (pools s p)"] in \<open>auto dest: pools_okD(5,6) [OF assms(1)]\<close>)
  then show ?thesis by (simp add: pool_step_def)
qed

subsection \<open>Methods\<close>

definition stepped :: "nat set \<Rightarrow> 'c process \<Rightarrow> ((pyerr + 'r) \<times> 'c process) option \<Rightarrow> bool" where
  "stepped gone s x \<longleftrightarrow> wlp x (\<lambda>(r, s'). pool_step gone s s')"

definition returns :: "nat set \<Rightarrow> 'c process \<Rightarrow> ((pyerr + 'r) \<times> 'c process) option \<Rightarrow> ('r \<Rightarrow> 'c process \<Rightarrow> bool) \<Rightarrow> bool" where
  "returns gone s x Q \<longleftrightarrow> wlp x (\<lambda>(r, s'). pool_step gone s s' \<and> (\<forall>v. r = Inr v \<longrightarrow> Q v s'))"

lemma returns_mono:
  "returns gone s x Q \<Longrightarrow> (\<And>v s'. pool_step gone s s' \<Longrightarrow> Q v s' \<Longrightarrow> R v s') \<Longrightarrow> gone \<subseteq> gone' \<Longrightarrow> returns gone' s x R"
  unfolding returns_def by (erule wlp_mono) (auto intro: pool_step_mono)

lemma returns_stepped: "returns gone s x Q \<Longrightarrow> stepped gone s x"
  unfolding returns_def stepped_def by (erule wlp_mono) auto

lemma stepped_returns: "stepped gone s x \<Longrightarrow> returns gone s x (\<lambda>v s'. True)"
  unfolding returns_def stepped_def by (erule wlp_mono) auto

lemma pool_step_ok: "pool_step gone s s' \<Longrightarrow> pools_ok s'"
  by (simp add: pool_step_def)

lemma returns_Some:
  "pools_ok s \<Longrightarrow> Q v s \<Longrightarrow> returns gone s (Some (Inr v, s)) Q"
  "pools_ok s \<Longrightarrow> returns gone s (Some (Inl e, s)) Q"
  by (simp_all add: returns_def wp_simps)

lemma returns_after:
  "pool_step gone s s' \<Longrightarrow> returns gone s' x Q \<Longrightarrow> returns gone s x Q"
  unfolding returns_def by (erule wlp_mono) (auto intro: pool_step_trans)

lemma returns_cases:
  assumes "returns gone s x Q" "\<And>e s'. pool_step gone s s' \<Longrightarrow> returns gone s' (f (Inl e) s') R"
    "\<And>v s'. pool_step gone s s' \<Longrightarrow> Q v s' \<Longrightarrow> returns gone s' (f (Inr v) s') R"
  shows "returns gone s (Option.bind x (\<lambda>(r, s). f r s)) R"
proof -
  have "returns gone s (f r s') R" if "pool_step gone s s'" "\<forall>v. r = Inr v \<longrightarrow> Q v s'" for r s'
    using that(2) by (cases r) (auto intro!: returns_after [OF that(1)] assms(2,3) [OF that(1)])
  then show ?thesis
    using assms(1) unfolding returns_def wp_bind by (elim wlp_mono) auto
qed

lemma returns_bind:
  assumes "returns gone s (m s) (\<lambda>v s'. returns gone s' (k v s') Q)"
  shows "returns gone s (py_bind m k s) Q"
  unfolding py_bind_def
  by (rule returns_cases [OF assms]) (auto intro: returns_Some pool_step_ok)

lemma returns_except:
  assumes "returns gone s (m s) Q" "\<And>s'. pool_step gone s s' \<Longrightarrow> returns gone s' (h s') Q"
  shows "returns gone s (py_except m h s) Q"
  unfolding py_except_def
  by (rule returns_cases [OF assms(1)]) (auto intro: assms(2) returns_Some pool_step_ok)

lemma returns_return: "pools_ok s \<Longrightarrow> Q v s \<Longrightarrow> returns gone s (py_return v s) Q"
  by (simp add: returns_def py_return_def wp_simps)

lemma returns_raise: "pools_ok s \<Longrightarrow> returns gone s (py_raise e s) Q"
  by (simp add: returns_def py_raise_def wp_simps)

lemma returns_state: "pool_step gone s (f s) \<Longrightarrow> Q () (f s) \<Longrightarrow> returns gone s (py_modify f s) Q"
  by (simp add: returns_def py_modify_def wp_simps)

lemmas returns_prims = returns_return returns_raise returns_state

lemma returns_modify:
  "pool_step gone s (f s) \<Longrightarrow> Q v (f s) \<Longrightarrow> returns gone s (py_bind (py_modify f) (\<lambda>_. py_return v) s) Q"
  by (simp add: returns_def py_return_def py_modify_def py_bind_def wp_simps)

lemma returns_if:
  "(b \<Longrightarrow> returns gone s x Q) \<Longrightarrow> (\<not> b \<Longrightarrow> returns gone s y Q) \<Longrightarrow> returns gone s (if b then x else y) Q"
  by simp

lemma pool_step_objs [simp]: "pool_step gone s (s'\<lparr>objs := x\<rparr>) = pool_step gone s s'"
  by (simp add: pool_step_def)

lemma returns_on_conn:
  assumes "pools_ok s" "\<And>v x. Q v (s\<lparr>objs := x\<rparr>)"
  shows "returns gone s (on_conn n m s) Q"
  using assms by (auto simp: returns_def on_conn_def wp_simps intro: wlp_all)

lemma returns_try_conn:
  assumes "pools_ok s" "\<And>x. Q v (s\<lparr>objs := x\<rparr>)" "\<And>x. returns gone (s\<lparr>objs := x\<rparr>) (h (s\<lparr>objs := x\<rparr>)) Q"
  shows "returns gone s (py_except (py_bind (on_conn n m) (\<lambda>_. py_return v)) h s) Q"
proof -
  have "returns gone s (h (s\<lparr>objs := x\<rparr>)) Q" for x
    by (rule returns_after [OF _ assms(3)]) (simp add: assms(1))
  then show ?thesis
    using assms(1,2) unfolding py_except_def py_bind_def on_conn_def returns_def wp_bind
    by - (rule wlp_all, auto simp: wp_simps py_return_def split: sum.split)
qed

text \<open>A connection in the list of free ones is in no list of used ones.\<close>

lemma free_not_used:
  assumes "pools_ok s" "n \<in> set (connections_free (pools s p))"
  shows "n \<notin> set (connections_used (pools s p'))"
  using assms pools_okD(3) [OF assms(1), of p] pools_okD(5) [OF assms] pools_okD(6) [OF assms(1), of n p']
  by (cases "p' = p") auto

lemma pool_step_unused:
  assumes "pool_step {n} s s'" "\<And>p. n \<notin> set (connections_used (pools s p))"
  shows "pool_step {} s s'"
proof -
  have "set (connections_used (pools s p)) - {n} = set (connections_used (pools s p))" for p
    using assms(2) [of p] by auto
  then show ?thesis using assms(1) by (simp add: pool_step_def)
qed

lemma returns_unused:
  assumes "returns {n} s x Q" "\<And>p. n \<notin> set (connections_used (pools s p))"
  shows "returns {} s x Q"
  using assms(1) unfolding returns_def
  by (rule wlp_mono) (use assms(2) in \<open>auto intro!: pool_step_unused [of n]\<close>)

lemma new_conn_returns:
  assumes "pools_ok s"
  shows "returns {} s (new_conn env cfg s)
    (\<lambda>n s'. n < next_obj s' \<and> conn_pool s' n = None \<and> pools s' = pools s \<and> next_pool s' = next_pool s)"
proof -
  let ?n = "next_obj s"
  have fresh: "?n \<notin> set (pool_ids s p)" for p
    using pools_okD(5,6) [OF assms, of ?n p] by auto
  have ok: "pools_ok (s\<lparr>next_obj := Suc ?n\<rparr>)"
    using assms unfolding pools_ok_def by (auto simp: less_Suc_eq)
  then have ok': "pools_ok (s\<lparr>next_obj := Suc ?n, conn_pool := (conn_pool s)(?n := None)\<rparr>)"
    using pools_ok_unpool [OF ok, of ?n] fresh by simp
  have "pools_ok (s\<lparr>next_obj := Suc ?n, objs := x, conn_pool := (conn_pool s)(?n := None), conn_used := y\<rparr>)" for x y
    using ok' by (simp add: pools_ok_def)
  with ok show ?thesis
    unfolding returns_def new_conn_def Let_def wp_bind
    by - (rule wlp_all, auto simp: wp_simps pool_step_def split: sum.split)
qed

lemma add_connection_returns:
  assumes "pools_ok s" "p < next_pool s" "\<And>n. c = Some (Conn n) \<Longrightarrow> conn_pool s n = None \<and> n < next_obj s"
  shows "returns {} s (add_connection env now p c s) (\<lambda>n s'. n \<in> set (connections_free (pools s' p)))"
proof (cases "add_checks p c s")
  case None
  have add: "returns {} s' (py_bind (py_modify (add_new now p n)) (\<lambda>_. py_return n) s')
      (\<lambda>n s'. n \<in> set (connections_free (pools s' p)))"
    if s': "pools_ok s'" "n < next_obj s'" "conn_pool s' n = None" "pools s' = pools s" "next_pool s' = next_pool s" for n s'
  proof -
    have "add_checks p c s' = None" using None by (simp add: add_checks_def s'(4))
    then have "pool_step {} s' (add_new now p n s')" using add_new_step s' assms(2) by metis
    then show ?thesis
      by (rule returns_modify) (simp add: add_new_def)
  qed
  have "returns {} s (add_locked env now p c s) (\<lambda>n s'. n \<in> set (connections_free (pools s' p)))"
    unfolding add_locked_def
  proof (rule returns_bind, cases "\<exists>n. c = Some (Conn n)")
    case True
    then show "returns {} s ((case c of Some (Conn n) \<Rightarrow> py_return n | _ \<Rightarrow> new_conn env (config_of (pool_config (pools s p)))) s)
      (\<lambda>v s'. returns {} s' (py_bind (py_modify (add_new now p v)) (\<lambda>_. py_return v) s') (\<lambda>n s'. n \<in> set (connections_free (pools s' p))))"
      using assms by (auto intro!: returns_prims add)
  next
    case False
    then have "(case c of Some (Conn n) \<Rightarrow> py_return n | _ \<Rightarrow> new_conn env (config_of (pool_config (pools s p)))) =
        new_conn env (config_of (pool_config (pools s p)))"
      by (auto split: option.split conn_arg.split)
    then show "returns {} s ((case c of Some (Conn n) \<Rightarrow> py_return n | _ \<Rightarrow> new_conn env (config_of (pool_config (pools s p)))) s)
      (\<lambda>v s'. returns {} s' (py_bind (py_modify (add_new now p v)) (\<lambda>_. py_return v) s') (\<lambda>n s'. n \<in> set (connections_free (pools s' p))))"
      by (auto intro!: returns_mono [OF new_conn_returns] add assms dest: pool_step_ok)
  qed
  then show ?thesis by (simp add: add_connection_def None)
qed (simp add: add_connection_def returns_prims assms)

lemma replace_connection_returns:
  assumes "pools_ok s" "conn_pool s n = Some p"
  shows "returns {n} s (replace_connection env now p n s) (\<lambda>n' s'. n' \<in> set (connections_free (pools s' p)))"
proof -
  note d = drop_conn_step [OF assms]
  have ok: "pools_ok (drop_conn p n s)" "p < next_pool (drop_conn p n s)"
    using pool_step_ok [OF d(1)] pools_okD(7) [OF assms] d(4) by simp_all
  have "returns {n} (drop_conn p n s\<lparr>objs := x\<rparr>) (add_connection env now p None (drop_conn p n s\<lparr>objs := x\<rparr>))
      (\<lambda>n' s'. n' \<in> set (connections_free (pools s' p)))" for x
    by (rule returns_mono [OF add_connection_returns]) (use ok in auto)
  then show ?thesis
    unfolding replace_connection_def
    by (intro returns_if returns_prims assms returns_bind d(1) returns_on_conn ok)
qed

lemma get_connection_returns:
  assumes "pools_ok s"
  shows "returns {} s (get_connection env now p s)
    (\<lambda>n s'. (\<forall>q. n \<notin> set (connections_used (pools s q))) \<and> n \<in> set (connections_used (pools s' p)))"
proof (cases "connections_free (pools s p)")
  case (Cons n ns)
  then have n: "n \<in> set (connections_free (pools s p))" by simp
  let ?free = "\<lambda>n s'. pools_ok s' \<and> pool_step {} s s' \<and> n \<in> set (connections_free (pools s' p))"
  let ?Q = "\<lambda>n s'. (\<forall>q. n \<notin> set (connections_used (pools s q))) \<and> n \<in> set (connections_used (pools s' p))"
  have replace: "returns {} s' (replace_connection env now p n s') ?free"
    if s': "pool_step {} s s'" "conn_pool s' n = Some p" "\<And>q. n \<notin> set (connections_used (pools s' q))" for s'
  proof -
    have "returns {} s' (replace_connection env now p n s') (\<lambda>n' s'. n' \<in> set (connections_free (pools s' p)))"
      by (rule returns_unused [OF replace_connection_returns]) (use s' pool_step_ok in auto)
    then show ?thesis
      by (rule returns_mono) (use s'(1) in \<open>auto dest: pool_step_ok intro: pool_step_trans\<close>)
  qed
  have pick: "returns {} s ((if validation_interval (pools s p) * 1000000 < now - last_used s n
       then py_except (py_bind (on_conn n (c_call (MrdbConnection_ping (env_api env) (env_lib env)))) (\<lambda>_. py_return n))
              (replace_connection env now p n)
       else py_return n) s) ?free"
    using pools_okD(5) [OF assms n] free_not_used [OF assms n] assms n
    by (simp, intro conjI impI returns_try_conn returns_prims replace) auto
  have "returns {} s' (py_bind (py_modify (take_conn p n)) (\<lambda>_. py_return n) s') ?Q" if s': "?free n s'" for n s'
  proof -
    have "n \<notin> set (connections_used (pools s q))" for q
      using s' free_not_used [of s' n p q] by (auto simp: pool_step_def)
    then show ?thesis
      using take_conn_step [of s' n p] s'
      by (intro returns_modify) auto
  qed
  then have "returns {} s (py_bind (if validation_interval (pools s p) * 1000000 < now - last_used s n
       then py_except (py_bind (on_conn n (c_call (MrdbConnection_ping (env_api env) (env_lib env)))) (\<lambda>_. py_return n))
              (replace_connection env now p n)
       else py_return n) (\<lambda>n. py_bind (py_modify (take_conn p n)) (\<lambda>_. py_return n)) s) ?Q"
    by - (rule returns_bind, rule returns_mono [OF pick], auto)
  then show ?thesis
    using pools_okD(5) [OF assms n] by (simp add: get_connection_def Let_def Cons)
qed (simp add: get_connection_def Let_def returns_prims assms)

lemma close_connection_returns:
  assumes "pools_ok s" "conn_pool s n = Some p"
  shows "returns {n} s (close_connection env now p n s) (\<lambda>_ _. True)"
proof -
  have "returns {n} (s\<lparr>objs := x\<rparr>) (py_bind (replace_connection env now p n) (\<lambda>_. py_return ()) (s\<lparr>objs := x\<rparr>)) (\<lambda>_ _. True)" for x
    by (rule returns_bind, rule returns_mono [OF replace_connection_returns])
      (use assms in \<open>auto intro: returns_prims dest: pool_step_ok\<close>)
  then have tried: "returns {n} s (py_except
         (py_bind (on_conn n (clean_conn env (reset_connection (pools s p)))) (\<lambda>_. py_return ()))
         (py_bind (replace_connection env now p n) (\<lambda>_. py_return ())) s) (\<lambda>_ _. True)"
    by (intro returns_try_conn assms) simp_all
  show ?thesis
    unfolding close_connection_def
    by (rule returns_bind, rule returns_mono [OF tried])
      (auto intro!: returns_prims give_back_step dest: pool_step_ok)
qed

lemma conn_close_returns:
  assumes "pools_ok s"
  shows "returns {n} s (conn_close env now n s) (\<lambda>_ _. True)"
proof (cases "conn_pool s n")
  case None
  then show ?thesis
    unfolding conn_close_def
    by (simp, intro conjI impI returns_prims assms returns_bind returns_on_conn) (simp_all add: assms)
next
  case (Some p)
  then show ?thesis
    using close_connection_returns [OF assms Some]
    by (simp add: conn_close_def returns_prims assms)
qed

lemma drop_free_returns: "pools_ok s \<Longrightarrow> returns {} s (drop_free p j s) (\<lambda>_ _. True)"
  by (simp add: drop_free_def returns_prims del_free_step)

lemma close_all_free_returns: "pools_ok s \<Longrightarrow> returns {} s (close_all_free env now p js s) (\<lambda>_ _. True)"
proof (induction js arbitrary: s)
  case (Cons j js)
  have close: "returns {} s (conn_close env now (connections_free (pools s p) ! j) s) (\<lambda>_ _. True)"
    if "j < length (connections_free (pools s p))"
    using that by (intro returns_unused [OF conn_close_returns] free_not_used [where p = p] Cons(2)) simp
  have tried: "returns {} s (py_except (\<lambda>s. if j < length (connections_free (pools s p))
              then conn_close env now (connections_free (pools s p) ! j) s else py_raise index_error s)
         (py_return ()) s) (\<lambda>_ _. True)"
    by (rule returns_except) (use Cons(2) close in \<open>auto intro: returns_prims dest: pool_step_ok\<close>)
  have rest: "returns {} s' (py_bind (drop_free p j) (\<lambda>_. close_all_free env now p js) s') (\<lambda>_ _. True)"
    if "pools_ok s'" for s'
    by (rule returns_bind, rule returns_mono [OF drop_free_returns [OF that]])
      (auto intro: Cons(1) dest: pool_step_ok)
  show ?case
    unfolding close_all_free.simps
    by (rule returns_bind, rule returns_mono [OF tried]) (auto intro: rest dest: pool_step_ok)
qed (simp add: returns_prims)

lemma fill_pool_returns:
  "pools_ok s \<Longrightarrow> p < next_pool s \<Longrightarrow> returns {} s (fill_pool env now cfg p i s) (\<lambda>_ _. True)"
proof (induction i arbitrary: s)
  case (Suc i)
  have fail: "returns {} s' (py_bind (close_all_free env now p js) (\<lambda>_. py_raise e) s') (\<lambda>_ _. True)"
    if "pools_ok s'" for s' js e
    by (rule returns_bind, rule returns_mono [OF close_all_free_returns [OF that]])
      (auto intro: returns_prims dest: pool_step_ok)
  have add: "returns {} s' (py_bind (add_connection env now p (Some (Conn n))) (\<lambda>_. fill_pool env now cfg p i) s') (\<lambda>_ _. True)"
    if "pool_step {} s s'" "n < next_obj s'" "conn_pool s' n = None" for s' n
    by (rule returns_bind, rule returns_mono [OF add_connection_returns])
      (use that Suc(3) in \<open>auto intro!: Suc(1) simp: pool_step_def\<close>)
  show ?case
    unfolding fill_pool.simps
    by (rule returns_cases [OF new_conn_returns [OF Suc(2)]])
      (auto intro!: returns_prims fail add dest: pool_step_ok)
qed (simp add: returns_prims)

lemma ConnectionPool_init_returns:
  assumes "pools_ok s"
  shows "returns {} s (ConnectionPool_init env now kw s) (\<lambda>_ _. True)"
proof -
  let ?p = "next_pool s"
  have new: "pool_step {} s (s\<lparr>pools := (pools s)(?p := q), next_pool := Suc ?p\<rparr>)"
    if "connections_free q = []" "connections_used q = []" "0 < pool_size q" for q
    using assms that gone_empty [OF assms, of ?p] unfolding pool_step_def pools_ok_def by (auto simp: less_Suc_eq)
  have fill: "returns {} s' (py_bind (case kw_config kw of None \<Rightarrow> py_return () | Some cfg \<Rightarrow> fill_pool env now cfg ?p i)
      (\<lambda>_. py_bind (py_modify (\<lambda>s. s\<lparr>registry := (registry s)(name \<mapsto> ?p)\<rparr>)) (\<lambda>_. py_return ?p)) s') (\<lambda>_ _. True)"
    if s': "pools_ok s'" "?p < next_pool s'" for s' i name
  proof (rule returns_bind, rule returns_mono)
    show "returns {} s' ((case kw_config kw of None \<Rightarrow> py_return () | Some cfg \<Rightarrow> fill_pool env now cfg ?p i) s') (\<lambda>_ _. True)"
      using s' by (auto intro: returns_prims fill_pool_returns split: option.split)
  qed (auto intro!: returns_modify simp: pool_step_def)
  have "returns {} s (py_bind (case kw_config kw of None \<Rightarrow> py_return () | Some cfg \<Rightarrow> fill_pool env now cfg ?p i)
      (\<lambda>_. py_bind (py_modify (\<lambda>s. s\<lparr>registry := (registry s)(name \<mapsto> ?p)\<rparr>)) (\<lambda>_. py_return ?p))
      (s\<lparr>pools := (pools s)(?p := q), next_pool := Suc ?p\<rparr>)) (\<lambda>_ _. True)"
    if "connections_free q = []" "connections_used q = []" "0 < pool_size q" for q i name
    by (rule returns_after [OF new [OF that] fill [OF pool_step_ok [OF new [OF that]]]]) simp
  then show ?thesis
    by (cases "kw_name kw") (simp_all add: ConnectionPool_init_def Let_def assms returns_prims)
qed

text \<open>
  \<open>close\<close> takes the connections out of the pool one by one, with the lists still in place; the
  invariant holds again when the lists are gone.
\<close>

lemma close_each_wlp:
  "wlp (close_each env ns s) (\<lambda>(r, s'). \<exists>x A. A \<subseteq> set ns \<and>
     s' = s\<lparr>objs := x, conn_pool := (\<lambda>n. if n \<in> A then None else conn_pool s n)\<rparr>)"
proof (induction ns arbitrary: s)
  case Nil
  show ?case by (auto simp: py_return_def wp_simps intro!: exI [of _ "objs s"])
next
  case (Cons n ns)
  let ?s = "\<lambda>x. s\<lparr>conn_pool := (conn_pool s)(n := None), objs := x\<rparr>"
  have step: "\<exists>x A. A \<subseteq> set (n # ns) \<and> s' = s\<lparr>objs := x, conn_pool := (\<lambda>n. if n \<in> A then None else conn_pool s n)\<rparr>"
    if "s' = ?s y\<lparr>objs := x, conn_pool := (\<lambda>n. if n \<in> A then None else conn_pool (?s y) n)\<rparr>" "A \<subseteq> set ns" for s' x y A
  proof (intro exI conjI)
    show "insert n A \<subseteq> set (n # ns)" using that(2) by auto
    show "s' = s\<lparr>objs := x, conn_pool := (\<lambda>m. if m \<in> insert n A then None else conn_pool s m)\<rparr>"
      using that(1) by (cases s) (auto simp: fun_eq_iff fun_upd_def)
  qed
  have "?s y = ?s y\<lparr>objs := y, conn_pool := (\<lambda>n. if n \<in> {} then None else conn_pool (?s y) n)\<rparr>" for y
    by (cases s) (simp add: fun_upd_def)
  note stop = step [OF this empty_subsetI]
  have rest: "wlp (close_each env ns (?s y)) (\<lambda>(r, s'). \<exists>x A. A \<subseteq> set (n # ns) \<and>
     s' = s\<lparr>objs := x, conn_pool := (\<lambda>n. if n \<in> A then None else conn_pool s n)\<rparr>)" for y
    unfolding case_prod_unfold
    by (rule wlp_mono [OF Cons.IH [unfolded case_prod_unfold]], elim exE conjE, rule step)
  show ?case
    unfolding close_each.simps py_bind_def py_modify_def on_conn_def
    using rest stop by - (simp add: wp_simps, rule wlp_all, auto simp: wp_simps split: sum.split)
qed

lemma ConnectionPool_close_returns:
  assumes "pools_ok s"
  shows "returns (set (connections_used (pools s p))) s (ConnectionPool_close env p s) (\<lambda>_ _. True)"
proof -
  let ?gone = "set (connections_used (pools s p))"
  let ?f = "\<lambda>q. q\<lparr>lists_gone := True, connections_free := [], connections_used := []\<rparr>"
  have size: "0 \<le> pool_size (pools s p)" using pools_okD(4) [OF assms, of p] by simp
  have "pool_step ?gone s (upd_pool p ?f (s\<lparr>objs := x, conn_pool := (\<lambda>n. if n \<in> A then None else conn_pool s n)\<rparr>))"
    if A: "A \<subseteq> set (pool_ids s p)" for x A
  proof -
    have "n \<notin> A" if "n \<in> set (pool_ids s q)" "q \<noteq> p" for n q
      using that A pools_okD(5,6) [OF assms, of n q] pools_okD(5,6) [OF assms, of n p] by auto
    then show ?thesis using assms size unfolding pool_step_def pools_ok_def by (auto split: if_splits)
  qed
  then have closed: "pool_step ?gone s (upd_pool p ?f s')"
    if "\<exists>x A. A \<subseteq> set (pool_ids s p) \<and> s' = s\<lparr>objs := x, conn_pool := (\<lambda>n. if n \<in> A then None else conn_pool s n)\<rparr>" for s'
    using that by blast
  have "pool_step ?gone s (upd_pool p ?f s)"
    by (rule closed) (auto intro!: exI [of _ "objs s"] exI [of _ "{}"])
  moreover have "wlp (close_each env (pool_ids s p) s) (\<lambda>(r, s'). pool_step ?gone s (upd_pool p ?f s'))"
    unfolding case_prod_unfold by (rule wlp_mono [OF close_each_wlp [unfolded case_prod_unfold]], rule closed)
  ultimately have "wlp (if lists_gone (pools s p) then py_raise lists_error s else close_each env (pool_ids s p) s)
      (\<lambda>(r, s'). pool_step ?gone s (upd_pool p ?f s'))"
    by (simp add: py_raise_def wp_simps)
  then show ?thesis
    unfolding returns_def ConnectionPool_close_def Let_def wp_bind
    by (rule wlp_mono) (auto simp: wp_simps py_raise_def pool_step_def)
qed

lemma connect_returns:
  assumes "pools_ok s"
  shows "returns {} s (connect env now kw s) (\<lambda>_ _. True)"
proof -
  have "returns {} s (py_bind (case registry s name of None \<Rightarrow> ConnectionPool_init env now kw | Some p \<Rightarrow> py_return p)
      (\<lambda>p. get_connection env now p) s) (\<lambda>_ _. True)" for name
  proof (rule returns_bind, rule returns_mono)
    show "returns {} s ((case registry s name of None \<Rightarrow> ConnectionPool_init env now kw | Some p \<Rightarrow> py_return p) s) (\<lambda>_ _. True)"
      by (auto intro: returns_prims assms ConnectionPool_init_returns split: option.split)
    show "returns {} s' (get_connection env now v s') (\<lambda>_ _. True)" if "pool_step {} s s'" for v s'
      by (rule returns_mono [OF get_connection_returns [OF pool_step_ok [OF that]]]) simp_all
  qed simp
  moreover have "returns {} s (new_conn env cfg s) (\<lambda>_ _. True)" for cfg
    by (rule returns_mono [OF new_conn_returns [OF assms]]) simp_all
  ultimately show ?thesis by (simp add: connect_def split: option.split)
qed

subsection \<open>Interpretations\<close>

lemma returns_keeps: "returns gone s x Q \<Longrightarrow> wlp x (\<lambda>(r, s'). pool_step gone s s')"
  unfolding returns_def by (erule wlp_mono) auto

interpretation add_connection: pool_method "add_connection env now p c"
  "\<lambda>s. p < next_pool s \<and> (\<forall>n. c = Some (Conn n) \<longrightarrow> conn_pool s n = None \<and> n < next_obj s)" "\<lambda>s. {}" for env now p c
  by unfold_locales (auto intro: returns_keeps [OF add_connection_returns])

interpretation get_connection: pool_method "get_connection env now p" "\<lambda>s. True" "\<lambda>s. {}" for env now p
  by unfold_locales (rule returns_keeps [OF get_connection_returns])

interpretation conn_close: pool_method "conn_close env now n" "\<lambda>s. True" "\<lambda>s. {n}" for env now n
  by unfold_locales (rule returns_keeps [OF conn_close_returns])

interpretation pool_init: pool_method "ConnectionPool_init env now kw" "\<lambda>s. True" "\<lambda>s. {}" for env now kw
  by unfold_locales (rule returns_keeps [OF ConnectionPool_init_returns])

interpretation pool_close: pool_method "ConnectionPool_close env p" "\<lambda>s. True"
  "\<lambda>s. set (connections_used (pools s p))" for env p
  by unfold_locales (rule returns_keeps [OF ConnectionPool_close_returns])

lemma set_config_ok: "pools_ok s \<Longrightarrow> pools_ok (upd_pool p (\<lambda>q. q\<lparr>pool_config := cfg\<rparr>) s)"
  unfolding pools_ok_def by auto

interpretation set_config: pool_method "set_config p cfg" "\<lambda>s. True" "\<lambda>s. {}" for p cfg
  by unfold_locales (simp add: set_config_def py_modify_def wp_simps pool_step_def set_config_ok)

interpretation on_conn: pool_method "on_conn n m" "\<lambda>s. True" "\<lambda>s. {}" for n m
  by unfold_locales (auto intro: returns_keeps returns_on_conn [where Q = "\<lambda>_ _. True"])

interpretation connect: pool_method "connect env now kw" "\<lambda>s. True" "\<lambda>s. {}" for env now kw
  by unfold_locales (rule returns_keeps [OF connect_returns])

end
