(* ===== verification/Mrdb_Pool_Histories.thy ===== *)
theory Mrdb_Pool_Histories
  imports Mrdb_Pool_Safety
begin

text \<open>
  Sequences of calls on connections and pools, and the properties of a pool that hold along them or
  fail: what is handed out, what is given back, and three ways to break a pool.
\<close>

subsection \<open>Histories\<close>

text \<open>
  What the rest of the program may do: call \<open>mariadb.connect\<close>, the constructor and the methods of a
  pool, close a connection, or run a method of a connection that does not involve its pool.
\<close>

datatype 'c pool_call =
    Connect pool_kwargs
  | New_pool pool_kwargs
  | Add_connection nat "conn_arg option"
  | Get_connection nat
  | Set_config nat "conn_config option"
  | Close_pool nat
  | Close_connection nat
  | Use_connection nat "'c pconn pymethod"

definition result :: "('s, 'a) pyfun \<Rightarrow> ('a \<Rightarrow> 'b) \<Rightarrow> ('s, 'b) pyfun" where
  "result m f s = map_option (\<lambda>(r, s'). (map_sum (\<lambda>e. e) f r, s')) (m s)"

text \<open>The result of a call is the connection it returns, if it returns one.\<close>

fun run_pool_call :: "'c pool_env \<Rightarrow> int \<Rightarrow> 'c pool_call \<Rightarrow> ('c process, nat option) pyfun" where
  "run_pool_call env now (Connect kw) = result (connect env now kw) Some"
| "run_pool_call env now (New_pool kw) = result (ConnectionPool_init env now kw) (\<lambda>_. None)"
| "run_pool_call env now (Add_connection p c) = result (add_connection env now p c) Some"
| "run_pool_call env now (Get_connection p) = result (get_connection env now p) Some"
| "run_pool_call env now (Set_config p cfg) = result (set_config p cfg) (\<lambda>_. None)"
| "run_pool_call env now (Close_pool p) = result (ConnectionPool_close env p) (\<lambda>_. None)"
| "run_pool_call env now (Close_connection n) = result (conn_close env now n) (\<lambda>_. None)"
| "run_pool_call env now (Use_connection n m) = result (on_conn n m) (\<lambda>_. None)"

text \<open>A connection may be added to a pool if it belongs to none.\<close>

fun allowed :: "'c process \<Rightarrow> 'c pool_call \<Rightarrow> bool" where
  "allowed s (Add_connection p c) \<longleftrightarrow> p < next_pool s \<and>
     (\<forall>n. c = Some (Conn n) \<longrightarrow> conn_pool s n = None \<and> n < next_obj s)"
| "allowed s call \<longleftrightarrow> True"

text \<open>The connections a call gives back.\<close>

fun released :: "'c process \<Rightarrow> 'c pool_call \<Rightarrow> nat set" where
  "released s (Close_connection n) = {n}"
| "released s (Close_pool p) = set (connections_used (pools s p))"
| "released s call = {}"

definition start :: "'c pconn \<Rightarrow> 'c process" where
  "start w = \<lparr>objs = (\<lambda>_. w), next_obj = 0, conn_pool = (\<lambda>_. None), conn_used = (\<lambda>_. 0), last_used = (\<lambda>_. 0),
     pools = (\<lambda>_. \<lparr>pool_name = [], pool_size = 0, reset_connection = False, validation_interval = 0, pool_config = None,
       lists_gone = False, connections_free = [], connections_used = []\<rparr>),
     next_pool = 0, registry = (\<lambda>_. None)\<rparr>"

text \<open>\<open>pool_run env keep s s'\<close>: a sequence of calls none of which gives back a connection in \<open>keep\<close>.\<close>

inductive pool_run :: "'c pool_env \<Rightarrow> nat set \<Rightarrow> 'c process \<Rightarrow> 'c process \<Rightarrow> bool" for env keep s where
  pool_run_refl: "pool_run env keep s s"
| pool_run_step: "pool_run env keep s s' \<Longrightarrow> allowed s' call \<Longrightarrow> released s' call \<inter> keep = {} \<Longrightarrow>
    run_pool_call env now call s' = Some (r, s'') \<Longrightarrow> pool_run env keep s s''"

lemma resultD: "result m f s = Some (r, s') \<Longrightarrow> \<exists>v. m s = Some (v, s')"
  by (auto simp: result_def)

lemma run_pool_call_step:
  assumes "pools_ok s" "allowed s call" "run_pool_call env now call s = Some (r, s')"
  shows "pool_step (released s call) s s'"
  using assms(3)
  by (cases call; insert assms(1,2))
    (auto dest!: resultD dest: wlpD [OF add_connection.keeps] wlpD [OF get_connection.keeps] wlpD [OF conn_close.keeps]
      wlpD [OF pool_init.keeps] wlpD [OF pool_close.keeps] wlpD [OF set_config.keeps] wlpD [OF on_conn.keeps]
      wlpD [OF connect.keeps])

lemma pool_run_keeps:
  assumes "pool_run env keep s s'" "pools_ok s"
  shows "pools_ok s' \<and> (\<forall>p. set (connections_used (pools s p)) \<inter> keep \<subseteq> set (connections_used (pools s' p)))"
  using assms
proof (induction rule: pool_run.induct)
  case (pool_run_step s' call now r s'')
  have "pool_step (released s' call) s' s''" using pool_run_step run_pool_call_step by blast
  then show ?case using pool_run_step by (fastforce simp: pool_step_def)
qed simp

lemma start_ok [simp]: "pools_ok (start w)"
  by (simp add: pools_ok_def start_def)

subsection \<open>An example\<close>

text \<open>
  A library whose server reports the status 2 (autocommit), and a pool of two connections that are
  made with it.
\<close>

definition pool_lib :: "nat clientlib" where
  "pool_lib = sample_lib\<lparr>mariadb_get_infov := (\<lambda>h opt c. Some \<lparr>info_str = None, info_num = 2\<rparr>)\<rparr>"

definition sample_conn :: "nat \<Rightarrow> nat pconn" where
  "sample_conn c = \<lparr>gil = True, py_err = None, client = c, notified = [], thread_state = False, mysql = True,
     conn_closed = False, host = Some ''db'', status_callback = None, tls_in_use = False,
     tpc = TPC_NONE, conn_xid = None\<rparr>"

definition sample_config :: conn_config where
  "sample_config = \<lparr>cfg_args = Inr default_args, cfg_autocommit = True, cfg_reconnect = False\<rparr>"

definition sample_env :: "nat pool_env" where
  "sample_env = \<lparr>env_api = ref_api, env_lib = pool_lib, env_plugins = None, env_warning = None,
     env_fresh = (\<lambda>n. (sample_conn 0)\<lparr>mysql := False, host := None\<rparr>)\<rparr>"

definition sample_kw :: pool_kwargs where
  "sample_kw = \<lparr>kw_name = Some (ustr ''pool''), kw_size = 2, kw_reset = True, kw_interval = 500,
     kw_config = Some sample_config\<rparr>"

lemma pool_lib_fields:
  "mysql_init pool_lib c = (True, c)" "set_status_callback pool_lib c = (False, c)"
  "mysql_options pool_lib opt c = (False, c)" "mysql_real_connect pool_lib a = sample_call" "lib_diag pool_lib c = no_diag"
  "mysql_get_ssl_cipher pool_lib c = False" "connection_host pool_lib c = Some ''db''"
  "mariadb_get_infov pool_lib h n c = Some \<lparr>info_str = None, info_num = 2\<rparr>"
  "set_reconnect_option pool_lib b c = c" "mysql_ping pool_lib = sample_call" "mysql_reset_connection pool_lib = sample_call"
  by (simp_all add: pool_lib_def sample_lib_def)

lemma sample_options: "set_options pool_lib opts c = (False, c)"
  by (induction opts) (simp_all add: pool_lib_fields)

lemma sample_initialize:
  "MrdbConnection_Initialize ref_api pool_lib None None (Inr default_args) ((sample_conn 0)\<lparr>mysql := False, host := None\<rparr>) =
   Some (False, sample_conn 1)"
  by (simp add: MrdbConnection_Initialize_def pool_lib_fields default_args_def MARIADB_BEGIN_ALLOW_THREADS_def
    MARIADB_END_ALLOW_THREADS_def sample_conn_def connect_server_def sample_options server_call_def sample_call_def no_diag_def
    MrdbConnection_process_status_info_def)

lemma sample_status:
  "get_info ref_api pool_lib (attr_info Server_status) (sample_conn c) = Some (Inr (PyLong 2), sample_conn c)"
  by (simp add: get_info_def c_call_def MrdbConnection_getinfo_def pool_lib_fields info_object_def info_of_code_def rd_def
    mariadb_infos_def as_unsigned_def string_infos_def number_infos_def sample_conn_def)

lemma sample_new_conn_init:
  "Connection_init ref_api pool_lib None None (Inr default_args) True False ((sample_conn 0)\<lparr>mysql := False, host := None\<rparr>) =
   Some (Inr PyNone, sample_conn 1)"
proof -
  have "new_connection ((sample_conn 0)\<lparr>mysql := False, host := None\<rparr>)\<lparr>tpc := TPC_NONE, conn_xid := None\<rparr> =
      (sample_conn 0)\<lparr>mysql := False, host := None\<rparr>"
    by (simp add: new_connection_def sample_conn_def)
  then show ?thesis
    using sample_initialize sample_status [of 1]
    by (simp add: Connection_init_def py_then_def c_init_def c_call_def set_autocommit_def check_closed_def
      Connection_autocommit_def Connection_attr_def return_def STATUS_AUTOCOMMIT_def sample_conn_def
      MrdbConnection_setreconnect_def pool_lib_fields lib_do_def)
qed

lemma sample_clean: "clean_conn sample_env True (sample_conn c) = Some (Inr PyNone, sample_conn (Suc c))"
  by (simp add: clean_conn_def sample_env_def c_call_def MrdbConnection_reset_def MARIADB_CHECK_CONNECTION_def blocking_def
    MARIADB_BEGIN_ALLOW_THREADS_def MARIADB_END_ALLOW_THREADS_def server_call_def pool_lib_fields sample_call_def
    MrdbConnection_process_status_info_def none_or_raise_def sample_conn_def)

lemma sample_new_conn:
  "new_conn sample_env sample_config s = Some (Inr (next_obj s), s\<lparr>next_obj := Suc (next_obj s),
     objs := (objs s)(next_obj s := sample_conn 1), conn_pool := (conn_pool s)(next_obj s := None),
     conn_used := (conn_used s)(next_obj s := 0)\<rparr>)"
  using sample_new_conn_init by (simp add: new_conn_def Let_def sample_env_def sample_config_def)

text \<open>The pool, after \<open>u\<close> has been moved to the used connections and \<open>f\<close> is left.\<close>

definition sample_pool :: "nat list \<Rightarrow> nat list \<Rightarrow> pool" where
  "sample_pool f u = \<lparr>pool_name = ustr ''pool'', pool_size = 2, reset_connection = True, validation_interval = 500,
     pool_config = Some sample_config, lists_gone = False, connections_free = f, connections_used = u\<rparr>"

definition sample_process :: "nat list \<Rightarrow> nat list \<Rightarrow> nat process" where
  "sample_process f u = \<lparr>objs = (\<lambda>_. sample_conn 1), next_obj = 2,
     conn_pool = [0 \<mapsto> 0, 1 \<mapsto> 0], conn_used = (\<lambda>n. if n \<in> set u then 1 else 0), last_used = (\<lambda>_. 0),
     pools = (pools (start (sample_conn 1)))(0 := sample_pool f u), next_pool = 1,
     registry = [ustr ''pool'' \<mapsto> 0]\<rparr>"

lemma sample_pool_init:
  "run_pool_call sample_env 0 (New_pool sample_kw) (start (sample_conn 1)) = Some (Inr None, sample_process [0, 1] [])"
  by (simp add: result_def ConnectionPool_init_def sample_kw_def Let_def start_def MAX_POOL_SIZE_def numeral_2_eq_2
    sample_new_conn py_bind_def py_return_def py_modify_def add_connection_def add_checks_def add_locked_def add_new_def
    upd_pool_def sample_process_def sample_pool_def fun_upd_idem)

lemma sample_run: "pool_run sample_env {} (start (sample_conn 1)) (sample_process [0, 1] [])"
  by (rule pool_run_step [OF pool_run_refl _ _ sample_pool_init]) simp_all

lemma sample_get:
  "get_connection sample_env 0 0 (sample_process (c # f) u) =
   Some (Inr c, take_conn 0 c (sample_process (c # f) u))"
  by (simp add: get_connection_def Let_def sample_process_def sample_pool_def py_bind_def py_return_def py_modify_def)

lemma sample_take: "take_conn 0 0 (sample_process [0, 1] []) = sample_process [1] [0]"
  by (simp add: take_conn_def upd_pool_def sample_process_def sample_pool_def fun_eq_iff)

subsection \<open>What a pool promises\<close>







subsection \<open>Ways to break a pool\<close>

text \<open>
  \<open>add_connection\<close> does not look whether the pool has the connection already. A connection that
  was added twice is then handed out to two users at a time.
\<close>

theorem connection_added_twice:
  assumes "add_checks p (Some (Conn c)) s = None" "connections_free (pools s p) = [c]" "0 \<le> validation_interval (pools s p)"
  shows "\<exists>s1 s2 s3. add_connection env now p (Some (Conn c)) s = Some (Inr c, s1) \<and>
    get_connection env now p s1 = Some (Inr c, s2) \<and> get_connection env now p s2 = Some (Inr c, s3)"
proof -
  let ?s1 = "add_new now p c s"
  have open_pool: "\<not> lists_gone (pools s p)" using assms(1) by (auto simp: add_checks_def Let_def split: if_splits)
  have add: "add_connection env now p (Some (Conn c)) s = Some (Inr c, ?s1)"
    using assms(1) by (simp add: add_connection_def add_locked_def py_bind_def py_return_def py_modify_def)
  have s1: "pools ?s1 p = (pools s p)\<lparr>connections_free := [c, c]\<rparr>" "last_used ?s1 c = now"
    using assms(2) by (simp_all add: add_new_def upd_pool_def)
  have get1: "get_connection env now p ?s1 = Some (Inr c, take_conn p c ?s1)"
    using open_pool assms(3) by (simp add: get_connection_def Let_def s1 py_bind_def py_return_def py_modify_def)
  have s2: "pools (take_conn p c ?s1) p = (pools s p)\<lparr>connections_free := [c], connections_used := connections_used (pools s p) @ [c]\<rparr>"
    "last_used (take_conn p c ?s1) c = now"
    using s1 by (simp_all add: take_conn_def upd_pool_def)
  have "get_connection env now p (take_conn p c ?s1) = Some (Inr c, take_conn p c (take_conn p c ?s1))"
    using open_pool assms(3) by (simp add: get_connection_def Let_def s2 py_bind_def py_return_def py_modify_def)
  with add get1 show ?thesis by blast
qed

theorem connection_added_twice_witness:
  "\<exists>s1 s2 s3. add_connection sample_env 0 0 (Some (Conn 0)) (sample_process [0] []) = Some (Inr 0, s1) \<and>
    get_connection sample_env 0 0 s1 = Some (Inr 0, s2) \<and> get_connection sample_env 0 0 s2 = Some (Inr 0, s3)"
  using connection_added_twice [where s = "sample_process [0] []" and p = 0 and c = 0 and env = sample_env and now = 0]
  by (simp add: add_checks_def sample_process_def sample_pool_def)

text \<open>
  C38: the test for a free slot lies before the lock. Two threads that both pass it with one slot left
  fill the pool beyond its size.
\<close>

theorem add_connection_race:
  assumes "add_checks p (Some (Conn a)) s = None" "add_checks p (Some (Conn b)) s = None"
    and "int (length (connections_free (pools s p) @ connections_used (pools s p))) = pool_size (pools s p) - 1"
  shows "\<exists>s1 s2. add_locked env now p (Some (Conn a)) s = Some (Inr a, s1) \<and> add_locked env now p (Some (Conn b)) s1 = Some (Inr b, s2) \<and>
    int (length (connections_free (pools s2 p) @ connections_used (pools s2 p))) = pool_size (pools s2 p) + 1 \<and>
    add_checks p (Some (Conn b)) s1 \<noteq> None"
proof -
  have locked: "add_locked env now p (Some (Conn n)) s = Some (Inr n, add_new now p n s)" for n s
    by (simp add: add_locked_def py_bind_def py_return_def py_modify_def)
  have "add_checks p (Some (Conn b)) (add_new now p a s) \<noteq> None"
    using assms(3) by (auto simp: add_checks_def Let_def add_new_def)
  moreover have "int (length (pool_ids (add_new now p b (add_new now p a s)) p)) = pool_size (pools (add_new now p b (add_new now p a s)) p) + 1"
    using assms(3) by (simp add: add_new_def)
  ultimately show ?thesis using locked by blast
qed

theorem add_connection_race_witness:
  "\<exists>s1 s2. add_locked sample_env 0 0 (Some (Conn 1)) (sample_process [0] []) = Some (Inr 1, s1) \<and>
     add_locked sample_env 0 0 (Some (Conn 2)) s1 = Some (Inr 2, s2) \<and>
     int (length (connections_free (pools s2 0) @ connections_used (pools s2 0))) = pool_size (pools s2 0) + 1"
  using add_connection_race [where s = "sample_process [0] []" and p = 0 and a = 1 and b = 2 and env = sample_env and now = 0]
  by (auto simp: add_checks_def sample_process_def sample_pool_def)

text \<open>
  One round of the handler in \<open>__init__\<close>. A connection of a pool that is being built is only cleaned by
  its \<open>close\<close>.
\<close>

definition cleanable :: "'c pool_env \<Rightarrow> nat \<Rightarrow> 'c process \<Rightarrow> nat \<Rightarrow> bool" where
  "cleanable env p s n \<longleftrightarrow> conn_pool s n = Some p \<and> \<not> conn_closed (objs s n) \<and>
     (\<exists>v w. clean_conn env (reset_connection (pools s p)) (objs s n) = Some (Inr v, w))"

lemma close_building:
  assumes "cleanable env p s n" "\<not> lists_gone (pools s p)" "connections_used (pools s p) = []"
  shows "\<exists>w. conn_close env now n s = Some (Inr (), s\<lparr>objs := (objs s)(n := w)\<rparr>)"
  using assms
  by (auto simp: cleanable_def conn_close_def close_connection_def py_bind_def py_except_def on_conn_def py_return_def
      py_modify_def give_back_def)

lemma del_at_distinct:
  assumes "distinct xs" "j < length xs"
  shows "set (del_at j xs) = set xs - {xs ! j}" "distinct (del_at j xs)" "length (del_at j xs) + 1 = length xs"
proof -
  obtain a b where "xs = a @ xs ! j # b" "length a = j"
    using id_take_nth_drop [OF assms(2)] assms(2) by (metis length_take min_absorb2 nat_less_le)
  then obtain n where xs: "xs = a @ n # b" "length a = j" by blast
  then have n: "xs ! j = n" "del_at j xs = a @ b" by (auto simp: del_at_def nth_append)
  show "set (del_at j xs) = set xs - {xs ! j}" "distinct (del_at j xs)" "length (del_at j xs) + 1 = length xs"
    using assms(1) unfolding n unfolding xs by auto
qed

lemma close_all_free_index_error:
  assumes "\<not> lists_gone (pools s p)" "connections_used (pools s p) = []" "distinct (connections_free (pools s p))"
    and "\<And>n. n \<in> set (connections_free (pools s p)) \<Longrightarrow> cleanable env p s n"
    and "j + length (connections_free (pools s p)) = k" "j < k" "2 \<le> k"
  shows "\<exists>s'. close_all_free env now p [j..<k] s = Some (Inl index_error, s')"
  using assms
proof (induction "k - j" arbitrary: j s)
  case (Suc d)
  let ?xs = "connections_free (pools s p)"
  have js: "[j..<k] = j # [Suc j..<k]" using Suc.prems(6) by (simp add: upt_conv_Cons)
  show ?case
  proof (cases "j < length ?xs")
    case False
    then show ?thesis
      by (simp add: js py_bind_def py_except_def py_raise_def is_mariadb_error_def index_error_def)
  next
    case True
    let ?n = "?xs ! j"
    obtain w where w: "conn_close env now ?n s = Some (Inr (), s\<lparr>objs := (objs s)(?n := w)\<rparr>)"
      using close_building [of env p s ?n] Suc.prems(1,2,4) True by (meson nth_mem)
    let ?s = "upd_pool p (\<lambda>q. q\<lparr>connections_free := del_at j (connections_free q)\<rparr>) (s\<lparr>objs := (objs s)(?n := w)\<rparr>)"
    have step: "close_all_free env now p (j # [Suc j..<k]) s = close_all_free env now p [Suc j..<k] ?s"
      using True w by (simp add: py_bind_def py_except_def drop_free_def py_modify_def)
    have del: "set (del_at j ?xs) = set ?xs - {?n}" "distinct (del_at j ?xs)" "length (del_at j ?xs) + 1 = length ?xs"
      using del_at_distinct [OF Suc.prems(3) True] by simp_all
    have "cleanable env p ?s m" if "m \<in> set (connections_free (pools ?s p))" for m
      using that del(1) Suc.prems(4) [of m] by (simp add: cleanable_def)
    moreover have "Suc j < k" using Suc.prems(5,7) True by linarith
    ultimately show ?thesis
      unfolding js step
      using Suc.prems Suc.hyps(2) del by (intro Suc.hyps(1)) simp_all
  qed
qed simp

text \<open>
  C39: when a connection of a new pool cannot be made, the handler that is to close the others deletes
  entries of the list it counts through. With two or more connections made before, it runs out of the list:
  the constructor raises \<open>IndexError\<close> in place of the exception of the connection.
\<close>

theorem pool_init_masks_error:
  assumes "\<not> lists_gone (pools s p)" "connections_used (pools s p) = []" "distinct (connections_free (pools s p))"
    and "\<And>n. n \<in> set (connections_free (pools s p)) \<Longrightarrow> cleanable env p s n"
    and "new_conn env cfg s = Some (Inl e, s\<lparr>next_obj := m\<rparr>)" "is_mariadb_error e" "2 \<le> length (connections_free (pools s p))"
  shows "\<exists>s'. fill_pool env now cfg p (Suc i) s = Some (Inl index_error, s') \<and> index_error \<noteq> e"
proof -
  let ?k = "length (connections_free (pools s p))"
  have "\<exists>s'. close_all_free env now p [0..<?k] (s\<lparr>next_obj := m\<rparr>) = Some (Inl index_error, s')"
    by (rule close_all_free_index_error) (use assms in \<open>auto simp: cleanable_def\<close>)
  moreover have "index_error \<noteq> e" using assms(6) by (auto simp: is_mariadb_error_def index_error_def)
  ultimately show ?thesis using assms(5,6) by (auto simp: py_bind_def)
qed

theorem pool_init_masks_error_witness:
  "\<exists>s'. fill_pool sample_env 0 (sample_config\<lparr>cfg_args := Inl (programming_error ''e'')\<rparr>) 0 1 (sample_process [0, 1] []) =
     Some (Inl index_error, s')"
proof -
  let ?s = "sample_process [0, 1] []" and ?cfg = "sample_config\<lparr>cfg_args := Inl (programming_error ''e'')\<rparr>"
  have free: "connections_free (pools ?s 0) = [0, 1]" "connections_used (pools ?s 0) = []" "\<not> lists_gone (pools ?s 0)"
    by (simp_all add: sample_process_def sample_pool_def)
  have clean: "cleanable sample_env 0 ?s n" if "n \<in> set (connections_free (pools ?s 0))" for n
    using that sample_clean [of 1] unfolding free(1)
    by (auto simp: cleanable_def sample_process_def sample_pool_def sample_conn_def)
  have "new_conn sample_env ?cfg ?s = Some (Inl (programming_error ''e''), ?s\<lparr>next_obj := 3\<rparr>)"
    by (simp add: new_conn_def sample_env_def sample_config_def Connection_init_def c_init_def py_then_def c_call_def
      MrdbConnection_Initialize_def set_error_def new_connection_def sample_conn_def sample_process_def)
  then show ?thesis
    using pool_init_masks_error [where s = ?s and p = 0 and env = sample_env and cfg = ?cfg and i = 0 and m = 3 and
        e = "programming_error ''e''" and now = 0] free clean
    by (simp add: is_mariadb_error_def programming_error_def)
qed

end
