(* ===== verification/Mrdb_PyCursor.thy ===== *)
theory Mrdb_PyCursor
  imports Mrdb_PyConnection Mrdb_Cursor
begin

unbundle bit_operations_syntax

text \<open>
  The class \<open>Cursor\<close> of \<open>cursors.py\<close> on top of the methods of \<open>mariadb_cursor.c\<close>: the choice between
  the text and the binary protocol, the substitution of parameters for the text protocol, bulk
  execution and scrolling. The attributes that are members of the C structure are read from it.
  Left out are attributes that no code reads (\<open>_prev_stmt\<close>, \<open>_description\<close>, \<open>_last_executed_statement\<close>).
\<close>

subsection \<open>State\<close>

record 'c pycursor = "'c cworld" +
  py_prepared :: bool
  force_binary :: bool
  bulk :: bool
  py_rowcount :: int

text \<open>The environment of the methods, with the outcome of the allocation in \<open>escape_string\<close>.\<close>

record 'c pycursor_env = "'c cursor_env" +
  e_escape :: bool

definition set_text :: "bool \<Rightarrow> ('c, 'z) cworld_scheme \<Rightarrow> ('c, 'z) cworld_scheme" where
  "set_text b = upd_csr (\<lambda>c. c\<lparr>pi_is_text := b\<rparr>)"

text \<open>Assigning \<open>None\<close> to \<open>_data\<close> stores the object \<open>None\<close>, not a null pointer.\<close>

definition set_data :: "pyobj \<Rightarrow> ('c, 'z) cworld_scheme \<Rightarrow> ('c, 'z) cworld_scheme" where
  "set_data d = upd_csr (\<lambda>c. c\<lparr>cur_data := d, data_set := True\<rparr>)"

definition get_data :: "('c, 'z) cworld_scheme \<Rightarrow> pyobj" where
  "get_data w = (if data_set (csr w) then cur_data (csr w) else PyNone)"

text \<open>The member \<open>statement\<close> is a C string.\<close>

definition get_statement :: "pyapi \<Rightarrow> (('c, 'z) cworld_scheme, pyobj) pyfun" where
  "get_statement api w =
     (case pi_statement (csr w) of
        None \<Rightarrow> py_return PyNone w
      | Some s \<Rightarrow>
          (case utf8_decode api (takeWhile (\<lambda>c. c \<noteq> NUL) s) of
             Some cs \<Rightarrow> py_return (PyUnicode cs) w
           | None \<Rightarrow> py_raise (SetString PyExc_UnicodeError (Text ''invalid UTF-8'')) w))"

text \<open>
  \<open>__init__\<close>, on an object whose C part is zero. The keyword arguments that the class takes out for
  itself do not reach the initialiser in C; \<open>prefetch\<close> is the outcome of parsing the others.
\<close>

record cursor_kwargs =
  kw_named_tuple :: bool
  kw_dictionary :: bool
  kw_buffered :: bool
  kw_prepared :: bool
  kw_binary :: bool
  kw_cursor_type :: u64

definition Cursor_init :: "cursor_kwargs \<Rightarrow> (pyerr + u64) \<Rightarrow> ('c pycursor, unit) pyfun" where
  "Cursor_init kw prefetch w =
     (let w = w\<lparr>py_prepared := kw_prepared kw, force_binary := kw_binary kw, bulk := False, py_rowcount := 0\<rparr>;
          w = set_data PyNone w;
          w = upd_csr (\<lambda>c. c\<lparr>result_format := (if kw_named_tuple kw then RESULT_NAMED_TUPLE
                else if kw_dictionary kw then RESULT_DICTIONARY else RESULT_TUPLE),
              is_buffered := kw_buffered kw, cursor_type := kw_cursor_type kw\<rparr>) w
      in py_bind (c_call (\<lambda>w. map_option (\<lambda>(failed, w). (if failed then None else Some (), w))
           (MrdbCursor_initialize (map_sum (\<lambda>e. e) (\<lambda>n. (n, 0, False)) prefetch) w))) (\<lambda>_. py_return ()) w)"

subsection \<open>Built-in functions\<close>

fun py_true :: "pyobj \<Rightarrow> bool" where
  "py_true PyNone \<longleftrightarrow> False"
| "py_true (PyBool b) \<longleftrightarrow> b"
| "py_true (PyLong n) \<longleftrightarrow> n \<noteq> 0"
| "py_true (PyBytes b) \<longleftrightarrow> b \<noteq> []"
| "py_true (PyUnicode s) \<longleftrightarrow> s \<noteq> []"
| "py_true (PyList xs) \<longleftrightarrow> xs \<noteq> []"
| "py_true (PyTuple xs) \<longleftrightarrow> xs \<noteq> []"
| "py_true (PyDict kvs) \<longleftrightarrow> kvs \<noteq> []"
| "py_true v \<longleftrightarrow> True"

fun py_len :: "pyobj \<Rightarrow> nat option" where
  "py_len (PyBytes b) = Some (length b)"
| "py_len (PyUnicode s) = Some (length s)"
| "py_len (PyList xs) = Some (length xs)"
| "py_len (PyTuple xs) = Some (length xs)"
| "py_len (PyDict kvs) = Some (length kvs)"
| "py_len v = None"

definition type_error :: "string \<Rightarrow> pyerr" where
  "type_error msg = SetString PyExc_TypeError (Text msg)"

definition index_out_of_range :: pyerr where
  "index_out_of_range = SetString PyExc_IndexError (Text ''index out of range'')"

text \<open>\<open>data[i]\<close> for a number and \<open>data[key]\<close> for a key.\<close>

fun get_index :: "pyobj \<Rightarrow> nat \<Rightarrow> pyerr + pyobj" where
  "get_index (PyList xs) i = (case rd xs i of Some v \<Rightarrow> Inr v | None \<Rightarrow> Inl index_out_of_range)"
| "get_index (PyTuple xs) i = (case rd xs i of Some v \<Rightarrow> Inr v | None \<Rightarrow> Inl index_out_of_range)"
| "get_index (PyDict kvs) i =
     (case map_of kvs (PyLong (int i)) of Some v \<Rightarrow> Inr v | None \<Rightarrow> Inl (SetString PyExc_KeyError (Text ''key'')))"
| "get_index d i = Inl (type_error ''object is not subscriptable'')"

fun get_key :: "pyobj \<Rightarrow> pyobj \<Rightarrow> pyerr + pyobj" where
  "get_key (PyDict kvs) k = (case map_of kvs k of Some v \<Rightarrow> Inr v | None \<Rightarrow> Inl (SetString PyExc_KeyError (Text ''key'')))"
| "get_key d k = Inl (type_error ''object is not subscriptable'')"

text \<open>\<open>isinstance (v, Number)\<close>; \<open>Decimal\<close> is registered as a number.\<close>

fun is_number :: "pyobj \<Rightarrow> bool" where
  "is_number (PyBool b) \<longleftrightarrow> True"
| "is_number (PyLong n) \<longleftrightarrow> True"
| "is_number (PyFloat d) \<longleftrightarrow> True"
| "is_number (PyDecimal b) \<longleftrightarrow> True"
| "is_number (PyOther s) \<longleftrightarrow> s = ''complex'' \<or> s = ''Fraction''"
| "is_number v \<longleftrightarrow> False"

text \<open>\<open>v.__str__()\<close>\<close>

fun py_str :: "pyapi \<Rightarrow> pyobj \<Rightarrow> pystr option" where
  "py_str api (PyUnicode s) = Some s"
| "py_str api (PyLong n) = Some (int_str n)"
| "py_str api (PyBool b) = Some (ustr (if b then ''True'' else ''False''))"
| "py_str api v = Option.bind (object_str api v) (utf8_decode api)"

text \<open>A position of a slice, where a negative number counts from the end.\<close>

definition slice_pos :: "int \<Rightarrow> 'a list \<Rightarrow> nat" where
  "slice_pos i xs = nat (if i < 0 then max 0 (int (length xs) + i) else i)"

definition unicode_error :: pyerr where
  "unicode_error = SetString PyExc_UnicodeError (Text ''surrogates not allowed'')"

subsection \<open>Substitution of parameters\<close>

text \<open>\<open>"'%s'" % self.connection.escape_string(s)\<close>\<close>

definition quoted :: "'c pycursor_env \<Rightarrow> pystr \<Rightarrow> (('c, 'z) world_scheme, pystr) pyfun" where
  "quoted cl s = py_bind (c_call (MrdbConnection_escape_string (e_api cl) (e_lib cl) (e_escape cl) (PyUnicode s)))
     (\<lambda>v. case v of
        PyUnicode t \<Rightarrow> py_return ([39] @ t @ [39])
      | _ \<Rightarrow> py_raise (type_error ''not a str''))"

text \<open>
  The text for a value and the number of extra bytes. The local variable \<open>replace\<close> keeps the value of
  the round before, if any, for an indicator other than \<open>NULL\<close> and \<open>DEFAULT\<close>; an indicator is one of the
  constants of \<open>INDICATOR.py\<close>. The object \<open>bytearray\<close> has
  no contents in the model and is taken as an object that cannot be converted.
\<close>

definition replacement :: "'c pycursor_env \<Rightarrow> pyobj \<Rightarrow> pystr option \<Rightarrow> (('c, 'z) world_scheme, pystr option \<times> int) pyfun" where
  "replacement cl val old =
     (case val of
        PyNone \<Rightarrow> py_return (Some (ustr ''NULL''), 0)
      | PyIndicator n \<Rightarrow>
          py_return (if n = 1 then Some (ustr ''NULL'') else if n = 2 then Some (ustr ''DEFAULT'') else old, 0)
      | PyBytes b \<Rightarrow> py_bind (quoted cl (map ord b)) (\<lambda>r. py_return (Some r, 0))
      | _ \<Rightarrow>
          (case py_str (e_api cl) val of
             None \<Rightarrow> py_raise unicode_error
           | Some s \<Rightarrow>
               if is_number val then py_return (Some s, 0)
               else py_bind (quoted cl s) (\<lambda>r.
                 case utf8_encode (e_api cl) r of
                   None \<Rightarrow> py_raise unicode_error
                 | Some b \<Rightarrow> py_return (Some r, int (length b) - int (length r)))))"

definition unbound_local :: pyerr where
  "unbound_local = SetString PyExc_UnboundLocalError (Text ''replace'')"

text \<open>The value of parameter \<open>i\<close>.\<close>

definition param_value :: "('c, 'z) cworld_scheme \<Rightarrow> nat \<Rightarrow> pyerr + pyobj" where
  "param_value w i =
     (if pi_paramstyle (csr w) = PYFORMAT
      then (case rd (pi_keys (csr w)) i of
              None \<Rightarrow> Inl index_out_of_range
            | Some k \<Rightarrow> get_key (get_data w) k)
      else get_index (get_data w) i)"

text \<open>The loop, with its variables \<open>i\<close>, \<open>replace_diff\<close>, \<open>replace\<close> and \<open>new_stmt\<close>.\<close>

fun substitute :: "'c pycursor_env \<Rightarrow> nat \<Rightarrow> nat list \<Rightarrow> int \<Rightarrow> pystr option \<Rightarrow> bytes \<Rightarrow>
    (('c, 'z) cworld_scheme, bytes) pyfun" where
  "substitute cl i [] diff old stmt w = py_return stmt w"
| "substitute cl i (p # ps) diff old stmt w =
     (case param_value w i of
        Inl e \<Rightarrow> py_raise e w
      | Inr val \<Rightarrow>
          py_bind (replacement cl val old) (\<lambda>(replace, extra).
            case replace of
              None \<Rightarrow> py_raise unbound_local
            | Some r \<Rightarrow>
                (case utf8_encode (e_api cl) r of
                   None \<Rightarrow> py_raise unicode_error
                 | Some b \<Rightarrow>
                     let ofs = int p + diff in
                     substitute cl (Suc i) ps (diff + int (length r) - 1 + extra) (Some r)
                       (take (slice_pos ofs stmt) stmt @ b @ drop (slice_pos (ofs + 1) stmt) stmt))) w)"

definition substitute_parameters :: "'c pycursor_env \<Rightarrow> (('c, 'z) cworld_scheme, bytes) pyfun" where
  "substitute_parameters cl =
     py_bind (get_statement (e_api cl)) (\<lambda>stmt.
       case stmt of
         PyUnicode cs \<Rightarrow>
           (case utf8_encode (e_api cl) cs of
              None \<Rightarrow> py_raise unicode_error
            | Some s \<Rightarrow> (\<lambda>w. substitute cl 0 (case pi_paramlist (csr w) of Some ps \<Rightarrow> ps | None \<Rightarrow> []) 0 None s w))
       | _ \<Rightarrow> py_raise (SetString PyExc_AttributeError (Text ''encode'')))"

subsection \<open>Executing\<close>

fun is_sequence :: "pyobj \<Rightarrow> bool" where
  "is_sequence (PyList xs) \<longleftrightarrow> True"
| "is_sequence (PyTuple xs) \<longleftrightarrow> True"
| "is_sequence v \<longleftrightarrow> False"

text \<open>\<open>_check_execute_params\<close>: the exception, if any.\<close>

definition check_execute_params :: "('c, 'z) cworld_scheme \<Rightarrow> pyerr option" where
  "check_execute_params w =
     (let data = get_data w; style = pi_paramstyle (csr w);
          paramlist = (case pi_paramlist (csr w) of Some ps \<Rightarrow> ps | None \<Rightarrow> []) in
      if (style = QMARK \<or> style = FORMAT) \<and> \<not> is_sequence data
      then Some (programming_error ''Data argument must be Tuple or List'')
      else if style = PYFORMAT then
        (case data of
           PyDict kvs \<Rightarrow>
             if list_all (\<lambda>k. map_of kvs k \<noteq> None) (pi_keys (csr w)) then None
             else Some (programming_error ''Dictionary doesn't contain key'')
         | _ \<Rightarrow> Some (programming_error ''Data argument must be Dictionary''))
      else if paramlist = [] then None
      else (case py_len data of
              None \<Rightarrow> Some (type_error ''object has no len()'')
            | Some n \<Rightarrow>
                if n \<noteq> length paramlist
                then Some (programming_error ''statement doesn't match the number of data elements'')
                else None))"

text \<open>\<open>check_closed\<close>, then the rest of the method.\<close>

definition if_open :: "(('c, 'z) cworld_scheme, 'a) pyfun \<Rightarrow> (('c, 'z) cworld_scheme, 'a) pyfun" where
  "if_open m w =
     (if cur_closed (csr w) \<or> \<not> mysql w
      then py_raise (if conn_closed w then closed_error else programming_error ''Cursor is closed'') w
      else m w)"

definition parse_execute :: "'c pycursor_env \<Rightarrow> pystr \<Rightarrow> pyobj \<Rightarrow> bool \<Rightarrow> ('c pycursor, unit) pyfun" where
  "parse_execute cl statement data is_bulk w =
     (if statement = [] then py_raise (programming_error ''empty statement'') w
      else py_bind (get_statement (e_api cl)) (\<lambda>old w.
        py_bind (if old \<noteq> PyUnicode statement \<or> is_bulk \<and> \<not> bulk w
                 then py_bind (c_call (MrdbCursor_parse (e_api cl) (e_parse cl) (PyUnicode statement)))
                        (\<lambda>_. py_modify (upd_csr (\<lambda>c. c\<lparr>reprepare := True\<rparr>)))
                 else py_modify (upd_csr (\<lambda>c. c\<lparr>reprepare := False\<rparr>))) (\<lambda>_ w.
          let w = (if cursor_type (csr w) = CURSOR_TYPE_READ_ONLY then set_text False w else w);
              w = set_data data w
          in case check_execute_params w of
               Some e \<Rightarrow> py_raise e w
             | None \<Rightarrow> py_return () w) w) w)"

text \<open>The text or the binary protocol, after the statement has been parsed.\<close>

definition choose_protocol :: "'c pycursor_env \<Rightarrow> pyobj \<Rightarrow> ('c pycursor, unit) pyfun" where
  "choose_protocol cl data w =
     (case py_len data of
        None \<Rightarrow> py_raise (type_error ''object has no len()'') w
      | Some n \<Rightarrow>
          let w = (if n \<noteq> 0 then set_data data w
                   else let w = set_data PyNone w in
                     if pi_command (csr w) \<noteq> SQL_CALL \<and> cursor_type (csr w) = 0 then set_text True w else w);
              w = (if force_binary w then set_text False w else w)
          in if n \<noteq> 0 then do {
               r \<leftarrow> MrdbCursor_check_text_types (csr w);
               py_return () (if r = PyBool True then set_text False w else w) }
             else py_return () w)"

definition run_statement :: "'c pycursor_env \<Rightarrow> pyobj \<Rightarrow> ('c pycursor, unit) pyfun" where
  "run_statement cl data w =
     (if pi_is_text (csr w)
      then py_bind (if pi_paramcount (csr w) \<noteq> 0
                    then py_bind (substitute_parameters cl) (\<lambda>s. py_return (PyBytes s))
                    else get_statement (e_api cl)) (\<lambda>stmt.
             py_bind (c_call (MrdbCursor_execute_text (e_api cl) (e_lib cl) stmt)) (\<lambda>_.
               py_bind (c_call (MrdbCursor_readresponse (e_api cl) (e_lib cl) (e_sl cl))) (\<lambda>_. py_return ()))) w
      else py_bind (c_call (MrdbCursor_execute_binary (e_api cl) (e_lib cl) (e_sl cl) (e_alloc cl)))
             (\<lambda>_. py_return ()) (set_data data w))"

definition init_result :: "'c pycursor_env \<Rightarrow> ('c pycursor, unit) pyfun" where
  "init_result cl = py_bind (c_call (MrdbCursor_InitResultSet (e_api cl) (e_lib cl) (e_sl cl) (e_names cl) (e_values cl)))
     (\<lambda>_. py_modify (\<lambda>w. w\<lparr>bulk := False\<rparr>))"

definition clear_pending :: "'c pycursor_env \<Rightarrow> ('c pycursor, unit) pyfun" where
  "clear_pending cl w =
     (if field_count (csr w) \<noteq> 0
      then py_bind (c_call (MrdbCursor_clear_result (e_api cl) (e_sl cl))) (\<lambda>_. py_return ()) w
      else py_return () w)"

definition Cursor_execute :: "'c pycursor_env \<Rightarrow> pystr \<Rightarrow> pyobj \<Rightarrow> bool option \<Rightarrow> ('c pycursor, unit) pyfun" where
  "Cursor_execute cl statement data buffered = if_open (\<lambda>w.
     let w = w\<lparr>py_rowcount := 0\<rparr>;
         w = (case buffered of Some b \<Rightarrow> upd_csr (\<lambda>c. c\<lparr>is_buffered := b\<rparr>) w | None \<Rightarrow> w);
         args = (if py_true data then data else PyTuple [])
     in py_bind (clear_pending cl) (\<lambda>_.
          py_bind (\<lambda>w. if py_prepared w then get_statement (e_api cl) w else py_return PyNone w) (\<lambda>old w.
            py_bind (if py_true old then py_return () else parse_execute cl statement data False) (\<lambda>_.
              py_bind (choose_protocol cl args) (\<lambda>_.
                py_bind (run_statement cl args) (\<lambda>_. init_result cl))) w)) w)"

text \<open>\<open>rowcount\<close>\<close>

definition Cursor_rowcount :: "'c pycursor_env \<Rightarrow> ('c pycursor, pyobj) pyfun" where
  "Cursor_rowcount cl w =
     (if \<not> is_buffered (csr w) \<and> (cur_closed (csr w) \<or> \<not> mysql w) then py_return (PyLong (- 1)) w
      else if 0 < py_rowcount w then py_return (PyLong (py_rowcount w)) w
      else c_call (Mariadb_row_count (e_sl cl)) w)"

text \<open>The loop that stands in for a bulk operation.\<close>

fun execute_rows :: "'c pycursor_env \<Rightarrow> pystr \<Rightarrow> pyobj list \<Rightarrow> int \<Rightarrow> ('c pycursor, int) pyfun" where
  "execute_rows cl statement [] count w = py_return count w"
| "execute_rows cl statement (row # rows) count w =
     py_bind (Cursor_execute cl statement row None) (\<lambda>_.
       py_bind (Cursor_rowcount cl) (\<lambda>n.
         case n of
           PyLong k \<Rightarrow> execute_rows cl statement rows (count + k)
         | _ \<Rightarrow> py_raise (type_error ''unsupported operand''))) w"

definition BULK_OPERATIONS :: int where "BULK_OPERATIONS = 2 ^ 34"

fun items_of :: "pyobj \<Rightarrow> pyobj list option" where
  "items_of (PyList xs) = Some xs"
| "items_of (PyTuple xs) = Some xs"
| "items_of v = None"

text \<open>\<open>parameters\<close> is a list or a tuple; the assignment to \<open>is_text\<close> creates an attribute that no code reads.\<close>

definition Cursor_executemany :: "'c pycursor_env \<Rightarrow> pystr \<Rightarrow> pyobj \<Rightarrow> ('c pycursor, unit) pyfun" where
  "Cursor_executemany cl statement parameters = if_open (\<lambda>w.
     if \<not> py_true parameters then py_raise (programming_error ''No data provided'') w
     else py_bind (clear_pending cl) (\<lambda>_.
       py_bind (Connection_attr (e_api cl) (e_lib cl) Extended_server_capabilities) (\<lambda>caps.
         case (caps, items_of parameters) of
           (PyLong n, Some rows) \<Rightarrow>
             if n AND (drop_bit 32 BULK_OPERATIONS) = 0
             then py_bind (execute_rows cl statement rows 0) (\<lambda>count. py_modify (\<lambda>w. w\<lparr>py_rowcount := count\<rparr>))
             else py_bind (parse_execute cl statement (hd rows) True) (\<lambda>_.
                    py_bind (py_modify (\<lambda>w. (set_data parameters w)\<lparr>py_rowcount := 0\<rparr>)) (\<lambda>_.
                      py_bind (c_call (MrdbCursor_execute_bulk (e_api cl) (e_lib cl) (e_sl cl) (e_alloc cl)
                        (e_names cl) (e_values cl))) (\<lambda>_. py_modify (\<lambda>w. w\<lparr>bulk := True\<rparr>))))
         | _ \<Rightarrow> py_raise (type_error ''unsupported operand''))) w)"

definition Cursor_callproc :: "'c pycursor_env \<Rightarrow> pystr \<Rightarrow> pyobj \<Rightarrow> ('c pycursor, unit) pyfun" where
  "Cursor_callproc cl sp data = if_open (\<lambda>w.
     let n = (if py_true data then (case py_len data of Some n \<Rightarrow> n | None \<Rightarrow> 0) else 0);
         params = butlast (concat (replicate n (ustr ''?,'')))
     in Cursor_execute cl (ustr ''CALL '' @ sp @ ustr ''('' @ params @ ustr '')'') data None (w\<lparr>py_rowcount := 0\<rparr>))"

subsection \<open>Reading the result\<close>

definition Cursor_nextset :: "'c pycursor_env \<Rightarrow> ('c pycursor, pyobj) pyfun" where
  "Cursor_nextset cl = if_open
     (c_call (MrdbCursor_nextset (e_api cl) (e_lib cl) (e_sl cl) (e_names cl) (e_values cl)))"

definition if_usable :: "('c pycursor, 'a) pyfun \<Rightarrow> ('c pycursor, 'a) pyfun" where
  "if_usable m w = (if is_buffered (csr w) then m w else if_open m w)"

definition no_result :: pyerr where
  "no_result = programming_error ''Cursor doesn't have a result set''"

text \<open>\<open>None\<close> is the end of the data.\<close>

definition Cursor_fetchone :: "'c pycursor_env \<Rightarrow> ('c pycursor, row_obj option) pyfun" where
  "Cursor_fetchone cl = if_usable (\<lambda>w.
     if field_count (csr w) = 0 then py_raise no_result w
     else c_call (\<lambda>w. map_option (\<lambda>(r, w). (case r of FetchNull \<Rightarrow> None | FetchNone \<Rightarrow> Some None
            | FetchedRow row \<Rightarrow> Some (Some row), w)) (MrdbCursor_fetchone (e_api cl) (e_sl cl) w)) w)"

definition Cursor_fetchmany :: "'c pycursor_env \<Rightarrow> int \<Rightarrow> ('c pycursor, row_obj list) pyfun" where
  "Cursor_fetchmany cl count = if_usable (\<lambda>w.
     c_call (MrdbCursor_fetchrows (e_api cl) (e_sl cl)
       (PyLong (if count = 0 then uint (row_array_size (csr w)) else count))) w)"

definition Cursor_fetchall :: "'c pycursor_env \<Rightarrow> ('c pycursor, row_obj list) pyfun" where
  "Cursor_fetchall cl = if_usable (c_call (MrdbCursor_fetchrows (e_api cl) (e_sl cl) (PyLong (- 1))))"

datatype scroll_mode = Relative | Absolute | OtherMode

definition out_of_range :: pyerr where
  "out_of_range = programming_error ''Position value is out of range.''"

text \<open>The new position, from the number of the row and the number of rows.\<close>

definition scroll_target :: "int \<Rightarrow> scroll_mode \<Rightarrow> int \<Rightarrow> int \<Rightarrow> pyerr + int" where
  "scroll_target value mode rownumber rowcount =
     (if mode = OtherMode then Inl (programming_error ''Invalid or unknown scroll mode specified.'')
      else if value = 0 \<and> mode \<noteq> Absolute then Inl (programming_error ''Invalid position value 0.'')
      else if mode = Relative
      then (if rownumber + value < 0 \<or> rowcount < rownumber + value then Inl out_of_range else Inr (rownumber + value))
      else (if value < 0 \<or> rowcount \<le> value then Inl out_of_range else Inr value))"

definition Cursor_scroll :: "'c pycursor_env \<Rightarrow> int \<Rightarrow> scroll_mode \<Rightarrow> ('c pycursor, unit) pyfun" where
  "Cursor_scroll cl value mode w =
     (if field_count (csr w) = 0 then py_raise no_result w
      else if \<not> is_buffered (csr w)
      then py_raise (programming_error ''This method is available only for cursors with a buffered result set.'') w
      else py_bind (c_call Mariadb_row_number) (\<lambda>rn.
        py_bind (Cursor_rowcount cl) (\<lambda>rc.
          case (rn, rc) of
            (PyLong rn, PyLong rc) \<Rightarrow>
              (case scroll_target value mode rn rc of
                 Inl e \<Rightarrow> py_raise e
               | Inr pos \<Rightarrow>
                   py_bind (c_call (MrdbCursor_seek (e_sl cl) (PyLong pos))) (\<lambda>_.
                     py_modify (upd_csr (\<lambda>c. c\<lparr>row_number := word_of_int pos\<rparr>))))
          | _ \<Rightarrow> py_raise (type_error ''unsupported operand''))) w)"

text \<open>\<open>lastrowid\<close>: the member \<open>insert_id\<close> is declared with 32 bits.\<close>

definition Cursor_lastrowid :: "('c pycursor, pyobj) pyfun" where
  "Cursor_lastrowid = if_open (\<lambda>w.
     let id = uint (ucast (lastrow_id (csr w)) :: u32) in
     py_return (if 0 < id then PyLong id else PyNone) w)"

text \<open>\<open>close\<close>: the member \<open>_data\<close> is deleted, that is set to a null pointer.\<close>

definition Cursor_close :: "'c pycursor_env \<Rightarrow> ('c pycursor, unit) pyfun" where
  "Cursor_close cl w =
     (let w = (if py_true (get_data w) then upd_csr (\<lambda>c. c\<lparr>data_set := False\<rparr>) w else w) in
      if conn_closed w then py_return () w
      else py_bind (c_call (MrdbCursor_close (e_api cl) (e_sl cl))) (\<lambda>_. py_return ()) w)"

end
