(* ===== verification/Mrdb_Substitute.thy ===== *)
theory Mrdb_Substitute
  imports Mrdb_PyCursor Mrdb_Parser_Roundtrip Mrdb_Cursor_Lock
begin

text \<open>
  The text protocol: \<open>_substitute_parameters\<close> of \<open>cursors.py\<close> against the statement printed from its
  tokens. Every placeholder becomes the literal of its value, and nothing else changes; the values
  for which this fails are shown at the end.
\<close>

subsection \<open>Literals\<close>

fun fill :: "tok list \<Rightarrow> bytes list \<Rightarrow> bytes" where
  "fill [] bs = []"
| "fill (t # ts) bs =
     (case t of
        Param d k \<Rightarrow> hd bs @ fill ts (tl bs)
      | _ \<Rightarrow> tok_text [] t @ fill ts bs)"

text \<open>What the interpreter documents of its UTF-8 codec, for the characters below 128.\<close>

definition ascii_codec :: "pyapi \<Rightarrow> bool" where
  "ascii_codec api \<longleftrightarrow> (\<forall>s. list_all (\<lambda>c. c < 128) s \<longrightarrow> utf8_encode api s = Some (map char_of s))"

text \<open>
  The text of a value in SQL: the words for the empty values, the digits of a number, or the text
  of any other object, escaped by the library and in quotes.
\<close>

definition literal_text :: "pyapi \<Rightarrow> 'c clientlib \<Rightarrow> 'c \<Rightarrow> pyobj \<Rightarrow> pystr option" where
  "literal_text api lib c v =
     (case v of
        PyNone \<Rightarrow> Some (ustr ''NULL'')
      | PyIndicator n \<Rightarrow> if n = 1 then Some (ustr ''NULL'') else if n = 2 then Some (ustr ''DEFAULT'') else None
      | PyBytes b \<Rightarrow> None
      | _ \<Rightarrow> do {
          s \<leftarrow> py_str api v;
          if is_number v then (if list_all (\<lambda>c. c < 128) s then Some s else None)
          else do {
            from \<leftarrow> utf8_encode api s;
            t \<leftarrow> utf8_decode api (mysql_real_escape_string lib from c);
            Some ([39] @ t @ [39]) } })"

definition sql_literal :: "pyapi \<Rightarrow> 'c clientlib \<Rightarrow> 'c \<Rightarrow> pyobj \<Rightarrow> bytes option" where
  "sql_literal api lib c v = Option.bind (literal_text api lib c v) (utf8_encode api)"

text \<open>The library, the interpreter and the world in which parameters are substituted.\<close>

definition subst_ready :: "'c pycursor_env \<Rightarrow> ('c, 'z) world_scheme \<Rightarrow> bool" where
  "subst_ready cl w \<longleftrightarrow> lib_ok (e_api cl) (e_lib cl) \<and> ascii_codec (e_api cl) \<and> e_escape cl \<and> mysql w \<and> py_err w = None"

lemma ascii_length:
  assumes "ascii_codec api" "list_all (\<lambda>c. c < 128) r" "utf8_encode api r = Some b"
  shows "length b = length r"
  using assms by (auto simp: ascii_codec_def)

lemma ascii_words: "list_all (\<lambda>c. c < 128) (ustr ''NULL'')" "list_all (\<lambda>c. c < 128) (ustr ''DEFAULT'')"
  by code_simp+

lemma quoted_text:
  assumes "subst_ready cl w" "utf8_encode (e_api cl) s = Some from"
    "utf8_decode (e_api cl) (mysql_real_escape_string (e_lib cl) from (client w)) = Some t"
  shows "quoted cl s w = Some (Inr ([39] @ t @ [39]), w)"
proof -
  have "length (mysql_real_escape_string (e_lib cl) from (client w)) \<le> 2 * length from"
    using assms(1) by (simp add: subst_ready_def lib_ok_def)
  then show ?thesis
    using assms
    by (simp add: quoted_def py_bind_def c_call_def MrdbConnection_escape_string_def MARIADB_CHECK_CONNECTION_def
      new_unicode_def subst_ready_def py_return_def)
qed

lemma replacement_text:
  assumes "subst_ready cl w" "literal_text (e_api cl) (e_lib cl) (client w) v = Some r" "utf8_encode (e_api cl) r = Some b"
  shows "replacement cl v old w = Some (Inr (Some r, int (length b) - int (length r)), w)"
proof -
  have codec: "ascii_codec (e_api cl)" using assms(1) by (simp add: subst_ready_def)
  have same: "length b = length r" if "list_all (\<lambda>c. c < 128) r" using ascii_length [OF codec that assms(3)] .
  have object: "replacement cl v old w = Some (Inr (Some r, int (length b) - int (length r)), w)"
    if v: "literal_text (e_api cl) (e_lib cl) (client w) v = do {
          s \<leftarrow> py_str (e_api cl) v;
          if is_number v then (if list_all (\<lambda>c. c < 128) s then Some s else None)
          else do {
            from \<leftarrow> utf8_encode (e_api cl) s;
            t \<leftarrow> utf8_decode (e_api cl) (mysql_real_escape_string (e_lib cl) from (client w));
            Some ([39] @ t @ [39]) } }"
      "replacement cl v old w = (case py_str (e_api cl) v of
             None \<Rightarrow> py_raise unicode_error
           | Some s \<Rightarrow>
               if is_number v then py_return (Some s, 0)
               else py_bind (quoted cl s) (\<lambda>r.
                 case utf8_encode (e_api cl) r of
                   None \<Rightarrow> py_raise unicode_error
                 | Some b \<Rightarrow> py_return (Some r, int (length b) - int (length r)))) w"
    using assms(2,3) same unfolding v
    by (auto simp: bind_eq_Some_conv py_return_def py_bind_def quoted_text [OF assms(1)] split: if_splits)
  show ?thesis
  proof (cases v)
    case PyNone
    then have r: "r = ustr ''NULL''" using assms(2) by (simp add: literal_text_def)
    then show ?thesis
      using same [unfolded r, OF ascii_words(1)] PyNone by (simp add: replacement_def py_return_def)
  next
    case (PyIndicator n)
    then have n: "n = 1 \<and> r = ustr ''NULL'' \<or> n = 2 \<and> r = ustr ''DEFAULT''"
      using assms(2) by (auto simp: literal_text_def split: if_splits)
    then have "length b = length r" using same ascii_words by blast
    then show ?thesis using n PyIndicator by (auto simp: replacement_def py_return_def)
  next
    case (PyBytes b)
    then show ?thesis using assms(2) by (simp add: literal_text_def)
  qed (rule object; simp only: literal_text_def replacement_def pyobj.case)+
qed

subsection \<open>The loop\<close>

lemma splice:
  assumes "int p + diff = int (length xs)"
  shows "take (slice_pos (int p + diff) (xs @ c # ys)) (xs @ c # ys) = xs"
    "drop (slice_pos (int p + diff + 1) (xs @ c # ys)) (xs @ c # ys) = ys"
proof -
  have "slice_pos (int p + diff) (xs @ c # ys) = length xs" "slice_pos (int p + diff + 1) (xs @ c # ys) = Suc (length xs)"
    using assms by (simp_all add: slice_pos_def nat_add_distrib)
  then show "take (slice_pos (int p + diff) (xs @ c # ys)) (xs @ c # ys) = xs"
    "drop (slice_pos (int p + diff + 1) (xs @ c # ys)) (xs @ c # ys) = ys" by simp_all
qed

lemma substitute_tokens:
  assumes "subst_ready cl w" "length bs = length (param_names ts)" "int base + diff = int (length out)"
    and "\<And>k. k < length bs \<Longrightarrow> \<exists>v. param_value w (i + k) = Inr v \<and> sql_literal (e_api cl) (e_lib cl) (client w) v = Some (bs ! k)"
  shows "substitute cl i (offsets base ts) diff old (out @ target ts) w = Some (Inr (out @ fill ts bs), w)"
  using assms(2-4)
proof (induction ts arbitrary: i base diff old out bs)
  case Nil
  then show ?case by (simp add: target_def py_return_def)
next
  case (Cons t ts)
  show ?case
  proof (cases "\<exists>d k. t = Param d k")
    case False
    then have t: "tok_text ''?'' t = tok_text [] t" "offsets base (t # ts) = offsets (base + length (tok_text [] t)) ts"
      "fill (t # ts) bs = tok_text [] t @ fill ts bs" "param_names (t # ts) = param_names ts"
      by (cases t; simp)+
    have "substitute cl i (offsets (base + length (tok_text [] t)) ts) diff old ((out @ tok_text [] t) @ target ts) w =
        Some (Inr ((out @ tok_text [] t) @ fill ts bs), w)"
      using Cons.prems t(4) by (intro Cons.IH) auto
    then show ?thesis by (simp add: t target_def del: offsets.simps fill.simps)
  next
    case True
    then obtain d k where t: "t = Param d k" by blast
    then obtain b bs' where bs: "bs = b # bs'" using Cons.prems(1) by (cases bs) auto
    obtain v r where v: "param_value w i = Inr v" "literal_text (e_api cl) (e_lib cl) (client w) v = Some r"
      "utf8_encode (e_api cl) r = Some b"
      using Cons.prems(3) [of 0] by (auto simp: bs sql_literal_def bind_eq_Some_conv)
    have "substitute cl (Suc i) (offsets (base + 1) ts) (diff + int (length r) - 1 + (int (length b) - int (length r))) (Some r)
        ((out @ b) @ target ts) w = Some (Inr ((out @ b) @ fill ts bs'), w)"
      using Cons.prems(1,2) Cons.prems(3) [of "Suc _"] t bs by (intro Cons.IH) auto
    moreover have "target (t # ts) = CHR ''?'' # target ts" by (simp add: target_def t)
    ultimately show ?thesis
      by (simp add: t v bs py_bind_def replacement_text [OF assms(1) v(2,3)] Let_def splice [OF Cons.prems(2)]
        del: take_append drop_append)
  qed
qed

text \<open>The statement as the class reads it back from the C structure.\<close>

definition readable :: "pyapi \<Rightarrow> bytes \<Rightarrow> bool" where
  "readable api s \<longleftrightarrow> NUL \<notin> set s \<and> (\<exists>cs. utf8_decode api s = Some cs \<and> utf8_encode api cs = Some s)"

lemma substitute_parameters_tokens:
  assumes "subst_ready cl w" "pi_statement (csr w) = Some (target ts)" "readable (e_api cl) (target ts)"
    and "pi_paramlist (csr w) = Some (offsets 0 ts)" "length bs = length (param_names ts)"
    and "\<And>k. k < length bs \<Longrightarrow> \<exists>v. param_value w k = Inr v \<and> sql_literal (e_api cl) (e_lib cl) (client w) v = Some (bs ! k)"
  shows "substitute_parameters cl w = Some (Inr (fill ts bs), w)"
proof -
  obtain cs where cs: "utf8_decode (e_api cl) (target ts) = Some cs" "utf8_encode (e_api cl) cs = Some (target ts)"
    using assms(3) by (auto simp: readable_def)
  have "takeWhile (\<lambda>c. c \<noteq> NUL) (target ts) = target ts"
    using assms(3) by (auto simp: readable_def takeWhile_eq_all_conv)
  then have "get_statement (e_api cl) w = Some (Inr (PyUnicode cs), w)"
    by (simp add: get_statement_def assms(2) cs(1) py_return_def del: takeWhile_eq_all_conv)
  then show ?thesis
    using substitute_tokens [of cl w bs ts 0 0 "[]" 0 None] assms
    by (simp add: substitute_parameters_def py_bind_def cs(2))
qed

subsection \<open>Values that break the statement\<close>

text \<open>A codec for the characters below 2048, for the examples.\<close>

fun utf8_two :: "nat list \<Rightarrow> bytes option" where
  "utf8_two [] = Some []"
| "utf8_two (c # cs) = do {
     b \<leftarrow> utf8_two cs;
     if c < 128 then Some (char_of c # b)
     else if c < 2048 then Some (char_of (192 + c div 64) # char_of (128 + c mod 64) # b)
     else None }"

fun utf8_two_decode :: "bytes \<Rightarrow> nat list option" where
  "utf8_two_decode [] = Some []"
| "utf8_two_decode (c # cs) =
     (if of_char c < (128 :: nat) then map_option (Cons (of_char c)) (utf8_two_decode cs)
      else case cs of
        d # ds \<Rightarrow> map_option (Cons ((of_char c - 192) * 64 + (of_char d - 128))) (utf8_two_decode ds)
      | [] \<Rightarrow> None)"

definition two_api :: pyapi where
  "two_api = ref_api\<lparr>utf8_encode := utf8_two, utf8_decode := utf8_two_decode\<rparr>"

definition two_env :: "nat pycursor_env" where
  "two_env = \<lparr>e_api = two_api, e_lib = sample_lib, e_sl = sample_sl,
     e_parse = \<lparr>env_cfg = sample_cfg, env_alloc_parser = True, env_alloc_str = True, env_alloc_copy = True\<rparr>,
     e_alloc = sample_alloc, e_names = True, e_values = True, e_escape = True\<rparr>"

lemma utf8_two_ascii: "list_all (\<lambda>c. c < 128) s \<Longrightarrow> utf8_two s = Some (map char_of s)"
  by (induction s) simp_all

lemma two_env_fields:
  "e_api two_env = two_api" "e_lib two_env = sample_lib" "utf8_encode two_api = utf8_two" "utf8_decode two_api = utf8_two_decode"
  by (simp_all add: two_env_def two_api_def)

lemma two_ready: "subst_ready two_env (sample_cworld c)"
  by (simp add: subst_ready_def two_env_def sample_lib_ok ascii_codec_def two_api_def utf8_two_ascii)

lemma nat_str_ascii: "list_all (\<lambda>c. c < 128) (nat_str n)"
  by (induction n rule: nat_str.induct) (subst nat_str.simps, auto)

lemma int_str_ascii: "list_all (\<lambda>c. c < 128) (int_str n)"
  by (simp add: int_str_def nat_str_ascii)

text \<open>A cursor with a parsed statement and its data.\<close>

definition text_cursor :: "bytes \<Rightarrow> nat list \<Rightarrow> pyobj \<Rightarrow> MrdbCursor" where
  "text_cursor s ps d = (sample_cursor True)\<lparr>pi_statement := Some s, pi_paramlist := Some ps, cur_data := d, data_set := True\<rparr>"

lemma text_cursor_fields [simp]:
  "pi_statement (text_cursor s ps d) = Some s" "pi_paramlist (text_cursor s ps d) = Some ps"
  "cur_data (text_cursor s ps d) = d" "data_set (text_cursor s ps d)" "pi_paramstyle (text_cursor s ps d) = QMARK"
  by (simp_all add: text_cursor_def sample_cursor_def)



text \<open>
  An indicator other than \<open>NULL\<close> and \<open>DEFAULT\<close>, such as \<open>IGNORE\<close>, has no text. It repeats the text of
  the value before it, and as the first value it raises \<open>UnboundLocalError\<close>.
\<close>

theorem indicator_repeats_value:
  assumes "pi_paramstyle (csr w) = QMARK" "get_data w = PyTuple (vs @ [PyIndicator n])" "n \<noteq> 1" "n \<noteq> 2"
    and "utf8_encode (e_api cl) r = Some b"
  shows "substitute cl (length vs) [p] 0 None stmt w = Some (Inl unbound_local, w) \<and>
    substitute cl (length vs) [p] diff (Some r) stmt w =
      Some (Inr (take (slice_pos (int p + diff) stmt) stmt @ b @ drop (slice_pos (int p + diff + 1) stmt) stmt), w)"
  using assms
  by (simp add: param_value_def rd_def replacement_def py_bind_def py_return_def py_raise_def Let_def)

theorem indicator_repeats_value_witness:
  "substitute two_env 1 [2] 0 (Some [53]) ''5,?'' (sample_cworld (text_cursor ''?,?'' [0, 2] (PyTuple [PyLong 5, PyIndicator 3]))) =
     Some (Inr ''5,5'', sample_cworld (text_cursor ''?,?'' [0, 2] (PyTuple [PyLong 5, PyIndicator 3])))"
  using indicator_repeats_value [where cl = two_env and vs = "[PyLong 5]" and n = 3 and r = "[53]" and b = "''5''" and p = 2 and
      stmt = "''5,?''" and diff = 0 and w = "sample_cworld (text_cursor ''?,?'' [0, 2] (PyTuple [PyLong 5, PyIndicator 3]))"]
  by (simp add: two_env_def two_api_def get_data_def slice_pos_def char_of_eq_iff)

end
