(* ===== verification/Mrdb_Execute.thy ===== *)
theory Mrdb_Execute
  imports Mrdb_Substitute Mrdb_Params_Single
begin

text \<open>
  \<open>_parse_execute\<close> on a new cursor and a statement printed from tokens: what the parser, the C method
  \<open>_parse\<close> and the checks of the class leave for the two protocols.
\<close>

subsection \<open>Parsing a statement\<close>

lemma length_offsets: "length (offsets n ts) = length (param_names ts)"
  by (induction ts arbitrary: n) (auto split: tok.split)

lemma free_keys_ok: "list_all (\<lambda>i. i < length ks) is \<Longrightarrow> free_keys ks is \<noteq> None"
  by (induction "is") (auto simp: rd_def)

lemma decode_keys_ok:
  assumes "list_all (\<lambda>i. i < length names \<and> utf8_decode api (names ! i) \<noteq> None) is"
  shows "decode_keys api (map Some names) is = Some (map (\<lambda>i. PyUnicode (the (utf8_decode api (names ! i)))) is)"
  using assms by (induction "is") (auto simp: rd_def decode_def)

text \<open>A cursor that has not executed a statement, and allocations that succeed.\<close>

definition new_cursor :: "MrdbCursor \<Rightarrow> bool" where
  "new_cursor c \<longleftrightarrow> pi_statement c = None \<and> cur_params c = None \<and> cur_value c = None \<and> array_size c = 0"

definition parse_ready :: "parse_env \<Rightarrow> bool" where
  "parse_ready env \<longleftrightarrow> env_alloc_parser env \<and> env_alloc_str env \<and> env_alloc_copy env \<and>
     (\<forall>n. keys_alloc (env_cfg env) n) \<and> (\<forall>n. key_alloc (env_cfg env) n)"

text \<open>The cursor holds the parsed form of the tokens.\<close>

definition key_objs :: "pyapi \<Rightarrow> tok list \<Rightarrow> pyobj list" where
  "key_objs api ts = map (\<lambda>n. PyUnicode (the (utf8_decode api n))) (param_names ts)"

definition parsed :: "pyapi \<Rightarrow> enum_paramstyle \<Rightarrow> tok list \<Rightarrow> MrdbCursor \<Rightarrow> bool" where
  "parsed api style ts c \<longleftrightarrow> pi_statement c = Some (target ts) \<and> pi_paramlist c = Some (offsets 0 ts) \<and>
     pi_paramcount c = of_nat (length (param_names ts)) \<and>
     pi_paramstyle c = (if param_names ts = [] then NONE else style) \<and>
     (style = PYFORMAT \<and> param_names ts \<noteq> [] \<longrightarrow> pi_keys c = key_objs api ts) \<and>
     cur_params c = None \<and> cur_value c = None \<and> array_size c = 0"

lemma save_parsed:
  assumes "parse_ready env" "new_cursor c" "list_all (\<lambda>n. utf8_decode api n \<noteq> None) (param_names ts)"
    and q: "take (statement_length q) (statement_str q) = target ts" "param_list q = offsets 0 ts"
      "param_count q = length (param_names ts)" "paramstyle q = (if param_names ts = [] then NONE else style)"
      "keys q = (if style = PYFORMAT then map Some (param_names ts) else [])"
  shows "\<exists>c1 c2. reset_arrays 0 q c = Some c1 \<and> save_parser api env q c1 = Some c2 \<and> parsed api style ts c2"
proof -
  let ?c = "if param_count q \<noteq> 0 then c\<lparr>cur_params := None, fetch_values := []\<rparr> else c"
  have r: "reset_arrays 0 q c = Some ?c"
    using assms(2) by (simp add: reset_arrays_def MrdbCursor_FreeValues_def new_cursor_def)
  have "map (\<lambda>i. PyUnicode (the (utf8_decode api (param_names ts ! i)))) [0..<length (param_names ts)] = key_objs api ts"
    unfolding key_objs_def by (rule nth_equalityI) simp_all
  then have keys: "decode_keys api (map Some (param_names ts)) [0..<length (param_names ts)] = Some (key_objs api ts)"
    using assms(3) by (subst decode_keys_ok) (simp_all add: list_all_length)
  define ks where "ks = (if style = PYFORMAT \<and> param_names ts \<noteq> [] then key_objs api ts else pi_keys c)"
  define c1 where "c1 = ?c"
  let ?c2 = "c1\<lparr>pi_paramcount := of_nat (param_count q), pi_paramstyle := paramstyle q,
          pi_statement := Some (target ts), pi_paramlist := Some (offsets 0 ts),
          pi_is_text := (command q = SQL_NONE \<or> command q = SQL_OTHER), pi_command := command q, pi_keys := ks\<rparr>"
  have c1: "pi_keys c1 = pi_keys c" "cur_params c1 = None" "cur_value c1 = None" "array_size c1 = 0"
    using assms(2) by (simp_all add: c1_def new_cursor_def)
  have ks: "(if paramstyle q = PYFORMAT \<and> keys q \<noteq> [] then decode_keys api (keys q) [0..<param_count q]
      else Some (pi_keys c1)) = Some ks"
    using keys by (simp add: q(3-5) c1(1) ks_def)
  have "env_alloc_copy env" using assms(1) by (simp add: parse_ready_def)
  then have "save_parser api env q c1 = Some ?c2"
    unfolding save_parser_def ks q(1,2) by (simp only: simp_thms if_False Option.bind.simps)
  moreover have "parsed api style ts ?c2" by (simp add: parsed_def q c1 ks_def)
  ultimately show ?thesis using r unfolding c1_def by blast
qed

lemma cursor_parse:
  assumes "toks_ok style NUL ts" "utf8_encode api stmt = Some (render style ts)" "render style ts \<noteq> []"
    and "parse_ready env" "new_cursor (csr w)" "list_all (\<lambda>n. utf8_decode api n \<noteq> None) (param_names ts)"
  shows "\<exists>c. MrdbCursor_parse api env (PyUnicode stmt) w = Some (Some PyNone, w\<lparr>csr := c\<rparr>) \<and> parsed api style ts c"
proof -
  obtain p where p: "MrdbParser_init True True (Some (render style ts)) (length (render style ts)) = Some (Some p)"
    using assms(3) by (auto simp: MrdbParser_init_def)
  obtain q where q: "MrdbParser_parse (env_cfg env) (Some p) False 128 = Some (Inr q)"
    "take (statement_length q) (statement_str q) = target ts" "param_list q = offsets 0 ts"
    "param_count q = length (param_names ts)" "paramstyle q = (if param_names ts = [] then NONE else style)"
    "keys q = (if style = PYFORMAT then map Some (param_names ts) else [])"
    using parse_tokens [OF assms(1) p, of "env_cfg env" 128] assms(4) by (auto simp: parse_ready_def)
  obtain c1 c2 where c: "reset_arrays 0 q (csr w) = Some c1" "save_parser api env q c1 = Some c2" "parsed api style ts c2"
    using save_parsed [OF assms(4,5,6) q(2-6)] by blast
  have "keys q \<noteq> [] \<Longrightarrow> free_keys (keys q) [0..<param_count q] \<noteq> None"
    by (rule free_keys_ok) (simp add: list_all_iff q(4,6) split: if_splits)
  then have "MrdbParser_end (Some q) \<noteq> None" by (auto simp: MrdbParser_end_def)
  then obtain n where "MrdbParser_end (Some q) = Some n" by blast
  then have "MrdbCursor_parse api env (PyUnicode stmt) w = Some (Some PyNone, w\<lparr>csr := c2\<rparr>)"
    using assms(2,4,5) p q(1) c(1,2)
    by (simp add: MrdbCursor_parse_def new_cursor_def as_utf8_def parse_ready_def)
  with c(3) show ?thesis by blast
qed

subsection \<open>Parsing and checking\<close>

text \<open>The data argument gives the value \<open>vs ! k\<close> for placeholder \<open>k\<close>.\<close>

definition data_gives :: "pyapi \<Rightarrow> enum_paramstyle \<Rightarrow> tok list \<Rightarrow> pyobj \<Rightarrow> pyobj list \<Rightarrow> bool" where
  "data_gives api style ts data vs \<longleftrightarrow> length vs = length (param_names ts) \<and>
     (if style = PYFORMAT
      then \<exists>kvs. data = PyDict kvs \<and> list_all2 (\<lambda>k v. map_of kvs k = Some v) (key_objs api ts) vs
      else data = PyTuple vs \<or> data = PyList vs)"

lemma checks_pass:
  assumes "parsed api style ts (csr w)" "data_gives api style ts (get_data w) vs"
  shows "check_execute_params w = None"
proof -
  have keys: "list_all (\<lambda>k. map_of kvs k \<noteq> None) (key_objs api ts)"
    if "list_all2 (\<lambda>k v. map_of kvs k = Some v) (key_objs api ts) vs" for kvs
    using that by (auto simp: list_all_length list_all2_conv_all_nth)
  have none: "offsets 0 ts = [] \<longleftrightarrow> param_names ts = []" using length_offsets [of 0 ts] by auto
  show ?thesis
    using assms keys length_offsets [of 0 ts] none
    by (cases style) (auto simp: check_execute_params_def parsed_def data_gives_def Let_def)
qed

lemma values_given:
  assumes "parsed api style ts (csr w)" "data_gives api style ts (get_data w) vs" "k < length vs"
  shows "param_value w k = Inr (vs ! k)"
proof -
  have "param_names ts \<noteq> []" "k < length (key_objs api ts)"
    using assms(2,3) by (auto simp: data_gives_def key_objs_def)
  then show ?thesis
    using assms by (auto simp: param_value_def parsed_def data_gives_def rd_def list_all2_conv_all_nth split: if_splits)
qed

lemma parse_execute_new:
  fixes w :: "'c pycursor"
  assumes "toks_ok style NUL ts" "utf8_encode (e_api cl) stmt = Some (render style ts)" "render style ts \<noteq> []"
    and "parse_ready (e_parse cl)" "new_cursor (csr w)" "list_all (\<lambda>n. utf8_decode (e_api cl) n \<noteq> None) (param_names ts)"
    and "subst_ready cl w" "data_gives (e_api cl) style ts data vs"
  shows "\<exists>c. parse_execute cl stmt data False w = Some (Inr (), w\<lparr>csr := c\<rparr>) \<and> parsed (e_api cl) style ts c \<and>
    cur_data c = data \<and> data_set c"
proof -
  obtain c where c: "MrdbCursor_parse (e_api cl) (e_parse cl) (PyUnicode stmt) w = Some (Some PyNone, w\<lparr>csr := c\<rparr>)"
    "parsed (e_api cl) style ts c"
    using cursor_parse [OF assms(1-6)] by blast
  have "stmt \<noteq> []" using assms(2,3,7) by (auto simp: subst_ready_def ascii_codec_def)
  have old: "get_statement (e_api cl) w = Some (Inr PyNone, w)"
    using assms(5) by (simp add: get_statement_def new_cursor_def py_return_def)
  let ?u = "upd_csr (\<lambda>c. c\<lparr>reprepare := True\<rparr>) (w\<lparr>csr := c\<rparr>)"
  let ?v = "set_data data (if cursor_type (csr ?u) = CURSOR_TYPE_READ_ONLY then set_text False ?u else ?u)"
  have p: "parse_execute cl stmt data False w =
      (case check_execute_params ?v of Some e \<Rightarrow> py_raise e ?v | None \<Rightarrow> py_return () ?v)"
    using \<open>stmt \<noteq> []\<close> assms(7)
    by (simp add: parse_execute_def py_bind_def old c_call_def c(1) subst_ready_def py_modify_def Let_def)
  have v: "?v = w\<lparr>csr := csr ?v\<rparr>" "parsed (e_api cl) style ts (csr ?v)" "cur_data (csr ?v) = data" "data_set (csr ?v)"
    using c(2) by (simp_all add: set_data_def set_text_def upd_csr_def parsed_def)
  then have "check_execute_params ?v = None"
    using assms(8) by (intro checks_pass [where vs = vs]) (simp_all add: get_data_def)
  then have "parse_execute cl stmt data False w = Some (Inr (), ?v)" by (simp add: p py_return_def)
  with v show ?thesis by metis
qed

subsection \<open>Loading the parameters\<close>

lemma load_parameters_binds:
  assumes "knows_numbers api" "parsed api style ts (csr w)" "style \<noteq> PYFORMAT" "data_set (csr w)"
    and "data_gives api style ts (cur_data (csr w)) vs" "vs \<noteq> []" "length vs < 2 ^ 32" "list_all (bindable api) vs"
    and "alloc_params env" "alloc_value env"
  shows "\<exists>w' bs ws. load_parameters api env w = Some (False, w') \<and> single_row (csr w') = [(bs, ws)] \<and>
    length bs = length vs \<and> length ws = length vs \<and> (\<forall>i<length vs. bound_to api (vs ! i) (bs ! i) (ws ! i))"
proof -
  let ?c = "csr w"
  have n: "length (param_names ts) = length vs" "param_names ts \<noteq> []" using assms(5,6) by (auto simp: data_gives_def)
  have "pi_paramcount ?c \<noteq> 0"
    using assms(2,6,7) n by (simp add: parsed_def word_unat_eq_iff unat_of_nat)
  have "single_ready ?c vs" "binds_ok ?c (length vs)"
    using assms(2,3,5,6,7) n by (auto simp: single_ready_def parsed_def data_gives_def binds_ok_def)
  then obtain ps ws where c: "mariadb_check_execute_parameters env ?c = Some (None, ?c\<lparr>cur_params := Some ps, cur_value := Some ws\<rparr>)"
    "length ps = length vs" "\<forall>i<length vs. typed_for (vs ! i) (ps ! i)" "length ws = length vs" "list_all (value_ok ?c) ws"
    using check_execute_single [of ?c vs api env] assms(8-10) by blast
  let ?c1 = "?c\<lparr>cur_params := Some ps, cur_value := Some ws\<rparr>"
  obtain bs us where "mariadb_param_update api ?c1 0 = Some (None, False, ?c1\<lparr>cur_params := Some bs, cur_value := Some us\<rparr>)"
    "length bs = length vs" "length us = length vs" "\<forall>i<length vs. bound_to api (vs ! i) (bs ! i) (us ! i)"
    using param_update_single [OF assms(1), of ?c1 vs ps ws 0] \<open>single_ready ?c vs\<close> assms(8) c(2-5) by auto
  with c(1) \<open>pi_paramcount ?c \<noteq> 0\<close> assms(4) show ?thesis
    by (simp add: load_parameters_def latest_def single_row_def)
qed

subsection \<open>Examples\<close>

text \<open>A new cursor, and the statement \<open>DO ?, '?', ?\<close> in the style \<open>format\<close>.\<close>

definition fresh_cursor :: "nat pycursor" where
  "fresh_cursor = \<lparr>gil = True, py_err = None, client = 0, notified = [], thread_state = False, mysql = True,
     conn_closed = False, host = Some ''db'', status_callback = None, tls_in_use = False,
     csr = (sample_cursor True)\<lparr>pi_statement := None, cur_params := None, cur_value := None, field_count := 0\<rparr>,
     py_prepared = False, force_binary = False, bulk = False, py_rowcount = 0\<rparr>"

definition do_toks :: "tok list" where
  "do_toks = map Plain ''DO '' @ [Param False [], Plain (CHR '',''), Quoted (CHR 0x27) ''%s'', Plain (CHR '',''), Param True []]"

lemma fresh_ready: "subst_ready two_env fresh_cursor" "new_cursor (csr fresh_cursor)" "parse_ready (e_parse two_env)"
  using two_ready [of "sample_cursor True"]
  by (simp_all add: subst_ready_def fresh_cursor_def new_cursor_def sample_cursor_def parse_ready_def two_env_def sample_cfg_def)

lemma do_toks_ok: "toks_ok FORMAT NUL do_toks"
  by (simp add: do_toks_def render_def unquoted_def plain_char_def literals_def)

lemma do_toks_text:
  "render FORMAT do_toks = ''DO %s,'' @ [CHR 0x27] @ ''%s'' @ [CHR 0x27] @ '',%d''" "param_names do_toks = [[], []]"
  "target do_toks = ''DO ?,'' @ [CHR 0x27] @ ''%s'' @ [CHR 0x27] @ '',?''"
  by (simp_all add: do_toks_def render_def target_def)

definition do_stmt :: pystr where
  "do_stmt = ustr (render FORMAT do_toks)"

lemma do_encode: "utf8_encode (e_api two_env) do_stmt = Some (render FORMAT do_toks)"
  "readable (e_api two_env) (target do_toks)"
proof -
  show "utf8_encode (e_api two_env) do_stmt = Some (render FORMAT do_toks)"
    unfolding do_stmt_def do_toks_text two_env_fields by code_simp
  have "utf8_two_decode (target do_toks) = Some (ustr (target do_toks))" "utf8_two (ustr (target do_toks)) = Some (target do_toks)"
    unfolding do_toks_text by code_simp+
  then show "readable (e_api two_env) (target do_toks)"
    unfolding readable_def two_env_fields by (auto simp: do_toks_text)
qed

end
