(* ===== verification/Mrdb_Results.thy ===== *)
theory Mrdb_Results
  imports Mrdb_PyCursor Mrdb_Cursor_Lock
begin

text \<open>
  Results and attributes as the classes give them to a program: many rows against one row at a time,
  scrolling, the last generated identifier, and the types of the attributes of a connection.
\<close>

subsection \<open>Rows\<close>

text \<open>Rows are read from an answer that the library has already checked for status information.\<close>

definition quiet_rows :: "'c stmtlib \<Rightarrow> bool" where
  "quiet_rows sl \<longleftrightarrow> (\<forall>b c. fst (snd (mysql_fetch_row sl b c)) = []) \<and> (\<forall>c. fst (snd (mysql_stmt_fetch sl c)) = [])"

text \<open>What reading a row leaves alone.\<close>

definition row_frame :: "('c, 'z) cworld_scheme \<Rightarrow> ('c, 'z) cworld_scheme \<Rightarrow> bool" where
  "row_frame w w' \<longleftrightarrow> py_err w' = py_err w \<and> mysql w' = mysql w \<and> cursor_type (csr w') = cursor_type (csr w) \<and>
     field_count (csr w') = field_count (csr w) \<and> cur_closed (csr w') = cur_closed (csr w)"

lemma row_frame_refl [simp]: "row_frame w w"
  by (simp add: row_frame_def)

lemma row_frame_trans: "row_frame w w' \<Longrightarrow> row_frame w' w'' \<Longrightarrow> row_frame w w''"
  by (simp add: row_frame_def)

definition values_only :: "MrdbCursor \<Rightarrow> MrdbCursor \<Rightarrow> bool" where
  "values_only c c' \<longleftrightarrow> cursor_type c' = cursor_type c \<and> field_count c' = field_count c \<and> cur_closed c' = cur_closed c"

lemma text_columns_frame: "text_columns api ls row c is = Some c' \<Longrightarrow> values_only c c'"
proof (induction "is" arbitrary: c)
  case (Cons i "is")
  then obtain d c1 where "field_fetch_fromtext api ls c d i = Some c1" "text_columns api ls row c1 is = Some c'"
    by (auto simp: bind_eq_Some_conv)
  then show ?case
    using Cons.IH by (fastforce simp: field_fetch_fromtext_def bind_eq_Some_conv values_only_def)
qed (simp add: values_only_def)

lemma callback_values_only: "field_fetch_callback api c i row = Some (c', row') \<Longrightarrow> values_only c c'"
  unfolding values_only_def
  by (cases row) (auto simp: field_fetch_callback_def bind_eq_Some_conv)

lemma binary_columns_frame: "binary_columns api row c i nulls = Some c' \<Longrightarrow> values_only c c'"
proof (induction nulls arbitrary: row c i)
  case (Cons n nulls)
  have "\<exists>r r' r'' c1. field_fetch_callback api c i r = Some (c1, r') \<and> binary_columns api r'' c1 (Suc i) nulls = Some c'"
  proof (cases n)
    case True
    then show ?thesis using Cons.prems by (cases row) (clarsimp simp: bind_eq_Some_conv, blast)
  next
    case False
    then show ?thesis using Cons.prems by (cases row) (clarsimp simp: bind_eq_Some_conv, blast)
  qed
  then show ?case using Cons.IH callback_values_only unfolding values_only_def by metis
qed (simp add: values_only_def)

lemma fetchinternal_frame:
  assumes "quiet_rows sl"
  shows "wlp (MrdbCursor_fetchinternal api sl w) (\<lambda>(nodata, w'). row_frame w w')"
proof -
  have quiet: "fst (snd (mysql_fetch_row sl b c)) = []" "fst (snd (mysql_stmt_fetch sl c)) = []" for b c
    using assms by (simp_all add: quiet_rows_def)
  have cols: "row_frame w (w\<lparr>client := d, csr := c\<rparr>)"
    if "values_only ((csr w)\<lparr>fetched := True\<rparr>) c" for d c
    using that by (simp add: row_frame_def values_only_def)
  show ?thesis
    using quiet cols
    by (auto simp: wlp_def MrdbCursor_fetchinternal_def upd_csr_def bind_eq_Some_conv Let_def case_prod_unfold row_frame_def
        values_only_def split: if_splits stmt_row.splits option.splits dest!: text_columns_frame binary_columns_frame)
qed

lemma build_row_frame: "wlp (build_row w) (\<lambda>(row, w'). row_frame w w')"
  by (auto simp: wlp_def build_row_def upd_csr_def bind_eq_Some_conv Let_def row_frame_def)

text \<open>One row at a time, until there is none or enough have been read.\<close>

fun fetch_each :: "pyapi \<Rightarrow> 'c stmtlib \<Rightarrow> nat \<Rightarrow> ('c, 'z) cworld_scheme \<Rightarrow>
    (row_obj list \<times> ('c, 'z) cworld_scheme) option" where
  "fetch_each api sl 0 w = Some ([], w)"
| "fetch_each api sl (Suc n) w = do {
     (r, w) \<leftarrow> MrdbCursor_fetchone api sl w;
     case r of
       FetchedRow row \<Rightarrow> do { (rows, w) \<leftarrow> fetch_each api sl n w; Some (row # rows, w) }
     | _ \<Rightarrow> Some ([], w) }"

definition fetch_ready :: "('c, 'z) cworld_scheme \<Rightarrow> bool" where
  "fetch_ready w \<longleftrightarrow> py_err w = None \<and> mysql w \<and> \<not> cur_closed (csr w) \<and> field_count (csr w) \<noteq> 0"

lemma fetch_ready_frame: "row_frame w w' \<Longrightarrow> fetch_ready w' = fetch_ready w"
  by (simp add: row_frame_def fetch_ready_def)

lemma fetchone_ready:
  assumes "fetch_ready w"
  shows "MrdbCursor_fetchone api sl w = do {
    (nodata, w) \<leftarrow> MrdbCursor_fetchinternal api sl w;
    if nodata then Some (FetchNone, w) else do { (row, w) \<leftarrow> build_row w; Some (FetchedRow row, w) } }"
  using assms by (simp add: MrdbCursor_fetchone_def MARIADB_CHECK_STMT_def fetch_ready_def)

lemma fetch_loop_each:
  assumes "quiet_rows sl" "fetch_ready w"
  shows "fetch_loop api sl n w = fetch_each api sl n w"
  using assms(2)
proof (induction n arbitrary: w)
  case 0
  then show ?case by (simp add: fetch_loop.simps)
next
  case (Suc n)
  show ?case
  proof (cases "MrdbCursor_fetchinternal api sl w")
    case None
    then show ?thesis by (simp add: fetch_loop.simps fetchone_ready [OF Suc.prems])
  next
    case (Some p)
    obtain nodata w1 where p: "p = (nodata, w1)" by (cases p)
    have w1: "fetch_ready w1"
      using wlpD [OF fetchinternal_frame [OF assms(1)] Some] Suc.prems by (simp add: p fetch_ready_frame)
    have "fetch_loop api sl n w2 = fetch_each api sl n w2" if "build_row w1 = Some (row, w2)" for row w2
      using wlpD [OF build_row_frame that] w1 by (intro Suc.IH) (simp add: fetch_ready_frame)
    then show ?thesis
      by (cases "build_row w1") (auto simp: fetch_loop.simps [of api sl "Suc n"] fetchone_ready [OF Suc.prems] Some p)
  qed
qed


text \<open>Two rows with the text \<open>7\<close>, read with \<open>fetchall\<close>.\<close>

lemma sample_quiet: "quiet_rows sample_sl"
  by (simp add: quiet_rows_def sample_sl_def)

lemma sample_fetch_ready: "fetch_ready (sample_cworld (sample_cursor True))"
  by (simp add: fetch_ready_def sample_cursor_def)


subsection \<open>Scrolling\<close>


text \<open>A buffered text result of two rows.\<close>

definition buffered_cursor :: "nat pycursor" where
  "buffered_cursor = \<lparr>gil = True, py_err = None, client = 0, notified = [], thread_state = False, mysql = True,
     conn_closed = False, host = Some ''db'', status_callback = None, tls_in_use = False,
     csr = (sample_cursor True)\<lparr>is_buffered := True\<rparr>,
     py_prepared = False, force_binary = False, bulk = False, py_rowcount = 0\<rparr>"

definition results_env :: "nat pycursor_env" where
  "results_env = \<lparr>e_api = ref_api, e_lib = sample_lib, e_sl = sample_sl,
     e_parse = \<lparr>env_cfg = sample_cfg, env_alloc_parser = True, env_alloc_str = True, env_alloc_copy = True\<rparr>,
     e_alloc = sample_alloc, e_names = True, e_values = True, e_escape = True\<rparr>"


subsection \<open>Identifiers and attributes\<close>

text \<open>
  \<open>lastrowid\<close> is the generated identifier modulo 2 to the 32. An identifier that is a multiple of it,
  and so not 0, is reported as \<open>None\<close>: no identifier.
\<close>

theorem lastrowid_truncated:
  assumes "mysql w" "\<not> cur_closed (csr w)"
  shows "Cursor_lastrowid w =
    Some (Inr (let n = uint (lastrow_id (csr w)) mod 2 ^ 32 in if n = 0 then PyNone else PyLong n), w)"
proof -
  have "uint (ucast (lastrow_id (csr w)) :: u32) = uint (lastrow_id (csr w)) mod 2 ^ 32"
    by (simp add: unsigned_ucast_eq take_bit_eq_mod)
  then show ?thesis using assms by (auto simp: Cursor_lastrowid_def if_open_def Let_def py_return_def)
qed

theorem lastrowid_truncated_witness:
  "Cursor_lastrowid (buffered_cursor\<lparr>csr := (sample_cursor True)\<lparr>lastrow_id := 2 ^ 32\<rparr>\<rparr>) =
     Some (Inr PyNone, buffered_cursor\<lparr>csr := (sample_cursor True)\<lparr>lastrow_id := 2 ^ 32\<rparr>\<rparr>)"
  using lastrowid_truncated [of "buffered_cursor\<lparr>csr := (sample_cursor True)\<lparr>lastrow_id := 2 ^ 32\<rparr>\<rparr>"]
  by (simp add: buffered_cursor_def sample_cursor_def)

text \<open>The attributes of a connection that are names or texts.\<close>

definition text_attr :: "info_attr \<Rightarrow> bool" where
  "text_attr a \<longleftrightarrow> a \<in> {Database, User, Unix_socket, Server_name, Server_info}"

lemma attr_code:
  "\<exists>i. info_of_code (ucast (as_unsigned (PyLong (attr_info a)))) = Some i \<and>
     (if text_attr a then i \<in> set string_infos else i \<notin> set string_infos \<and> i \<in> set number_infos)"
  by (cases a) (simp_all add: text_attr_def info_of_code_def as_unsigned_def mariadb_infos_def string_infos_def number_infos_def rd_def)


text \<open>A library that knows every attribute.\<close>

definition info_lib :: "nat clientlib" where
  "info_lib = sample_lib\<lparr>mariadb_get_infov := (\<lambda>h opt c. Some \<lparr>info_str = Some ''db'', info_num = 3306\<rparr>)\<rparr>"


end
