(* ===== verification/Spec2Isabelle.thy ===== *)
theory Spec2Isabelle
  imports Mrdb_Module Mrdb_Parser_Roundtrip Mrdb_Params_Bulk Mrdb_Cursor_Close Mrdb_Tpc Mrdb_Pool_Histories Mrdb_Execute Mrdb_Results
begin

text \<open>
  MariaDB Connector/Python (under \<open>src/\<close>): an extension module in C and the Python classes on top of it,
  with which a program sends SQL statements to a MariaDB server.

  \<^bold>\<open>The parts and how they interact.\<close>
  A program calls \<open>connect\<close> (\<open>mariadb/__init__.py\<close>), which makes a \<open>Connection\<close> (\<open>mariadb/connections.py\<close>) or
  takes one from a \<open>ConnectionPool\<close> (\<open>mariadb/connectionpool.py\<close>). A connection makes cursors
  (\<open>mariadb/cursors.py\<close>). \<open>Cursor.execute\<close> has the statement parsed (\<open>mariadb_cursor.c\<close>,
  \<open>mariadb_parser.c\<close>), then either writes the values into the statement (text protocol) or has them
  converted to bind structures (binary protocol, \<open>mariadb_codecs.c\<close>). The rows that come back are
  converted to Python objects by \<open>mariadb_codecs.c\<close>. The methods in C call the client library with the
  interpreter lock released; the library reports status changes through a callback that has to take
  the lock again. Errors of the library become exceptions (\<open>mariadb_exception.c\<close>).

  \<^bold>\<open>How the code is modelled.\<close>
  A C function is a function whose result is an option: \<open>None\<close> is a fault, that is an access outside a
  block of memory or through a null pointer, a signed overflow, a use of the interpreter without its
  lock, or a call that does not return. Integers keep their width. A Python method returns an exception
  or a value together with the new state (\<open>pyfun\<close>). Structures and objects are records; those of
  cursors extend those of connections, as a cursor refers to its connection. Code that is not in the
  repository is a parameter: the client library (\<open>clientlib\<close>, \<open>stmtlib\<close>, with a state of unknown type),
  the conversions of the interpreter (\<open>pyapi\<close>), and the outcome of each allocation.

  \<^bold>\<open>Theories and sources.\<close>
  \<^item> \<open>Mrdb_Prelude\<close>: words, memory, the calculus \<open>wp\<close>/\<open>wlp\<close> for results that may be faults.
  \<^item> \<open>Mrdb_Exception\<close>, \<open>Mrdb_Module\<close>: \<open>mariadb_exception.c\<close> and \<open>PyInit__mariadb\<close> of \<open>mariadb.c\<close>.
  \<^item> \<open>Mrdb_Parser\<close>: \<open>mariadb_parser.c\<close>, one definition for each section of the loop in
    \<open>MrdbParser_parse\<close>. \<open>Mrdb_Parser_Safety\<close> shows that no statement makes it leave its block and that
    offsets, style and keys agree with the rewritten text; \<open>Mrdb_Parser_Roundtrip\<close> that it inverts a
    printer of statements.
  \<^item> \<open>Mrdb_Time\<close>, \<open>Mrdb_Delta\<close>: dates, times and durations of \<open>mariadb_codecs.c\<close>, with their round trips
    in \<open>Mrdb_Time_Roundtrip\<close> and \<open>Mrdb_Delta\<close>. \<open>Mrdb_Korr\<close>: the byte macros of \<open>mariadb_python.h\<close> against
    little-endian numbers.
  \<^item> \<open>Mrdb_Object\<close>, \<open>Mrdb_Fetch\<close>: Python objects and \<open>field_fetch_fromtext\<close>/\<open>field_fetch_callback\<close>.
    \<open>Mrdb_Fetch_Values\<close> and \<open>Mrdb_Fetch_Temporal\<close> show that both protocols give the same value.
  \<^item> \<open>Mrdb_Params\<close>: the parameters of \<open>execute\<close> and \<open>executemany\<close>. \<open>Mrdb_Params_Single\<close> and
    \<open>Mrdb_Params_Bulk\<close> show that what is bound denotes the values, and where it does not.
  \<^item> \<open>Mrdb_Runtime\<close>, \<open>Mrdb_Connection\<close>: the macros for the lock, the status callback, and
    \<open>mariadb_connection.c\<close>. \<open>Mrdb_Connection_Safety\<close> treats sequences of calls on a connection.
  \<^item> \<open>Mrdb_Cursor\<close>: \<open>mariadb_cursor.c\<close>. \<open>Mrdb_Cursor_Lock\<close> treats the lock in sequences of calls,
    \<open>Mrdb_Cursor_Close\<close> the release of what a cursor owns.
  \<^item> \<open>Mrdb_PyConnection\<close>: \<open>connections.py\<close>. \<open>Mrdb_Tpc\<close> relates two-phase commit to the transaction in the
    server.
  \<^item> \<open>Mrdb_Pool\<close>: \<open>connectionpool.py\<close> and \<open>connect\<close>. \<open>Mrdb_Pool_Safety\<close> has the invariant of the lists and
    its preservation by each method, \<open>Mrdb_Pool_Histories\<close> what follows for histories of calls.
  \<^item> \<open>Mrdb_PyCursor\<close>: \<open>cursors.py\<close>. \<open>Mrdb_Substitute\<close> relates \<open>_substitute_parameters\<close> to the printer,
    \<open>Mrdb_Execute\<close> treats \<open>_parse_execute\<close>, \<open>Mrdb_Results\<close> rows, scrolling and attributes.
  \<^item> This theory: a statement and its values, from the arguments of \<open>execute\<close> to what the server
    or the library is given, in both protocols.

  \<^bold>\<open>Interfaces.\<close>
  The locales state what the components rely on, and are interpreted on the definitions of the model:
  \<open>parse_invariant\<close> (a section of the parser keeps an invariant), \<open>number_scanner\<close>, \<open>le_codec\<close> (store and
  load of one width), \<open>conn_method\<close> and \<open>checked_method\<close> (a method of a connection keeps the lock and
  the exception protocol), \<open>lock_method\<close> (the methods of a cursor), \<open>pool_method\<close> (a method keeps the
  lists of all pools).

  \<^bold>\<open>Loops and bounds.\<close>
  No definition uses fuel. The loops of the parser and of the scanners end because the position
  advances; each \<open>function\<close> has its termination proof. The loops of \<open>MrdbCursor_clear_result\<close> run as
  long as the server has more results: they are a \<open>partial_function\<close>, and that closing a cursor
  returns is a theorem under the assumption that the server runs out of results. A method of a pool is
  one step of a history, since the lock of the pool covers it; the test for a free slot in
  \<open>add_connection\<close> lies outside the lock and is interleaved explicitly.

  \<^bold>\<open>Not modelled.\<close>
  Reference counts, except for the value buffers of a cursor; the parsing of arguments by the
  interpreter, whose outcome is an input; the text of formatted messages, kept as format and
  arguments; the aliases among the methods of \<open>Connection\<close>; \<open>tpc_recover\<close>, \<open>show_warnings\<close>, \<open>sp_outparams\<close>, the socket object and the rewriting of the
  arguments \<open>ssl\<close> and \<open>host\<close> in \<open>Connection.__init__\<close>; tables of constants, documentation strings, the build
  files, and \<open>clock_gettime\<close> for Windows.
\<close>

section \<open>Properties that span components\<close>

text \<open>
  C1: a statement and its values reach the server unharmed in the text protocol. For a statement printed
  from tokens in any placeholder style, and data that has a value for each placeholder, parsing on a new
  cursor and the checks succeed, and the statement to be sent is the one printed with the SQL literal
  of the value in the place of each placeholder; literals and comments of the statement are copied.
\<close>

theorem text_protocol_statement:
  fixes w :: "'c pycursor"
  assumes "toks_ok style NUL ts" "utf8_encode (e_api cl) stmt = Some (render style ts)" "render style ts \<noteq> []"
    and "parse_ready (e_parse cl)" "new_cursor (csr w)" "list_all (\<lambda>n. utf8_decode (e_api cl) n \<noteq> None) (param_names ts)"
    and "subst_ready cl w" "data_gives (e_api cl) style ts data vs" "readable (e_api cl) (target ts)"
    and "map (sql_literal (e_api cl) (e_lib cl) (client w)) vs = map Some bs"
  shows "\<exists>w'. parse_execute cl stmt data False w = Some (Inr (), w') \<and>
    substitute_parameters cl w' = Some (Inr (fill ts bs), w')"
proof -
  obtain c where c: "parse_execute cl stmt data False w = Some (Inr (), w\<lparr>csr := c\<rparr>)" "parsed (e_api cl) style ts c"
    "cur_data c = data" "data_set c"
    using parse_execute_new [OF assms(1-8)] by blast
  have len: "length bs = length vs" "length vs = length (param_names ts)"
    using arg_cong [OF assms(10), of length] assms(8) by (simp_all add: data_gives_def)
  have "substitute_parameters cl (w\<lparr>csr := c\<rparr>) = Some (Inr (fill ts bs), w\<lparr>csr := c\<rparr>)"
  proof (rule substitute_parameters_tokens)
    fix k assume k: "k < length bs"
    have "param_value (w\<lparr>csr := c\<rparr>) k = Inr (vs ! k)"
      using values_given [of "e_api cl" style ts "w\<lparr>csr := c\<rparr>" vs k] c assms(8) k len by (simp add: get_data_def)
    moreover have "sql_literal (e_api cl) (e_lib cl) (client w) (vs ! k) = Some (bs ! k)"
      using arg_cong [OF assms(10), of "\<lambda>xs. xs ! k"] k len by simp
    ultimately show "\<exists>v. param_value (w\<lparr>csr := c\<rparr>) k = Inr v \<and>
        sql_literal (e_api cl) (e_lib cl) (client (w\<lparr>csr := c\<rparr>)) v = Some (bs ! k)" by simp
  qed (use c(2) assms(7,9) len in \<open>simp_all add: parsed_def subst_ready_def\<close>)
  with c(1) show ?thesis by blast
qed

theorem text_protocol_statement_witness:
  "\<exists>w'. parse_execute two_env do_stmt (PyTuple [PyUnicode (ustr ''it'' @ [39] @ ustr ''s''), PyLong 7]) False fresh_cursor = Some (Inr (), w') \<and>
     substitute_parameters two_env w' =
       Some (Inr (''DO '' @ [CHR 0x27] @ ''it'' @ [CHR 0x27, CHR 0x27] @ ''s'' @ [CHR 0x27, CHR '','', CHR 0x27] @ ''%s'' @ [CHR 0x27] @ '',7''), w')"
proof -
  let ?vs = "[PyUnicode (ustr ''it'' @ [39] @ ustr ''s''), PyLong 7]"
  let ?bs = "[[CHR 0x27] @ ''it'' @ [CHR 0x27, CHR 0x27] @ ''s'' @ [CHR 0x27], ''7'']"
  have "map (sql_literal two_api sample_lib 0) ?vs = map Some ?bs" by code_simp
  then have lits: "map (sql_literal (e_api two_env) (e_lib two_env) (client fresh_cursor)) ?vs = map Some ?bs"
    unfolding two_env_fields by (simp add: fresh_cursor_def)
  have pre: "render FORMAT do_toks \<noteq> []" "list_all (\<lambda>n. utf8_decode (e_api two_env) n \<noteq> None) (param_names do_toks)"
    "data_gives (e_api two_env) FORMAT do_toks (PyTuple ?vs) ?vs"
    by (simp_all add: do_toks_text data_gives_def two_env_fields)
  have "fill do_toks ?bs = ''DO '' @ [CHR 0x27] @ ''it'' @ [CHR 0x27, CHR 0x27] @ ''s'' @ [CHR 0x27, CHR '','', CHR 0x27] @ ''%s'' @ [CHR 0x27] @ '',7''"
    by (simp add: do_toks_def)
  then show ?thesis
    using text_protocol_statement [OF do_toks_ok do_encode(1) pre(1) fresh_ready(3,2) pre(2) fresh_ready(1) pre(3) do_encode(2) lits]
    by simp
qed

text \<open>
  C2: in the binary protocol every placeholder is bound to its value. For a statement printed from tokens
  with positional placeholders and a sequence of supported values, parsing on a new cursor and the checks
  succeed, the parameters are loaded, and the one row that the library is given has for placeholder \<open>i\<close> the
  value number \<open>i\<close>, read at its type, width and sign.
\<close>

theorem binary_protocol_values:
  fixes w :: "'c pycursor"
  assumes "toks_ok style NUL ts" "utf8_encode (e_api cl) stmt = Some (render style ts)" "render style ts \<noteq> []"
    and "parse_ready (e_parse cl)" "new_cursor (csr w)" "list_all (\<lambda>n. utf8_decode (e_api cl) n \<noteq> None) (param_names ts)"
    and "subst_ready cl w" "data_gives (e_api cl) style ts data vs"
    and "knows_numbers (e_api cl)" "style \<noteq> PYFORMAT" "vs \<noteq> []" "length vs < 2 ^ 32" "list_all (bindable (e_api cl)) vs"
    and "alloc_params (e_alloc cl)" "alloc_value (e_alloc cl)"
  shows "\<exists>w1 w2 bs ws. parse_execute cl stmt data False w = Some (Inr (), w1) \<and>
    load_parameters (e_api cl) (e_alloc cl) w1 = Some (False, w2) \<and> single_row (csr w2) = [(bs, ws)] \<and>
    length bs = length vs \<and> length ws = length vs \<and>
    (\<forall>i<length vs. \<exists>x. sent (bs ! i) (ws ! i) = Some x \<and> denotes (e_api cl) (vs ! i) x)"
proof -
  obtain c where c: "parse_execute cl stmt data False w = Some (Inr (), w\<lparr>csr := c\<rparr>)" "parsed (e_api cl) style ts c"
    "cur_data c = data" "data_set c"
    using parse_execute_new [OF assms(1-8)] by blast
  obtain w2 bs ws where "load_parameters (e_api cl) (e_alloc cl) (w\<lparr>csr := c\<rparr>) = Some (False, w2)" "single_row (csr w2) = [(bs, ws)]"
    "length bs = length vs" "length ws = length vs" "\<forall>i<length vs. bound_to (e_api cl) (vs ! i) (bs ! i) (ws ! i)"
    using load_parameters_binds [of "e_api cl" style ts "w\<lparr>csr := c\<rparr>" vs "e_alloc cl"] c(2-4) assms(8-15) by auto
  with c(1) show ?thesis unfolding bound_to_def by blast
qed

theorem binary_protocol_values_witness:
  "\<exists>w1 w2 bs ws. parse_execute two_env do_stmt (PyTuple [PyLong (- 3), PyNone]) False fresh_cursor = Some (Inr (), w1) \<and>
     load_parameters (e_api two_env) (e_alloc two_env) w1 = Some (False, w2) \<and> single_row (csr w2) = [(bs, ws)] \<and>
     sent (bs ! 0) (ws ! 0) = Some (WInt (- 3)) \<and> sent (bs ! 1) (ws ! 1) = Some WNull"
proof -
  let ?vs = "[PyLong (- 3), PyNone]"
  have pre: "render FORMAT do_toks \<noteq> []" "list_all (\<lambda>n. utf8_decode (e_api two_env) n \<noteq> None) (param_names do_toks)"
    "data_gives (e_api two_env) FORMAT do_toks (PyTuple ?vs) ?vs" "knows_numbers (e_api two_env)"
    "FORMAT \<noteq> PYFORMAT" "?vs \<noteq> []" "length ?vs < 2 ^ 32" "list_all (bindable (e_api two_env)) ?vs"
    "alloc_params (e_alloc two_env)" "alloc_value (e_alloc two_env)"
    using ref_knows_numbers
    by (simp_all add: do_toks_text data_gives_def two_env_fields knows_numbers_def two_api_def two_env_def sample_alloc_def)
  obtain w1 w2 bs ws where r: "parse_execute two_env do_stmt (PyTuple ?vs) False fresh_cursor = Some (Inr (), w1)"
    "load_parameters (e_api two_env) (e_alloc two_env) w1 = Some (False, w2)" "single_row (csr w2) = [(bs, ws)]"
    "\<And>i. i < length ?vs \<Longrightarrow> \<exists>x. sent (bs ! i) (ws ! i) = Some x \<and> denotes (e_api two_env) (?vs ! i) x"
    using binary_protocol_values [OF do_toks_ok do_encode(1) pre(1) fresh_ready(3,2) pre(2) fresh_ready(1) pre(3-10)] by blast
  from r(4) [of 0] r(4) [of 1] r(1-3) show ?thesis by auto
qed

end
